(* ===== verification/Prelude.thy ===== *)
theory Prelude
  imports Main "HOL-Library.Finite_Map"
begin

text \<open>
  Shared vocabulary of the School Copilot development.
  \<^item> \<open>'a stored\<close>: a JSON file of the program as the loader sees it (missing, unreadable,
    or a decoded value), with \<open>load_stored\<close>, the "treat a missing or corrupt file as the
    default" rule that every loader of the source follows.
  \<^item> Text is a \<open>string\<close> of bytes (the UTF-8 encoding the program writes); \<open>py_len\<close>
    counts code points as Python's \<open>len\<close> does, \<open>py_lower\<close>/\<open>py_strip\<close> are
    \<open>str.lower\<close>/\<open>str.strip\<close> on the ASCII range, \<open>contains\<close> is Python's \<open>in\<close>.
  \<^item> \<open>show_nat\<close> is \<open>str\<close> on a natural number, with its inverse \<open>read_nat\<close>.
  \<^item> \<open>next_free\<close> is the "first numbered name that does not exist yet" loop that
    both the consolidator (part files) and the ingestion script (attachment names) run.
  \<^item> \<open>keep_last\<close> is the slice \<open>xs[-n:]\<close> the program uses to cap its logs.
\<close>

named_theorems model_simps "evaluation rules of the model shared by the components"

section \<open>Persisted JSON files\<close>

datatype 'a stored = Absent | Corrupt | Stored 'a

primrec load_stored :: "'a \<Rightarrow> 'a stored \<Rightarrow> 'a" where
  "load_stored d Absent = d"
| "load_stored d Corrupt = d"
| "load_stored d (Stored x) = x"

section \<open>Text\<close>

type_synonym str = string

definition is_upper_ascii :: "char \<Rightarrow> bool" where
  "is_upper_ascii c \<longleftrightarrow> (of_char c::nat) \<in> {65..90}"

definition is_lower_ascii :: "char \<Rightarrow> bool" where
  "is_lower_ascii c \<longleftrightarrow> (of_char c::nat) \<in> {97..122}"

definition is_digit :: "char \<Rightarrow> bool" where
  "is_digit c \<longleftrightarrow> (of_char c::nat) \<in> {48..57}"

definition lower_char :: "char \<Rightarrow> char" where
  "lower_char c = (if is_upper_ascii c then char_of (of_char c + (32::nat)) else c)"

definition py_lower :: "str \<Rightarrow> str" where
  "py_lower s = map lower_char s"

definition upper_char :: "char \<Rightarrow> char" where
  "upper_char c = (if is_lower_ascii c then char_of (of_char c - (32::nat)) else c)"

definition py_upper :: "str \<Rightarrow> str" where
  "py_upper s = map upper_char s"

text \<open>Python's \<open>str.isspace\<close> on the ASCII range: \<open>\t \n \v \f \r\<close>, the four
  separators \<open>\x1c\<close>..\<open>\x1f\<close>, and the space.\<close>

definition is_space :: "char \<Rightarrow> bool" where
  "is_space c \<longleftrightarrow> (of_char c::nat) \<in> {9..13} \<or> (of_char c::nat) \<in> {28..32}"

definition py_strip :: "str \<Rightarrow> str" where
  "py_strip s = rev (dropWhile is_space (rev (dropWhile is_space s)))"

text \<open>A UTF-8 continuation byte; \<open>py_len\<close> counts the other bytes, one per code point.\<close>

definition is_cont_byte :: "char \<Rightarrow> bool" where
  "is_cont_byte c \<longleftrightarrow> (of_char c::nat) \<in> {128..<192}"

definition py_len :: "str \<Rightarrow> nat" where
  "py_len s = length (filter (\<lambda>c. \<not> is_cont_byte c) s)"

fun starts_with :: "str \<Rightarrow> str \<Rightarrow> bool" where
  "starts_with [] _ = True"
| "starts_with (c # cs) [] = False"
| "starts_with (c # cs) (d # ds) = (c = d \<and> starts_with cs ds)"

text \<open>Python's \<open>needle in haystack\<close> on strings.\<close>

fun contains :: "str \<Rightarrow> str \<Rightarrow> bool" where
  "contains n [] = (n = [])"
| "contains n (c # cs) = (starts_with n (c # cs) \<or> contains n cs)"

definition contains_any :: "str list \<Rightarrow> str \<Rightarrow> bool" where
  "contains_any ws s \<longleftrightarrow> list_ex (\<lambda>w. contains w s) ws"

text \<open>\<open>s.replace(old, new)\<close>: every occurrence of a non-empty \<open>old\<close>, left to right and
  without overlaps (the program never replaces the empty string).\<close>

fun py_replace :: "str \<Rightarrow> str \<Rightarrow> str \<Rightarrow> str" where
  "py_replace old new [] = []"
| "py_replace old new (c # cs) =
     (if old \<noteq> [] \<and> starts_with old (c # cs)
      then new @ py_replace old new (drop (length old) (c # cs))
      else c # py_replace old new cs)"

text \<open>A string between single quotes, as Python's messages show a name.\<close>

definition quoted :: "str \<Rightarrow> str" where
  "quoted s = [CHR 0x27] @ s @ [CHR 0x27]"

definition NL :: str where
  "NL = [CHR 0x0A]"

text \<open>A multi-line literal: each line followed by a newline.\<close>

definition unlines :: "str list \<Rightarrow> str" where
  "unlines ls = concat (map (\<lambda>l. l @ NL) ls)"

text \<open>\<open>s.split(sep)\<close> for a one-character separator, never empty; \<open>s.split('\n')\<close>
  and \<open>'\n'.join(ls)\<close>.\<close>

fun py_split_on :: "char \<Rightarrow> str \<Rightarrow> str list" where
  "py_split_on d [] = [[]]"
| "py_split_on d (c # cs) =
     (let r = py_split_on d cs in if c = d then [] # r else (c # hd r) # tl r)"

abbreviation py_split_nl :: "str \<Rightarrow> str list" where
  "py_split_nl \<equiv> py_split_on (CHR 0x0A)"

definition py_join_nl :: "str list \<Rightarrow> str" where
  "py_join_nl ls = (case ls of [] \<Rightarrow> [] | l # rest \<Rightarrow> l @ concat (map (\<lambda>x. NL @ x) rest))"

text \<open>\<open>os.path.basename\<close>: what follows the last slash.\<close>

definition basename :: "str \<Rightarrow> str" where
  "basename p = rev (takeWhile (\<lambda>c. c \<noteq> CHR ''/'') (rev p))"

text \<open>\<open>PurePath.stem\<close> of a file name: the name without its last suffix, where a
  suffix is a dot that is neither the first nor the last character, and what follows it.\<close>

definition path_stem :: "str \<Rightarrow> str" where
  "path_stem name =
     (let sfx = rev (takeWhile (\<lambda>c. c \<noteq> CHR ''.'') (rev name)); i = length name - length sfx - 1
      in if sfx \<noteq> name \<and> 0 < i \<and> sfx \<noteq> [] then take i name else name)"

text \<open>\<open>s[:n]\<close> on code points: a continuation byte stays with the code point it
  continues.\<close>

fun py_take :: "nat \<Rightarrow> str \<Rightarrow> str" where
  "py_take n [] = []"
| "py_take n (c # cs) =
     (if is_cont_byte c then c # py_take n cs
      else if n = 0 then [] else c # py_take (n - 1) cs)"

text \<open>\<open>os.path.splitext\<close> of a name without a slash: the last dot starts the
  extension unless only dots precede it.\<close>

definition split_ext :: "str \<Rightarrow> str \<times> str" where
  "split_ext p =
     (let sfx = rev (takeWhile (\<lambda>c. c \<noteq> CHR ''.'') (rev p)); i = length p - length sfx - 1
      in if sfx = p \<or> (\<forall>c \<in> set (take i p). c = CHR ''.'') then (p, []) else (take i p, drop i p))"

section \<open>Decimal numerals\<close>

definition digit_char :: "nat \<Rightarrow> char" where
  "digit_char d = ''0123456789'' ! d"

fun show_nat :: "nat \<Rightarrow> str" where
  "show_nat n = (if n < 10 then [digit_char n] else show_nat (n div 10) @ [digit_char (n mod 10)])"

declare show_nat.simps [simp del]

definition read_nat :: "str \<Rightarrow> nat" where
  "read_nat s = foldl (\<lambda>acc c. 10 * acc + (of_char c - 48)) 0 s"

text \<open>\<open>%02d\<close>: at least two digits.\<close>

definition pad2 :: "nat \<Rightarrow> str" where
  "pad2 n = (if n < 10 then CHR ''0'' # show_nat n else show_nat n)"

section \<open>Python list slices\<close>

definition keep_last :: "nat \<Rightarrow> 'a list \<Rightarrow> 'a list" where
  "keep_last n xs = (if length xs > n then drop (length xs - n) xs else xs)"

section \<open>The first free numbered name\<close>

text \<open>
  \<^verbatim>\<open>
  counter = 1
  while path.exists(): path = pre + str(counter) + suf; counter += 1
  \<close>
  Names \<open>pre @ show_nat k @ suf\<close> are pairwise distinct, so only finitely many of them
  exist in a finite directory: that is the termination argument.
\<close>

definition numbered :: "str \<Rightarrow> str \<Rightarrow> nat \<Rightarrow> str" where
  "numbered pre suf k = pre @ show_nat k @ suf"

lemma digit_char_of: "d < 10 \<Longrightarrow> of_char (digit_char d) = (48 + d :: nat)"
proof -
  assume "d < 10"
  then have "d \<in> {0, 1, 2, 3, 4, 5, 6, 7, 8, 9}" by auto
  then show ?thesis by (auto simp: digit_char_def)
qed

lemma read_nat_snoc: "read_nat (xs @ [c]) = 10 * read_nat xs + (of_char c - 48)"
  by (simp add: read_nat_def)

lemma read_show_nat [simp]: "read_nat (show_nat n) = n"
proof (induction n rule: show_nat.induct)
  case (1 n)
  show ?case
  proof (cases "n < 10")
    case True
    then show ?thesis
      by (simp add: show_nat.simps [of n] read_nat_def digit_char_of)
  next
    case False
    then have "read_nat (show_nat n) = 10 * (n div 10) + n mod 10"
      using "1.IH" by (simp add: show_nat.simps [of n] read_nat_snoc digit_char_of)
    then show ?thesis by simp
  qed
qed

lemma inj_show_nat: "inj show_nat"
  by (rule inj_on_inverseI [where g = read_nat]) simp

lemma show_nat_eq_iff [simp]: "show_nat m = show_nat n \<longleftrightarrow> m = n"
  using inj_show_nat by (auto dest: injD)

lemma show_nat_digits: "c \<in> set (show_nat n) \<Longrightarrow> is_digit c"
proof (induction n rule: show_nat.induct)
  case (1 n)
  have d: "\<And>d. d < 10 \<Longrightarrow> is_digit (digit_char d)"
    by (simp add: is_digit_def digit_char_of)
  show ?case
    using "1" d by (cases "n < 10") (auto simp: show_nat.simps [of n])
qed

lemma show_nat_small [model_simps]: "n < 10 \<Longrightarrow> show_nat n = [digit_char n]"
  by (simp add: show_nat.simps [of n])

lemma show_nat_large [model_simps]:
  "10 \<le> n \<Longrightarrow> show_nat n = show_nat (n div 10) @ [digit_char (n mod 10)]"
  by (simp add: show_nat.simps [of n])

lemma show_nat_ne [simp]: "show_nat n \<noteq> []"
  by (simp add: show_nat.simps [of n])

lemma numbered_inj [simp]: "numbered pre suf j = numbered pre suf k \<longleftrightarrow> j = k"
  by (simp add: numbered_def)

lemma finite_numbered_in: "finite {j. numbered pre suf j |\<in>| D}"
proof -
  have "inj (numbered pre suf)"
    by (rule injI) simp
  then have "finite (numbered pre suf -` fset D)"
    by (rule finite_vimageI [OF finite_fset])
  then show ?thesis
    by (simp add: vimage_def)
qed

text \<open>The measure of the numbering loop: the taken names from \<open>k\<close> on. It is finite, and
  a step past a taken name drops one.\<close>

definition taken_from :: "str \<Rightarrow> str \<Rightarrow> str fset \<Rightarrow> nat \<Rightarrow> nat" where
  "taken_from pre suf D k = card {j. k \<le> j \<and> numbered pre suf j |\<in>| D}"

lemma taken_from_step:
  assumes k: "numbered pre suf k |\<in>| D"
  shows "taken_from pre suf D (Suc k) < taken_from pre suf D k"
proof -
  let ?S = "\<lambda>k. {j. k \<le> j \<and> numbered pre suf j |\<in>| D}"
  have fin: "finite (?S k)"
    by (rule finite_subset [OF _ finite_numbered_in]) auto
  have "?S (Suc k) \<subseteq> ?S k" by auto
  moreover have "k \<in> ?S k" "k \<notin> ?S (Suc k)" using k by auto
  ultimately have "?S (Suc k) \<subset> ?S k" by blast
  then show ?thesis
    unfolding taken_from_def by (rule psubset_card_mono [OF fin])
qed

function next_free :: "str \<Rightarrow> str \<Rightarrow> str fset \<Rightarrow> nat \<Rightarrow> nat" where
  "next_free pre suf D k =
     (if numbered pre suf k |\<in>| D then next_free pre suf D (Suc k) else k)"
  by pat_completeness auto
termination
  by (relation "measure (\<lambda>(pre, suf, D, k). taken_from pre suf D k)") (auto intro: taken_from_step)

declare next_free.simps [simp del]

lemma next_free_fresh: "numbered pre suf (next_free pre suf D k) |\<notin>| D"
  by (induction pre suf D k rule: next_free.induct) (simp add: next_free.simps)

lemma next_free_ge: "k \<le> next_free pre suf D k"
proof (induction pre suf D k rule: next_free.induct)
  case (1 pre suf D k)
  then show ?case
    by (cases "numbered pre suf k |\<in>| D") (auto simp: next_free.simps [of pre suf D k])
qed

text \<open>C7. The numbering loop stops on every directory: \<open>next_free\<close> is in its own domain
  for every prefix, suffix, directory and start, because only finitely many numbered names
  are taken and each step past a taken name leaves one fewer ahead; the number it stops
  at names no entry of the directory and is not below the start.\<close>

theorem next_free_terminates:
  "next_free_dom (pre, suf, D, k) \<and> numbered pre suf (next_free pre suf D k) |\<notin>| D
   \<and> k \<le> next_free pre suf D k"
proof -
  have "All next_free_dom"
    by (relation "measure (\<lambda>(pre, suf, D, k). taken_from pre suf D k)") (auto intro: taken_from_step)
  then show ?thesis
    using next_free_fresh next_free_ge by blast
qed

text \<open>Where the loop of the source starts: the plain path if it is free, else the first
  free numbered sibling from 1 on.\<close>

definition unique_name :: "str fset \<Rightarrow> str \<Rightarrow> str \<Rightarrow> str \<Rightarrow> str" where
  "unique_name D p pre suf =
     (if p |\<in>| D then numbered pre suf (next_free pre suf D 1) else p)"

lemma unique_name_fresh [model_simps]: "unique_name D p pre suf |\<notin>| D"
  by (simp add: unique_name_def next_free_fresh)

lemma py_len_Cons:
  "py_len (c # cs) = (if is_cont_byte c then py_len cs else Suc (py_len cs))"
  by (simp add: py_len_def)

lemma py_len_py_take: "py_len (py_take n s) \<le> n"
  by (induction n s rule: py_take.induct) (auto simp: py_len_Cons py_len_def)

lemma set_py_take: "set (py_take n s) \<subseteq> set s"
  by (induction n s rule: py_take.induct) auto

lemma length_keep_last [simp]: "length (keep_last n xs) = min n (length xs)"
  by (simp add: keep_last_def)

lemma keep_last_suffix: "\<exists>ys. xs = ys @ keep_last n xs"
  by (auto simp: keep_last_def intro: exI [of _ "take (length xs - n) xs"])

lemma contains_iff: "contains n s \<longleftrightarrow> (\<exists>a b. s = a @ n @ b)"
proof (induction n s rule: contains.induct)
  case (1 n)
  then show ?case by simp
next
  case (2 n c cs)
  have sw: "\<And>t. starts_with n t \<longleftrightarrow> (\<exists>b. t = n @ b)"
  proof -
    fix t show "starts_with n t \<longleftrightarrow> (\<exists>b. t = n @ b)"
      by (induction n t rule: starts_with.induct) auto
  qed
  show ?case
  proof
    assume "contains n (c # cs)"
    then consider (here) "starts_with n (c # cs)" | (later) "contains n cs" by auto
    then show "\<exists>a b. c # cs = a @ n @ b"
    proof cases
      case here
      with sw show ?thesis by (metis append_Nil)
    next
      case later
      with "2.IH" obtain a b where "cs = a @ n @ b" by blast
      then have "c # cs = (c # a) @ n @ b" by simp
      then show ?thesis by blast
    qed
  next
    assume "\<exists>a b. c # cs = a @ n @ b"
    then obtain a b where ab: "c # cs = a @ n @ b" by blast
    show "contains n (c # cs)"
    proof (cases a)
      case Nil
      with ab have "starts_with n (c # cs)" using sw by auto
      then show ?thesis by simp
    next
      case (Cons a0 a')
      with ab "2" show ?thesis by auto
    qed
  qed
qed

lemma contains_any_member: "w \<in> set ws \<Longrightarrow> contains w s \<Longrightarrow> contains_any ws s"
  by (auto simp: contains_any_def list_ex_iff)

lemma contains_set: "contains n s \<Longrightarrow> set n \<subseteq> set s"
  by (auto simp: contains_iff)

lemma keep_last_keeps_new:
  assumes "length ys \<le> n" shows "set ys \<subseteq> set (keep_last n (xs @ ys))"
  using assms by (auto simp: keep_last_def)

lemma keep_last_last: "0 < n \<Longrightarrow> ys \<noteq> [] \<Longrightarrow> last (keep_last n ys) = last ys \<and> keep_last n ys \<noteq> []"
  by (auto simp: keep_last_def last_drop)

lemma py_lower_no_upper: "c \<in> set (py_lower q) \<Longrightarrow> \<not> is_upper_ascii c"
  by (auto simp: py_lower_def lower_char_def is_upper_ascii_def)

lemma contains_append_left: "contains (a @ b) s \<Longrightarrow> contains a s"
  by (auto simp: contains_iff)

subsection \<open>Lines\<close>

lemma py_split_on_ne [simp]: "py_split_on d s \<noteq> []"
  by (induction s) (auto simp: Let_def)

lemma py_join_nl_Cons_Cons [simp]: "py_join_nl ((c # x) # xs) = c # py_join_nl (x # xs)"
  by (simp add: py_join_nl_def)

lemma py_join_nl_Nil_Cons: "xs \<noteq> [] \<Longrightarrow> py_join_nl ([] # xs) = NL @ py_join_nl xs"
  by (cases xs) (simp_all add: py_join_nl_def)

lemma py_join_nl_Cons2 [simp]: "py_join_nl (x # y # ys) = x @ NL @ py_join_nl (y # ys)"
  by (simp add: py_join_nl_def)

lemma py_join_nl_single [simp]: "py_join_nl [x] = x"
  by (simp add: py_join_nl_def)

lemma py_join_split_nl [simp]: "py_join_nl (py_split_nl s) = s"
proof (induction s)
  case (Cons c cs)
  obtain x xs where r: "py_split_nl cs = x # xs"
    using py_split_on_ne by (metis list.exhaust)
  show ?case
    using Cons r by (auto simp: Let_def py_join_nl_Nil_Cons NL_def)
qed simp

lemma py_split_on_no_sep: "l \<in> set (py_split_on d s) \<Longrightarrow> d \<notin> set l"
proof (induction s arbitrary: l)
  case (Cons c cs)
  obtain x xs where r: "py_split_on d cs = x # xs"
    using py_split_on_ne by (metis list.exhaust)
  show ?case
    using Cons r by (auto simp: Let_def split: if_splits)
qed simp

lemma py_split_on_append: "d \<notin> set x \<Longrightarrow>
    py_split_on d (x @ y) = (x @ hd (py_split_on d y)) # tl (py_split_on d y)"
  by (induction x) (auto simp: Let_def)

lemma py_split_on_sep: "d \<notin> set x \<Longrightarrow> py_split_on d (x @ d # y) = x # py_split_on d y"
  using py_split_on_append [of d x "d # y"] by (simp add: Let_def)

lemma py_split_join_nl:
  "ls \<noteq> [] \<Longrightarrow> (\<forall>l \<in> set ls. CHR 0x0A \<notin> set l) \<Longrightarrow> py_split_nl (py_join_nl ls) = ls"
proof (induction ls rule: induct_list012)
  case (2 x)
  then show ?case using py_split_on_append [of "CHR 0x0A" x "[]"] by simp
next
  case (3 x y zs)
  then show ?case by (simp add: py_split_on_append NL_def Let_def)
qed simp

subsection \<open>Replacing substrings and path components\<close>

lemma contains_Nil [simp]: "contains [] s"
  by (cases s) auto

lemma py_replace_no_occurrence: "\<not> contains old p \<Longrightarrow> py_replace old new p = p"
  by (induction old new p rule: py_replace.induct) auto

lemma py_replace_length_mono:
  "length old \<le> length new \<Longrightarrow> length p \<le> length (py_replace old new p)"
proof (induction old new p rule: py_replace.induct)
  case (2 old new c cs)
  show ?case
  proof (cases "old \<noteq> [] \<and> starts_with old (c # cs)")
    case True
    with 2 have "length (drop (length old) (c # cs)) \<le> length (py_replace old new (drop (length old) (c # cs)))"
      by simp
    with True "2.prems" show ?thesis
      by simp
  next
    case False
    with 2 show ?thesis
      by auto
  qed
qed simp

lemma py_replace_grows:
  "old \<noteq> [] \<Longrightarrow> length old < length new \<Longrightarrow> contains old p \<Longrightarrow>
   length p < length (py_replace old new p)"
proof (induction old new p rule: py_replace.induct)
  case (2 old new c cs)
  show ?case
  proof (cases "starts_with old (c # cs)")
    case True
    have "length (drop (length old) (c # cs)) \<le> length (py_replace old new (drop (length old) (c # cs)))"
      using "2.prems"(2) py_replace_length_mono [of old new "drop (length old) (c # cs)"] by simp
    with True "2.prems" show ?thesis
      by simp
  next
    case False
    with 2 show ?thesis
      by simp
  qed
qed simp

lemma basename_suffix: "\<exists>a. p = a @ basename p"
proof -
  have "rev p = takeWhile (\<lambda>c. c \<noteq> CHR ''/'') (rev p) @ dropWhile (\<lambda>c. c \<noteq> CHR ''/'') (rev p)"
    by simp
  then have "p = rev (dropWhile (\<lambda>c. c \<noteq> CHR ''/'') (rev p)) @ basename p"
    unfolding basename_def by (metis rev_append rev_rev_ident)
  then show ?thesis ..
qed

subsection \<open>Digits and white space\<close>

lemma py_strip_ends:
  assumes "s \<noteq> []" and "\<not> is_space (hd s)" and "\<not> is_space (last s)"
  shows "py_strip s = s"
proof -
  obtain ys y where s: "s = ys @ [y]"
    using assms(1) rev_exhaust by blast
  then show ?thesis
    using assms by (cases ys) (auto simp: py_strip_def)
qed

lemma py_strip_snoc_space:
  assumes "is_space c"
  shows "py_strip (s @ [c]) = py_strip s"
proof (cases "\<forall>x \<in> set s. is_space x")
  case True
  have d1: "dropWhile is_space (s @ [c]) = []"
    using True assms by (simp add: dropWhile_append2)
  have d2: "dropWhile is_space s = []"
    using True by (simp add: dropWhile_eq_Nil_conv)
  show ?thesis
    by (simp only: py_strip_def d1 d2)
next
  case False
  then obtain x where "x \<in> set s" and "\<not> is_space x"
    by blast
  then show ?thesis
    using assms by (simp add: py_strip_def dropWhile_append1)
qed

lemma set_py_strip: "set (py_strip s) \<subseteq> set s"
proof
  fix x
  assume "x \<in> set (py_strip s)"
  then have "x \<in> set (dropWhile is_space (rev (dropWhile is_space s)))"
    by (simp add: py_strip_def)
  then have "x \<in> set (rev (dropWhile is_space s))"
    by (rule set_dropWhileD)
  then show "x \<in> set s"
    unfolding set_rev by (rule set_dropWhileD)
qed

lemma py_strip_idem [simp]: "py_strip (py_strip s) = py_strip s"
proof (cases "py_strip s = []")
  case False
  let ?t = "dropWhile is_space s"
  have t: "?t = py_strip s @ rev (takeWhile is_space (rev ?t))"
    unfolding py_strip_def by (metis rev_append rev_rev_ident takeWhile_dropWhile_id)
  then have "?t \<noteq> []" and "hd (py_strip s) = hd ?t"
    using False by (metis Nil_is_append_conv, metis hd_append2)
  then have "\<not> is_space (hd (py_strip s))"
    by (metis hd_dropWhile)
  moreover have "\<not> is_space (last (py_strip s))"
    using False by (simp add: py_strip_def last_rev hd_dropWhile)
  ultimately show ?thesis
    using False py_strip_ends by blast
next
  case True
  moreover have "py_strip [] = []"
    by (simp add: py_strip_def)
  ultimately show ?thesis
    by simp
qed

lemma digit_not_space: "is_digit c \<Longrightarrow> \<not> is_space c"
  by (auto simp: is_digit_def is_space_def)

lemma read_nat_zero_Cons [simp]: "read_nat (CHR ''0'' # s) = read_nat s"
  by (simp add: read_nat_def)

lemma read_nat_zeros [simp]: "read_nat (replicate k CHR ''0'' @ s) = read_nat s"
  by (induction k) simp_all

lemma pad2_digits: "c \<in> set (pad2 m) \<Longrightarrow> is_digit c"
proof -
  have "is_digit CHR ''0''" by (simp add: is_digit_def)
  then show "c \<in> set (pad2 m) \<Longrightarrow> is_digit c"
    using show_nat_digits by (auto simp: pad2_def split: if_splits)
qed

lemma pad2_ne [simp]: "pad2 m \<noteq> []"
  by (simp add: pad2_def)

lemma read_nat_pad2 [simp]: "read_nat (pad2 m) = m"
  by (simp add: pad2_def)

lemma show_nat_no: "\<not> is_digit c \<Longrightarrow> c \<notin> set (show_nat n)"
  using show_nat_digits by blast

lemma pad2_no: "\<not> is_digit c \<Longrightarrow> c \<notin> set (pad2 m)"
  using pad2_digits by blast

text \<open>A separator that is not a digit splits two digit-prefixed strings uniquely.\<close>

lemma append_sep_eq_iff:
  assumes "\<forall>x \<in> set a. P x" "\<forall>x \<in> set a'. P x" "\<not> P c"
  shows "a @ c # r = a' @ c # r' \<longleftrightarrow> a = a' \<and> r = r'"
  using assms
proof (induction a arbitrary: a')
  case Nil
  then show ?case by (cases a') auto
next
  case (Cons x a)
  then show ?case by (cases a') auto
qed

lemma py_split_on_none: "d \<notin> set x \<Longrightarrow> py_split_on d x = [x]"
  using py_split_on_append [of d x "[]"] by (simp add: Let_def)

lemma length_show_nat_le: "n < 10 ^ Suc k \<Longrightarrow> length (show_nat n) \<le> Suc k"
proof (induction n arbitrary: k rule: show_nat.induct)
  case (1 n)
  show ?case
  proof (cases "n < 10")
    case True
    then show ?thesis by (simp add: show_nat.simps [of n])
  next
    case False
    then obtain k' where k: "k = Suc k'"
      using "1.prems" by (cases k) auto
    have "n div 10 < 10 ^ Suc k'"
      using "1.prems" k by (simp add: less_mult_imp_div_less mult.commute)
    then have "length (show_nat (n div 10)) \<le> Suc k'"
      using "1.IH" False by blast
    then show ?thesis
      using False k by (simp add: show_nat.simps [of n])
  qed
qed

lemma case_option_same [simp]: "(case x of None \<Rightarrow> None | Some y \<Rightarrow> Some y) = x"
  by (cases x) auto

end
