(* ===== verification/Dedup.thy ===== *)
theory Dedup
  imports Prelude
begin

text \<open>
  The dedup tracker of \<^verbatim>\<open>src/app/upload_tracker.py\<close>: two JSON files,
  \<^verbatim>\<open>data/.upload_tracker.json\<close> (file identities \<open>path:mtime\<close>) and
  \<^verbatim>\<open>data/.email_tracker.json\<close> (Gmail message ids), each read whole, changed and
  written back whole. A file's \<open>items\<close> list is modelled as the set it is loaded into;
  the \<open>count\<close> field is written but never read back, and is left out. The file system
  the upload side consults is a map from a path to the text of its modification time
  (\<open>str(os.path.getmtime(p))\<close>), \<open>None\<close> for a path that does not exist.
\<close>

type_synonym tracker = "str set stored"

record trackers =
  upload_tracker :: tracker
  email_tracker :: tracker

type_synonym mtimes = "str \<Rightarrow> str option"

definition load_tracker :: "tracker \<Rightarrow> str set" where
  "load_tracker t = load_stored {} t"

definition save_tracker :: "str set \<Rightarrow> tracker" where
  "save_tracker items = Stored items"

definition file_id :: "str \<Rightarrow> str \<Rightarrow> str" where
  "file_id path mtime = path @ '':'' @ mtime"

definition is_file_uploaded :: "mtimes \<Rightarrow> str \<Rightarrow> trackers \<Rightarrow> bool" where
  "is_file_uploaded fs path st =
     (case fs path of
        None \<Rightarrow> False
      | Some m \<Rightarrow> file_id path m \<in> load_tracker (upload_tracker st))"

definition mark_file_uploaded :: "mtimes \<Rightarrow> str \<Rightarrow> trackers \<Rightarrow> trackers" where
  "mark_file_uploaded fs path st =
     (case fs path of
        None \<Rightarrow> st
      | Some m \<Rightarrow> st\<lparr>upload_tracker :=
          save_tracker (insert (file_id path m) (load_tracker (upload_tracker st)))\<rparr>)"

definition clear_upload_tracker :: "trackers \<Rightarrow> trackers" where
  "clear_upload_tracker st = st\<lparr>upload_tracker := Absent\<rparr>"

definition is_email_processed :: "str \<Rightarrow> trackers \<Rightarrow> bool" where
  "is_email_processed eid st \<longleftrightarrow> eid \<in> load_tracker (email_tracker st)"

definition mark_email_processed :: "str \<Rightarrow> trackers \<Rightarrow> trackers" where
  "mark_email_processed eid st =
     st\<lparr>email_tracker := save_tracker (insert eid (load_tracker (email_tracker st)))\<rparr>"

definition get_tracker_stats :: "trackers \<Rightarrow> nat \<times> nat" where
  "get_tracker_stats st =
     (card (load_tracker (upload_tracker st)), card (load_tracker (email_tracker st)))"

text \<open>Reading a file identity back: the part after the last colon is the time.\<close>

definition split_file_id :: "str \<Rightarrow> str \<times> str" where
  "split_file_id s =
     (let m = rev (takeWhile (\<lambda>c. c \<noteq> CHR '':'') (rev s))
      in (take (length s - length m - 1) s, m))"

lemmas tracker_simps [model_simps] =
  load_tracker_def save_tracker_def is_email_processed_def mark_email_processed_def
  is_file_uploaded_def mark_file_uploaded_def

lemma load_save_tracker [simp]: "load_tracker (save_tracker X) = X"
  by (simp add: load_tracker_def save_tracker_def)

subsection \<open>The email side\<close>

text \<open>C1. After marking, the email counts as processed; the mark of one id changes the
  answer for no other id, and leaves the upload tracker untouched, whatever state
  (missing, corrupt or stored) the file was in.\<close>

theorem mark_email_processed_spec:
  "(is_email_processed x (mark_email_processed eid st) \<longleftrightarrow>
      x = eid \<or> is_email_processed x st) \<and>
   upload_tracker (mark_email_processed eid st) = upload_tracker st"
  by (auto simp: is_email_processed_def mark_email_processed_def)

subsection \<open>The upload side\<close>

lemma file_id_inj [simp]: "file_id p m = file_id p m' \<longleftrightarrow> m = m'"
  by (simp add: file_id_def)

text \<open>A file is identified by its path and its modification time: once marked it
  counts as uploaded while its time is unchanged, and a new time makes it new again
  unless that identity was marked before. A path that does not exist is never uploaded
  and marking it writes nothing.\<close>

theorem file_identity_mtime:
  assumes "fs path = Some m" and "fs' path = Some m'" and "m' \<noteq> m"
  shows "is_file_uploaded fs path (mark_file_uploaded fs path st) \<and>
    (is_file_uploaded fs' path (mark_file_uploaded fs path st) \<longleftrightarrow>
       is_file_uploaded fs' path st) \<and>
    (fs q = None \<longrightarrow> \<not> is_file_uploaded fs q st \<and> mark_file_uploaded fs q st = st)"
  using assms by (simp add: is_file_uploaded_def mark_file_uploaded_def)

theorem file_identity_mtime_witness:
  "is_file_uploaded (\<lambda>p. if p = ''a.pdf'' then Some ''1.5'' else None) ''a.pdf''
     (mark_file_uploaded (\<lambda>p. if p = ''a.pdf'' then Some ''1.5'' else None) ''a.pdf''
        \<lparr>upload_tracker = Absent, email_tracker = Absent\<rparr>) \<and>
   \<not> is_file_uploaded (\<lambda>p. if p = ''a.pdf'' then Some ''2.5'' else None) ''a.pdf''
     (mark_file_uploaded (\<lambda>p. if p = ''a.pdf'' then Some ''1.5'' else None) ''a.pdf''
        \<lparr>upload_tracker = Absent, email_tracker = Absent\<rparr>)"
proof -
  let ?fs = "\<lambda>p. if p = ''a.pdf'' then Some ''1.5'' else None"
  let ?fs' = "\<lambda>p. if p = ''a.pdf'' then Some ''2.5'' else None"
  let ?st = "\<lparr>upload_tracker = Absent, email_tracker = Absent\<rparr>"
  have th: "is_file_uploaded ?fs ''a.pdf'' (mark_file_uploaded ?fs ''a.pdf'' ?st) \<and>
    (is_file_uploaded ?fs' ''a.pdf'' (mark_file_uploaded ?fs ''a.pdf'' ?st) \<longleftrightarrow>
       is_file_uploaded ?fs' ''a.pdf'' ?st)"
    using file_identity_mtime [where fs = ?fs and path = "''a.pdf''" and m = "''1.5''"
        and fs' = ?fs' and m' = "''2.5''" and st = ?st and q = "''b''"] by simp
  have "\<not> is_file_uploaded ?fs' ''a.pdf'' ?st"
    by (simp add: is_file_uploaded_def load_tracker_def)
  with th show ?thesis by blast
qed

text \<open>C2. The identity string round-trips: the path and the time are read back from it
  whenever the time text has no colon (a float's repr never has one).\<close>

theorem split_file_id_roundtrip:
  assumes "CHR '':'' \<notin> set m"
  shows "split_file_id (file_id p m) = (p, m)"
proof -
  have "takeWhile (\<lambda>c. c \<noteq> CHR '':'') (rev m @ CHR '':'' # rev p) = rev m"
    using assms by (subst takeWhile_append2) auto
  then show ?thesis
    by (simp add: split_file_id_def file_id_def)
qed

theorem split_file_id_roundtrip_witness:
  "CHR '':'' \<notin> set ''1731000000.25'' \<and>
   split_file_id (file_id ''data/a:b.pdf'' ''1731000000.25'') = (''data/a:b.pdf'', ''1731000000.25'')"
  using split_file_id_roundtrip [of "''1731000000.25''" "''data/a:b.pdf''"] by simp

text \<open>A missing or unreadable tracker file is read as the empty set: nothing counts as
  processed, and the next mark rewrites the file holding that one id (the unreadable
  contents are dropped, not repaired).\<close>

theorem tracker_recovers_from_corrupt:
  assumes "email_tracker st \<in> {Absent, Corrupt}"
  shows "\<not> is_email_processed x st \<and>
    email_tracker (mark_email_processed eid st) = Stored {eid} \<and>
    get_tracker_stats (mark_email_processed eid st) =
      (fst (get_tracker_stats st), 1)"
  using assms by (auto simp: is_email_processed_def mark_email_processed_def load_tracker_def
      save_tracker_def get_tracker_stats_def)

theorem tracker_recovers_from_corrupt_witness:
  "email_tracker \<lparr>upload_tracker = Absent, email_tracker = Corrupt\<rparr> \<in> {Absent, Corrupt} \<and>
   \<not> is_email_processed ''m1'' \<lparr>upload_tracker = Absent, email_tracker = Corrupt\<rparr>"
  using tracker_recovers_from_corrupt [of "\<lparr>upload_tracker = Absent, email_tracker = Corrupt\<rparr>" "''m1''"]
  by simp

end
