(* ===== verification/Calendar.thy ===== *)
theory Calendar
  imports Prelude
begin

text \<open>
  The part of Python's \<^verbatim>\<open>datetime\<close> the program relies on, after CPython's
  \<^verbatim>\<open>Lib/_pydatetime.py\<close>: proleptic Gregorian ordinals (\<open>_ymd2ord\<close>), the ISO
  calendar (\<open>_isoweek1monday\<close>, \<open>isocalendar\<close>), the \<open>strftime\<close> fields the program
  formats (\<open>%Y\<close>, \<open>%V\<close>, \<open>%m\<close>, \<open>%d\<close>, \<open>%H\<close>, \<open>%M\<close>, \<open>%S\<close>), and the
  comparison of datetimes, which raises \<open>TypeError\<close> between a naive and an aware value.
  A datetime carries its UTC offset in minutes when it is aware. Also here: the e-mail
  records of \<^verbatim>\<open>gmail_client.py\<close>, which every pipeline component consumes.
\<close>

record datetime =
  dt_year :: nat
  dt_month :: nat
  dt_day :: nat
  dt_hour :: nat
  dt_minute :: nat
  dt_second :: nat
  dt_micro :: nat
  dt_offset :: "int option"

definition is_leap :: "nat \<Rightarrow> bool" where
  "is_leap y \<longleftrightarrow> y mod 4 = 0 \<and> (y mod 100 \<noteq> 0 \<or> y mod 400 = 0)"

text \<open>\<open>_DAYS_IN_MONTH\<close> and \<open>_DAYS_BEFORE_MONTH\<close>, indexed from month 1.\<close>

definition days_in_month :: "nat \<Rightarrow> nat \<Rightarrow> nat" where
  "days_in_month y m =
     (if m = 2 \<and> is_leap y then 29
      else [31, 28, 31, 30, 31, 30, 31, 31, 30, 31, 30, 31] ! (m - 1))"

definition days_before_month :: "nat \<Rightarrow> nat \<Rightarrow> nat" where
  "days_before_month y m =
     [0, 31, 59, 90, 120, 151, 181, 212, 243, 273, 304, 334] ! (m - 1) +
     (if m > 2 \<and> is_leap y then 1 else 0)"

definition days_before_year :: "nat \<Rightarrow> int" where
  "days_before_year y =
     (let p = int y - 1 in p * 365 + p div 4 - p div 100 + p div 400)"

definition ymd2ord :: "nat \<Rightarrow> nat \<Rightarrow> nat \<Rightarrow> int" where
  "ymd2ord y m d = days_before_year y + int (days_before_month y m) + int d"

definition valid_date :: "datetime \<Rightarrow> bool" where
  "valid_date t \<longleftrightarrow> 1 \<le> dt_year t \<and> dt_month t \<in> {1..12} \<and>
     dt_day t \<in> {1..days_in_month (dt_year t) (dt_month t)} \<and>
     dt_hour t < 24 \<and> dt_minute t < 60 \<and> dt_second t < 60 \<and> dt_micro t < 1000000"

definition isoweek1monday :: "nat \<Rightarrow> int" where
  "isoweek1monday y =
     (let firstday = ymd2ord y 1 1;
          firstweekday = (firstday + 6) mod 7;
          week1monday = firstday - firstweekday
      in if firstweekday > 3 then week1monday + 7 else week1monday)"

text \<open>\<open>date.isocalendar()\<close>: ISO year, ISO week (1..53), ISO weekday (1..7).\<close>

definition isocalendar :: "datetime \<Rightarrow> int \<times> int \<times> int" where
  "isocalendar t =
     (let y = dt_year t; today = ymd2ord y (dt_month t) (dt_day t);
          w1 = isoweek1monday y; week = (today - w1) div 7; wd = (today - w1) mod 7
      in if week < 0 then
           (let w0 = isoweek1monday (y - 1)
            in (int y - 1, (today - w0) div 7 + 1, (today - w0) mod 7 + 1))
         else if week \<ge> 52 \<and> today \<ge> isoweek1monday (Suc y) then (int y + 1, 1, wd + 1)
         else (int y, week + 1, wd + 1))"

definition iso_week :: "datetime \<Rightarrow> nat" where
  "iso_week t = nat (fst (snd (isocalendar t)))"

text \<open>\<open>strftime\<close> fields.\<close>

definition fmt_date :: "datetime \<Rightarrow> str" where
  "fmt_date t = show_nat (dt_year t) @ ''-'' @ pad2 (dt_month t) @ ''-'' @ pad2 (dt_day t)"

definition fmt_time :: "datetime \<Rightarrow> str" where
  "fmt_time t = pad2 (dt_hour t) @ '':'' @ pad2 (dt_minute t) @ '':'' @ pad2 (dt_second t)"

definition fmt_year_week :: "datetime \<Rightarrow> str" where
  "fmt_year_week t = show_nat (dt_year t) @ ''-W'' @ pad2 (iso_week t)"

text \<open>The month names of \<open>%B\<close>.\<close>

definition month_full_names :: "str list" where
  "month_full_names = [''January'', ''February'', ''March'', ''April'', ''May'', ''June'', ''July'',
     ''August'', ''September'', ''October'', ''November'', ''December'']"

text \<open>\<open>t + timedelta(days=1)\<close> on a valid date.\<close>

definition next_day :: "datetime \<Rightarrow> datetime" where
  "next_day t =
     (if dt_day t < days_in_month (dt_year t) (dt_month t) then t\<lparr>dt_day := dt_day t + 1\<rparr>
      else if dt_month t < 12 then t\<lparr>dt_month := dt_month t + 1, dt_day := 1\<rparr>
      else t\<lparr>dt_year := dt_year t + 1, dt_month := 1, dt_day := 1\<rparr>)"

text \<open>Microseconds since 0001-01-01 of the wall-clock fields.\<close>

definition local_micros :: "datetime \<Rightarrow> int" where
  "local_micros t =
     (((ymd2ord (dt_year t) (dt_month t) (dt_day t) * 24 + int (dt_hour t)) * 60
        + int (dt_minute t)) * 60 + int (dt_second t)) * 1000000 + int (dt_micro t)"

text \<open>The exceptions the modelled code meets; \<open>OtherError\<close> is any other exception,
  by the text \<open>str(e)\<close> gives it.\<close>

datatype py_error = TypeError | IOError str | FileNotFound str | OtherError str

text \<open>\<open>a > b\<close>: both naive compare their wall clocks, both aware their UTC instants,
  a naive and an aware one raise \<open>TypeError\<close>.\<close>

definition dt_greater :: "datetime \<Rightarrow> datetime \<Rightarrow> py_error + bool" where
  "dt_greater a b =
     (case (dt_offset a, dt_offset b) of
        (None, None) \<Rightarrow> Inr (local_micros a > local_micros b)
      | (Some oa, Some ob) \<Rightarrow>
          Inr (local_micros a - oa * 60000000 > local_micros b - ob * 60000000)
      | _ \<Rightarrow> Inl TypeError)"

text \<open>\<open>datetime(y, m, d, h, mi, s)\<close>, naive.\<close>

definition mk_dt :: "nat \<Rightarrow> nat \<Rightarrow> nat \<Rightarrow> nat \<Rightarrow> nat \<Rightarrow> nat \<Rightarrow> datetime" where
  "mk_dt y m d h mi s =
     \<lparr>dt_year = y, dt_month = m, dt_day = d, dt_hour = h, dt_minute = mi, dt_second = s,
      dt_micro = 0, dt_offset = None\<rparr>"

section \<open>E-mails as the Gmail client returns them\<close>

record attachment =
  att_filename :: str
  att_mime_type :: str
  att_data :: str

record email =
  email_id :: str
  subject :: str
  sender :: str
  email_date :: datetime
  body_text :: str
  email_attachments :: "attachment list"

lemmas calendar_defs [model_simps] =
  isocalendar_def isoweek1monday_def ymd2ord_def days_before_year_def days_before_month_def
  days_in_month_def is_leap_def iso_week_def fmt_year_week_def fmt_date_def fmt_time_def
  mk_dt_def

text \<open>The weekly tag \<open>%Y-W%V\<close> determines the calendar year and the ISO week.\<close>

lemma fmt_year_week_eq_iff:
  "fmt_year_week t = fmt_year_week t' \<longleftrightarrow> dt_year t = dt_year t' \<and> iso_week t = iso_week t'"
proof -
  have nd: "\<not> is_digit CHR ''-''"
    by (simp add: is_digit_def)
  have "fmt_year_week t = fmt_year_week t' \<longleftrightarrow>
      show_nat (dt_year t) = show_nat (dt_year t') \<and> pad2 (iso_week t) = pad2 (iso_week t')"
    using append_sep_eq_iff [of "show_nat (dt_year t)" is_digit "show_nat (dt_year t')" "CHR ''-''"
        "CHR ''W'' # pad2 (iso_week t)" "CHR ''W'' # pad2 (iso_week t')"] show_nat_digits nd
    by (simp add: fmt_year_week_def)
  also have "\<dots> \<longleftrightarrow> dt_year t = dt_year t' \<and> iso_week t = iso_week t'"
    by (metis read_nat_pad2 show_nat_eq_iff)
  finally show ?thesis .
qed

section \<open>Months\<close>

lemma month_cases: "1 \<le> m \<Longrightarrow> m \<le> 12 \<Longrightarrow> (m::nat) \<in> {1, 2, 3, 4, 5, 6, 7, 8, 9, 10, 11, 12}"
  by simp presburger

lemma days_in_month_le:
  assumes "1 \<le> m" "m \<le> 12"
  shows "days_in_month y m \<le> 31"
  using month_cases [OF assms] by (elim insertE emptyE) (simp_all add: days_in_month_def)

end
