(* ===== verification/Consolidator.thy ===== *)
theory Consolidator
  imports Calendar
begin

text \<open>
  The markdown consolidator of \<^verbatim>\<open>src/app/markdown_consolidator.py\<close>.
  \<^verbatim>\<open>data/consolidated\<close> is a finite map from file name to contents (\<open>dir\<close>); the
  size of a file is the length of its contents, which are the UTF-8 bytes written.
  \<open>datetime.now()\<close> is the parameter \<open>now\<close>; whether the operating system accepts a
  write to a path is the parameter \<open>io_ok\<close> (a refused write raises \<open>IOError\<close> and
  changes nothing); the transcription service is the parameter \<open>tr\<close>, which returns
  the text of an attachment or the message of the exception it raised.
\<close>

type_synonym dir = "(str, str) fmap"
type_synonym transcriber = "str \<Rightarrow> str \<Rightarrow> str + str"

definition max_file_size :: nat where
  "max_file_size = 5 * 1024 * 1024"

definition get_master_markdown_path :: "datetime \<Rightarrow> str" where
  "get_master_markdown_path now = ''school-data-'' @ fmt_year_week now @ ''.md''"

definition should_create_new_file :: "dir \<Rightarrow> str \<Rightarrow> bool" where
  "should_create_new_file d p =
     (case fmlookup d p of None \<Rightarrow> True | Some c \<Rightarrow> length c > max_file_size)"

definition create_markdown_header :: "datetime \<Rightarrow> str" where
  "create_markdown_header now = unlines
     [''# School Emails & Announcements'', '''',
      ''**Generated:** '' @ fmt_date now @ '' '' @ fmt_time now @ ''  '',
      ''**Week:** '' @ fmt_year_week now @ ''  '',
      ''**Source:** Gmail School Inbox'', '''', ''---'', '''']"

definition format_email_markdown ::
  "datetime \<Rightarrow> str \<Rightarrow> str \<Rightarrow> str \<Rightarrow> str \<Rightarrow> (str \<times> str) list \<Rightarrow> str" where
  "format_email_markdown date subj sndr body eid atts =
     unlines [''## Email: '' @ fmt_date date @ '' - '' @ subj, '''',
              ''**From:** '' @ sndr @ ''  '',
              ''**Date:** '' @ fmt_date date @ '' '' @ fmt_time date @ ''  '',
              ''**Email ID:** '' @ eid, '''', body]
     @ (if atts = [] then []
        else NL @ ''### Attachments:'' @ NL @ NL @
             concat (map (\<lambda>(p, t). ''#### '' @ basename p @ NL @ NL @ t @ NL @ NL) atts))
     @ NL @ ''---'' @ NL @ NL"

text \<open>The path written to: the weekly file itself, or, when it exists and is too large,
  the first \<open><stem>_part<N>.md\<close> that does not exist.\<close>

definition target_path :: "dir \<Rightarrow> str \<Rightarrow> str" where
  "target_path d p = unique_name (fmdom d) p (path_stem p @ ''_part'') ''.md''"

definition append_to_master_markdown ::
  "(str \<Rightarrow> bool) \<Rightarrow> datetime \<Rightarrow> str \<Rightarrow> str \<Rightarrow> dir \<Rightarrow> py_error + (str \<times> dir)" where
  "append_to_master_markdown io_ok now content p d =
     (if should_create_new_file d p then
        (let p' = target_path d p
         in if io_ok p' then Inr (p', fmupd p' (create_markdown_header now @ content) d)
            else Inl (IOError p'))
      else if io_ok p then Inr (p, fmupd p (the (fmlookup d p) @ content) d)
      else Inl (IOError p))"

text \<open>The attachment loop of \<open>consolidate_email_with_attachments\<close>: a missing file is
  skipped, a failed transcription becomes an inline error placeholder.\<close>

fun transcribe_attachments :: "transcriber \<Rightarrow> dir \<Rightarrow> str list \<Rightarrow> (str \<times> str) list" where
  "transcribe_attachments tr ad [] = []"
| "transcribe_attachments tr ad (p # ps) =
     (case fmlookup ad p of
        None \<Rightarrow> transcribe_attachments tr ad ps
      | Some bytes \<Rightarrow>
          (p, case tr p bytes of
                Inr t \<Rightarrow> t
              | Inl e \<Rightarrow> ''[Error transcribing attachment: '' @ e @ '']'')
          # transcribe_attachments tr ad ps)"

definition consolidate_email_with_attachments ::
  "(str \<Rightarrow> bool) \<Rightarrow> transcriber \<Rightarrow> datetime \<Rightarrow> dir \<Rightarrow> email \<Rightarrow> str list \<Rightarrow> dir
   \<Rightarrow> py_error + (str \<times> dir)" where
  "consolidate_email_with_attachments io_ok tr now ad e paths d =
     (let master = get_master_markdown_path now;
          atts = transcribe_attachments tr ad paths;
          md = format_email_markdown (email_date e) (subject e) (sender e) (body_text e)
                 (email_id e) atts
      in append_to_master_markdown io_ok now md master d)"

lemma target_path_fresh:
  "fmlookup d p \<noteq> None \<Longrightarrow> fmlookup d (target_path d p) = None"
  using unique_name_fresh [of "fmdom d" p] by (simp add: target_path_def fmdom_notD)

lemma target_path_new: "fmlookup d p = None \<Longrightarrow> target_path d p = p"
  by (simp add: target_path_def unique_name_def fmdom_notI)


subsection \<open>Rotation\<close>

lemma append_oversized_eq:
  assumes "fmlookup d p = Some old" and "max_file_size < length old"
    and "io_ok (target_path d p)"
  shows "append_to_master_markdown io_ok now c p d =
      Inr (target_path d p, fmupd (target_path d p) (create_markdown_header now @ c) d)"
  using assms by (simp add: append_to_master_markdown_def should_create_new_file_def Let_def)

lemma append_to_master_markdown_grows:
  assumes "append_to_master_markdown io_ok now c p d = Inr (q, d')"
  shows "(\<forall>r old. fmlookup d r = Some old \<longrightarrow> (\<exists>s. fmlookup d' r = Some (old @ s))) \<and>
    (\<exists>pre. fmlookup d' q = Some (pre @ c))"
proof (cases "should_create_new_file d p")
  case True
  then have q: "q = target_path d p" and d': "d' = fmupd q (create_markdown_header now @ c) d"
    using assms by (auto simp: append_to_master_markdown_def Let_def split: if_splits)
  have "fmlookup d q = None"
    using True target_path_fresh [of d p] target_path_new [of d p] q
    by (cases "fmlookup d p") (auto simp: should_create_new_file_def)
  then show ?thesis
    using d' by auto
next
  case False
  then obtain old where old: "fmlookup d p = Some old"
    by (auto simp: should_create_new_file_def split: option.splits)
  with False assms have "q = p" and "d' = fmupd p (old @ c) d"
    by (auto simp: append_to_master_markdown_def split: if_splits)
  with old show ?thesis by auto
qed

text \<open>C3. When the weekly document exists and is over the ceiling, the e-mail goes to a
  fresh part file that holds the header and the section; the weekly document and every
  other file are unchanged.\<close>

theorem rotation_creates_part:
  assumes "fmlookup d p = Some old" and "max_file_size < length old"
    and "io_ok (target_path d p)"
  shows "\<exists>q. append_to_master_markdown io_ok now c p d =
      Inr (q, fmupd q (create_markdown_header now @ c) d) \<and> q \<noteq> p \<and> fmlookup d q = None"
proof -
  have "fmlookup d (target_path d p) = None"
    using assms(1) by (simp add: target_path_fresh)
  with assms show ?thesis
    by (auto simp: append_oversized_eq)
qed

theorem rotation_creates_part_witness:
  "fmlookup (fmupd ''w.md'' (replicate (Suc max_file_size) CHR ''x'') fmempty) ''w.md'' =
     Some (replicate (Suc max_file_size) CHR ''x'') \<and>
   max_file_size < length (replicate (Suc max_file_size) CHR ''x'') \<and>
   (\<exists>q. append_to_master_markdown (\<lambda>_. True) (mk_dt 2025 11 3 9 0 0) ''y'' ''w.md''
      (fmupd ''w.md'' (replicate (Suc max_file_size) CHR ''x'') fmempty) =
    Inr (q, fmupd q (create_markdown_header (mk_dt 2025 11 3 9 0 0) @ ''y'')
           (fmupd ''w.md'' (replicate (Suc max_file_size) CHR ''x'') fmempty)) \<and> q \<noteq> ''w.md'')"
  using rotation_creates_part [of "fmupd ''w.md'' (replicate (Suc max_file_size) CHR ''x'') fmempty"
      "''w.md''" "replicate (Suc max_file_size) CHR ''x''" "\<lambda>_. True" "mk_dt 2025 11 3 9 0 0" "''y''"]
  by auto

text \<open>When the weekly document exists and is not over the ceiling, the section is
  appended to it, however large the section: the size check reads the size before the
  append, so a document can end over the ceiling (the witness: a document of exactly
  5 MB grows to 5 MB + 1).\<close>

theorem append_when_not_oversized:
  assumes "fmlookup d p = Some old" and "length old \<le> max_file_size" and "io_ok p"
  shows "append_to_master_markdown io_ok now c p d = Inr (p, fmupd p (old @ c) d)"
  using assms by (simp add: append_to_master_markdown_def should_create_new_file_def)

theorem append_when_not_oversized_witness:
  "fmlookup (fmupd ''w.md'' (replicate max_file_size CHR ''x'') fmempty) ''w.md'' =
     Some (replicate max_file_size CHR ''x'') \<and>
   length (replicate max_file_size CHR ''x'') \<le> max_file_size \<and>
   append_to_master_markdown (\<lambda>_. True) (mk_dt 2025 11 3 9 0 0) ''y'' ''w.md''
     (fmupd ''w.md'' (replicate max_file_size CHR ''x'') fmempty) =
   Inr (''w.md'', fmupd ''w.md'' (replicate max_file_size CHR ''x'' @ ''y'') fmempty) \<and>
   max_file_size < length (replicate max_file_size CHR ''x'' @ ''y'')"
  using append_when_not_oversized [of "fmupd ''w.md'' (replicate max_file_size CHR ''x'') fmempty"
      "''w.md''" "replicate max_file_size CHR ''x''" "\<lambda>_. True" "mk_dt 2025 11 3 9 0 0" "''y''"]
  by simp

text \<open>C4. Consolidation is append-only: every file that existed keeps its old contents as a
  prefix, and the file written to ends with the e-mail's formatted section.\<close>

theorem consolidate_append_only:
  assumes "consolidate_email_with_attachments io_ok tr now ad e paths d = Inr (q, d')"
  shows "(\<forall>r old. fmlookup d r = Some old \<longrightarrow> (\<exists>s. fmlookup d' r = Some (old @ s))) \<and>
    (\<exists>pre. fmlookup d' q = Some (pre @ format_email_markdown (email_date e) (subject e)
       (sender e) (body_text e) (email_id e) (transcribe_attachments tr ad paths)))"
  using assms append_to_master_markdown_grows
  by (simp add: consolidate_email_with_attachments_def Let_def)

theorem consolidate_append_only_witness:
  "consolidate_email_with_attachments (\<lambda>_. True) (\<lambda>p b. Inr b) (mk_dt 2025 11 3 18 0 0) fmempty
     \<lparr>email_id = ''E1'', subject = ''Field Trip'', sender = ''office@school.org'',
      email_date = mk_dt 2025 11 3 7 30 0, body_text = ''Bring a lunch.'', email_attachments = []\<rparr>
     [] fmempty =
   Inr (''school-data-2025-W45.md'', fmupd ''school-data-2025-W45.md''
     (create_markdown_header (mk_dt 2025 11 3 18 0 0) @
      format_email_markdown (mk_dt 2025 11 3 7 30 0) ''Field Trip'' ''office@school.org''
        ''Bring a lunch.'' ''E1'' []) fmempty) \<and>
   (\<exists>pre. fmlookup (fmupd ''school-data-2025-W45.md''
     (create_markdown_header (mk_dt 2025 11 3 18 0 0) @
      format_email_markdown (mk_dt 2025 11 3 7 30 0) ''Field Trip'' ''office@school.org''
        ''Bring a lunch.'' ''E1'' []) fmempty) ''school-data-2025-W45.md'' =
    Some (pre @ format_email_markdown (mk_dt 2025 11 3 7 30 0) ''Field Trip'' ''office@school.org''
        ''Bring a lunch.'' ''E1'' []))"
proof -
  have n: "get_master_markdown_path (mk_dt 2025 11 3 18 0 0) = ''school-data-2025-W45.md''"
    by code_simp
  have c: "consolidate_email_with_attachments (\<lambda>_. True) (\<lambda>p b. Inr b) (mk_dt 2025 11 3 18 0 0) fmempty
     \<lparr>email_id = ''E1'', subject = ''Field Trip'', sender = ''office@school.org'',
      email_date = mk_dt 2025 11 3 7 30 0, body_text = ''Bring a lunch.'', email_attachments = []\<rparr>
     [] fmempty =
   Inr (''school-data-2025-W45.md'', fmupd ''school-data-2025-W45.md''
     (create_markdown_header (mk_dt 2025 11 3 18 0 0) @
      format_email_markdown (mk_dt 2025 11 3 7 30 0) ''Field Trip'' ''office@school.org''
        ''Bring a lunch.'' ''E1'' []) fmempty)"
    by (simp add: consolidate_email_with_attachments_def append_to_master_markdown_def
        should_create_new_file_def target_path_new n Let_def)
  show ?thesis
    using c consolidate_append_only [OF c] by simp
qed

text \<open>C5. The weekly file name joins the calendar year (\<open>%Y\<close>) to the ISO week
  (\<open>%V\<close>): two dates share a weekly file exactly when they have the same calendar year
  and the same ISO week number, whatever their ISO years. So 30 December 2024, which lies
  in ISO week 2025-W01, is written to \<open>school-data-2024-W01.md\<close> together with
  3 January 2024 (ISO week 2024-W01), a year earlier.\<close>

theorem week_file_iff_year_and_week:
  "get_master_markdown_path t = get_master_markdown_path t' \<longleftrightarrow>
     dt_year t = dt_year t' \<and> iso_week t = iso_week t'"
  by (simp add: get_master_markdown_path_def fmt_year_week_eq_iff)

theorem week_file_iff_year_and_week_witness:
  "get_master_markdown_path (mk_dt 2024 12 30 18 0 0) = get_master_markdown_path (mk_dt 2024 1 3 18 0 0) \<and>
   isocalendar (mk_dt 2024 12 30 18 0 0) = (2025, 1, 1) \<and>
   isocalendar (mk_dt 2024 1 3 18 0 0) = (2024, 1, 3)"
proof -
  have i1: "isocalendar (mk_dt 2024 12 30 18 0 0) = (2025, 1, 1)"
    by code_simp
  have i2: "isocalendar (mk_dt 2024 1 3 18 0 0) = (2024, 1, 3)"
    by code_simp
  show ?thesis
    using week_file_iff_year_and_week [of "mk_dt 2024 12 30 18 0 0" "mk_dt 2024 1 3 18 0 0"] i1 i2
    by (simp add: iso_week_def mk_dt_def)
qed

text \<open>C6. Rotation never comes back to a part file: once the weekly document is over the
  ceiling, every later e-mail of that week goes to a new part file of its own, and the
  part files written before are left as they were.\<close>

theorem rotation_every_time:
  assumes "fmlookup d p = Some old" and "max_file_size < length old" and "\<forall>x. io_ok x"
    and "append_to_master_markdown io_ok now c1 p d = Inr (q1, d1)"
    and "append_to_master_markdown io_ok now c2 p d1 = Inr (q2, d2)"
  shows "q1 \<noteq> q2 \<and> q1 \<noteq> p \<and> q2 \<noteq> p \<and> fmlookup d2 p = Some old \<and>
    fmlookup d2 q1 = Some (create_markdown_header now @ c1) \<and>
    fmlookup d2 q2 = Some (create_markdown_header now @ c2)"
proof -
  have q1: "q1 = target_path d p" and d1: "d1 = fmupd q1 (create_markdown_header now @ c1) d"
    using append_oversized_eq [OF assms(1,2), of io_ok now c1] assms(3,4) by auto
  have f1: "fmlookup d q1 = None"
    using q1 assms(1) target_path_fresh by auto
  then have p1: "fmlookup d1 p = Some old" and "q1 \<noteq> p"
    using d1 assms(1) by auto
  have q2: "q2 = target_path d1 p" and d2: "d2 = fmupd q2 (create_markdown_header now @ c2) d1"
    using append_oversized_eq [OF p1 assms(2), of io_ok now c2] assms(3,5) by auto
  have f2: "fmlookup d1 q2 = None"
    using q2 p1 target_path_fresh by auto
  have "fmlookup d1 q1 \<noteq> None"
    using d1 by simp
  with f2 have "q1 \<noteq> q2" by auto
  with f2 p1 d2 d1 \<open>q1 \<noteq> p\<close> show ?thesis by auto
qed

theorem rotation_every_time_witness:
  "fmlookup (fmupd ''w.md'' (replicate (Suc max_file_size) CHR ''x'') fmempty) ''w.md'' =
     Some (replicate (Suc max_file_size) CHR ''x'') \<and>
   max_file_size < length (replicate (Suc max_file_size) CHR ''x'') \<and>
   append_to_master_markdown (\<lambda>_. True) (mk_dt 2025 11 3 9 0 0) ''a'' ''w.md''
     (fmupd ''w.md'' (replicate (Suc max_file_size) CHR ''x'') fmempty) =
   Inr (''w_part1.md'', fmupd ''w_part1.md'' (create_markdown_header (mk_dt 2025 11 3 9 0 0) @ ''a'')
     (fmupd ''w.md'' (replicate (Suc max_file_size) CHR ''x'') fmempty)) \<and>
   ''w_part1.md'' \<noteq> ''w_part2.md''"
proof -
  let ?d = "fmupd ''w.md'' (replicate (Suc max_file_size) CHR ''x'') fmempty"
  have t1: "target_path ?d ''w.md'' = ''w_part1.md''"
    by (simp add: target_path_def unique_name_def numbered_def path_stem_def next_free.simps
        model_simps digit_char_def)
  have a1: "append_to_master_markdown (\<lambda>_. True) (mk_dt 2025 11 3 9 0 0) ''a'' ''w.md'' ?d =
     Inr (''w_part1.md'', fmupd ''w_part1.md'' (create_markdown_header (mk_dt 2025 11 3 9 0 0) @ ''a'') ?d)"
    using t1 by (simp add: append_to_master_markdown_def should_create_new_file_def Let_def)
  show ?thesis
    using rotation_every_time [of ?d "''w.md''" "replicate (Suc max_file_size) CHR ''x''" "\<lambda>_. True"]
      a1 by simp
qed

subsection \<open>Attachments\<close>

text \<open>A failed transcription does not abort the e-mail: every attachment that exists
  gets a subsection, in order, holding its text or the error placeholder; a missing one is
  skipped.\<close>

theorem transcribe_attachments_spec:
  "map fst (transcribe_attachments tr ad ps) = filter (\<lambda>p. fmlookup ad p \<noteq> None) ps \<and>
   (\<forall>(p, t) \<in> set (transcribe_attachments tr ad ps). \<exists>b. fmlookup ad p = Some b \<and>
      t = (case tr p b of Inr t \<Rightarrow> t | Inl e \<Rightarrow> ''[Error transcribing attachment: '' @ e @ '']''))"
  by (induction ps) (auto split: option.splits)

theorem transcribe_attachments_spec_witness:
  "transcribe_attachments (\<lambda>p b. if b = '''' then Inl ''empty file'' else Inr b)
     (fmupd ''data/attachments/a.txt'' '''' (fmupd ''data/attachments/b.txt'' ''hi'' fmempty))
     [''data/attachments/a.txt'', ''data/attachments/gone.pdf'', ''data/attachments/b.txt''] =
   [(''data/attachments/a.txt'', ''[Error transcribing attachment: empty file]''),
    (''data/attachments/b.txt'', ''hi'')] \<and>
   map fst (transcribe_attachments (\<lambda>p b. if b = '''' then Inl ''empty file'' else Inr b)
     (fmupd ''data/attachments/a.txt'' '''' (fmupd ''data/attachments/b.txt'' ''hi'' fmempty))
     [''data/attachments/a.txt'', ''data/attachments/gone.pdf'', ''data/attachments/b.txt'']) =
   [''data/attachments/a.txt'', ''data/attachments/b.txt'']"
  using transcribe_attachments_spec [of "\<lambda>p b. if b = '''' then Inl ''empty file'' else Inr b"
      "fmupd ''data/attachments/a.txt'' '''' (fmupd ''data/attachments/b.txt'' ''hi'' fmempty)"
      "[''data/attachments/a.txt'', ''data/attachments/gone.pdf'', ''data/attachments/b.txt'']"]
  by simp

end
