(* ===== verification/Ingest.thy ===== *)
theory Ingest
  imports Dedup Consolidator
begin

text \<open>
  The ingestion script \<^verbatim>\<open>src/app/ingest_emails.py\<close>. Its state is the pair of
  tracker files (\<^theory_text>\<open>Dedup\<close>), the consolidated directory and the attachment
  directory \<^verbatim>\<open>data/attachments\<close>, whose keys are full paths as \<open>os.path.join\<close>
  builds them. The fetched e-mail list (\<open>fetch_school_emails\<close>, network I/O) is the
  input. Writing an attachment is assumed to succeed; a refused write of the corpus is
  the \<open>io_ok\<close> parameter of the consolidator, whose exception the script catches.
  The report counts what the script prints.
\<close>

record ingest_state =
  tracker_files :: trackers
  corpus :: dir
  att_dir :: dir

record ingest_report =
  processed_emails :: nat
  processed_attachments :: nat
  skipped_emails :: nat

definition attachments_dir :: str where
  "attachments_dir = ''data/attachments''"

definition forbidden_chars :: str where
  "forbidden_chars = ''<>:'' @ [CHR 0x22] @ ''/'' @ [CHR 0x5C] @ ''|?*''"

definition sanitize_filename :: "str \<Rightarrow> str" where
  "sanitize_filename f =
     (let f' = map (\<lambda>c. if c \<in> set forbidden_chars then CHR ''_'' else c) f
      in if py_len f' > 200 then py_take 200 f' else f')"

definition mime_ext :: "str \<Rightarrow> str" where
  "mime_ext m =
     (if m = ''application/pdf'' then ''.pdf''
      else if m = ''image/jpeg'' then ''.jpg''
      else if m = ''image/png'' then ''.png''
      else if m = ''image/gif'' then ''.gif''
      else if m = ''text/plain'' then ''.txt''
      else if m = ''application/vnd.openxmlformats-officedocument.wordprocessingml.document''
        then ''.docx''
      else ''.bin'')"

definition save_attachment :: "attachment \<Rightarrow> str \<Rightarrow> str \<Rightarrow> dir \<Rightarrow> str \<times> dir" where
  "save_attachment a eid outdir ad =
     (let f = sanitize_filename (att_filename a);
          f' = (if f = [] then ''attachment_'' @ py_take 8 eid @ mime_ext (att_mime_type a) else f);
          (name, ext) = split_ext f';
          path = unique_name (fmdom ad) (outdir @ ''/'' @ f') (outdir @ ''/'' @ name @ ''_'') ext
      in (path, fmupd path (att_data a) ad))"

fun save_attachments :: "str \<Rightarrow> str \<Rightarrow> dir \<Rightarrow> attachment list \<Rightarrow> str list \<times> dir" where
  "save_attachments eid outdir ad [] = ([], ad)"
| "save_attachments eid outdir ad (a # as) =
     (let (p, ad1) = save_attachment a eid outdir ad;
          (ps, ad2) = save_attachments eid outdir ad1 as
      in (p # ps, ad2))"

text \<open>One turn of the \<open>for email in emails\<close> loop of \<open>main\<close>, carrying the state,
  the temporary paths saved so far and the counters.\<close>

definition ingest_one ::
  "(str \<Rightarrow> bool) \<Rightarrow> transcriber \<Rightarrow> datetime \<Rightarrow> email \<Rightarrow>
   ingest_state \<times> str list \<times> ingest_report \<Rightarrow> ingest_state \<times> str list \<times> ingest_report" where
  "ingest_one io_ok tr now e acc =
     (case acc of (st, temps, r) \<Rightarrow>
       if is_email_processed (email_id e) (tracker_files st)
       then (st, temps, r\<lparr>skipped_emails := Suc (skipped_emails r)\<rparr>)
       else
         (let (paths, ad) = save_attachments (email_id e) attachments_dir (att_dir st)
                              (email_attachments e);
              r1 = r\<lparr>processed_attachments := processed_attachments r + length paths\<rparr>;
              trk = mark_email_processed (email_id e) (tracker_files st)
          in case consolidate_email_with_attachments io_ok tr now ad e paths (corpus st) of
               Inr (_, d) \<Rightarrow>
                 (st\<lparr>att_dir := ad, corpus := d, tracker_files := trk\<rparr>, temps @ paths,
                  r1\<lparr>processed_emails := Suc (processed_emails r1)\<rparr>)
             | Inl _ \<Rightarrow> (st\<lparr>att_dir := ad, tracker_files := trk\<rparr>, temps @ paths, r1)))"

fun ingest_loop ::
  "(str \<Rightarrow> bool) \<Rightarrow> transcriber \<Rightarrow> datetime \<Rightarrow> email list \<Rightarrow>
   ingest_state \<times> str list \<times> ingest_report \<Rightarrow> ingest_state \<times> str list \<times> ingest_report" where
  "ingest_loop io_ok tr now [] acc = acc"
| "ingest_loop io_ok tr now (e # es) acc = ingest_loop io_ok tr now es (ingest_one io_ok tr now e acc)"

text \<open>The \<open>finally\<close> block: every temporary path that still exists is removed.\<close>

definition cleanup_attachments :: "str list \<Rightarrow> dir \<Rightarrow> dir" where
  "cleanup_attachments temps ad = foldl (\<lambda>d p. fmdrop p d) ad temps"

definition no_report :: ingest_report where
  "no_report = \<lparr>processed_emails = 0, processed_attachments = 0, skipped_emails = 0\<rparr>"

definition ingest_main ::
  "(str \<Rightarrow> bool) \<Rightarrow> transcriber \<Rightarrow> datetime \<Rightarrow> email list \<Rightarrow> ingest_state
   \<Rightarrow> ingest_state \<times> ingest_report" where
  "ingest_main io_ok tr now emails st =
     (if emails = [] then (st, no_report)
      else
        (case ingest_loop io_ok tr now emails (st, [], no_report) of
           (st', temps, r) \<Rightarrow> (st'\<lparr>att_dir := cleanup_attachments temps (att_dir st')\<rparr>, r)))"

text \<open>The invariant of the attachment directory during the loop: apart from the
  temporary paths saved so far it is the directory the run started with, and those paths
  did not exist then.\<close>

definition att_inv :: "dir \<Rightarrow> dir \<Rightarrow> str list \<Rightarrow> bool" where
  "att_inv ad0 ad temps \<longleftrightarrow>
     (\<forall>p. p \<notin> set temps \<longrightarrow> fmlookup ad p = fmlookup ad0 p) \<and>
     (\<forall>p \<in> set temps. fmlookup ad0 p = None)"

text \<open>Every file of the first directory is a prefix of the same file in the second.\<close>

definition corpus_extends :: "dir \<Rightarrow> dir \<Rightarrow> bool" where
  "corpus_extends d d' \<longleftrightarrow> (\<forall>r old. fmlookup d r = Some old \<longrightarrow> (\<exists>s. fmlookup d' r = Some (old @ s)))"

text \<open>The two e-mails of the spec's ingestion scenario.\<close>

definition spec_email_e1 :: email where
  "spec_email_e1 = \<lparr>email_id = ''E1'', subject = ''Field Trip'', sender = ''office@school.org'',
     email_date = mk_dt 2025 11 3 7 30 0, body_text = ''Bring a lunch.'', email_attachments = []\<rparr>"
definition spec_email_e2 :: email where
  "spec_email_e2 = \<lparr>email_id = ''E2'', subject = ''Picture Day'', sender = ''office@school.org'',
     email_date = mk_dt 2025 11 4 8 0 0, body_text = ''Wear a smile.'', email_attachments = []\<rparr>"

subsection \<open>One turn of the loop\<close>

lemma save_attachment_fresh:
  assumes "save_attachment a eid od ad = (p, ad')"
  shows "fmlookup ad p = None \<and> ad' = fmupd p (att_data a) ad"
  using assms unique_name_fresh
  by (auto simp: save_attachment_def Let_def fmdom_notD split: prod.splits)

lemma save_attachments_frame:
  assumes "save_attachments eid od ad as = (ps, ad')"
  shows "(\<forall>p. p \<notin> set ps \<longrightarrow> fmlookup ad' p = fmlookup ad p) \<and>
    (\<forall>p \<in> set ps. fmlookup ad p = None) \<and> length ps = length as"
  using assms
proof (induction as arbitrary: ad ps ad')
  case Nil
  then show ?case by simp
next
  case (Cons a as)
  obtain p ad1 where s1: "save_attachment a eid od ad = (p, ad1)" by fastforce
  obtain ps' where s2: "save_attachments eid od ad1 as = (ps', ad')" and ps: "ps = p # ps'"
    using Cons.prems s1 by (auto split: prod.splits)
  have f: "fmlookup ad p = None" and ad1: "ad1 = fmupd p (att_data a) ad"
    using save_attachment_fresh [OF s1] by auto
  have IH: "(\<forall>q. q \<notin> set ps' \<longrightarrow> fmlookup ad' q = fmlookup ad1 q) \<and>
      (\<forall>q \<in> set ps'. fmlookup ad1 q = None) \<and> length ps' = length as"
    by (rule Cons.IH [OF s2])
  show ?case
    using IH f ps ad1 by (auto split: if_splits)
qed

lemma ingest_one_processed:
  "is_email_processed (email_id e) (tracker_files st) \<Longrightarrow>
   ingest_one io_ok tr now e (st, temps, r) = (st, temps, r\<lparr>skipped_emails := Suc (skipped_emails r)\<rparr>)"
  by (simp add: ingest_one_def)

lemma ingest_one_unprocessed:
  assumes "\<not> is_email_processed (email_id e) (tracker_files st)"
    and "save_attachments (email_id e) attachments_dir (att_dir st) (email_attachments e) = (ps, ad)"
  shows "\<exists>d r'. ingest_one io_ok tr now e (st, temps, r) =
      (st\<lparr>att_dir := ad, corpus := d,
          tracker_files := mark_email_processed (email_id e) (tracker_files st)\<rparr>, temps @ ps, r') \<and>
      (d = corpus st \<or> (\<exists>q. consolidate_email_with_attachments io_ok tr now ad e ps (corpus st) = Inr (q, d)))"
proof (cases "consolidate_email_with_attachments io_ok tr now ad e ps (corpus st)")
  case (Inl err)
  with assms show ?thesis
    by (auto simp: ingest_one_def Let_def intro!: exI [of _ "corpus st"])
next
  case (Inr res)
  with assms show ?thesis
    by (cases res) (auto simp: ingest_one_def Let_def)
qed

lemma ingest_one_att_inv:
  assumes "att_inv ad0 (att_dir st) temps"
    and "ingest_one io_ok tr now e (st, temps, r) = (st', temps', r')"
  shows "att_inv ad0 (att_dir st') temps'"
proof (cases "is_email_processed (email_id e) (tracker_files st)")
  case True
  with assms show ?thesis by (simp add: ingest_one_processed)
next
  case False
  obtain ps ad where s: "save_attachments (email_id e) attachments_dir (att_dir st)
      (email_attachments e) = (ps, ad)" by fastforce
  have fr: "(\<forall>p. p \<notin> set ps \<longrightarrow> fmlookup ad p = fmlookup (att_dir st) p) \<and>
      (\<forall>p \<in> set ps. fmlookup (att_dir st) p = None)"
    using save_attachments_frame [OF s] by auto
  have "att_dir st' = ad \<and> temps' = temps @ ps"
    using assms(2) ingest_one_unprocessed [OF False s, of io_ok tr now temps r] by auto
  moreover have "\<forall>p \<in> set ps. fmlookup ad0 p = None"
  proof
    fix p assume p: "p \<in> set ps"
    show "fmlookup ad0 p = None"
      using fr assms(1) p by (cases "p \<in> set temps") (auto simp: att_inv_def)
  qed
  ultimately show ?thesis
    using fr assms(1) by (auto simp: att_inv_def)
qed

lemma ingest_loop_att_inv:
  assumes "att_inv ad0 (att_dir st) temps"
    and "ingest_loop io_ok tr now es (st, temps, r) = (st', temps', r')"
  shows "att_inv ad0 (att_dir st') temps'"
  using assms
proof (induction es arbitrary: st temps r)
  case Nil
  then show ?case by simp
next
  case (Cons e es)
  obtain st1 temps1 r1 where o: "ingest_one io_ok tr now e (st, temps, r) = (st1, temps1, r1)"
    by (cases "ingest_one io_ok tr now e (st, temps, r)") auto
  have "att_inv ad0 (att_dir st1) temps1"
    by (rule ingest_one_att_inv [OF Cons.prems(1) o])
  moreover have "ingest_loop io_ok tr now es (st1, temps1, r1) = (st', temps', r')"
    using Cons.prems(2) o by simp
  ultimately show ?case by (rule Cons.IH)
qed

lemma cleanup_lookup:
  "fmlookup (cleanup_attachments temps d) p = (if p \<in> set temps then None else fmlookup d p)"
  unfolding cleanup_attachments_def
  by (induction temps arbitrary: d) auto

lemma corpus_extends_refl [simp]: "corpus_extends d d"
  by (auto simp: corpus_extends_def)

lemma corpus_extends_trans: "corpus_extends d1 d2 \<Longrightarrow> corpus_extends d2 d3 \<Longrightarrow> corpus_extends d1 d3"
  by (fastforce simp: corpus_extends_def)

lemma consolidate_extends:
  "consolidate_email_with_attachments io_ok tr now ad e ps d = Inr (q, d') \<Longrightarrow> corpus_extends d d'"
  using append_to_master_markdown_grows
  by (simp add: consolidate_email_with_attachments_def Let_def corpus_extends_def)

lemma ingest_one_effect:
  assumes "ingest_one io_ok tr now e (st, temps, r) = (st', temps', r')"
  shows "(\<forall>x. is_email_processed x (tracker_files st') \<longleftrightarrow>
            x = email_id e \<or> is_email_processed x (tracker_files st)) \<and>
    upload_tracker (tracker_files st') = upload_tracker (tracker_files st) \<and>
    corpus_extends (corpus st) (corpus st')"
proof (cases "is_email_processed (email_id e) (tracker_files st)")
  case True
  with assms show ?thesis by (auto simp: ingest_one_processed)
next
  case False
  obtain ps ad where s: "save_attachments (email_id e) attachments_dir (att_dir st)
      (email_attachments e) = (ps, ad)" by fastforce
  from ingest_one_unprocessed [OF False s, of io_ok tr now temps r] assms
  obtain d where st': "st' = st\<lparr>att_dir := ad, corpus := d,
          tracker_files := mark_email_processed (email_id e) (tracker_files st)\<rparr>"
    and d: "d = corpus st \<or> (\<exists>q. consolidate_email_with_attachments io_ok tr now ad e ps (corpus st) = Inr (q, d))"
    by auto
  have "corpus_extends (corpus st) d"
    using d consolidate_extends by auto
  with st' show ?thesis
    by (auto simp: is_email_processed_def mark_email_processed_def)
qed

lemma ingest_loop_effect:
  assumes "ingest_loop io_ok tr now es (st, temps, r) = (st', temps', r')"
  shows "(\<forall>x. is_email_processed x (tracker_files st') \<longleftrightarrow>
            x \<in> email_id ` set es \<or> is_email_processed x (tracker_files st)) \<and>
    upload_tracker (tracker_files st') = upload_tracker (tracker_files st) \<and>
    corpus_extends (corpus st) (corpus st')"
  using assms
proof (induction es arbitrary: st temps r)
  case Nil
  then show ?case by simp
next
  case (Cons e es)
  obtain st1 temps1 r1 where o: "ingest_one io_ok tr now e (st, temps, r) = (st1, temps1, r1)"
    by (cases "ingest_one io_ok tr now e (st, temps, r)") auto
  have IH: "(\<forall>x. is_email_processed x (tracker_files st') \<longleftrightarrow>
            x \<in> email_id ` set es \<or> is_email_processed x (tracker_files st1)) \<and>
    upload_tracker (tracker_files st') = upload_tracker (tracker_files st1) \<and>
    corpus_extends (corpus st1) (corpus st')"
    using Cons.IH Cons.prems o by simp
  show ?case
    using IH ingest_one_effect [OF o] corpus_extends_trans by auto
qed

lemma ingest_loop_all_processed:
  "\<forall>e \<in> set es. is_email_processed (email_id e) (tracker_files st) \<Longrightarrow>
   ingest_loop io_ok tr now es (st, temps, r) =
     (st, temps, r\<lparr>skipped_emails := skipped_emails r + length es\<rparr>)"
  by (induction es arbitrary: r) (simp_all add: ingest_one_processed)

lemma ingest_main_effect:
  "(\<forall>x. is_email_processed x (tracker_files (fst (ingest_main io_ok tr now es st))) \<longleftrightarrow>
        x \<in> email_id ` set es \<or> is_email_processed x (tracker_files st)) \<and>
   upload_tracker (tracker_files (fst (ingest_main io_ok tr now es st))) =
     upload_tracker (tracker_files st) \<and>
   corpus_extends (corpus st) (corpus (fst (ingest_main io_ok tr now es st)))"
proof (cases "es = []")
  case True
  then show ?thesis by (simp add: ingest_main_def)
next
  case False
  obtain st' temps r where l: "ingest_loop io_ok tr now es (st, [], no_report) = (st', temps, r)"
    by (cases "ingest_loop io_ok tr now es (st, [], no_report)") auto
  show ?thesis
    using ingest_loop_effect [OF l] False l by (simp add: ingest_main_def)
qed

subsection \<open>File names\<close>

lemma underscore_allowed: "CHR ''_'' \<notin> set forbidden_chars" by (simp add: forbidden_chars_def)
lemma sanitize_filename_no_forbidden: "\<forall>c \<in> set (sanitize_filename f). c \<notin> set forbidden_chars"
proof
  fix c assume c: "c \<in> set (sanitize_filename f)"
  let ?m = "map (\<lambda>c. if c \<in> set forbidden_chars then CHR ''_'' else c) f"
  have "c \<in> set ?m"
    using c set_py_take [of 200 ?m] by (auto simp: sanitize_filename_def Let_def split: if_splits)
  then show "c \<notin> set forbidden_chars" using underscore_allowed by auto
qed
lemma sanitize_filename_len: "py_len (sanitize_filename f) \<le> 200"
  using py_len_py_take [of 200 "map (\<lambda>c. if c \<in> set forbidden_chars then CHR ''_'' else c) f"]
  by (simp add: sanitize_filename_def Let_def)
lemma sanitize_filename_idem: "sanitize_filename (sanitize_filename f) = sanitize_filename f"
proof -
  let ?g = "sanitize_filename f"
  have m: "map (\<lambda>c. if c \<in> set forbidden_chars then CHR ''_'' else c) ?g = ?g"
    using sanitize_filename_no_forbidden [of f] by (intro map_idI) auto
  have "\<not> 200 < py_len ?g" using sanitize_filename_len [of f] by simp
  then show ?thesis
    unfolding sanitize_filename_def [of ?g] Let_def m by simp
qed

subsection \<open>Properties of a run\<close>

text \<open>C8. Re-running ingestion on the same fetched e-mails is a no-op: the trackers, the
  corpus and the attachment directory are exactly as after the first run, no e-mail is
  consolidated and no attachment saved, and every e-mail is counted as skipped.\<close>

theorem ingest_rerun_is_noop:
  "fst (ingest_main io_ok' tr' now' es (fst (ingest_main io_ok tr now es st))) =
     fst (ingest_main io_ok tr now es st) \<and>
   processed_emails (snd (ingest_main io_ok' tr' now' es (fst (ingest_main io_ok tr now es st)))) = 0 \<and>
   processed_attachments (snd (ingest_main io_ok' tr' now' es (fst (ingest_main io_ok tr now es st)))) = 0 \<and>
   skipped_emails (snd (ingest_main io_ok' tr' now' es (fst (ingest_main io_ok tr now es st)))) = length es"
proof -
  let ?s1 = "fst (ingest_main io_ok tr now es st)"
  have all: "\<forall>e \<in> set es. is_email_processed (email_id e) (tracker_files ?s1)"
    using ingest_main_effect by blast
  show ?thesis
  proof (cases "es = []")
    case True
    then show ?thesis by (simp add: ingest_main_def no_report_def)
  next
    case False
    with all show ?thesis
      by (simp add: ingest_main_def ingest_loop_all_processed cleanup_attachments_def no_report_def)
  qed
qed

text \<open>C9. After a run every fetched e-mail is marked processed, including those whose
  consolidation raised, and no other id is; the upload tracker is not touched.\<close>

theorem ingest_marks_every_fetched_email:
  "(is_email_processed x (tracker_files (fst (ingest_main io_ok tr now es st))) \<longleftrightarrow>
      x \<in> email_id ` set es \<or> is_email_processed x (tracker_files st)) \<and>
   upload_tracker (tracker_files (fst (ingest_main io_ok tr now es st))) =
     upload_tracker (tracker_files st)"
  using ingest_main_effect by blast

text \<open>The attachment directory after a run, through the loop invariant and the
  \<open>finally\<close> block.\<close>

lemma ingest_main_att_dir:
  "att_dir (fst (ingest_main io_ok tr now emails st)) = att_dir st"
proof (cases "emails = []")
  case True
  then show ?thesis by (simp add: ingest_main_def)
next
  case False
  obtain st' temps r where l: "ingest_loop io_ok tr now emails (st, [], no_report) = (st', temps, r)"
    by (cases "ingest_loop io_ok tr now emails (st, [], no_report)") auto
  have "att_inv (att_dir st) (att_dir st) []"
    by (simp add: att_inv_def)
  then have "att_inv (att_dir st) (att_dir st') temps"
    by (rule ingest_loop_att_inv [OF _ l])
  then have "fmlookup (cleanup_attachments temps (att_dir st')) = fmlookup (att_dir st)"
    by (auto simp: att_inv_def cleanup_lookup)
  then show ?thesis
    using False l by (simp add: ingest_main_def fmlookup_inject)
qed

text \<open>The temporary attachment files are scoped: after a run the attachment
  directory is exactly what it was before, whatever the consolidations did.\<close>

theorem ingest_removes_temporaries:
  "att_dir (fst (ingest_main io_ok tr now emails st)) = att_dir st"
  by (rule ingest_main_att_dir)

text \<open>A run only appends to the corpus: every document keeps its old contents as a
  prefix.\<close>

theorem ingest_corpus_append_only:
  "corpus_extends (corpus st) (corpus (fst (ingest_main io_ok tr now es st)))"
  using ingest_main_effect by blast

theorem ingest_corpus_append_only_witness:
  "corpus_extends fmempty (corpus (fst (ingest_main (\<lambda>_. True) (\<lambda>p b. Inr b)
     (mk_dt 2025 11 3 18 0 0) [spec_email_e1]
     \<lparr>tracker_files = \<lparr>upload_tracker = Absent, email_tracker = Absent\<rparr>,
      corpus = fmempty, att_dir = fmempty\<rparr>)))"
  using ingest_corpus_append_only [of "\<lparr>tracker_files = \<lparr>upload_tracker = Absent, email_tracker = Absent\<rparr>,
      corpus = fmempty, att_dir = fmempty\<rparr>" "\<lambda>_. True" "\<lambda>p b. Inr b" "mk_dt 2025 11 3 18 0 0"
      "[spec_email_e1]"]
  by simp

text \<open>A sanitised attachment name has at most 200 code points and none of the
  characters that \<open>sanitize_filename\<close> replaces; sanitising twice changes nothing more.\<close>

theorem sanitize_filename_safe:
  "py_len (sanitize_filename f) \<le> 200 \<and>
   (\<forall>c \<in> set (sanitize_filename f). c \<notin> set forbidden_chars) \<and>
   sanitize_filename (sanitize_filename f) = sanitize_filename f"
  using sanitize_filename_len sanitize_filename_no_forbidden sanitize_filename_idem by blast

theorem sanitize_filename_safe_witness:
  "sanitize_filename ''a/b?.pdf'' = ''a_b_.pdf'' \<and>
   CHR ''/'' \<notin> set (sanitize_filename ''a/b?.pdf'') \<and>
   sanitize_filename (sanitize_filename ''a/b?.pdf'') = ''a_b_.pdf''"
proof -
  have "sanitize_filename ''a/b?.pdf'' = ''a_b_.pdf''" by code_simp
  then show ?thesis using sanitize_filename_safe [of "''a/b?.pdf''"]
    by (simp add: forbidden_chars_def)
qed

text \<open>The ingestion scenario of the spec: e-mail E1 of 2025-11-03, ingested that
  day into an empty corpus, creates the one document \<open>school-data-2025-W45.md\<close> with
  its section; e-mail E2 of 2025-11-04, ingested the next day, is appended to the same
  document.\<close>

theorem ingest_spec_scenario:
  "corpus (fst (ingest_main (\<lambda>_. True) tr (mk_dt 2025 11 3 18 0 0) [spec_email_e1]
      \<lparr>tracker_files = \<lparr>upload_tracker = Absent, email_tracker = Absent\<rparr>, corpus = fmempty, att_dir = fmempty\<rparr>)) =
     fmupd ''school-data-2025-W45.md'' (create_markdown_header (mk_dt 2025 11 3 18 0 0) @
        format_email_markdown (mk_dt 2025 11 3 7 30 0) ''Field Trip'' ''office@school.org'' ''Bring a lunch.'' ''E1'' []) fmempty \<and>
   corpus (fst (ingest_main (\<lambda>_. True) tr (mk_dt 2025 11 4 18 0 0) [spec_email_e2]
     (fst (ingest_main (\<lambda>_. True) tr (mk_dt 2025 11 3 18 0 0) [spec_email_e1]
      \<lparr>tracker_files = \<lparr>upload_tracker = Absent, email_tracker = Absent\<rparr>, corpus = fmempty, att_dir = fmempty\<rparr>)))) =
     fmupd ''school-data-2025-W45.md'' (create_markdown_header (mk_dt 2025 11 3 18 0 0) @
        format_email_markdown (mk_dt 2025 11 3 7 30 0) ''Field Trip'' ''office@school.org'' ''Bring a lunch.'' ''E1'' [] @
        format_email_markdown (mk_dt 2025 11 4 8 0 0) ''Picture Day'' ''office@school.org'' ''Wear a smile.'' ''E2'' []) fmempty"
proof -
  have n1: "get_master_markdown_path (mk_dt 2025 11 3 18 0 0) = ''school-data-2025-W45.md''" by code_simp
  have n2: "get_master_markdown_path (mk_dt 2025 11 4 18 0 0) = ''school-data-2025-W45.md''" by code_simp
  have small: "length (create_markdown_header (mk_dt 2025 11 3 18 0 0) @
        format_email_markdown (mk_dt 2025 11 3 7 30 0) ''Field Trip'' ''office@school.org'' ''Bring a lunch.'' ''E1'' []) = 264"
    by code_simp
  show ?thesis
    using small
    by (simp add: ingest_main_def ingest_one_def spec_email_e1_def spec_email_e2_def is_email_processed_def
        mark_email_processed_def load_tracker_def save_tracker_def
        consolidate_email_with_attachments_def append_to_master_markdown_def
        should_create_new_file_def target_path_new n1 n2 Let_def cleanup_attachments_def max_file_size_def)
qed

end
