(* ===== verification/Cache.thy ===== *)
theory Cache
  imports Calendar
begin

text \<open>
  The response cache of \<^verbatim>\<open>src/app/rag_cache.py\<close>: the JSON file
  \<^verbatim>\<open>data/.rag_cache.json\<close>, a map from the hash of the normalised question to the
  question, the answer and the time it was stored. The hash (\<open>hashlib.md5(...)\<close>) is
  the parameter \<open>h\<close> of every operation; every lemma holds for any \<open>h\<close>, and the
  ones that tell two questions apart assume \<open>h\<close> tells their normal forms apart.
  \<open>datetime.now()\<close> is the parameter \<open>now\<close>; \<open>cache_response\<close> reads the clock
  twice, microseconds apart, and the model reads it once. Stored times are naive, as
  \<open>datetime.now().isoformat()\<close> writes them.

  Abstractly the cache is the partial map \<open>live_view\<close> from key to answer of the
  entries that have not expired at a given time; lookup reads it and store updates it.
\<close>

record cache_item =
  cached_question :: str
  cached_answer :: str
  cached_at :: datetime

type_synonym cache = "(str, cache_item) fmap"
type_synonym cache_file = "cache stored"

definition cache_expiry_days :: nat where
  "cache_expiry_days = 7"

text \<open>\<open>now > cached_time + timedelta(days=CACHE_EXPIRY_DAYS)\<close>, in microseconds.\<close>

definition is_expired :: "datetime \<Rightarrow> cache_item \<Rightarrow> bool" where
  "is_expired now it \<longleftrightarrow>
     local_micros now > local_micros (cached_at it) + int cache_expiry_days * 86400000000"

definition get_cache_key :: "(str \<Rightarrow> str) \<Rightarrow> str \<Rightarrow> str" where
  "get_cache_key h q = h (py_strip (py_lower q))"

definition load_cache :: "cache_file \<Rightarrow> cache" where
  "load_cache f = load_stored fmempty f"

definition save_cache :: "cache \<Rightarrow> cache_file" where
  "save_cache c = Stored c"

text \<open>Returns the answer, if any, and the cache file afterwards.\<close>

definition get_cached_response ::
  "(str \<Rightarrow> str) \<Rightarrow> datetime \<Rightarrow> str \<Rightarrow> cache_file \<Rightarrow> str option \<times> cache_file" where
  "get_cached_response h now q f =
     (let c = load_cache f; k = get_cache_key h q
      in case fmlookup c k of
           None \<Rightarrow> (None, f)
         | Some it \<Rightarrow>
             if is_expired now it then (None, save_cache (fmdrop k c))
             else (Some (cached_answer it), f))"

text \<open>The clean-up loop of \<open>cache_response\<close>: the expired keys are collected and
  deleted.\<close>

definition purge_expired :: "datetime \<Rightarrow> cache \<Rightarrow> cache" where
  "purge_expired now c =
     fmfilter (\<lambda>k. case fmlookup c k of None \<Rightarrow> True | Some it \<Rightarrow> \<not> is_expired now it) c"

definition cache_response ::
  "(str \<Rightarrow> str) \<Rightarrow> datetime \<Rightarrow> str \<Rightarrow> str \<Rightarrow> cache_file \<Rightarrow> cache_file" where
  "cache_response h now q a f =
     (let c = load_cache f;
          c1 = fmupd (get_cache_key h q) \<lparr>cached_question = q, cached_answer = a, cached_at = now\<rparr> c
      in save_cache (purge_expired now c1))"

text \<open>\<open>(total_entries, valid_entries, expired_entries)\<close>.\<close>

definition get_cache_stats :: "datetime \<Rightarrow> cache_file \<Rightarrow> nat \<times> nat \<times> nat" where
  "get_cache_stats now f =
     (let c = load_cache f; ks = fmdom c;
          expired = ffilter (\<lambda>k. case fmlookup c k of None \<Rightarrow> False | Some it \<Rightarrow> is_expired now it) ks
      in (fcard ks, fcard ks - fcard expired, fcard expired))"

text \<open>The abstract cache: the answers of the entries alive at time \<open>t\<close>.\<close>

definition live_view :: "datetime \<Rightarrow> cache \<Rightarrow> str \<Rightarrow> str option" where
  "live_view t c k =
     (case fmlookup c k of
        None \<Rightarrow> None
      | Some it \<Rightarrow> if is_expired t it then None else Some (cached_answer it))"

lemma fmlookup_purge_expired [simp]:
  "fmlookup (purge_expired now c) k =
     (case fmlookup c k of None \<Rightarrow> None | Some it \<Rightarrow> if is_expired now it then None else Some it)"
  by (auto simp: purge_expired_def split: option.splits)

lemma fresh_item_alive [simp]:
  "\<not> is_expired now \<lparr>cached_question = q, cached_answer = a, cached_at = now\<rparr>"
  by (simp add: is_expired_def)

lemma load_save_cache [simp]: "load_cache (save_cache c) = c"
  by (simp add: load_cache_def save_cache_def)

subsection \<open>Properties\<close>

lemma store_lookup_key:
  "fmlookup (load_cache (cache_response h now q a f)) (get_cache_key h q) =
     Some \<lparr>cached_question = q, cached_answer = a, cached_at = now\<rparr>"
  by (simp add: cache_response_def Let_def)

lemma purge_leaves_nothing_expired:
  "ffilter (\<lambda>k. case fmlookup (purge_expired now c) k of None \<Rightarrow> False
      | Some it \<Rightarrow> is_expired now it) (fmdom (purge_expired now c)) = {||}"
  by (auto simp del: fmlookup_purge_expired simp: fmlookup_dom_iff purge_expired_def
      split: option.splits)

text \<open>C25. Store then look up: an answer stored at \<open>now\<close> is returned by a lookup of the same question at any time up to seven days later, and that lookup writes nothing.\<close>

theorem cache_store_then_lookup:
  assumes "local_micros t \<le> local_micros now + int cache_expiry_days * 86400000000"
  shows "get_cached_response h t q (cache_response h now q a f) =
    (Some a, cache_response h now q a f)"
  using assms store_lookup_key [of h now q a f]
  by (simp add: get_cached_response_def is_expired_def Let_def)

theorem cache_store_then_lookup_witness:
  "local_micros (mk_dt 2025 11 5 9 0 0) \<le> local_micros (mk_dt 2025 11 3 18 0 0) + int cache_expiry_days * 86400000000 \<and>
   fst (get_cached_response (\<lambda>s. s) (mk_dt 2025 11 5 9 0 0) ''when is the field trip?''
     (cache_response (\<lambda>s. s) (mk_dt 2025 11 3 18 0 0) ''when is the field trip?'' ''Friday'' Absent)) = Some ''Friday''"
proof -
  have le: "local_micros (mk_dt 2025 11 5 9 0 0) \<le> local_micros (mk_dt 2025 11 3 18 0 0) + int cache_expiry_days * 86400000000"
    by code_simp
  show ?thesis
    using le cache_store_then_lookup [OF le, of "\<lambda>s. s" "''when is the field trip?''" "''Friday''" Absent]
    by simp
qed

text \<open>Expiry: a lookup more than seven days after the store finds nothing and deletes the entry from the persisted cache (lazy eviction).\<close>

theorem cache_entry_expires:
  assumes "local_micros t > local_micros now + int cache_expiry_days * 86400000000"
  shows "fst (get_cached_response h t q (cache_response h now q a f)) = None \<and>
    fmlookup (load_cache (snd (get_cached_response h t q (cache_response h now q a f))))
      (get_cache_key h q) = None"
  using assms store_lookup_key [of h now q a f]
  by (simp add: get_cached_response_def is_expired_def Let_def)

theorem cache_entry_expires_witness:
  "local_micros (mk_dt 2025 11 10 18 0 1) > local_micros (mk_dt 2025 11 3 18 0 0) + int cache_expiry_days * 86400000000 \<and>
   fst (get_cached_response (\<lambda>s. s) (mk_dt 2025 11 10 18 0 1) ''when is the field trip?''
     (cache_response (\<lambda>s. s) (mk_dt 2025 11 3 18 0 0) ''when is the field trip?'' ''Friday'' Absent)) = None"
proof -
  have gt: "local_micros (mk_dt 2025 11 10 18 0 1) > local_micros (mk_dt 2025 11 3 18 0 0) + int cache_expiry_days * 86400000000"
    by code_simp
  show ?thesis
    using gt cache_entry_expires [OF gt, of "\<lambda>s. s" "''when is the field trip?''" "''Friday''" Absent]
    by simp
qed

text \<open>C26. Refinement: lookup returns the abstract live map at the key of the question and leaves the live map unchanged (an expired entry it deletes was not live); store at \<open>now\<close> updates the live map at \<open>now\<close> at that key and nowhere else.\<close>

theorem cache_refines_live_map:
  "fst (get_cached_response h t q f) = live_view t (load_cache f) (get_cache_key h q) \<and>
   live_view t (load_cache (snd (get_cached_response h t q f))) = live_view t (load_cache f) \<and>
   live_view now (load_cache (cache_response h now q a f)) =
     (live_view now (load_cache f))(get_cache_key h q \<mapsto> a)"
  by (auto simp: get_cached_response_def live_view_def cache_response_def Let_def fun_eq_iff
      split: option.splits)

text \<open>The sweep on store: after \<open>cache_response\<close> no entry of the file is expired at \<open>now\<close>, and every other entry that was alive is kept unchanged.\<close>

theorem cache_sweep_on_store:
  "(\<forall>k it. fmlookup (load_cache (cache_response h now q a f)) k = Some it \<longrightarrow> \<not> is_expired now it) \<and>
   (\<forall>k it. fmlookup (load_cache f) k = Some it \<longrightarrow> k \<noteq> get_cache_key h q \<longrightarrow>
      fmlookup (load_cache (cache_response h now q a f)) k =
        (if is_expired now it then None else Some it))"
  by (auto simp: cache_response_def Let_def split: option.splits if_splits)

theorem cache_sweep_on_store_witness:
  "fmlookup (load_cache (cache_response (\<lambda>s. s) (mk_dt 2025 11 3 18 0 0) ''q'' ''a''
      (Stored (fmupd ''old'' \<lparr>cached_question = ''old'', cached_answer = ''x'', cached_at = mk_dt 2025 10 1 9 0 0\<rparr> fmempty))))
     ''old'' = None"
proof -
  have e: "is_expired (mk_dt 2025 11 3 18 0 0) \<lparr>cached_question = ''old'', cached_answer = ''x'', cached_at = mk_dt 2025 10 1 9 0 0\<rparr>"
    by code_simp
  have k: "get_cache_key (\<lambda>s. s) ''q'' = ''q''"
    unfolding get_cache_key_def by code_simp
  have sw: "\<forall>k it. fmlookup (load_cache (Stored (fmupd ''old''
        \<lparr>cached_question = ''old'', cached_answer = ''x'', cached_at = mk_dt 2025 10 1 9 0 0\<rparr> fmempty))) k = Some it \<longrightarrow>
      k \<noteq> get_cache_key (\<lambda>s. s) ''q'' \<longrightarrow>
      fmlookup (load_cache (cache_response (\<lambda>s. s) (mk_dt 2025 11 3 18 0 0) ''q'' ''a''
        (Stored (fmupd ''old'' \<lparr>cached_question = ''old'', cached_answer = ''x'', cached_at = mk_dt 2025 10 1 9 0 0\<rparr> fmempty)))) k =
      (if is_expired (mk_dt 2025 11 3 18 0 0) it then None else Some it)"
    using cache_sweep_on_store [of "\<lambda>s. s" "mk_dt 2025 11 3 18 0 0" "''q''" "''a''"
        "Stored (fmupd ''old'' \<lparr>cached_question = ''old'', cached_answer = ''x'', cached_at = mk_dt 2025 10 1 9 0 0\<rparr> fmempty)"]
    by blast
  show ?thesis
    using sw [rule_format, of "''old''" "\<lparr>cached_question = ''old'', cached_answer = ''x'', cached_at = mk_dt 2025 10 1 9 0 0\<rparr>"] e k
    by (simp add: load_cache_def)
qed

text \<open>Example. Questions that differ only in letter case and surrounding white space share one entry, for any hash function.\<close>

theorem cache_key_normalises:
  "fst (get_cached_response h t ''  When is the FIELD trip? ''
     (cache_response h t ''when is the field trip?'' ''Friday'' f)) = Some ''Friday''"
proof -
  have k: "py_strip (py_lower ''  When is the FIELD trip? '') = py_strip (py_lower ''when is the field trip?'')"
    by code_simp
  show ?thesis
    using store_lookup_key [of h t "''when is the field trip?''" "''Friday''" f]
    by (simp add: get_cached_response_def get_cache_key_def k Let_def)
qed

text \<open>\<open>get_cache_stats\<close> splits the entries into valid and expired ones; right after a store none is expired.\<close>

theorem cache_stats_partition:
  "fst (snd (get_cache_stats t f)) + snd (snd (get_cache_stats t f)) = fst (get_cache_stats t f) \<and>
   snd (snd (get_cache_stats now (cache_response h now q a f))) = 0"
proof -
  have le: "\<And>c P. fcard (ffilter P (fmdom c)) \<le> fcard (fmdom c)"
    by (rule fcard_mono) auto
  have p1: "fst (snd (get_cache_stats t f)) + snd (snd (get_cache_stats t f)) = fst (get_cache_stats t f)"
    by (simp add: get_cache_stats_def Let_def le le_add_diff_inverse2)
  have p2: "snd (snd (get_cache_stats now (cache_response h now q a f))) = 0"
    using purge_leaves_nothing_expired
    by (simp del: fmlookup_purge_expired add: get_cache_stats_def Let_def cache_response_def)
  from p1 p2 show ?thesis ..
qed

text \<open>An unreadable cache file is read as the empty cache: a lookup misses and writes nothing, a store replaces the file by a cache holding only the new entry.\<close>

theorem cache_corrupt_file:
  "get_cached_response h t q Corrupt = (None, Corrupt) \<and>
   cache_response h now q a Corrupt =
     Stored (fmupd (get_cache_key h q) \<lparr>cached_question = q, cached_answer = a, cached_at = now\<rparr> fmempty)"
  by (simp add: get_cached_response_def cache_response_def load_cache_def save_cache_def Let_def
      purge_expired_def fmfilter_alt_defs)

end
