(* ===== verification/Regex.thy ===== *)
theory Regex
  imports Prelude
begin

text \<open>
  The fragment of Python's \<^verbatim>\<open>re\<close> module that the learning engine
  (\<^verbatim>\<open>rag_improvement.py\<close>) uses: patterns that are sequences of word boundaries
  \<open>\b\<close>, alternations of literals \<open>(mr|ms|...)\<close> and greedy bounded repetitions of a
  character class (\<open>\d{1,2}\<close>, \<open>\s+\<close>, \<open>\.?\<close>, \<open>[A-Z]\<close>).
  \<open>rmatch\<close> is the backtracking matcher at one position: it tries the alternatives
  in order and the repetition counts from the longest down, and returns the first match
  found, as \<open>sre\<close> does. \<open>re_search\<close>, \<open>re_findall\<close> and
  \<open>re_sub\<close> scan left to right and, after a match, resume at its end.
  The classes \<open>\w\<close>, \<open>\d\<close>, \<open>\s\<close> are those of \<open>str\<close> patterns on the ASCII
  range; a byte outside it is neither a word character nor a digit nor a space.
\<close>

text \<open>\<open>LitI\<close> is an alternation of literals under \<open>re.IGNORECASE\<close>: letters compare by
  their ASCII lower case.\<close>

datatype rx = Bnd | Lit "str list" | LitI "str list" | Rep "char \<Rightarrow> bool" nat "nat option"

definition is_word_char :: "char \<Rightarrow> bool" where
  "is_word_char c \<longleftrightarrow> is_upper_ascii c \<or> is_lower_ascii c \<or> is_digit c \<or> c = CHR ''_''"

definition word_before :: "char option \<Rightarrow> bool" where
  "word_before p = (case p of None \<Rightarrow> False | Some c \<Rightarrow> is_word_char c)"

definition word_after :: "str \<Rightarrow> bool" where
  "word_after s = (case s of [] \<Rightarrow> False | c # _ \<Rightarrow> is_word_char c)"

text \<open>\<open>\b\<close>: a word character on exactly one side.\<close>

definition at_boundary :: "char option \<Rightarrow> str \<Rightarrow> bool" where
  "at_boundary p s \<longleftrightarrow> word_before p \<noteq> word_after s"

text \<open>The first alternative that succeeds; later ones are not tried.\<close>

primrec first_map :: "('a \<Rightarrow> 'b option) \<Rightarrow> 'a list \<Rightarrow> 'b option" where
  "first_map f [] = None"
| "first_map f (x # xs) = (case f x of None \<Rightarrow> first_map f xs | Some y \<Rightarrow> Some y)"

lemma first_map_cong [fundef_cong]:
  "xs = ys \<Longrightarrow> (\<And>x. x \<in> set ys \<Longrightarrow> f x = g x) \<Longrightarrow> first_map f xs = first_map g ys"
  by (induction ys arbitrary: xs) (auto split: option.splits)

fun strip_prefix :: "str \<Rightarrow> str \<Rightarrow> str option" where
  "strip_prefix [] s = Some s"
| "strip_prefix (c # cs) [] = None"
| "strip_prefix (c # cs) (d # ds) = (if c = d then strip_prefix cs ds else None)"

fun strip_prefix_ci :: "str \<Rightarrow> str \<Rightarrow> str option" where
  "strip_prefix_ci [] s = Some s"
| "strip_prefix_ci (c # cs) [] = None"
| "strip_prefix_ci (c # cs) (d # ds) =
     (if lower_char c = lower_char d then strip_prefix_ci cs ds else None)"

text \<open>The ways a repetition of class \<open>c\<close> with at most \<open>hi\<close> copies can start the
  subject, shortest first: the characters taken and the rest.\<close>

fun rep_cands :: "(char \<Rightarrow> bool) \<Rightarrow> nat option \<Rightarrow> str \<Rightarrow> (str \<times> str) list" where
  "rep_cands c hi [] = [([], [])]"
| "rep_cands c hi (d # ds) =
     ([], d # ds) #
     (if c d \<and> hi \<noteq> Some 0
      then map (\<lambda>(t, u). (d # t, u)) (rep_cands c (map_option (\<lambda>h. h - 1) hi) ds) else [])"

definition last_or :: "char option \<Rightarrow> str \<Rightarrow> char option" where
  "last_or p t = (if t = [] then p else Some (last t))"

text \<open>The matcher, given the previous character (for \<open>\b\<close>) and the rest of the
  subject: the first match in backtracking order, as the text matched, the last character
  before the rest, and the rest.\<close>

fun rmatch :: "rx list \<Rightarrow> char option \<Rightarrow> str \<Rightarrow> (str \<times> char option \<times> str) option" where
  "rmatch [] p s = Some ([], p, s)"
| "rmatch (Bnd # r) p s = (if at_boundary p s then rmatch r p s else None)"
| "rmatch (Lit ws # r) p s =
     first_map (\<lambda>w. case strip_prefix w s of
                      None \<Rightarrow> None
                    | Some u \<Rightarrow> map_option (\<lambda>(m, q, v). (w @ m, q, v)) (rmatch r (last_or p w) u)) ws"
| "rmatch (LitI ws # r) p s =
     first_map (\<lambda>w. case strip_prefix_ci w s of
                      None \<Rightarrow> None
                    | Some u \<Rightarrow>
                        (let t = take (length w) s
                         in map_option (\<lambda>(m, q, v). (t @ m, q, v)) (rmatch r (last_or p t) u))) ws"
| "rmatch (Rep c lo hi # r) p s =
     first_map (\<lambda>(t, u). map_option (\<lambda>(m, q, v). (t @ m, q, v)) (rmatch r (last_or p t) u))
               (rev (drop lo (rep_cands c hi s)))"

lemma strip_prefix_Some: "strip_prefix w s = Some u \<Longrightarrow> s = w @ u"
  by (induction w s rule: strip_prefix.induct) (auto split: if_splits)

lemma strip_prefix_ci_Some: "strip_prefix_ci w s = Some u \<Longrightarrow> u = drop (length w) s"
  by (induction w s rule: strip_prefix_ci.induct) (auto split: if_splits)

lemma rep_cands_split: "(t, u) \<in> set (rep_cands c hi s) \<Longrightarrow> s = t @ u"
  by (induction c hi s arbitrary: t rule: rep_cands.induct) auto

lemma first_map_Some: "first_map f xs = Some y \<Longrightarrow> \<exists>x \<in> set xs. f x = Some y"
  by (induction xs) (auto split: option.splits)

lemma rmatch_split: "rmatch r p s = Some (m, q, v) \<Longrightarrow> s = m @ v"
proof (induction r p s arbitrary: m q v rule: rmatch.induct)
  case (3 ws r p s)
  then show ?case
    by (fastforce dest!: first_map_Some strip_prefix_Some split: option.splits)
next
  case (4 ws r p s)
  show ?case
  proof -
    obtain w where w: "w \<in> set ws" and
      f: "(case strip_prefix_ci w s of None \<Rightarrow> None | Some u \<Rightarrow>
            (let t = take (length w) s
             in map_option (\<lambda>(m, q, v). (t @ m, q, v)) (rmatch r (last_or p t) u))) = Some (m, q, v)"
      using 4(2) by (auto dest!: first_map_Some)
    then obtain u where u: "strip_prefix_ci w s = Some u"
      by (auto split: option.splits)
    then show ?thesis
      using f 4(1) [OF w u refl] strip_prefix_ci_Some [OF u]
      by (auto simp: Let_def) (metis append_take_drop_id)
  qed
next
  case (5 c lo hi r p s)
  then show ?case
    by (fastforce dest!: first_map_Some in_set_dropD rep_cands_split)
qed (auto split: if_splits)

text \<open>\<open>re.search(pattern, s) is not None\<close>.\<close>

fun re_search_from :: "rx list \<Rightarrow> char option \<Rightarrow> str \<Rightarrow> bool" where
  "re_search_from r p [] = (rmatch r p [] \<noteq> None)"
| "re_search_from r p (c # cs) = (rmatch r p (c # cs) \<noteq> None \<or> re_search_from r (Some c) cs)"

definition re_search :: "rx list \<Rightarrow> str \<Rightarrow> bool" where
  "re_search r s = re_search_from r None s"

text \<open>\<open>re.findall\<close> and \<open>re.sub\<close> for patterns without groups. An empty match
  consumes nothing and the scan moves one character on.\<close>

function re_findall_from :: "rx list \<Rightarrow> char option \<Rightarrow> str \<Rightarrow> str list" where
  "re_findall_from r p [] = (if rmatch r p [] = None then [] else [[]])"
| "re_findall_from r p (c # cs) =
     (case rmatch r p (c # cs) of
        None \<Rightarrow> re_findall_from r (Some c) cs
      | Some (m, q, v) \<Rightarrow>
          if m = [] then [] # re_findall_from r (Some c) cs else m # re_findall_from r q v)"
  by pat_completeness auto
termination
  by (relation "measure (\<lambda>(_, _, s). length s)")
     (auto dest!: rmatch_split simp: neq_Nil_conv)

definition re_findall :: "rx list \<Rightarrow> str \<Rightarrow> str list" where
  "re_findall r s = re_findall_from r None s"

function re_sub_from :: "rx list \<Rightarrow> str \<Rightarrow> char option \<Rightarrow> str \<Rightarrow> str" where
  "re_sub_from r t p [] = (if rmatch r p [] = None then [] else t)"
| "re_sub_from r t p (c # cs) =
     (case rmatch r p (c # cs) of
        None \<Rightarrow> c # re_sub_from r t (Some c) cs
      | Some (m, q, v) \<Rightarrow>
          if m = [] then t @ c # re_sub_from r t (Some c) cs else t @ re_sub_from r t q v)"
  by pat_completeness auto
termination
  by (relation "measure (\<lambda>(_, _, _, s). length s)")
     (auto dest!: rmatch_split simp: neq_Nil_conv)

definition re_sub :: "rx list \<Rightarrow> str \<Rightarrow> str \<Rightarrow> str" where
  "re_sub r t s = re_sub_from r t None s"

text \<open>\<open>re.match(pattern, s) is not None\<close>: a match anchored at the start.\<close>

definition re_match :: "rx list \<Rightarrow> str \<Rightarrow> bool" where
  "re_match r s \<longleftrightarrow> rmatch r None s \<noteq> None"

text \<open>A pattern whose top level is an alternation \<open>A|B|...\<close>: the branches are tried in
  order at the same position, each with its own backtracking, and the first that matches
  is taken.\<close>

definition amatch :: "rx list list \<Rightarrow> char option \<Rightarrow> str \<Rightarrow> (str \<times> char option \<times> str) option" where
  "amatch rs p s = first_map (\<lambda>r. rmatch r p s) rs"

lemma amatch_split: "amatch rs p s = Some (m, q, v) \<Longrightarrow> s = m @ v"
  by (auto simp: amatch_def dest!: first_map_Some rmatch_split)

text \<open>\<open>re.sub(pattern, f, s)\<close> with a function \<open>f\<close> of the matched text as the
  replacement.\<close>

function re_subf_from :: "rx list list \<Rightarrow> (str \<Rightarrow> str) \<Rightarrow> char option \<Rightarrow> str \<Rightarrow> str" where
  "re_subf_from rs f p [] = (case amatch rs p [] of None \<Rightarrow> [] | Some (m, q, v) \<Rightarrow> f m)"
| "re_subf_from rs f p (c # cs) =
     (case amatch rs p (c # cs) of
        None \<Rightarrow> c # re_subf_from rs f (Some c) cs
      | Some (m, q, v) \<Rightarrow>
          if m = [] then f m @ c # re_subf_from rs f (Some c) cs else f m @ re_subf_from rs f q v)"
  by pat_completeness auto
termination
  by (relation "measure (\<lambda>(_, _, _, s). length s)")
     (auto dest!: amatch_split simp: neq_Nil_conv)

definition re_subf :: "rx list list \<Rightarrow> (str \<Rightarrow> str) \<Rightarrow> str \<Rightarrow> str" where
  "re_subf rs f s = re_subf_from rs f None s"

text \<open>Character classes and the patterns built from them.\<close>

definition is_date_sep :: "char \<Rightarrow> bool" where
  "is_date_sep c \<longleftrightarrow> c = CHR ''/'' \<or> c = CHR ''-''"

text \<open>\<open>\b\w+\b\<close>\<close>

definition word_rx :: "rx list" where
  "word_rx = [Bnd, Rep is_word_char 1 None, Bnd]"

text \<open>\<open>\b\d+\b\<close>\<close>

definition number_rx :: "rx list" where
  "number_rx = [Bnd, Rep is_digit 1 None, Bnd]"

definition honorifics :: "str list" where
  "honorifics = [''mr'', ''ms'', ''miss'', ''mrs'', ''dr'']"

text \<open>\<open>\b(mr|ms|miss|mrs|dr)\.?\s+[A-Z][a-z]+\b\<close>\<close>

definition person_rx :: "rx list" where
  "person_rx = [Bnd, Lit honorifics, Rep (\<lambda>d. d = CHR ''.'') 0 (Some 1), Rep is_space 1 None,
                Rep is_upper_ascii 1 (Some 1), Rep is_lower_ascii 1 None, Bnd]"

definition month_names :: "str list" where
  "month_names = [''january'', ''february'', ''march'', ''april'', ''may'', ''june'', ''july'',
                  ''august'', ''september'', ''october'', ''november'', ''december'']"

text \<open>\<open>\d{1,2}[/-]\d{1,2}[/-]\d{2,4}\<close>\<close>

definition numeric_date_rx :: "rx list" where
  "numeric_date_rx = [Rep is_digit 1 (Some 2), Rep is_date_sep 1 (Some 1), Rep is_digit 1 (Some 2),
                      Rep is_date_sep 1 (Some 1), Rep is_digit 2 (Some 4)]"


section \<open>Patterns that cannot match\<close>

lemma first_map_None: "(\<And>x. x \<in> set xs \<Longrightarrow> f x = None) \<Longrightarrow> first_map f xs = None"
  by (induction xs) auto

lemma rmatch_Cons_None:
  assumes "\<And>p u w. s = w @ u \<Longrightarrow> rmatch r p u = None"
  shows "rmatch (x # r) p s = None"
proof (cases x)
  case Bnd
  then show ?thesis using assms [of "[]" s] by simp
next
  case (Lit ws)
  then show ?thesis
    by (auto intro!: first_map_None dest!: strip_prefix_Some split: option.splits simp: assms)
next
  case (LitI ws)
  have "rmatch r q (drop (length w) s) = None" for q w
    using assms [where w = "take (length w) s" and u = "drop (length w) s"] by simp
  then show ?thesis
    using LitI by (auto intro!: first_map_None dest!: strip_prefix_ci_Some split: option.splits simp: Let_def)
next
  case (Rep c lo hi)
  then show ?thesis
    by (auto intro!: first_map_None dest!: in_set_dropD rep_cands_split simp: assms)
qed

lemma rmatch_append_None:
  assumes "\<And>p u w. s = w @ u \<Longrightarrow> rmatch r p u = None"
  shows "rmatch (xs @ r) p s = None"
  using assms
proof (induction xs arbitrary: s p)
  case Nil
  then show ?case using Nil [of "[]" s] by simp
next
  case (Cons x xs)
  have "rmatch (xs @ r) p' u = None" if "s = w @ u" for p' u w
    using Cons.IH [of u p'] Cons.prems that by (metis append.assoc)
  then show ?case by (simp add: rmatch_Cons_None)
qed

lemma rmatch_Rep_None:
  "\<forall>c \<in> set s. \<not> cls c \<Longrightarrow> 0 < lo \<Longrightarrow> rmatch (Rep cls lo hi # r) p s = None"
  by (cases s) (auto simp: Suc_le_eq drop_Cons' split: if_splits)

lemma re_sub_from_no_match:
  "(\<And>p u w. s = w @ u \<Longrightarrow> rmatch r p u = None) \<Longrightarrow> re_sub_from r t p s = s"
proof (induction s arbitrary: p)
  case Nil
  have "rmatch r p [] = None"
    using Nil [where w = "[]" and u = "[]"] by simp
  then show ?case by simp
next
  case (Cons c cs)
  have "re_sub_from r t (Some c) cs = cs"
    using Cons.prems by (intro Cons.IH) (metis append_Cons)
  then show ?case using Cons.prems [where p = p and u = "c # cs" and w = "[]"] by simp
qed

lemma set_re_sub_from: "set (re_sub_from r t p s) \<subseteq> set s \<union> set t"
proof (induction "length s" arbitrary: p s rule: less_induct)
  case less
  show ?case
  proof (cases s)
    case Nil
    then show ?thesis by simp
  next
    case (Cons c cs)
    have ih_cs: "set (re_sub_from r t (Some c) cs) \<subseteq> set cs \<union> set t"
      using less Cons by simp
    show ?thesis
    proof (cases "rmatch r p (c # cs)")
      case None
      then show ?thesis using ih_cs Cons by auto
    next
      case (Some res)
      obtain m q v where res: "res = (m, q, v)" by (cases res)
      have sp: "c # cs = m @ v"
        using Some res by (simp add: rmatch_split)
      show ?thesis
      proof (cases "m = []")
        case True
        then show ?thesis using ih_cs Cons Some res by auto
      next
        case False
        then have "length v < length s"
          using sp Cons by (metis length_append less_add_same_cancel2 length_greater_0_conv)
        then have "set (re_sub_from r t q v) \<subseteq> set v \<union> set t"
          using less by blast
        moreover have "set v \<subseteq> set s"
          using sp Cons by auto
        ultimately show ?thesis using Cons Some res False by auto
      qed
    qed
  qed
qed

subsection \<open>Unbounded repetitions\<close>

text \<open>A pattern that is one repetition \<open>c{lo,}\<close> matches the longest run of \<open>c\<close> at
  the start, when that run is long enough.\<close>

lemma rep_cands_unbounded:
  "rep_cands c None s \<noteq> [] \<and> last (rep_cands c None s) = (takeWhile c s, dropWhile c s) \<and>
   length (rep_cands c None s) = Suc (length (takeWhile c s))"
  by (induction s) (auto simp: last_map)

lemma rmatch_Rep_unbounded:
  "rmatch [Rep c lo None] p s =
     (if lo \<le> length (takeWhile c s)
      then Some (takeWhile c s, last_or p (takeWhile c s), dropWhile c s) else None)"
proof -
  let ?xs = "rep_cands c None s"
  show ?thesis
  proof (cases "lo \<le> length (takeWhile c s)")
    case True
    then have ne: "drop lo ?xs \<noteq> []"
      using rep_cands_unbounded [of c s] by simp
    then obtain ys y where d: "drop lo ?xs = ys @ [y]"
      by (metis rev_exhaust)
    have "y = last ?xs"
      using d ne last_drop [of lo ?xs] rep_cands_unbounded [of c s] True
      by (metis last_snoc length_drop zero_less_diff length_greater_0_conv)
    then show ?thesis
      using True d rep_cands_unbounded [of c s] by simp
  next
    case False
    then show ?thesis
      using rep_cands_unbounded [of c s] by simp
  qed
qed

text \<open>The rules that evaluate the matcher on a concrete subject by \<open>simp\<close>.\<close>

lemmas regex_eval = re_findall_def re_search_def re_sub_def re_match_def re_subf_def amatch_def word_rx_def number_rx_def
  person_rx_def numeric_date_rx_def honorifics_def month_names_def is_date_sep_def
  is_word_char_def is_upper_ascii_def is_lower_ascii_def is_digit_def is_space_def
  at_boundary_def word_before_def word_after_def last_or_def

end
