(* ===== verification/Quality.thy ===== *)
theory Quality
  imports Regex
begin

text \<open>
  The two pure functions of the learning engine (\<^verbatim>\<open>src/app/rag_improvement.py\<close>):
  \<open>calculate_response_quality\<close>, the heuristic score of an answer, and
  \<open>extract_query_pattern\<close>, the question with dates and numbers replaced by
  placeholders. Scores are exact rationals where the source computes with floats: every
  score is \<open>0\<close> or \<open>1/2\<close> plus some of \<open>1/10, 2/10, 2/10, 1/10\<close>, and each of them
  compares with the thresholds \<open>0.5\<close>, \<open>0.7\<close>, \<open>0.8\<close> of the source as its float
  does (the float of \<open>0.5+0.2+0.2+0.1\<close> is \<open>0.9999999999999999\<close>, not \<open>1.0\<close>, which no
  comparison of the source tells apart). The test \<open>overlap >= n * 0.3\<close> is
  \<open>10 * overlap \<ge> 3 * n\<close>, which agrees with the float product for every \<open>n < 100000\<close>.
\<close>

record quality_analysis =
  length_appropriate :: bool
  contains_keywords :: bool
  not_generic :: bool
  has_specifics :: bool
  not_error :: bool

definition error_indicators :: "str list" where
  "error_indicators = [''could not find'', ''cannot find'', ''does not include'',
                       ''not available'', ''no information'', ''error'']"

definition generic_phrases :: "str list" where
  "generic_phrases = [''i don't know'', ''i'm not sure'', ''please check'',
                      ''you may want to'', ''it's possible that'']"

text \<open>\<open>\b(january|...|december)\b\<close>, the second alternative of the date pattern of
  the score; \<open>re.search\<close> of \<open>A|B\<close> succeeds when that of \<open>A\<close> or of \<open>B\<close> does.\<close>

definition month_word_rx :: "rx list" where
  "month_word_rx = [Bnd, Lit month_names, Bnd]"

definition initial_analysis :: quality_analysis where
  "initial_analysis = \<lparr>length_appropriate = False, contains_keywords = False, not_generic = False,
                       has_specifics = False, not_error = True\<rparr>"

definition keyword_overlap :: "str \<Rightarrow> str \<Rightarrow> nat \<times> nat" where
  "keyword_overlap answer_lower question_lower =
     (let qw = remdups (re_findall word_rx question_lower);
          aw = re_findall word_rx answer_lower
      in (length (filter (\<lambda>w. w \<in> set aw) qw), length qw))"

definition has_specific_details :: "str \<Rightarrow> bool" where
  "has_specific_details answer \<longleftrightarrow>
     (let al = py_lower answer
      in re_search numeric_date_rx al \<or> re_search month_word_rx al
         \<or> re_search number_rx answer \<or> re_search person_rx answer)"

definition calculate_response_quality :: "str \<Rightarrow> str \<Rightarrow> rat \<times> quality_analysis" where
  "calculate_response_quality answer question =
     (let al = py_lower answer; ql = py_lower question
      in if contains_any error_indicators al then (0, initial_analysis\<lparr>not_error := False\<rparr>)
         else
           (let len_ok = (50 \<le> py_len answer \<and> py_len answer \<le> 2000);
                (overlap, n) = keyword_overlap al ql;
                kw_ok = (3 * n \<le> 10 * overlap);
                spec_ok = has_specific_details answer;
                gen_ok = (\<not> contains_any generic_phrases al);
                score = 1/2 + (if len_ok then 1/10 else 0) + (if kw_ok then 2/10 else 0)
                        + (if spec_ok then 2/10 else 0) + (if gen_ok then 1/10 else 0)
            in (min score 1, \<lparr>length_appropriate = len_ok, contains_keywords = kw_ok,
                              not_generic = gen_ok, has_specifics = spec_ok, not_error = True\<rparr>)))"

text \<open>The substitutions of \<open>extract_query_pattern\<close>, in the order of the source.\<close>

definition numeric_date_word_rx :: "rx list" where
  "numeric_date_word_rx = Bnd # numeric_date_rx @ [Bnd]"

text \<open>\<open>\b(january|...|december)\s+\d{1,2}\b\<close>\<close>

definition month_day_rx :: "rx list" where
  "month_day_rx = [Bnd, Lit month_names, Rep is_space 1 None, Rep is_digit 1 (Some 2), Bnd]"

definition extract_query_pattern :: "str \<Rightarrow> str" where
  "extract_query_pattern question =
     (let p0 = py_lower question;
          p1 = re_sub person_rx ''[PERSON]'' p0;
          p2 = re_sub numeric_date_word_rx ''[DATE]'' p1;
          p3 = re_sub month_day_rx ''[DATE]'' p2
      in re_sub number_rx ''[NUMBER]'' p3)"

section \<open>Properties\<close>

lemmas pattern_eval = regex_eval char_of_def bit_0 py_lower_def lower_char_def extract_query_pattern_def
  numeric_date_word_rx_def month_day_rx_def

lemmas quality_eval = pattern_eval calculate_response_quality_def keyword_overlap_def
  has_specific_details_def month_word_rx_def initial_analysis_def error_indicators_def
  generic_phrases_def contains_any_def py_len_def is_cont_byte_def

lemma quality_error:
  "contains_any error_indicators (py_lower an) \<Longrightarrow>
     calculate_response_quality an qn = (0, initial_analysis\<lparr>not_error := False\<rparr>)"
  by (simp add: calculate_response_quality_def)

lemma quality_no_error:
  "\<not> contains_any error_indicators (py_lower an) \<Longrightarrow>
     1/2 \<le> fst (calculate_response_quality an qn) \<and> fst (calculate_response_quality an qn) \<le> 1"
  by (simp add: calculate_response_quality_def Let_def case_prod_beta)

lemma person_rx_never_matches:
  assumes "\<forall>c \<in> set s. \<not> is_upper_ascii c"
  shows "re_sub person_rx t s = s"
proof -
  have split: "person_rx = [Bnd, Lit honorifics, Rep (\<lambda>d. d = CHR ''.'') 0 (Some 1), Rep is_space 1 None]
      @ (Rep is_upper_ascii 1 (Some 1) # [Rep is_lower_ascii 1 None, Bnd])"
    by (simp add: person_rx_def)
  have "rmatch person_rx p u = None" if "s = w @ u" for p u w
    unfolding split
    by (rule rmatch_append_None, rule rmatch_Rep_None) (use assms that in auto)
  then show ?thesis
    unfolding re_sub_def by (rule re_sub_from_no_match)
qed

text \<open>The spec's full-marks boundary: an answer with no error phrase, of 50 to 2000 characters, sharing at least 30% of the question's distinct words, with a date, number or honorific name, and no hedging phrase scores exactly 1 (0.5+0.1+0.2+0.2+0.1, capped).\<close>

theorem quality_full_marks:
  assumes "\<not> contains_any error_indicators (py_lower an)"
    and "50 \<le> py_len an" and "py_len an \<le> 2000"
    and "3 * snd (keyword_overlap (py_lower an) (py_lower qn)) \<le> 10 * fst (keyword_overlap (py_lower an) (py_lower qn))"
    and "has_specific_details an"
    and "\<not> contains_any generic_phrases (py_lower an)"
  shows "fst (calculate_response_quality an qn) = 1"
  using assms by (simp add: calculate_response_quality_def Let_def case_prod_beta)

theorem quality_full_marks_witness:
  "fst (calculate_response_quality
     ''The field trip is on 11/14/2025. Please bring a packed lunch and a water bottle.''
     ''When is the field trip?'') = 1
   \<and> 50 \<le> py_len ''The field trip is on 11/14/2025. Please bring a packed lunch and a water bottle.''"
proof -
  let ?a = "''The field trip is on 11/14/2025. Please bring a packed lunch and a water bottle.''"
  let ?q = "''When is the field trip?''"
  have h1: "\<not> contains_any error_indicators (py_lower ?a)"
    by (simp add: quality_eval)
  have h2: "50 \<le> py_len ?a" and h3: "py_len ?a \<le> 2000"
    by (simp_all add: quality_eval)
  have h4: "3 * snd (keyword_overlap (py_lower ?a) (py_lower ?q)) \<le> 10 * fst (keyword_overlap (py_lower ?a) (py_lower ?q))"
    by (simp add: quality_eval)
  have h5: "has_specific_details ?a"
    by (simp add: quality_eval)
  have h6: "\<not> contains_any generic_phrases (py_lower ?a)"
    by (simp add: quality_eval)
  show ?thesis
    using quality_full_marks [OF h1 h2 h3 h4 h5 h6] h2 by simp
qed

text \<open>The spec's short-circuit: an answer containing "could not find" scores exactly 0, whatever else it contains, and is marked as an error.\<close>

theorem could_not_find_scores_zero:
  assumes "contains ''could not find'' (py_lower an)"
  shows "fst (calculate_response_quality an qn) = 0 \<and> \<not> not_error (snd (calculate_response_quality an qn))"
  using quality_error [OF contains_any_member [OF _ assms]] by (simp add: error_indicators_def)

theorem could_not_find_scores_zero_witness:
  "contains ''could not find'' (py_lower ''Sorry, I could not find the field trip date (11/14/2025).'')
   \<and> fst (calculate_response_quality ''Sorry, I could not find the field trip date (11/14/2025).''
          ''When is the field trip?'') = 0"
proof -
  have c: "contains ''could not find'' (py_lower ''Sorry, I could not find the field trip date (11/14/2025).'')"
    by (simp add: pattern_eval)
  show ?thesis
    using c could_not_find_scores_zero [OF c, of "''When is the field trip?''"] by simp
qed

text \<open>C28. Every score lies in [0, 1], and it is below 0.5 exactly when the answer contains one of the error phrases: every other answer starts from 0.5 and only gains.\<close>

theorem quality_score_range:
  "0 \<le> fst (calculate_response_quality an qn) \<and> fst (calculate_response_quality an qn) \<le> 1
   \<and> (fst (calculate_response_quality an qn) < 1/2 \<longleftrightarrow> contains_any error_indicators (py_lower an))"
  using quality_error [of an qn] quality_no_error [of an qn]
  by (cases "contains_any error_indicators (py_lower an)") auto

text \<open>C31. Names are never abstracted: the [PERSON] substitution runs on the lowercased question, where [A-Z] cannot match, so no pattern ever contains the placeholder.\<close>

theorem pattern_never_abstracts_names:
  "\<not> contains ''[PERSON]'' (extract_query_pattern q)"
proof -
  have p0: "re_sub_from person_rx ''[PERSON]'' None (py_lower q) = py_lower q"
    using person_rx_never_matches [of "py_lower q" "''[PERSON]''"] py_lower_no_upper
    unfolding re_sub_def by blast
  let ?p2 = "re_sub_from numeric_date_word_rx ''[DATE]'' None (py_lower q)"
  let ?p3 = "re_sub_from month_day_rx ''[DATE]'' None ?p2"
  have "set ?p2 \<subseteq> set (py_lower q) \<union> set ''[DATE]''"
    and "set ?p3 \<subseteq> set ?p2 \<union> set ''[DATE]''"
    and "set (re_sub_from number_rx ''[NUMBER]'' None ?p3) \<subseteq> set ?p3 \<union> set ''[NUMBER]''"
    by (rule set_re_sub_from)+
  then have "set (extract_query_pattern q) \<subseteq> set (py_lower q) \<union> set ''[DATE]'' \<union> set ''[NUMBER]''"
    unfolding extract_query_pattern_def Let_def re_sub_def p0 by blast
  moreover have "CHR ''P'' \<notin> set (py_lower q)"
    using py_lower_no_upper by (fastforce simp: is_upper_ascii_def)
  moreover have "CHR ''P'' \<notin> set ''[DATE]''" and "CHR ''P'' \<notin> set ''[NUMBER]''"
    by simp_all
  ultimately have np: "CHR ''P'' \<notin> set (extract_query_pattern q)"
    by blast
  show ?thesis
  proof
    assume "contains ''[PERSON]'' (extract_query_pattern q)"
    then have "set ''[PERSON]'' \<subseteq> set (extract_query_pattern q)"
      by (rule contains_set)
    with np show False
      by simp
  qed
qed

text \<open>Example. The error phrase "error" is matched as a substring: a correct answer that says "No errors in the schedule" scores 0.\<close>

theorem error_substring_zeroes_answer:
  "fst (calculate_response_quality ''No errors in the schedule: the field trip is on 11/14/2025.''
          ''When is the field trip?'') = 0"
proof -
  have "contains_any error_indicators (py_lower ''No errors in the schedule: the field trip is on 11/14/2025.'')"
    by (simp add: quality_eval)
  then show ?thesis by (simp add: quality_error)
qed

text \<open>Example. Dates and numbers are abstracted in the pattern and names are kept: the same question about two teachers gives two patterns.\<close>

theorem extract_query_pattern_example:
  "extract_query_pattern ''When does Mr. Smith meet on 11/14/2025 or November 14 in room 12?'' =
     ''when does mr. smith meet on [DATE] or [DATE] in room [NUMBER]?''
   \<and> extract_query_pattern ''When does Mr. Jones meet on 11/14/2025 or November 14 in room 12?'' \<noteq>
     extract_query_pattern ''When does Mr. Smith meet on 11/14/2025 or November 14 in room 12?''"
  by (simp add: pattern_eval)

end
