(* ===== verification/Learning.thy ===== *)
theory Learning
  imports Quality Calendar
begin

text \<open>
  The learning engine of \<^verbatim>\<open>src/app/rag_improvement.py\<close>: the metrics file
  \<^verbatim>\<open>data/.rag_metrics.json\<close>, the learning file \<^verbatim>\<open>data/.rag_learning.json\<close> and the
  feedback file \<^verbatim>\<open>data/.rag_feedback.json\<close> as records, and \<open>track_query\<close>,
  \<open>auto_optimize\<close>, \<open>get_optimized_prompt_base\<close> and \<open>record_feedback\<close> as functions
  from the three files to the three files. \<open>datetime.now()\<close> is the parameter \<open>now\<close>
  (read once per call). Python's truth tests on the optional score are written out:
  \<open>quality_score or 0.5\<close> is \<open>score_or_half\<close>, and \<open>quality_score and quality_score < t\<close>
  treats the score \<open>0.0\<close> as false. JSON keys are strings; a category is stored under
  its name. The unused keys \<open>improvement_suggestions\<close> and \<open>prompt_variations\<close> are
  left out, and an optimization note is its kind and figures, without its message.
\<close>

datatype category = Date_time | Policy | Person | Location | General

primrec category_name :: "category \<Rightarrow> str" where
  "category_name Date_time = ''date_time''"
| "category_name Policy = ''policy''"
| "category_name Person = ''person''"
| "category_name Location = ''location''"
| "category_name General = ''general''"

record conf_entry =
  ce_time :: datetime
  ce_score :: rat
  ce_question :: str
  ce_analysis :: "quality_analysis option"

record trend_entry =
  tr_date :: str
  tr_total :: nat
  tr_successful :: nat
  tr_avg_quality :: rat

record metrics =
  total_queries :: nat
  successful_queries :: nat
  failed_queries :: nat
  query_types :: "(str, nat) fmap"
  common_questions :: "(str, nat) fmap"
  response_times :: "rat list"
  accuracy_trends :: "trend_entry list"
  confidence_scores :: "conf_entry list"

record pattern_stats =
  ps_count :: nat
  ps_success_count :: nat
  ps_avg_quality :: rat
  ps_avg_response_time :: rat
  ps_examples :: "str list"

record failure =
  f_time :: datetime
  f_question :: str
  f_answer :: str
  f_pattern :: str
  f_category :: category
  f_quality :: "rat option"

record success_entry =
  s_time :: datetime
  s_question :: str
  s_answer_preview :: str
  s_quality :: rat

datatype optimization = Pattern_failure str nat | Quality_degradation rat | Performance rat

record learning =
  query_patterns :: "(str, pattern_stats) fmap"
  successful_prompts :: "(str, success_entry list) fmap"
  failed_patterns :: "failure list"
  optimizations :: "optimization list"
  last_optimization :: "datetime option"

record feedback =
  fb_time :: datetime
  fb_question :: str
  fb_answer :: str
  fb_helpful :: bool
  fb_comment :: "str option"

text \<open>The three files of the engine.\<close>

record learn_store =
  metrics_file :: "metrics stored"
  learning_file :: "learning stored"
  feedback_file :: "feedback list stored"

section \<open>Loading and saving\<close>

definition empty_metrics :: metrics where
  "empty_metrics = \<lparr>total_queries = 0, successful_queries = 0, failed_queries = 0,
     query_types = fmempty, common_questions = fmempty, response_times = [],
     accuracy_trends = [], confidence_scores = []\<rparr>"

definition empty_learning :: learning where
  "empty_learning = \<lparr>query_patterns = fmempty, successful_prompts = fmempty,
     failed_patterns = [], optimizations = [], last_optimization = None\<rparr>"

definition load_metrics :: "learn_store \<Rightarrow> metrics" where
  "load_metrics st = load_stored empty_metrics (metrics_file st)"

definition load_learning_data :: "learn_store \<Rightarrow> learning" where
  "load_learning_data st = load_stored empty_learning (learning_file st)"

definition save_metrics :: "metrics \<Rightarrow> learn_store \<Rightarrow> learn_store" where
  "save_metrics m st = st\<lparr>metrics_file := Stored m\<rparr>"

definition save_learning_data :: "learning \<Rightarrow> learn_store \<Rightarrow> learn_store" where
  "save_learning_data l st = st\<lparr>learning_file := Stored l\<rparr>"

section \<open>Steps of \<open>track_query\<close>\<close>

text \<open>\<open>quality_score or 0.5\<close>, and the guards \<open>quality_score and quality_score < t\<close>,
  \<open>quality_score and quality_score > t\<close>.\<close>

definition score_or_half :: "rat option \<Rightarrow> rat" where
  "score_or_half q = (case q of None \<Rightarrow> 1/2 | Some s \<Rightarrow> if s = 0 then 1/2 else s)"

definition score_below :: "rat option \<Rightarrow> rat \<Rightarrow> bool" where
  "score_below q t = (case q of None \<Rightarrow> False | Some s \<Rightarrow> s \<noteq> 0 \<and> s < t)"

definition score_above :: "rat option \<Rightarrow> rat \<Rightarrow> bool" where
  "score_above q t = (case q of None \<Rightarrow> False | Some s \<Rightarrow> s \<noteq> 0 \<and> t < s)"

text \<open>\<open>d[k] = d.get(k, 0) + 1\<close>\<close>

definition bump :: "('k, nat) fmap \<Rightarrow> 'k \<Rightarrow> ('k, nat) fmap" where
  "bump d k = fmupd k ((case fmlookup d k of None \<Rightarrow> 0 | Some n \<Rightarrow> n) + 1) d"

text \<open>The incremental mean \<open>(avg * (n - 1) + x) / n\<close>.\<close>

definition running_avg :: "rat \<Rightarrow> nat \<Rightarrow> rat \<Rightarrow> rat" where
  "running_avg avg n x = (avg * of_nat (n - 1) + x) / of_nat n"

definition count_query :: "bool \<Rightarrow> metrics \<Rightarrow> metrics" where
  "count_query success m =
     (if success then m\<lparr>total_queries := total_queries m + 1,
                       successful_queries := successful_queries m + 1\<rparr>
      else m\<lparr>total_queries := total_queries m + 1, failed_queries := failed_queries m + 1\<rparr>)"

text \<open>The score used by the rest of \<open>track_query\<close> and the confidence log: the
  computed score when none is given and \<open>auto_score\<close> holds (the log is then cut to its
  last 100 entries), the given score otherwise (appended without a cut).\<close>

definition record_score ::
  "datetime \<Rightarrow> str \<Rightarrow> str \<Rightarrow> rat option \<Rightarrow> bool \<Rightarrow> metrics \<Rightarrow> rat option \<times> metrics" where
  "record_score now question answer qs auto_score m =
     (case qs of
        None \<Rightarrow>
          if auto_score then
            (let (s, a) = calculate_response_quality answer question;
                 e = \<lparr>ce_time = now, ce_score = s, ce_question = py_take 100 question,
                      ce_analysis = Some a\<rparr>
             in (Some s, m\<lparr>confidence_scores := keep_last 100 (confidence_scores m @ [e])\<rparr>))
          else (None, m)
      | Some s \<Rightarrow>
          (Some s, m\<lparr>confidence_scores := confidence_scores m @
                      [\<lparr>ce_time = now, ce_score = s, ce_question = py_take 100 question,
                        ce_analysis = None\<rparr>]\<rparr>))"

definition new_pattern_stats :: pattern_stats where
  "new_pattern_stats = \<lparr>ps_count = 0, ps_success_count = 0, ps_avg_quality = 0,
     ps_avg_response_time = 0, ps_examples = []\<rparr>"

definition update_pattern_stats ::
  "str \<Rightarrow> bool \<Rightarrow> rat option \<Rightarrow> rat \<Rightarrow> pattern_stats \<Rightarrow> pattern_stats" where
  "update_pattern_stats question success q rt d =
     (let n = ps_count d + 1
      in d\<lparr>ps_count := n,
           ps_success_count := (if success then ps_success_count d + 1 else ps_success_count d),
           ps_avg_quality := running_avg (ps_avg_quality d) n (score_or_half q),
           ps_avg_response_time := running_avg (ps_avg_response_time d) n rt,
           ps_examples :=
             (if length (ps_examples d) < 5 then ps_examples d @ [question]
              else if success \<and> score_above q (7/10) then drop 1 (ps_examples d) @ [question]
              else ps_examples d)\<rparr>)"

definition track_pattern ::
  "str \<Rightarrow> str \<Rightarrow> bool \<Rightarrow> rat option \<Rightarrow> rat \<Rightarrow> learning \<Rightarrow> learning" where
  "track_pattern pattern question success q rt l =
     (let d = (case fmlookup (query_patterns l) pattern of None \<Rightarrow> new_pattern_stats | Some d \<Rightarrow> d)
      in l\<lparr>query_patterns := fmupd pattern (update_pattern_stats question success q rt d)
                                 (query_patterns l)\<rparr>)"

definition date_time_words :: "str list" where
  "date_time_words = [''when'', ''date'', ''time'', ''schedule'', ''next'']"

definition person_words :: "str list" where
  "person_words = [''who'', ''teacher'', ''miss'', ''ms'', ''mr'', ''from'']"

text \<open>The categories of \<open>track_query\<close>, first match in order.\<close>

definition query_category :: "str \<Rightarrow> category" where
  "query_category question =
     (let ql = py_lower question
      in if contains_any date_time_words ql then Date_time
         else if contains_any [''what'', ''policy'', ''rule'', ''guideline'', ''can'', ''should''] ql
           then Policy
         else if contains_any person_words ql then Person
         else if contains_any [''where'', ''location'', ''place''] ql then Location
         else General)"

text \<open>Today's bucket of the accuracy trend: the first entry of that date, or a new
  entry at the end.\<close>

definition new_trend :: "str \<Rightarrow> trend_entry" where
  "new_trend d = \<lparr>tr_date = d, tr_total = 0, tr_successful = 0, tr_avg_quality = 0\<rparr>"

fun update_trend :: "str \<Rightarrow> (trend_entry \<Rightarrow> trend_entry) \<Rightarrow> trend_entry list \<Rightarrow> trend_entry list" where
  "update_trend d f [] = [f (new_trend d)]"
| "update_trend d f (e # es) = (if tr_date e = d then f e # es else e # update_trend d f es)"

definition count_trend :: "bool \<Rightarrow> rat option \<Rightarrow> trend_entry \<Rightarrow> trend_entry" where
  "count_trend success q e =
     (let n = tr_total e + 1
      in e\<lparr>tr_total := n,
           tr_successful := (if success then tr_successful e + 1 else tr_successful e),
           tr_avg_quality := running_avg (tr_avg_quality e) n (score_or_half q)\<rparr>)"

definition log_failure ::
  "datetime \<Rightarrow> str \<Rightarrow> str \<Rightarrow> str \<Rightarrow> category \<Rightarrow> bool \<Rightarrow> rat option \<Rightarrow> learning \<Rightarrow> learning" where
  "log_failure now question answer pattern cat success q l =
     (if \<not> success \<or> score_below q (1/2)
      then l\<lparr>failed_patterns := keep_last 50 (failed_patterns l @
              [\<lparr>f_time = now, f_question = question, f_answer = py_take 200 answer,
                f_pattern = pattern, f_category = cat, f_quality = q\<rparr>])\<rparr>
      else l)"

definition success_key :: "str \<Rightarrow> category \<Rightarrow> str" where
  "success_key pattern cat = pattern @ ''_'' @ category_name cat"

definition log_success ::
  "datetime \<Rightarrow> str \<Rightarrow> str \<Rightarrow> str \<Rightarrow> category \<Rightarrow> bool \<Rightarrow> rat option \<Rightarrow> learning \<Rightarrow> learning" where
  "log_success now question answer pattern cat success q l =
     (if success \<and> score_above q (8/10)
      then (let k = success_key pattern cat;
                old = (case fmlookup (successful_prompts l) k of None \<Rightarrow> [] | Some xs \<Rightarrow> xs);
                e = \<lparr>s_time = now, s_question = question, s_answer_preview = py_take 200 answer,
                     s_quality = the q\<rparr>
            in l\<lparr>successful_prompts := fmupd k (keep_last 10 (old @ [e])) (successful_prompts l)\<rparr>)
      else l)"

section \<open>Auto-optimization\<close>

definition mean :: "rat list \<Rightarrow> rat" where
  "mean xs = (if xs = [] then 0 else sum_list xs / of_nat (length xs))"

text \<open>Patterns with three or more of the last ten failures, in the order in which they
  first occur there (the iteration order of the \<open>defaultdict\<close>).\<close>

definition failure_opts :: "failure list \<Rightarrow> optimization list" where
  "failure_opts fs =
     (if fs = [] then []
      else (let recent = map f_pattern (keep_last 10 fs)
            in map (\<lambda>p. Pattern_failure p (count_list recent p))
                   (filter (\<lambda>p. 3 \<le> count_list recent p) (remdups recent))))"

definition quality_opts :: "conf_entry list \<Rightarrow> optimization list" where
  "quality_opts cs =
     (if cs = [] then []
      else (let a = mean (map ce_score (keep_last 20 cs))
            in if a < 6/10 then [Quality_degradation a] else []))"

definition time_opts :: "rat list \<Rightarrow> optimization list" where
  "time_opts ts =
     (if ts = [] then []
      else (let a = mean (keep_last 20 ts) in if 5 < a then [Performance a] else []))"

definition auto_optimize :: "datetime \<Rightarrow> learn_store \<Rightarrow> learn_store" where
  "auto_optimize now st =
     (let l = load_learning_data st; m = load_metrics st;
          opts = failure_opts (failed_patterns l) @ quality_opts (confidence_scores m)
                 @ time_opts (response_times m)
      in if opts = [] then st
         else save_learning_data
                (l\<lparr>optimizations := keep_last 20 (optimizations l @ opts),
                   last_optimization := Some now\<rparr>) st)"

section \<open>\<open>track_query\<close>\<close>

text \<open>The updates of \<open>track_query\<close> to the metrics: the score it goes on with, and
  the metrics.\<close>

definition track_metrics ::
  "datetime \<Rightarrow> str \<Rightarrow> str \<Rightarrow> rat \<Rightarrow> bool \<Rightarrow> rat option \<Rightarrow> bool \<Rightarrow> metrics \<Rightarrow> rat option \<times> metrics" where
  "track_metrics now question answer response_time success quality_score auto_score m =
     (let (q, m1) = record_score now question answer quality_score auto_score (count_query success m);
          cat = query_category question
      in (q, m1\<lparr>common_questions := bump (common_questions m1) (py_strip (py_lower question)),
                query_types := bump (query_types m1) (category_name cat),
                response_times := keep_last 100 (response_times m1 @ [response_time]),
                accuracy_trends :=
                  keep_last 30 (update_trend (fmt_date now) (count_trend success q)
                                  (accuracy_trends m1))\<rparr>))"

text \<open>The updates of \<open>track_query\<close> to the learning data, given the score.\<close>

definition track_learning ::
  "datetime \<Rightarrow> str \<Rightarrow> str \<Rightarrow> rat \<Rightarrow> bool \<Rightarrow> rat option \<Rightarrow> learning \<Rightarrow> learning" where
  "track_learning now question answer response_time success q l =
     (let pattern = extract_query_pattern question; cat = query_category question
      in log_success now question answer pattern cat success q
           (log_failure now question answer pattern cat success q
              (track_pattern pattern question success q response_time l)))"

definition track_query ::
  "datetime \<Rightarrow> str \<Rightarrow> str \<Rightarrow> rat \<Rightarrow> bool \<Rightarrow> rat option \<Rightarrow> bool \<Rightarrow> learn_store \<Rightarrow> learn_store" where
  "track_query now question answer response_time success quality_score auto_score st =
     (let (q, m) = track_metrics now question answer response_time success quality_score auto_score
                     (load_metrics st);
          l = track_learning now question answer response_time success q (load_learning_data st);
          st1 = save_learning_data l (save_metrics m st)
      in if total_queries m mod 10 = 0 then auto_optimize now st1 else st1)"

section \<open>The prompt fragment\<close>

definition prompt_category :: "str \<Rightarrow> category \<times> str" where
  "prompt_category question =
     (let ql = py_lower question
      in if contains_any date_time_words ql
           then (Date_time, ''Focus on extracting specific dates, times, and scheduling information. Be precise with dates and times.'')
         else if contains_any [''what'', ''policy'', ''rule'', ''guideline''] ql
           then (Policy, ''Focus on extracting complete policy information. Include all requirements, restrictions, and details. Do not just mention that policies exist - extract the actual policy content.'')
         else if contains_any person_words ql
           then (Person, ''Focus on identifying the person mentioned and extracting information FROM that person. Look for sender fields and email headers.'')
         else (General, ''Provide complete, specific information from the emails.''))"

definition exemplar_clause :: str where
  "exemplar_clause = '' Use the same detailed extraction approach that worked for similar questions.''"

definition failure_clause :: str where
  "failure_clause = '' IMPORTANT: Previous similar questions had low quality. Search more thoroughly and extract complete information.''"

definition get_optimized_prompt_base :: "learn_store \<Rightarrow> str \<Rightarrow> str" where
  "get_optimized_prompt_base st question =
     (let l = load_learning_data st; pattern = extract_query_pattern question;
          (cat, base) = prompt_category question
      in if success_key pattern cat |\<in>| fmdom (successful_prompts l) then base @ exemplar_clause
         else if list_ex (\<lambda>f. f_pattern f = pattern) (keep_last 20 (failed_patterns l))
           then base @ failure_clause
         else base)"

section \<open>User feedback\<close>

definition record_feedback ::
  "datetime \<Rightarrow> str \<Rightarrow> str \<Rightarrow> bool \<Rightarrow> str option \<Rightarrow> learn_store \<Rightarrow> learn_store" where
  "record_feedback now question answer helpful comment st =
     (let e = \<lparr>fb_time = now, fb_question = question, fb_answer = py_take 500 answer,
               fb_helpful = helpful, fb_comment = comment\<rparr>;
          fl = keep_last 100 (load_stored [] (feedback_file st) @ [e]);
          st1 = st\<lparr>feedback_file := Stored fl\<rparr>
      in track_query now question answer 0 helpful (Some (if helpful then 9/10 else 2/10)) False st1)"

section \<open>Driving the engine\<close>

text \<open>The score \<open>track_query\<close> goes on with; a sequence of tracked queries; the running
  totals behind the averages; the caps of the logs; two fixed stores used by the examples.\<close>

definition effective_score :: "str \<Rightarrow> str \<Rightarrow> rat option \<Rightarrow> bool \<Rightarrow> rat option" where
  "effective_score question answer qs auto_score =
     (case qs of None \<Rightarrow> if auto_score then Some (fst (calculate_response_quality answer question)) else None
      | Some s \<Rightarrow> Some s)"

record query_event =
  qe_time :: datetime
  qe_question :: str
  qe_answer :: str
  qe_rt :: rat
  qe_success :: bool
  qe_score :: "rat option"
  qe_auto :: bool

primrec track_queries :: "query_event list \<Rightarrow> learn_store \<Rightarrow> learn_store" where
  "track_queries [] st = st"
| "track_queries (e # es) st =
     track_queries es (track_query (qe_time e) (qe_question e) (qe_answer e) (qe_rt e) (qe_success e)
                         (qe_score e) (qe_auto e) st)"

definition pattern_of :: "learning \<Rightarrow> str \<Rightarrow> pattern_stats" where
  "pattern_of l p = (case fmlookup (query_patterns l) p of None \<Rightarrow> new_pattern_stats | Some d \<Rightarrow> d)"

definition qe_quality :: "query_event \<Rightarrow> rat" where
  "qe_quality e = score_or_half (effective_score (qe_question e) (qe_answer e) (qe_score e) (qe_auto e))"

definition quality_total :: "pattern_stats \<Rightarrow> rat" where
  "quality_total d = ps_avg_quality d * of_nat (ps_count d)"

definition time_total :: "pattern_stats \<Rightarrow> rat" where
  "time_total d = ps_avg_response_time d * of_nat (ps_count d)"

definition metrics_caps :: "metrics \<Rightarrow> bool" where
  "metrics_caps m \<longleftrightarrow> length (response_times m) \<le> 100 \<and> length (accuracy_trends m) \<le> 30"

definition learning_caps :: "learning \<Rightarrow> bool" where
  "learning_caps l \<longleftrightarrow> length (failed_patterns l) \<le> 50 \<and> length (optimizations l) \<le> 20
     \<and> fmpred (\<lambda>_ xs. length xs \<le> 10) (successful_prompts l)
     \<and> fmpred (\<lambda>_ d. length (ps_examples d) \<le> 5) (query_patterns l)"

definition learn_caps :: "learn_store \<Rightarrow> bool" where
  "learn_caps st \<longleftrightarrow> metrics_caps (load_metrics st) \<and> learning_caps (load_learning_data st)
     \<and> length (load_stored [] (feedback_file st)) \<le> 100"

definition t0 :: datetime where "t0 = mk_dt 2025 11 3 9 0 0"

definition st0 :: learn_store where "st0 = \<lparr>metrics_file = Absent, learning_file = Absent, feedback_file = Absent\<rparr>"

definition old_failure :: "datetime \<Rightarrow> failure" where
  "old_failure t = \<lparr>f_time = t, f_question = ''When is the field trip?'', f_answer = ''I could not find it.'',
     f_pattern = ''when is the field trip?'', f_category = Date_time, f_quality = Some 0\<rparr>"

definition st9 :: "datetime \<Rightarrow> learn_store" where
  "st9 t = \<lparr>metrics_file = Stored (empty_metrics\<lparr>total_queries := 9\<rparr>),
            learning_file = Stored (empty_learning\<lparr>failed_patterns := replicate 3 (old_failure t)\<rparr>),
            feedback_file = Absent\<rparr>"

section \<open>Properties\<close>

lemma load_save_learn [simp]:
  "load_learning_data (save_learning_data l st) = l"
  "load_learning_data (save_metrics m st) = load_learning_data st"
  "load_metrics (save_metrics m st) = m"
  "load_metrics (save_learning_data l st) = load_metrics st"
  "feedback_file (save_learning_data l st) = feedback_file st"
  "feedback_file (save_metrics m st) = feedback_file st"
  by (simp_all add: load_learning_data_def save_learning_data_def load_metrics_def save_metrics_def)

lemma total_track_metrics [simp]:
  "total_queries (snd (track_metrics now qn an rt sc qs au m)) = Suc (total_queries m)"
  by (simp add: track_metrics_def record_score_def count_query_def Let_def case_prod_beta
      split: option.splits)

lemma fst_record_score: "fst (record_score now qn an qs au m) = effective_score qn an qs au"
  by (auto simp: record_score_def effective_score_def split: option.splits prod.splits)

lemma fst_track_metrics [simp]: "fst (track_metrics now qn an rt sc qs au m) = effective_score qn an qs au"
  using fst_record_score [of now qn an qs au "count_query sc m"]
  by (simp add: track_metrics_def Let_def case_prod_beta)

lemma auto_optimize_files [simp]:
  "metrics_file (auto_optimize now st) = metrics_file st"
  "feedback_file (auto_optimize now st) = feedback_file st"
  by (simp_all add: auto_optimize_def Let_def save_learning_data_def)

lemma auto_optimize_keeps_logs [simp]:
  "query_patterns (load_learning_data (auto_optimize now st)) = query_patterns (load_learning_data st)"
  "failed_patterns (load_learning_data (auto_optimize now st)) = failed_patterns (load_learning_data st)"
  "successful_prompts (load_learning_data (auto_optimize now st)) = successful_prompts (load_learning_data st)"
  by (simp_all add: auto_optimize_def Let_def)

lemma load_metrics_auto_optimize [simp]: "load_metrics (auto_optimize now st) = load_metrics st"
  by (simp add: load_metrics_def)

lemma load_metrics_track_query [simp]:
  "load_metrics (track_query now qn an rt sc qs au st) = snd (track_metrics now qn an rt sc qs au (load_metrics st))"
  by (simp add: track_query_def Let_def case_prod_beta)

lemma track_query_logs [simp]:
  "query_patterns (load_learning_data (track_query now qn an rt sc qs au st)) =
     query_patterns (track_learning now qn an rt sc (effective_score qn an qs au) (load_learning_data st))"
  "failed_patterns (load_learning_data (track_query now qn an rt sc qs au st)) =
     failed_patterns (track_learning now qn an rt sc (effective_score qn an qs au) (load_learning_data st))"
  "successful_prompts (load_learning_data (track_query now qn an rt sc qs au st)) =
     successful_prompts (track_learning now qn an rt sc (effective_score qn an qs au) (load_learning_data st))"
  using fst_track_metrics [of now qn an rt sc qs au "load_metrics st"]
  by (simp_all add: track_query_def Let_def case_prod_beta)

lemma track_learning_patterns:
  "query_patterns (track_learning now qn an rt sc q l) =
     fmupd (extract_query_pattern qn)
       (update_pattern_stats qn sc q rt
          (case fmlookup (query_patterns l) (extract_query_pattern qn) of None \<Rightarrow> new_pattern_stats | Some d \<Rightarrow> d))
       (query_patterns l)"
  by (simp add: track_learning_def Let_def log_success_def log_failure_def track_pattern_def)

lemma track_learning_failures:
  "failed_patterns (track_learning now qn an rt sc q l) =
     (if \<not> sc \<or> score_below q (1/2)
      then keep_last 50 (failed_patterns l @
              [\<lparr>f_time = now, f_question = qn, f_answer = py_take 200 an,
                f_pattern = extract_query_pattern qn, f_category = query_category qn, f_quality = q\<rparr>])
      else failed_patterns l)"
  by (simp add: track_learning_def Let_def log_success_def log_failure_def track_pattern_def)

lemma st0_load: "load_learning_data st0 = empty_learning" "load_metrics st0 = empty_metrics"
  "feedback_file st0 = Absent"
  by (simp_all add: st0_def load_learning_data_def load_metrics_def)

lemma pat: "extract_query_pattern ''when is the field trip?'' = ''when is the field trip?''"
  by (simp add: pattern_eval)

lemma pattern_of_track_query:
  "pattern_of (load_learning_data (track_query now qn an rt sc qs au st)) p =
     (if extract_query_pattern qn = p
      then update_pattern_stats qn sc (effective_score qn an qs au) rt (pattern_of (load_learning_data st) p)
      else pattern_of (load_learning_data st) p)"
  by (simp add: pattern_of_def track_learning_patterns)

lemma update_pattern_stats_totals [simp]:
  "ps_count (update_pattern_stats qn sc q rt d) = Suc (ps_count d)"
  "ps_success_count (update_pattern_stats qn sc q rt d) = ps_success_count d + (if sc then 1 else 0)"
  "quality_total (update_pattern_stats qn sc q rt d) = quality_total d + score_or_half q"
  "time_total (update_pattern_stats qn sc q rt d) = time_total d + rt"
  by (simp_all add: update_pattern_stats_def Let_def running_avg_def quality_total_def time_total_def
      del: of_nat_Suc)

lemma track_queries_pattern_totals:
  assumes "\<forall>e \<in> set es. extract_query_pattern (qe_question e) = p"
  shows "ps_count (pattern_of (load_learning_data (track_queries es st)) p) =
           ps_count (pattern_of (load_learning_data st) p) + length es
       \<and> ps_success_count (pattern_of (load_learning_data (track_queries es st)) p) =
           ps_success_count (pattern_of (load_learning_data st) p) + length (filter qe_success es)
       \<and> quality_total (pattern_of (load_learning_data (track_queries es st)) p) =
           quality_total (pattern_of (load_learning_data st) p) + sum_list (map qe_quality es)
       \<and> time_total (pattern_of (load_learning_data (track_queries es st)) p) =
           time_total (pattern_of (load_learning_data st) p) + sum_list (map qe_rt es)"
  using assms
  by (induction es arbitrary: st) (simp_all add: pattern_of_track_query qe_quality_def)

lemma confidence_scores_track_metrics:
  "confidence_scores (snd (track_metrics now qn an rt sc qs au m)) =
     (case qs of
        None \<Rightarrow> if au then keep_last 100 (confidence_scores m @
                    [\<lparr>ce_time = now, ce_score = fst (calculate_response_quality an qn),
                      ce_question = py_take 100 qn, ce_analysis = Some (snd (calculate_response_quality an qn))\<rparr>])
               else confidence_scores m
      | Some s \<Rightarrow> confidence_scores m @
          [\<lparr>ce_time = now, ce_score = s, ce_question = py_take 100 qn, ce_analysis = None\<rparr>])"
  by (simp add: track_metrics_def record_score_def count_query_def Let_def case_prod_beta
      split: option.splits)

lemma metrics_caps_track_metrics: "metrics_caps (snd (track_metrics now qn an rt sc qs au m))"
  by (simp add: metrics_caps_def track_metrics_def Let_def case_prod_beta)

lemma examples_cap: "length (ps_examples d) \<le> 5 \<Longrightarrow> length (ps_examples (update_pattern_stats qn sc q rt d)) \<le> 5"
  by (simp add: update_pattern_stats_def Let_def)

lemma learning_caps_track_learning:
  "learning_caps l \<Longrightarrow> learning_caps (track_learning now qn an rt sc q l)"
  unfolding learning_caps_def track_learning_def Let_def log_success_def log_failure_def track_pattern_def
  by (auto intro!: examples_cap simp: new_pattern_stats_def split: option.splits)

lemma learning_caps_auto_optimize:
  "learning_caps (load_learning_data st) \<Longrightarrow> learning_caps (load_learning_data (auto_optimize now st))"
  by (simp add: auto_optimize_def Let_def learning_caps_def)

lemma learn_caps_track_query:
  "learn_caps st \<Longrightarrow> learn_caps (track_query now qn an rt sc qs au st)"
  unfolding learn_caps_def track_query_def Let_def case_prod_beta
  by (auto simp: metrics_caps_track_metrics learning_caps_track_learning learning_caps_auto_optimize)

lemma track_learning_keeps_optimizations [simp]:
  "optimizations (track_learning now qn an rt sc q l) = optimizations l"
  "last_optimization (track_learning now qn an rt sc q l) = last_optimization l"
  by (simp_all add: track_learning_def Let_def log_success_def log_failure_def track_pattern_def)

lemma length_failure_opts: "length (failure_opts fs) \<le> 10"
proof -
  have "length (failure_opts fs) \<le> length (remdups (map f_pattern (keep_last 10 fs)))"
    by (simp add: failure_opts_def Let_def)
  also have "\<dots> \<le> length (keep_last 10 fs)"
    using length_remdups_leq [of "map f_pattern (keep_last 10 fs)"] by simp
  finally show ?thesis by simp
qed

lemma failure_opts_flags:
  "3 \<le> count_list (map f_pattern (keep_last 10 fs)) p \<Longrightarrow>
     Pattern_failure p (count_list (map f_pattern (keep_last 10 fs)) p) \<in> set (failure_opts fs)"
proof -
  assume c: "3 \<le> count_list (map f_pattern (keep_last 10 fs)) p"
  then have p: "p \<in> set (map f_pattern (keep_last 10 fs))"
    using count_list_0_iff [of "map f_pattern (keep_last 10 fs)" p] by auto
  then have "fs \<noteq> []"
    by (auto simp: keep_last_def)
  with p c show ?thesis
    by (auto simp: failure_opts_def Let_def)
qed

lemma auto_optimize_flags:
  assumes "3 \<le> count_list (map f_pattern (keep_last 10 (failed_patterns (load_learning_data st)))) p"
  shows "Pattern_failure p (count_list (map f_pattern (keep_last 10 (failed_patterns (load_learning_data st)))) p)
           \<in> set (optimizations (load_learning_data (auto_optimize now st)))"
proof -
  let ?fs = "failed_patterns (load_learning_data st)"
  let ?opts = "failure_opts ?fs @ quality_opts (confidence_scores (load_metrics st)) @ time_opts (response_times (load_metrics st))"
  have mem: "Pattern_failure p (count_list (map f_pattern (keep_last 10 ?fs)) p) \<in> set ?opts"
    using failure_opts_flags [OF assms] by simp
  have "length (quality_opts (confidence_scores (load_metrics st))) \<le> 1"
    and "length (time_opts (response_times (load_metrics st))) \<le> 1"
    by (simp_all add: quality_opts_def time_opts_def Let_def)
  then have "length ?opts \<le> 20"
    using length_failure_opts [of ?fs] by simp
  then have "set ?opts \<subseteq> set (keep_last 20 (optimizations (load_learning_data st) @ ?opts))"
    by (rule keep_last_keeps_new)
  with mem show ?thesis
    by (auto simp: auto_optimize_def Let_def)
qed

lemma track_query_tenth:
  "total_queries (snd (track_metrics now qn an rt sc qs au (load_metrics st))) mod 10 = 0 \<Longrightarrow>
   track_query now qn an rt sc qs au st =
     auto_optimize now (save_learning_data (track_learning now qn an rt sc (effective_score qn an qs au)
       (load_learning_data st)) (save_metrics (snd (track_metrics now qn an rt sc qs au (load_metrics st))) st))"
  by (simp add: track_query_def Let_def case_prod_beta)

lemma track_learning_successes:
  "successful_prompts (track_learning now qn an rt sc q l) =
     (if sc \<and> score_above q (8/10)
      then (let k = success_key (extract_query_pattern qn) (query_category qn)
            in fmupd k (keep_last 10 ((case fmlookup (successful_prompts l) k of None \<Rightarrow> [] | Some xs \<Rightarrow> xs) @
                 [\<lparr>s_time = now, s_question = qn, s_answer_preview = py_take 200 an, s_quality = the q\<rparr>]))
                 (successful_prompts l))
      else successful_prompts l)"
  by (simp add: track_learning_def Let_def log_success_def log_failure_def track_pattern_def)

lemma prompt_base_eq:
  "get_optimized_prompt_base st qn =
     (if success_key (extract_query_pattern qn) (fst (prompt_category qn)) |\<in>| fmdom (successful_prompts (load_learning_data st))
      then snd (prompt_category qn) @ exemplar_clause
      else if list_ex (\<lambda>f. f_pattern f = extract_query_pattern qn) (keep_last 20 (failed_patterns (load_learning_data st)))
        then snd (prompt_category qn) @ failure_clause
      else snd (prompt_category qn))"
  by (simp add: get_optimized_prompt_base_def Let_def case_prod_beta)

lemmas category_eval = pattern_eval query_category_def prompt_category_def contains_any_def
  date_time_words_def person_words_def

text \<open>C27. The spec's learning aggregation: after a sequence of tracked queries of one new pattern, its count is their number and its average quality and latency are exactly the means of their scores (Python's "score or 0.5") and latencies; on the spec's scores 0.4, 0.6, 1.0 the average is 2/3.\<close>

theorem pattern_average_is_mean:
  assumes "\<forall>e \<in> set es. extract_query_pattern (qe_question e) = p"
    and "fmlookup (query_patterns (load_learning_data st)) p = None"
  shows "let d = pattern_of (load_learning_data (track_queries es st)) p
         in ps_count d = length es \<and> ps_success_count d = length (filter qe_success es)
          \<and> ps_avg_quality d = mean (map qe_quality es) \<and> ps_avg_response_time d = mean (map qe_rt es)"
proof -
  have d0: "pattern_of (load_learning_data st) p = new_pattern_stats"
    using assms(2) by (simp add: pattern_of_def)
  have zero: "quality_total new_pattern_stats = 0" "time_total new_pattern_stats = 0"
    by (simp_all add: quality_total_def time_total_def new_pattern_stats_def)
  show ?thesis
    using track_queries_pattern_totals [OF assms(1), of st]
    unfolding d0 zero Let_def
    by (cases "es = []")
       (auto simp: d0 new_pattern_stats_def mean_def quality_total_def time_total_def eq_divide_eq)
qed

theorem pattern_average_is_mean_witness:
  "let es = [\<lparr>qe_time = t0, qe_question = ''when is the field trip?'', qe_answer = ''a1'', qe_rt = 0,
              qe_success = False, qe_score = Some (2/5), qe_auto = False\<rparr>,
             \<lparr>qe_time = t0, qe_question = ''when is the field trip?'', qe_answer = ''a2'', qe_rt = 0,
              qe_success = True, qe_score = Some (3/5), qe_auto = False\<rparr>,
             \<lparr>qe_time = t0, qe_question = ''when is the field trip?'', qe_answer = ''a3'', qe_rt = 0,
              qe_success = True, qe_score = Some 1, qe_auto = False\<rparr>]
   in ps_avg_quality (pattern_of (load_learning_data (track_queries es st0)) ''when is the field trip?'') = 2/3
    \<and> ps_count (pattern_of (load_learning_data (track_queries es st0)) ''when is the field trip?'') = 3"
proof -
  let ?es = "[\<lparr>qe_time = t0, qe_question = ''when is the field trip?'', qe_answer = ''a1'', qe_rt = 0,
              qe_success = False, qe_score = Some (2/5), qe_auto = False\<rparr>,
             \<lparr>qe_time = t0, qe_question = ''when is the field trip?'', qe_answer = ''a2'', qe_rt = 0,
              qe_success = True, qe_score = Some (3/5), qe_auto = False\<rparr>,
             \<lparr>qe_time = t0, qe_question = ''when is the field trip?'', qe_answer = ''a3'', qe_rt = 0,
              qe_success = True, qe_score = Some 1, qe_auto = False\<rparr>]"
  have h1: "\<forall>e \<in> set ?es. extract_query_pattern (qe_question e) = ''when is the field trip?''"
    by (simp add: pat)
  have h2: "fmlookup (query_patterns (load_learning_data st0)) ''when is the field trip?'' = None"
    by (simp add: st0_load empty_learning_def)
  show ?thesis
    using pattern_average_is_mean [OF h1 h2]
    by (simp add: Let_def mean_def qe_quality_def effective_score_def score_or_half_def)
qed

text \<open>C29. The caps of the logs hold on every path: the last 100 response times, 30 daily buckets, 50 failures, 20 optimization notes, 10 exemplars per key, 5 examples per pattern and 100 feedback entries stay so under track_query and record_feedback.\<close>

theorem logs_stay_capped:
  "learn_caps st \<Longrightarrow>
     learn_caps (track_query now qn an rt sc qs au st) \<and> learn_caps (record_feedback now qn an h c st)"
proof -
  assume c0: "learn_caps st"
  let ?fb = "\<lparr>fb_time = now, fb_question = qn, fb_answer = py_take 500 an, fb_helpful = h, fb_comment = c\<rparr>"
  let ?st1 = "st\<lparr>feedback_file := Stored (keep_last 100 (load_stored [] (feedback_file st) @ [?fb]))\<rparr>"
  have "learn_caps ?st1"
    using c0 by (simp add: learn_caps_def load_metrics_def load_learning_data_def)
  then have "learn_caps (record_feedback now qn an h c st)"
    unfolding record_feedback_def Let_def by (rule learn_caps_track_query)
  then show ?thesis
    using learn_caps_track_query [OF c0] by simp
qed

theorem logs_stay_capped_witness:
  "learn_caps (track_query t0 ''when is the field trip?'' ''Friday'' 1 True (Some 1) False st0)
   \<and> learn_caps (record_feedback t0 ''when is the field trip?'' ''Friday'' False None st0)"
proof -
  have c: "learn_caps st0"
    by (simp add: learn_caps_def st0_load metrics_caps_def learning_caps_def empty_metrics_def
        empty_learning_def)
  show ?thesis using logs_stay_capped [OF c] by blast
qed

text \<open>Auto-optimization runs only on every tenth query: when the new query count is not a multiple of ten, the optimization log and its time are unchanged.\<close>

theorem optimizations_only_every_tenth_query:
  assumes "total_queries (load_metrics (track_query now qn an rt sc qs au st)) mod 10 \<noteq> 0"
  shows "optimizations (load_learning_data (track_query now qn an rt sc qs au st)) =
           optimizations (load_learning_data st)
       \<and> last_optimization (load_learning_data (track_query now qn an rt sc qs au st)) =
           last_optimization (load_learning_data st)"
proof -
  have "total_queries (snd (track_metrics now qn an rt sc qs au (load_metrics st))) mod 10 \<noteq> 0"
    using assms by simp
  then show ?thesis by (simp add: track_query_def Let_def case_prod_beta)
qed

theorem optimizations_only_every_tenth_query_witness:
  "optimizations (load_learning_data (track_query t0 ''when is the field trip?'' ''Friday'' 1 True (Some 1) False st0)) = []"
proof -
  have n: "total_queries (load_metrics (track_query t0 ''when is the field trip?'' ''Friday'' 1 True (Some 1) False st0)) mod 10 \<noteq> 0"
    by (simp add: st0_load empty_metrics_def)
  show ?thesis
    using optimizations_only_every_tenth_query [OF n] by (simp add: st0_load empty_learning_def)
qed

text \<open>On every tenth query, a pattern with three or more of the last ten failures is flagged in the optimization log with its number of failures.\<close>

theorem tenth_query_flags_failing_pattern:
  assumes "total_queries (load_metrics (track_query now qn an rt sc qs au st)) mod 10 = 0"
    and "3 \<le> count_list (map f_pattern (keep_last 10
               (failed_patterns (load_learning_data (track_query now qn an rt sc qs au st))))) p"
  shows "Pattern_failure p (count_list (map f_pattern (keep_last 10
             (failed_patterns (load_learning_data (track_query now qn an rt sc qs au st))))) p)
           \<in> set (optimizations (load_learning_data (track_query now qn an rt sc qs au st)))"
proof -
  let ?m = "snd (track_metrics now qn an rt sc qs au (load_metrics st))"
  let ?st1 = "save_learning_data (track_learning now qn an rt sc (effective_score qn an qs au)
                (load_learning_data st)) (save_metrics ?m st)"
  have t: "total_queries ?m mod 10 = 0"
    using assms(1) by simp
  have eq: "track_query now qn an rt sc qs au st = auto_optimize now ?st1"
    by (rule track_query_tenth [OF t])
  have fp: "failed_patterns (load_learning_data (track_query now qn an rt sc qs au st)) =
              failed_patterns (load_learning_data ?st1)"
    unfolding eq by simp
  have a: "3 \<le> count_list (map f_pattern (keep_last 10 (failed_patterns (load_learning_data ?st1)))) p"
    using assms(2) unfolding fp .
  show ?thesis
    unfolding fp unfolding eq by (rule auto_optimize_flags [OF a])
qed

theorem tenth_query_flags_failing_pattern_witness:
  "Pattern_failure ''when is the field trip?'' 4 \<in>
     set (optimizations (load_learning_data
       (track_query t0 ''When is the field trip?'' ''I could not find it.'' 1 False (Some 0) False (st9 t0))))"
proof -
  let ?st = "track_query t0 ''When is the field trip?'' ''I could not find it.'' 1 False (Some 0) False (st9 t0)"
  have p: "extract_query_pattern ''When is the field trip?'' = ''when is the field trip?''"
    by (simp add: pattern_eval)
  have m9: "load_metrics (st9 t0) = empty_metrics\<lparr>total_queries := 9\<rparr>"
    and l9: "load_learning_data (st9 t0) = empty_learning\<lparr>failed_patterns := replicate 3 (old_failure t0)\<rparr>"
    by (simp_all add: st9_def load_metrics_def load_learning_data_def)
  have h1: "total_queries (load_metrics ?st) mod 10 = 0"
    by (simp add: m9)
  have c: "count_list (map f_pattern (keep_last 10 (failed_patterns (load_learning_data ?st)))) ''when is the field trip?'' = 4"
    by (simp add: track_learning_failures p l9 old_failure_def keep_last_def numeral_eq_Suc)
  then have h2: "3 \<le> count_list (map f_pattern (keep_last 10 (failed_patterns (load_learning_data ?st)))) ''when is the field trip?''"
    by simp
  show ?thesis
    using tenth_query_flags_failing_pattern [OF h1 h2] c by simp
qed

text \<open>The feedback loop closes: after a successful query scoring above 0.8, whose categories for tracking and prompting agree, the prompt fragment for the same question asks for the same extraction approach.\<close>

theorem prompt_reuses_successful_approach:
  assumes "fst (prompt_category qn) = query_category qn"
    and "sc" and "score_above (effective_score qn an qs au) (8/10)"
  shows "get_optimized_prompt_base (track_query now qn an rt sc qs au st) qn = snd (prompt_category qn) @ exemplar_clause"
  using assms by (simp add: prompt_base_eq track_learning_successes Let_def)

theorem prompt_reuses_successful_approach_witness:
  "get_optimized_prompt_base (track_query t0 ''When is the field trip?'' ''Friday 11/14/2025.'' 1 True (Some 1) False st0)
     ''When is the field trip?'' =
   ''Focus on extracting specific dates, times, and scheduling information. Be precise with dates and times.'' @ exemplar_clause"
proof -
  have h1: "fst (prompt_category ''When is the field trip?'') = query_category ''When is the field trip?''"
    by (simp add: category_eval)
  have h3: "score_above (effective_score ''When is the field trip?'' ''Friday 11/14/2025.'' (Some 1) False) (8/10)"
    by (simp add: effective_score_def score_above_def)
  have b: "snd (prompt_category ''When is the field trip?'') =
     ''Focus on extracting specific dates, times, and scheduling information. Be precise with dates and times.''"
    by (simp add: category_eval)
  show ?thesis
    using prompt_reuses_successful_approach [OF h1 TrueI h3, where now = t0 and rt = 1 and st = st0] b
    by simp
qed

text \<open>After a failed query, with no success exemplar for its pattern, the prompt fragment for the same question warns that similar questions had low quality.\<close>

theorem prompt_warns_after_failure:
  assumes "\<not> sc"
    and "success_key (extract_query_pattern qn) (fst (prompt_category qn)) |\<notin>| fmdom (successful_prompts (load_learning_data st))"
  shows "get_optimized_prompt_base (track_query now qn an rt sc qs au st) qn = snd (prompt_category qn) @ failure_clause"
proof -
  let ?f = "\<lparr>f_time = now, f_question = qn, f_answer = py_take 200 an, f_pattern = extract_query_pattern qn,
             f_category = query_category qn, f_quality = effective_score qn an qs au\<rparr>"
  let ?fs = "keep_last 50 (failed_patterns (load_learning_data st) @ [?f])"
  have "?f \<in> set ?fs"
    using keep_last_keeps_new [of "[?f]" 50] by simp
  have f: "?f = last ?fs" and ne: "?fs \<noteq> []"
    using keep_last_last [of 50 "failed_patterns (load_learning_data st) @ [?f]"] by simp_all
  have k: "last (keep_last 20 ?fs) = last ?fs" and k2: "keep_last 20 ?fs \<noteq> []"
    using keep_last_last [OF _ ne, of 20] by simp_all
  have "last (keep_last 20 ?fs) \<in> set (keep_last 20 ?fs)"
    using k2 by (rule last_in_set)
  then have m: "?f \<in> set (keep_last 20 ?fs)"
    unfolding k f [symmetric] .
  have "list_ex (\<lambda>f. f_pattern f = extract_query_pattern qn) (keep_last 20 ?fs)"
    unfolding list_ex_iff by (rule bexI [OF _ m]) simp
  then show ?thesis
    using assms by (simp add: prompt_base_eq track_learning_successes track_learning_failures)
qed

theorem prompt_warns_after_failure_witness:
  "get_optimized_prompt_base (track_query t0 ''When is the field trip?'' ''I could not find it.'' 1 False (Some 0) False st0)
     ''When is the field trip?'' =
   ''Focus on extracting specific dates, times, and scheduling information. Be precise with dates and times.'' @ failure_clause"
proof -
  have h2: "success_key (extract_query_pattern ''When is the field trip?'') (fst (prompt_category ''When is the field trip?''))
              |\<notin>| fmdom (successful_prompts (load_learning_data st0))"
    by (simp add: st0_load empty_learning_def)
  have b: "snd (prompt_category ''When is the field trip?'') =
     ''Focus on extracting specific dates, times, and scheduling information. Be precise with dates and times.''"
    by (simp add: category_eval)
  show ?thesis
    using prompt_warns_after_failure [OF _ h2, where sc = False and now = t0 and an = "''I could not find it.''"
        and rt = 1 and qs = "Some 0" and au = False] b
    by simp
qed

text \<open>The two category classifiers disagree: "Can I bring a phone?" is tracked as policy (its exemplar is stored under the policy key) but prompted as general, so the prompt never uses the exemplar.\<close>

theorem prompt_misses_policy_exemplars:
  "let st = track_query t ''Can I bring a phone?'' ''Yes, phones may stay in backpacks.'' 1 True (Some 1) False st0
   in success_key (extract_query_pattern ''Can I bring a phone?'') Policy |\<in>| fmdom (successful_prompts (load_learning_data st))
    \<and> get_optimized_prompt_base st ''Can I bring a phone?'' = ''Provide complete, specific information from the emails.''"
proof -
  have p: "extract_query_pattern ''Can I bring a phone?'' = ''can i bring a phone?''"
    by (simp add: pattern_eval)
  have c1: "query_category ''Can I bring a phone?'' = Policy"
    by (simp add: category_eval)
  have c2: "prompt_category ''Can I bring a phone?'' = (General, ''Provide complete, specific information from the emails.'')"
    by (simp add: category_eval)
  show ?thesis
    by (simp add: Let_def prompt_base_eq track_learning_successes track_learning_failures p c1 c2
        effective_score_def score_above_def score_below_def st0_load empty_learning_def success_key_def
        keep_last_def)
qed

text \<open>C30. A zero score counts as 0.5 in the averages: the chat path tracks an error answer (score 0, not a success) and the pattern average becomes 1/2, because of "quality_score or 0.5".\<close>

theorem zero_score_averaged_as_half:
  assumes "contains_any error_indicators (py_lower an)"
    and "fmlookup (query_patterns (load_learning_data st)) (extract_query_pattern qn) = None"
  shows "let s = fst (calculate_response_quality an qn);
             st' = track_query now qn an rt (1/2 \<le> s) (Some s) False st
         in s = 0 \<and> ps_avg_quality (pattern_of (load_learning_data st') (extract_query_pattern qn)) = 1/2"
proof -
  have s0: "fst (calculate_response_quality an qn) = 0"
    by (simp add: quality_error assms(1))
  have d0: "pattern_of (load_learning_data st) (extract_query_pattern qn) = new_pattern_stats"
    using assms(2) by (simp add: pattern_of_def)
  show ?thesis
    using s0 by (simp add: Let_def pattern_of_track_query d0 update_pattern_stats_def running_avg_def
      score_or_half_def effective_score_def new_pattern_stats_def)
qed

theorem zero_score_averaged_as_half_witness:
  "ps_avg_quality (pattern_of (load_learning_data
      (track_query t0 ''when is the field trip?'' ''Sorry, I could not find that.'' 0 False (Some 0) False st0))
      ''when is the field trip?'') = 1/2"
proof -
  have e: "contains_any error_indicators (py_lower ''Sorry, I could not find that.'')"
    by (simp add: quality_eval)
  have n: "fmlookup (query_patterns (load_learning_data st0)) (extract_query_pattern ''when is the field trip?'') = None"
    by (simp add: st0_load empty_learning_def)
  show ?thesis
    using zero_score_averaged_as_half [OF e n, of t0 0] quality_error [OF e] by (simp add: Let_def pat)
qed

text \<open>The confidence log is capped only on the automatic path: a given score (the path the chat and the feedback take) is appended without the cut to 100, so the log grows by one on every such query.\<close>

theorem confidence_log_cap_only_on_auto_scores:
  "length (confidence_scores (load_metrics (track_query now qn an rt sc (Some s) au st))) =
     Suc (length (confidence_scores (load_metrics st)))
   \<and> length (confidence_scores (load_metrics (track_query now qn an rt sc None True st))) =
     min 100 (Suc (length (confidence_scores (load_metrics st))))"
  by (simp add: confidence_scores_track_metrics)

end
