(* ===== verification/Notify.thy ===== *)
theory Notify
  imports Calendar
begin

text \<open>
  The notification detector of \<^verbatim>\<open>src/app/notification_service.py\<close>. The file
  \<^verbatim>\<open>data/.last_check.json\<close> is a \<open>check_file stored\<close>; an unreadable or unparsable
  time reads as no time, as in \<open>get_last_check_time\<close>. The Gmail fetch
  (\<open>fetch_school_emails(max_results=20)\<close>) is the parameter \<open>fetched\<close>, its exception
  \<open>Inl\<close>; \<open>datetime.now()\<close> is \<open>now\<close>. The comparison \<open>email.date > last_check\<close> is
  \<open>dt_greater\<close>, which raises \<open>TypeError\<close> between a naive and an aware time, and the
  \<open>try\<close> around the whole check turns any raise into the error result. A notice keeps
  the e-mail's date as a \<open>datetime\<close> where the source stores its ISO text.
\<close>

record check_file =
  last_check :: "datetime option"
  check_count :: nat

definition get_last_check_time :: "check_file stored \<Rightarrow> datetime option" where
  "get_last_check_time f = (case f of Stored d \<Rightarrow> last_check d | _ \<Rightarrow> None)"

definition get_check_count :: "check_file stored \<Rightarrow> nat" where
  "get_check_count f = (case f of Stored d \<Rightarrow> check_count d | _ \<Rightarrow> 0)"

definition save_check_time :: "datetime \<Rightarrow> check_file stored \<Rightarrow> check_file stored" where
  "save_check_time now f = Stored \<lparr>last_check = Some now, check_count = get_check_count f + 1\<rparr>"

record notice =
  n_subject :: str
  n_sender :: str
  n_date :: datetime
  n_id :: str

definition notice_of :: "email \<Rightarrow> notice" where
  "notice_of e = \<lparr>n_subject = subject e, n_sender = sender e, n_date = email_date e, n_id = email_id e\<rparr>"

definition is_lobeda :: "email \<Rightarrow> bool" where
  "is_lobeda e \<longleftrightarrow> contains ''lobeda'' (py_lower (sender e)) \<or> contains ''grace.lobeda'' (py_lower (sender e))"

record check_result =
  has_new :: bool
  new_count :: nat
  new_emails :: "notice list"
  from_lobeda :: bool
  lobeda_emails :: "notice list"
  result_check :: "datetime option"
  message :: str
  error :: bool

text \<open>\<open>str(e)\<close> of the exceptions the check can meet.\<close>

primrec error_text :: "py_error \<Rightarrow> str" where
  "error_text TypeError = ''can't compare offset-naive and offset-aware datetimes''"
| "error_text (IOError s) = s"
| "error_text (FileNotFound s) = s"
| "error_text (OtherError s) = s"

definition error_result :: "datetime option \<Rightarrow> py_error \<Rightarrow> check_result" where
  "error_result lc err = \<lparr>has_new = False, new_count = 0, new_emails = [], from_lobeda = False,
     lobeda_emails = [], result_check = lc, message = ''Error checking for emails: '' @ error_text err,
     error = True\<rparr>"

definition no_news :: "datetime \<Rightarrow> str \<Rightarrow> check_result" where
  "no_news now msg = \<lparr>has_new = False, new_count = 0, new_emails = [], from_lobeda = False,
     lobeda_emails = [], result_check = Some now, message = msg, error = False\<rparr>"

text \<open>The filter \<open>email.date > last_check\<close>; the first comparison that raises ends it.\<close>

fun newer_than :: "datetime \<Rightarrow> email list \<Rightarrow> py_error + email list" where
  "newer_than lc [] = Inr []"
| "newer_than lc (e # es) =
     (case dt_greater (email_date e) lc of
        Inl err \<Rightarrow> Inl err
      | Inr b \<Rightarrow> (case newer_than lc es of Inl err \<Rightarrow> Inl err | Inr r \<Rightarrow> Inr (if b then e # r else r)))"

text \<open>U+1F3AF, the target emoji of the message, in UTF-8.\<close>

definition target_emoji :: str where
  "target_emoji = [CHR 0xF0, CHR 0x9F, CHR 0x8E, CHR 0xAF]"

definition found_message :: "nat \<Rightarrow> nat \<Rightarrow> str" where
  "found_message n l =
     ''Found '' @ show_nat n @ '' new email(s) since last check.'' @
     (if 0 < l then '' '' @ target_emoji @ '' '' @ show_nat l @ '' from Miss Lobeda!'' else [])"

definition check_for_new_emails ::
  "bool \<Rightarrow> py_error + email list \<Rightarrow> datetime \<Rightarrow> check_file stored \<Rightarrow> check_result \<times> check_file stored" where
  "check_for_new_emails manual fetched now f =
     (let lc = (if manual then None else get_last_check_time f)
      in case fetched of
           Inl err \<Rightarrow> (error_result lc err, f)
         | Inr es \<Rightarrow>
             if es = [] then (no_news now ''No new emails found.'', save_check_time now f)
             else
               (case (case lc of Some t \<Rightarrow> newer_than t es | None \<Rightarrow> Inr (take 10 es)) of
                  Inl err \<Rightarrow> (error_result lc err, f)
                | Inr news \<Rightarrow>
                    (let lob = filter is_lobeda news; f' = save_check_time now f
                     in if news \<noteq> []
                        then (\<lparr>has_new = True, new_count = length news, new_emails = map notice_of news,
                               from_lobeda = (lob \<noteq> []), lobeda_emails = map notice_of lob,
                               result_check = Some now, message = found_message (length news) (length lob),
                               error = False\<rparr>, f')
                        else (no_news now ''No new emails since last check.'', f'))))"

record notification_status =
  ns_last_check :: "datetime option"
  ns_check_count :: nat
  ns_auto_schedule_time :: str
  ns_next_auto_check :: str

text \<open>\<open>config.EMAIL_INGESTION_TIME\<close> is the parameter \<open>ingestion_time\<close>.\<close>

definition get_notification_status :: "str \<Rightarrow> check_file stored \<Rightarrow> notification_status" where
  "get_notification_status ingestion_time f =
     \<lparr>ns_last_check = get_last_check_time f, ns_check_count = get_check_count f,
      ns_auto_schedule_time = ingestion_time, ns_next_auto_check = ''Today at '' @ ingestion_time\<rparr>"

section \<open>Properties\<close>

lemma newer_than_aware_naive:
  "dt_offset (email_date e) \<noteq> None \<Longrightarrow> dt_offset lc = None \<Longrightarrow> newer_than lc (e # es) = Inl TypeError"
  by (auto simp: dt_greater_def split: option.splits)

lemma get_check_count_save [simp]: "get_check_count (save_check_time now f) = Suc (get_check_count f)"
  by (simp add: save_check_time_def get_check_count_def)

text \<open>C32. Automatic checks stall: once the stored check time is naive (as
  \<open>save_check_time\<close> writes \<open>datetime.now()\<close>) and Gmail returns an e-mail with a time
  zone, every non-manual check raises \<open>TypeError\<close>, returns the error result and leaves
  the file as it was, so the stored time is never advanced again.\<close>

theorem automatic_check_stalls:
  assumes "get_last_check_time f = Some lc" and "dt_offset lc = None"
    and "dt_offset (email_date e) \<noteq> None"
  shows "check_for_new_emails False (Inr (e # es)) now f = (error_result (Some lc) TypeError, f)
       \<and> error (error_result (Some lc) TypeError)"
  using assms newer_than_aware_naive [OF assms(3) assms(2)]
  by (simp add: check_for_new_emails_def error_result_def)

theorem automatic_check_stalls_witness:
  "check_for_new_emails False
     (Inr [\<lparr>email_id = ''m1'', subject = ''Field Trip'', sender = ''grace.lobeda@school.org'',
            email_date = (mk_dt 2025 11 4 8 0 0)\<lparr>dt_offset := Some (-480)\<rparr>, body_text = ''Friday'',
            email_attachments = []\<rparr>])
     (mk_dt 2025 11 4 9 0 0) (save_check_time (mk_dt 2025 11 3 9 0 0) Absent)
   = (error_result (Some (mk_dt 2025 11 3 9 0 0)) TypeError, save_check_time (mk_dt 2025 11 3 9 0 0) Absent)"
proof -
  have h1: "get_last_check_time (save_check_time (mk_dt 2025 11 3 9 0 0) Absent) = Some (mk_dt 2025 11 3 9 0 0)"
    by (simp add: get_last_check_time_def save_check_time_def)
  have h2: "dt_offset (mk_dt 2025 11 3 9 0 0) = None"
    by (simp add: mk_dt_def)
  show ?thesis
    using automatic_check_stalls [OF h1 h2, of "\<lparr>email_id = ''m1'', subject = ''Field Trip'',
        sender = ''grace.lobeda@school.org'', email_date = (mk_dt 2025 11 4 8 0 0)\<lparr>dt_offset := Some (-480)\<rparr>,
        body_text = ''Friday'', email_attachments = []\<rparr>" "[]" "mk_dt 2025 11 4 9 0 0"]
    by simp
qed

text \<open>When the check file is written: a failed fetch leaves it untouched (the spec
  says every invocation persists a new time and count, failures included); a manual
  refresh that fetched e-mails writes the new time with the count one higher and reports
  the first ten of them.\<close>

theorem check_file_persistence:
  "snd (check_for_new_emails manual (Inl err) now f) = f
   \<and> snd (check_for_new_emails True (Inr es) now f) = save_check_time now f
   \<and> get_check_count (save_check_time now f) = Suc (get_check_count f)
   \<and> get_last_check_time (save_check_time now f) = Some now
   \<and> new_count (fst (check_for_new_emails True (Inr es) now f)) = min 10 (length es)"
  by (auto simp: check_for_new_emails_def Let_def no_news_def save_check_time_def
      get_last_check_time_def get_check_count_def)

end
