(* ===== verification/Formatter.thy ===== *)
theory Formatter
  imports Regex
begin

text \<open>
  The answer formatter of \<^verbatim>\<open>src/app/response_formatter.py\<close>, a pure function of the
  raw answer and the question. \<open>format_response_for_action\<close> picks a strategy by keywords
  of the lowered question, applies it, then \<open>add_action_items\<close>,
  \<open>improve_markdown_formatting\<close> and \<open>add_visual_structure\<close>. Each pass splits the
  text at newlines (\<open>py_split_nl\<close>), rewrites the lines in one loop whose local
  variables (\<open>in_list\<close>, \<open>list_type\<close>, \<open>current_section\<close>) are the parameters of a
  recursive function, and joins them again (\<open>py_join_nl\<close>). Text is UTF-8 bytes: the
  symbols the code writes (\<open>\<bullet>\<close>, the calendar, target, warning, check-mark and light-bulb
  emojis) are their byte sequences, and a class such as \<open>[\*\-\<bullet>]\<close> that holds a
  multi-byte code point is an alternation of literals. \<open>re.IGNORECASE\<close> literals are
  \<open>LitI\<close>; \<open>[a-z]\<close> under it is an ASCII letter. The unused helper
  \<open>extract_action_items\<close> is not modelled.
\<close>

section \<open>Symbols\<close>

definition bullet :: str where
  "bullet = [CHR 0xE2, CHR 0x80, CHR 0xA2]"

definition date_emoji :: str where
  "date_emoji = [CHR 0xF0, CHR 0x9F, CHR 0x93, CHR 0x85]"

definition dart_emoji :: str where
  "dart_emoji = [CHR 0xF0, CHR 0x9F, CHR 0x8E, CHR 0xAF]"

definition warning_sign :: str where
  "warning_sign = [CHR 0xE2, CHR 0x9A, CHR 0xA0, CHR 0xEF, CHR 0xB8, CHR 0x8F]"

definition check_mark :: str where
  "check_mark = [CHR 0xE2, CHR 0x9C, CHR 0x85]"

definition bulb_emoji :: str where
  "bulb_emoji = [CHR 0xF0, CHR 0x9F, CHR 0x92, CHR 0xA1]"

section \<open>String helpers\<close>

text \<open>\<open>str.lstrip(chars)\<close>: drop leading code points of the set, each given by its
  bytes.\<close>

function lstrip_cps :: "str list \<Rightarrow> str \<Rightarrow> str" where
  "lstrip_cps cps s =
     (case first_map (\<lambda>w. if w = [] then None else strip_prefix w s) cps of
        None \<Rightarrow> s
      | Some u \<Rightarrow> lstrip_cps cps u)"
  by pat_completeness auto
termination
  by (relation "measure (\<lambda>(_, s). length s)")
     (auto dest!: first_map_Some strip_prefix_Some split: if_splits)

declare lstrip_cps.simps [simp del]

text \<open>\<open>re.sub(r'^...', '', s)\<close>: the match at the start, if any, is removed.\<close>

definition strip_match :: "rx list \<Rightarrow> str \<Rightarrow> str" where
  "strip_match r s = (case rmatch r None s of None \<Rightarrow> s | Some (m, q, v) \<Rightarrow> v)"

text \<open>\<open>re.search(A|B|..., s)\<close> as a test: some branch is found somewhere.\<close>

definition search_any :: "rx list list \<Rightarrow> str \<Rightarrow> bool" where
  "search_any rs s \<longleftrightarrow> list_ex (\<lambda>r. re_search r s) rs"

definition is_alpha :: "char \<Rightarrow> bool" where
  "is_alpha c \<longleftrightarrow> is_lower_ascii c \<or> is_upper_ascii c"

definition is_nl :: "char \<Rightarrow> bool" where
  "is_nl c \<longleftrightarrow> c = CHR 0x0A"

text \<open>\<open>re.sub(r'\n{3,}', '\n\n', s)\<close>, used by \<open>format_general\<close> and by
  \<open>improve_markdown_formatting\<close>.\<close>

definition newline_run_rx :: "rx list" where
  "newline_run_rx = [Rep is_nl 3 None]"

definition collapse_newlines :: "str \<Rightarrow> str" where
  "collapse_newlines s = re_sub newline_run_rx (NL @ NL) s"

section \<open>Strategies\<close>

subsection \<open>\<open>format_announcements\<close>\<close>

text \<open>\<open>^[\d\.\)\-\*]\s+\<close>\<close>

definition list_marker_rx :: "rx list" where
  "list_marker_rx =
     [Rep (\<lambda>c. is_digit c \<or> c \<in> set ''.)-*'') 1 (Some 1), Rep is_space 1 None]"

text \<open>The characters of \<open>lstrip('0123456789.)\<bullet>-* ')\<close>.\<close>

definition announcement_strip :: "str list" where
  "announcement_strip = map (\<lambda>c. [c]) ''0123456789.)'' @ [bullet] @ map (\<lambda>c. [c]) ''-* ''"

fun announcement_lines :: "bool \<Rightarrow> str list \<Rightarrow> str list" where
  "announcement_lines in_list [] = []"
| "announcement_lines in_list (l # ls) =
     (let line = py_strip l
      in if line = [] then
           (if in_list then [] # announcement_lines False ls else announcement_lines in_list ls)
         else if re_match list_marker_rx line \<or> starts_with bullet line \<or> starts_with ''-'' line then
           (if in_list then [] else [[]]) @
           (''**'' @ lstrip_cps announcement_strip line @ ''**'') # announcement_lines True ls
         else (if in_list then [[]] else []) @ line # announcement_lines False ls)"

definition format_announcements :: "str \<Rightarrow> str" where
  "format_announcements text = py_join_nl (announcement_lines False (py_split_nl text))"

subsection \<open>\<open>format_dates_events\<close>\<close>

text \<open>\<open>(?:st|nd|rd|th)?\<close>: the group is tried first, then skipped.\<close>

definition ordinal_suffix :: "str list" where
  "ordinal_suffix = [''st'', ''nd'', ''rd'', ''th'', '''']"

text \<open>\<open>\b(\d{1,2}[/-]\d{1,2}[/-]\d{2,4}|\w+\s+\d{1,2}(?:st|nd|rd|th)?,?\s+\d{4})\b\<close>
  under \<open>re.IGNORECASE\<close>, as its two branches with the word boundaries moved inside.\<close>

definition event_date_rx :: "rx list list" where
  "event_date_rx =
     [Bnd # numeric_date_rx @ [Bnd],
      [Bnd, Rep is_word_char 1 None, Rep is_space 1 None, Rep is_digit 1 (Some 2), LitI ordinal_suffix,
       Rep (\<lambda>c. c = CHR '','') 0 (Some 1), Rep is_space 1 None, Rep is_digit 4 (Some 4), Bnd]]"

definition highlight_date :: "str \<Rightarrow> str" where
  "highlight_date d = ''**'' @ date_emoji @ '' '' @ d @ ''**''"

definition format_dates_events :: "str \<Rightarrow> str" where
  "format_dates_events text =
     (let t = re_subf event_date_rx highlight_date text
      in if contains ''next'' (py_lower t) \<or> contains ''upcoming'' (py_lower t)
         then ''**'' @ dart_emoji @ '' Upcoming Events:**'' @ NL @ NL @ t else t)"

subsection \<open>\<open>format_policy\<close>\<close>

definition requirement_words :: "str list" where
  "requirement_words = [''must'', ''should'', ''required'', ''need'', ''cannot'', ''not allowed'']"

definition allowance_words :: "str list" where
  "allowance_words = [''can'', ''may'', ''allowed'', ''optional'']"

text \<open>A content line with its marker: requirement, allowance, or plain.\<close>

definition policy_item :: "str \<Rightarrow> str" where
  "policy_item line =
     (if contains_any requirement_words (py_lower line) then ''  '' @ warning_sign @ '' '' @ line
      else if contains_any allowance_words (py_lower line) then ''  '' @ check_mark @ '' '' @ line
      else ''  '' @ bullet @ '' '' @ line)"

text \<open>\<open>in_section\<close> is the truth value of \<open>current_section\<close>.\<close>

fun policy_lines :: "bool \<Rightarrow> str list \<Rightarrow> str list" where
  "policy_lines in_section [] = []"
| "policy_lines in_section (l # ls) =
     (let line = py_strip l
      in if line = [] then policy_lines in_section ls
         else if CHR '':'' \<in> set line \<and> py_len line < 100 then
           (if in_section then [[]] else []) @ (''**'' @ line @ ''**'') # policy_lines True ls
         else policy_item line # policy_lines in_section ls)"

definition format_policy :: "str \<Rightarrow> str" where
  "format_policy text = py_join_nl (policy_lines False (py_split_nl text))"

subsection \<open>\<open>format_informational\<close> and \<open>format_general\<close>\<close>

text \<open>\<open>^[\d\.]+\s+\<close>\<close>

definition numbered_rx :: "rx list" where
  "numbered_rx = [Rep (\<lambda>c. is_digit c \<or> c = CHR ''.'') 1 None, Rep is_space 1 None]"

definition informational_line :: "str \<Rightarrow> str" where
  "informational_line l =
     (let line = py_strip l
      in if line = [] then []
         else if last line = CHR '':'' \<and> py_len line < 80 then ''**'' @ line @ ''**''
         else if re_match numbered_rx line then ''**'' @ line @ ''**''
         else line)"

definition format_informational :: "str \<Rightarrow> str" where
  "format_informational text = py_join_nl (map informational_line (py_split_nl text))"

definition format_general :: "str \<Rightarrow> str" where
  "format_general text = collapse_newlines text"

section \<open>The passes after the strategy\<close>

subsection \<open>\<open>add_action_items\<close>\<close>

definition month_abbrevs :: "str list" where
  "month_abbrevs = [''Jan'', ''Feb'', ''Mar'', ''Apr'', ''May'', ''Jun'', ''Jul'', ''Aug'', ''Sep'',
                    ''Oct'', ''Nov'', ''Dec'']"

definition weekday_names :: "str list" where
  "weekday_names = [''Monday'', ''Tuesday'', ''Wednesday'', ''Thursday'', ''Friday'', ''Saturday'',
                    ''Sunday'']"

text \<open>The three \<open>date_patterns\<close>, searched under \<open>re.IGNORECASE\<close>.\<close>

definition action_date_rxs :: "rx list list" where
  "action_date_rxs =
     [Bnd # numeric_date_rx @ [Bnd],
      [Bnd, LitI month_abbrevs, Rep is_alpha 0 None, Rep is_space 1 None, Rep is_digit 1 (Some 2),
       LitI ordinal_suffix, Rep (\<lambda>c. c = CHR '','') 0 (Some 1), Rep is_space 1 None,
       Rep is_digit 4 (Some 4), Bnd],
      [Bnd, LitI weekday_names, Rep is_space 1 None, Rep is_word_char 1 None, Rep is_space 1 None,
       Rep is_digit 1 (Some 2), Bnd]]"

definition calendar_tip :: str where
  "calendar_tip = NL @ NL @ ''---'' @ NL @ NL @ bulb_emoji @
     '' **Tip:** I can add these events to your calendar! Just ask me to add them.''"

definition add_action_items :: "str \<Rightarrow> str" where
  "add_action_items text =
     (if search_any action_date_rxs text \<and> \<not> contains date_emoji text then text @ calendar_tip
      else text)"

subsection \<open>\<open>improve_markdown_formatting\<close>\<close>

text \<open>\<open>^[\*\-\<bullet>]\s+\<close> and \<open>^\d+[\.\)]\s+\<close>\<close>

definition bullet_item_rx :: "rx list" where
  "bullet_item_rx = [Lit [''*'', ''-'', bullet], Rep is_space 1 None]"

definition ordered_item_rx :: "rx list" where
  "ordered_item_rx =
     [Rep is_digit 1 None, Rep (\<lambda>c. c = CHR ''.'' \<or> c = CHR '')'') 1 (Some 1), Rep is_space 1 None]"

datatype list_kind = UL | OL

text \<open>The loop over \<open>enumerate(lines)\<close>: \<open>i < len(lines) - 1\<close> holds when lines
  remain after the current one.\<close>

fun markdown_lines :: "bool \<Rightarrow> list_kind option \<Rightarrow> str list \<Rightarrow> str list" where
  "markdown_lines in_list list_type [] = []"
| "markdown_lines in_list list_type (l # ls) =
     (let stripped = py_strip l
      in if re_match bullet_item_rx stripped then
           (if in_list then [] else [[]]) @ stripped # markdown_lines True (Some UL) ls
         else if re_match ordered_item_rx stripped then
           (if \<not> in_list \<or> list_type \<noteq> Some OL then (if in_list then [[]] else []) @ [[]] else []) @
           stripped # markdown_lines True (Some OL) ls
         else
           (if in_list then [[]] else []) @
           (if stripped \<noteq> [] then [stripped] else if ls \<noteq> [] then [[]] else []) @
           (if in_list then markdown_lines False None ls else markdown_lines in_list list_type ls))"

definition improve_markdown_formatting :: "str \<Rightarrow> str" where
  "improve_markdown_formatting text =
     py_strip (collapse_newlines (py_join_nl (markdown_lines False None (py_split_nl text))))"

subsection \<open>\<open>add_visual_structure\<close>\<close>

text \<open>\<open>\b\d{1,2}[/-]\d{1,2}\b|\b(?:Jan|...|Dec)\<close> under \<open>re.IGNORECASE\<close>.\<close>

definition visual_date_rxs :: "rx list list" where
  "visual_date_rxs =
     [[Bnd, Rep is_digit 1 (Some 2), Rep is_date_sep 1 (Some 1), Rep is_digit 1 (Some 2), Bnd],
      [Bnd, LitI month_abbrevs]]"

definition visual_line :: "str \<Rightarrow> str" where
  "visual_line line =
     (let stripped = py_strip line
      in if stripped = [] then []
         else if re_match bullet_item_rx stripped then
           (let content = strip_match bullet_item_rx stripped
            in if \<not> starts_with date_emoji content \<and> \<not> starts_with warning_sign content
                  \<and> \<not> starts_with check_mark content
               then (if search_any visual_date_rxs content
                     then bullet @ '' '' @ date_emoji @ '' '' @ content
                     else bullet @ '' '' @ content)
               else bullet @ '' '' @ content)
         else if last stripped = CHR '':'' \<and> py_len stripped < 80 then
           (if starts_with ''**'' stripped then stripped else ''**'' @ stripped @ ''**'')
         else stripped)"

definition add_visual_structure :: "str \<Rightarrow> str" where
  "add_visual_structure text = py_join_nl (map visual_line (py_split_nl text))"

section \<open>The entry point\<close>

datatype strategy = Announcements | Dates_events | Policy | Informational | General

definition announcement_words :: "str list" where
  "announcement_words = [''announcement'', ''news'', ''latest'', ''recent'', ''update'']"

definition when_words :: "str list" where
  "when_words = [''when'', ''date'', ''time'', ''schedule'', ''next'']"

definition policy_words :: "str list" where
  "policy_words = [''policy'', ''rule'', ''guideline'', ''can'', ''should'', ''allow'']"

definition informational_words :: "str list" where
  "informational_words = [''what'', ''list'', ''tell me about'']"

text \<open>The first keyword list found in the lowered question decides.\<close>

definition select_strategy :: "str \<Rightarrow> strategy" where
  "select_strategy question_lower =
     (if contains_any announcement_words question_lower then Announcements
      else if contains_any when_words question_lower then Dates_events
      else if contains_any policy_words question_lower then Policy
      else if contains_any informational_words question_lower then Informational
      else General)"

primrec apply_strategy :: "strategy \<Rightarrow> str \<Rightarrow> str" where
  "apply_strategy Announcements t = format_announcements t"
| "apply_strategy Dates_events t = format_dates_events t"
| "apply_strategy Policy t = format_policy t"
| "apply_strategy Informational t = format_informational t"
| "apply_strategy General t = format_general t"

definition no_information_message :: str where
  "no_information_message =
     ''I couldn't find information to answer your question. Please try rephrasing it.''"

definition format_response_for_action :: "str \<Rightarrow> str \<Rightarrow> str" where
  "format_response_for_action raw_response question =
     (if py_strip raw_response = [] then no_information_message
      else
        (let formatted = apply_strategy (select_strategy (py_lower question)) (py_strip raw_response)
         in add_visual_structure (improve_markdown_formatting (add_action_items formatted))))"

text \<open>The rules that evaluate the formatter on a concrete answer by \<open>simp\<close>.\<close>

lemmas formatter_eval = format_response_for_action_def select_strategy_def announcement_words_def
  when_words_def policy_words_def informational_words_def format_policy_def policy_item_def
  requirement_words_def allowance_words_def add_action_items_def search_any_def action_date_rxs_def
  improve_markdown_formatting_def collapse_newlines_def newline_run_rx_def add_visual_structure_def
  visual_line_def bullet_item_rx_def ordered_item_rx_def visual_date_rxs_def month_abbrevs_def
  weekday_names_def ordinal_suffix_def strip_match_def is_alpha_def is_nl_def date_emoji_def
  warning_sign_def check_mark_def bullet_def calendar_tip_def bulb_emoji_def no_information_message_def
  py_strip_def py_lower_def lower_char_def contains_any_def py_len_def is_cont_byte_def NL_def
  char_of_def bit_0

section \<open>Reference definitions\<close>

text \<open>What the collapse of blank lines promises: every maximal run of three or more
  newlines becomes two, shorter runs stay. \<open>k\<close> counts the newlines of the run read so
  far.\<close>

fun squeeze_newlines :: "nat \<Rightarrow> str \<Rightarrow> str" where
  "squeeze_newlines k [] = replicate (if 3 \<le> k then 2 else k) (CHR 0x0A)"
| "squeeze_newlines k (c # cs) =
     (if c = CHR 0x0A then squeeze_newlines (Suc k) cs
      else replicate (if 3 \<le> k then 2 else k) (CHR 0x0A) @ c # squeeze_newlines 0 cs)"

section \<open>Properties\<close>

lemma squeeze_run:
  "squeeze_newlines k s =
     replicate (if 3 \<le> k + length (takeWhile is_nl s) then 2 else k + length (takeWhile is_nl s))
       (CHR 0x0A) @ squeeze_newlines 0 (dropWhile is_nl s)"
  by (induction s arbitrary: k) (auto simp: is_nl_def)

lemma re_sub_nl_long:
  assumes "3 \<le> length (takeWhile is_nl s)"
  shows "re_sub_from newline_run_rx t p s =
           t @ re_sub_from newline_run_rx t (last_or p (takeWhile is_nl s)) (dropWhile is_nl s)"
proof -
  obtain c cs where s: "s = c # cs"
    using assms by (cases s) auto
  have m: "rmatch newline_run_rx p s =
      Some (takeWhile is_nl s, last_or p (takeWhile is_nl s), dropWhile is_nl s)"
    using assms by (simp only: newline_run_rx_def rmatch_Rep_unbounded) simp
  have ne: "takeWhile is_nl s \<noteq> []"
    using assms by auto
  show ?thesis
    using m ne unfolding s by simp
qed

lemma re_sub_nl_short:
  assumes "length (takeWhile is_nl (c # cs)) < 3"
  shows "re_sub_from newline_run_rx t p (c # cs) = c # re_sub_from newline_run_rx t (Some c) cs"
proof -
  have "rmatch newline_run_rx p (c # cs) = None"
    using assms by (simp only: newline_run_rx_def rmatch_Rep_unbounded) simp
  then show ?thesis by simp
qed

lemma collapse_newlines_from:
  "re_sub_from newline_run_rx (NL @ NL) p s = squeeze_newlines 0 s"
proof (induction "length s" arbitrary: p s rule: less_induct)
  case less
  show ?case
  proof (cases s)
    case Nil
    then show ?thesis by (simp add: newline_run_rx_def rmatch_Rep_unbounded)
  next
    case (Cons c cs)
    let ?n = "length (takeWhile is_nl s)"
    show ?thesis
    proof (cases "3 \<le> ?n")
      case True
      have "length (dropWhile is_nl s) < length s"
        using True by (metis length_dropWhile_le le_neq_implies_less length_append
            takeWhile_dropWhile_id less_add_same_cancel2 not_numeral_le_zero length_greater_0_conv
            le_add2 order_antisym_conv add.commute)
      then have ih: "re_sub_from newline_run_rx (NL @ NL) (last_or p (takeWhile is_nl s))
          (dropWhile is_nl s) = squeeze_newlines 0 (dropWhile is_nl s)"
        using less by blast
      show ?thesis
        using re_sub_nl_long [OF True] ih squeeze_run [of 0 s] True
        by (simp add: NL_def numeral_2_eq_2)
    next
      case False
      have ih: "re_sub_from newline_run_rx (NL @ NL) (Some c) cs = squeeze_newlines 0 cs"
        using less Cons by simp
      have "squeeze_newlines 0 (c # cs) = c # squeeze_newlines 0 cs"
      proof (cases "c = CHR 0x0A")
        case True
        then show ?thesis
          using squeeze_run [of 0 s] squeeze_run [of 0 cs] False Cons by (simp add: is_nl_def)
      qed simp
      then show ?thesis
        using re_sub_nl_short [of c cs] False Cons ih by simp
    qed
  qed
qed

text \<open>C36. The collapse of blank lines \<open>re.sub(r'\n{3,}', '\n\n', s)\<close>, used by
  \<open>format_general\<close> and by \<open>improve_markdown_formatting\<close>, is the reference
  \<open>squeeze_newlines\<close>: every maximal run of at least three newlines becomes exactly two
  and nothing else changes.\<close>

theorem collapse_newlines_squeezes: "collapse_newlines s = squeeze_newlines 0 s"
  by (simp add: collapse_newlines_def re_sub_def collapse_newlines_from)

text \<open>C37. A prohibition worded with "may not" is tagged as allowed: on the policy
  path a line that contains "may not" and none of the requirement words gets the
  check-mark marker of an allowance, since "may" is an allowance word and "may not" is not
  a requirement word. The witness runs the whole formatter on such an answer to a policy
  question.\<close>

theorem prohibition_marked_allowed:
  assumes "contains ''may not'' (py_lower line)"
    and "\<not> contains_any requirement_words (py_lower line)"
  shows "policy_item line = ''  '' @ check_mark @ '' '' @ line"
proof -
  have "contains ''may'' (py_lower line)"
    using contains_append_left [of "''may''" "'' not''"] assms(1) by simp
  then have "contains_any allowance_words (py_lower line)"
    by (rule contains_any_member [rotated]) (simp add: allowance_words_def)
  then show ?thesis
    using assms(2) by (simp add: policy_item_def)
qed

theorem prohibition_marked_allowed_witness:
  "policy_item ''Students may not bring phones to class.'' =
     ''  '' @ check_mark @ '' Students may not bring phones to class.''
   \<and> format_response_for_action ''Students may not bring phones to class.'' ''Can I bring my phone?'' =
     check_mark @ '' Students may not bring phones to class.''"
proof -
  have h1: "contains ''may not'' (py_lower ''Students may not bring phones to class.'')"
    and h2: "\<not> contains_any requirement_words (py_lower ''Students may not bring phones to class.'')"
    by (simp_all add: formatter_eval regex_eval)
  have "format_response_for_action ''Students may not bring phones to class.'' ''Can I bring my phone?'' =
     check_mark @ '' Students may not bring phones to class.''"
    by (simp add: formatter_eval regex_eval Let_def)
  then show ?thesis
    using prohibition_marked_allowed [OF h1 h2] by simp
qed

end
