(* ===== verification/QueryPath.thy ===== *)
theory QueryPath
  imports Cache Learning Formatter
begin

text \<open>
  The query path, \<open>ask_school_question\<close> of \<^verbatim>\<open>src/app/rag_chat.py\<close>: the
  configuration checks, the cache lookup, the choice of consolidated files under a
  10 MB budget, the uploaded-file filter, the two prompts, the model call and, after it,
  formatting, caching and tracking. The outside world is the record \<open>qp_env\<close>: whether
  the API key is set, the store name, the consolidated directory (\<open>None\<close> when it does
  not exist; each file with its name, modification time and size), the Files API
  listing (\<open>Inl\<close> when it raises), the model call, the formatter
  (\<open>format_response_for_action\<close>, \<open>None\<close> when it raises), the cache hash and the
  time the scoring takes. \<open>datetime.now()\<close> is \<open>now\<close>, read once. The state is the
  cache file and the learning files. A file reference part is never refused, so the
  "could not create query" branch, which needs no files, is not reachable and is left out;
  the fallback tracking after an exception of \<open>track_query\<close> is left out with it, since
  the model's \<open>track_query\<close> does not raise.
\<close>

section \<open>Dates in the prompt\<close>

definition day_names :: "str list" where
  "day_names = [''Monday'', ''Tuesday'', ''Wednesday'', ''Thursday'', ''Friday'', ''Saturday'', ''Sunday'']"

text \<open>\<open>date.weekday()\<close>: Monday is 0.\<close>

definition weekday :: "datetime \<Rightarrow> nat" where
  "weekday t = nat ((ymd2ord (dt_year t) (dt_month t) (dt_day t) + 6) mod 7)"

text \<open>\<open>strftime("%A, %B %d, %Y")\<close>\<close>

definition long_date :: "datetime \<Rightarrow> str" where
  "long_date t = day_names ! weekday t @ '', '' @ month_full_names ! (dt_month t - 1) @ '' '' @
     pad2 (dt_day t) @ '', '' @ show_nat (dt_year t)"

section \<open>The prompts\<close>

definition system_instruction :: "str \<Rightarrow> str \<Rightarrow> str \<Rightarrow> str" where
  "system_instruction today week tomorrow =
     ''You are a school assistant for a busy parent.'' @ NL @
     NL @
     ''IMPORTANT: Today's date is '' @ today @ '' (Week '' @ week @ '').'' @ NL @
     NL @
     ''When answering questions about time:'' @ NL @
     ''- '' @ [CHR 0x22] @ ''this week'' @ [CHR 0x22] @ '' means the current week (week of '' @ today @ '')'' @ NL @
     ''- '' @ [CHR 0x22] @ ''next week'' @ [CHR 0x22] @ '' means the week after the current week'' @ NL @
     ''- '' @ [CHR 0x22] @ ''tomorrow'' @ [CHR 0x22] @ '' means '' @ tomorrow @ NL @
     ''- Use the current date ('' @ today @ '') as reference for all relative dates'' @ NL @
     NL @
     ''Answer ONLY using information available in the File Search store.'' @ NL @
     ''If data is missing, say so clearly.'' @ NL @
     ''Be concise and clear.'' @ NL @
     ''Focus on actionable information like dates, events, and deadlines.'' @ NL @
     ''When mentioning dates, always include the full date (e.g., '' @ [CHR 0x22] @ ''Thursday, October 24, 2025'' @ [CHR 0x22] @ '') for clarity.''"

definition query_text :: "str \<Rightarrow> str \<Rightarrow> str \<Rightarrow> str" where
  "query_text today question base =
     ''You are searching through a consolidated file containing ALL school emails and announcements for Denali.'' @ NL @
     NL @
     ''IMPORTANT CONTEXT: Today is '' @ today @ ''.'' @ NL @
     NL @
     ''Question: '' @ question @ NL @
     NL @
     ''OPTIMIZED INSTRUCTIONS (based on learned patterns): '' @ base @ NL @
     NL @
     ''SEARCH INSTRUCTIONS - READ CAREFULLY:'' @ NL @
     ''1. This file contains MULTIPLE emails organized by date. You MUST search through ALL of them.'' @ NL @
     ''2. The file structure is: '' @ [CHR 0x22] @ ''## Email: [DATE] - [SUBJECT]'' @ [CHR 0x22] @ '' followed by email content.'' @ NL @
     ''3. When searching for a person (e.g., '' @ [CHR 0x22] @ ''Ms. Lobeda'' @ [CHR 0x22] @ '', '' @ [CHR 0x22] @ ''Lobita'' @ [CHR 0x22] @ '', '' @ [CHR 0x22] @ ''Miss Lobeda'' @ [CHR 0x22] @ ''):'' @ NL @
     ''   - Search for emails WHERE the sender is that person (look for '' @ [CHR 0x22] @ ''**From:**'' @ [CHR 0x22] @ '' lines)'' @ NL @
     ''   - These names all refer to the same teacher: Lobeda, Lobita, Ms. Lobeda, Miss Lobeda, Grace Lobeda'' @ NL @
     ''4. When searching for a topic (e.g., '' @ [CHR 0x22] @ ''birthday policy'' @ [CHR 0x22] @ '', '' @ [CHR 0x22] @ ''dress code'' @ [CHR 0x22] @ ''):'' @ NL @
     ''   - Read through ALL emails that mention that topic'' @ NL @
     ''   - Look for complete policy information, not just brief mentions'' @ NL @
     ''   - Include ALL details: requirements, restrictions, quantities, deadlines'' @ NL @
     ''   - If an email says '' @ [CHR 0x22] @ ''review the dress code guidelines'' @ [CHR 0x22] @ '' but doesn't include them, check if there are attachments or other emails with the full guidelines'' @ NL @
     ''   - Extract the ACTUAL guidelines/policies, not just references to them'' @ NL @
     ''5. When you find the answer:'' @ NL @
     ''   - Provide COMPLETE information from the email(s)'' @ NL @
     ''   - Include specific details, not summaries'' @ NL @
     ''   - Quote relevant sections when helpful'' @ NL @
     ''   - Format your response to be ACTION-ORIENTED and EASY TO READ:'' @ NL @
     ''     * Use clear headings with **bold**'' @ NL @
     ''     * Use bullet points ('' @ [CHR 0xE2, CHR 0x80, CHR 0xA2] @ '') for lists'' @ NL @
     ''     * Highlight important dates with **'' @ [CHR 0xF0, CHR 0x9F, CHR 0x93, CHR 0x85] @ '' [DATE]**'' @ NL @
     ''     * Make action items stand out with '' @ [CHR 0xE2, CHR 0x9C, CHR 0x85] @ '' or '' @ [CHR 0xE2, CHR 0x9A, CHR 0xA0] @ [CHR 0xEF, CHR 0xB8, CHR 0x8F] @ NL @
     ''     * Use proper markdown formatting'' @ NL @
     ''   - If you only find references (like '' @ [CHR 0x22] @ ''please review the guidelines'' @ [CHR 0x22] @ ''), explicitly state that the full guidelines are not in the available emails, but mention where they might be found'' @ NL @
     ''6. If you cannot find the information after searching thoroughly, say: '' @ [CHR 0x22] @ ''I could not find information about [topic] in the available emails.'' @ [CHR 0x22] @ NL @
     NL @
     ''RESPONSE FORMATTING REQUIREMENTS:'' @ NL @
     ''- Use markdown formatting (**, *, lists)'' @ NL @
     ''- Make dates prominent (e.g., **'' @ [CHR 0xF0, CHR 0x9F, CHR 0x93, CHR 0x85] @ '' November 24, 2025**)'' @ NL @
     ''- Use bullet points ('' @ [CHR 0xE2, CHR 0x80, CHR 0xA2] @ '') for lists'' @ NL @
     ''- Add section headers for clarity (use **bold**)'' @ NL @
     ''- Make the response scannable and action-oriented'' @ NL @
     ''- Highlight requirements with '' @ [CHR 0xE2, CHR 0x9A, CHR 0xA0] @ [CHR 0xEF, CHR 0xB8, CHR 0x8F] @ '' and allowed items with '' @ [CHR 0xE2, CHR 0x9C, CHR 0x85] @ NL @
     NL @
     ''Now search the file and answer: '' @ question"

section \<open>Files\<close>

record md_file =
  md_name :: str
  md_mtime :: int
  md_size :: nat

record up_file =
  uf_state :: "str option"
  uf_time :: int
  uf_uri :: "str option"

definition ends_with :: "str \<Rightarrow> str \<Rightarrow> bool" where
  "ends_with s suf \<longleftrightarrow> starts_with (rev suf) (rev s)"

text \<open>\<open>glob("school-data-*.md")\<close>\<close>

definition is_school_md :: "md_file \<Rightarrow> bool" where
  "is_school_md f \<longleftrightarrow> starts_with ''school-data-'' (md_name f) \<and> ends_with (md_name f) ''.md''"

definition max_total_size :: nat where
  "max_total_size = 10 * 1024 * 1024"

text \<open>The files to use, newest first, until the next one would pass the budget; the
  first file is always taken.\<close>

fun select_files :: "nat \<Rightarrow> md_file list \<Rightarrow> md_file list \<Rightarrow> md_file list" where
  "select_files used acc [] = acc"
| "select_files used acc (f # fs) =
     (if used + md_size f > max_total_size \<and> acc \<noteq> [] then acc
      else select_files (used + md_size f) (acc @ [f]) fs)"

definition upper_char :: "char \<Rightarrow> char" where
  "upper_char c = (if is_lower_ascii c then char_of (of_char c - (32::nat)) else c)"

definition is_active :: "up_file \<Rightarrow> bool" where
  "is_active f \<longleftrightarrow> (case uf_state f of None \<Rightarrow> False | Some s \<Rightarrow> map upper_char s = ''ACTIVE'')"

text \<open>What the model call gives: the text of the response (\<open>None\<close> when it has none), or
  the text of the exception it raised.\<close>

datatype gen_outcome = Gen_text "str option" | Gen_fail str

record qp_env =
  api_key_set :: bool
  store_name :: str
  consolidated :: "md_file list option"
  uploaded :: "py_error + up_file list"
  generate :: "str \<Rightarrow> str \<Rightarrow> str list \<Rightarrow> gen_outcome"
  formatter :: "str \<Rightarrow> str \<Rightarrow> str option"
  key_hash :: "str \<Rightarrow> str"
  score_time :: rat


record qp_state =
  qp_cache :: cache_file
  qp_learn :: learn_store

text \<open>The exceptions \<open>ask_school_question\<close> raises: the configuration checks, and any
  exception of its main block, re-raised as \<open>Exception(f"Error generating response: {e}")\<close>.\<close>

datatype ask_error = Value_error str | Generation_error str

definition rate_limit_message :: str where
  "rate_limit_message = ''I'm currently experiencing rate limits from the Gemini API. '' @
     ''Please wait a few minutes and try again, or check your API usage at '' @
     ''https://ai.dev/usage?tab=rate-limit. '' @
     ''The files have been successfully uploaded to the File Search Store, so once the '' @
     ''rate limit resets, queries should work normally.''"

definition no_answer_message :: str where
  "no_answer_message = ''I couldn't generate a response. Please check your File Search Store configuration.''"

text \<open>Lines 68 to 126: the file URIs to send, or the message returned when there are none.\<close>

definition context_files :: "qp_env \<Rightarrow> str + str list" where
  "context_files env =
     (case consolidated env of
        None \<Rightarrow> Inl ''No consolidated data found. Please run email ingestion first.''
      | Some fs \<Rightarrow>
          (let md = sort_key (\<lambda>f. - md_mtime f) (filter is_school_md fs)
           in if md = [] then Inl ''No consolidated markdown files found. Please run email ingestion first.''
              else
                (let use = select_files 0 [] md
                 in case uploaded env of
                      Inl _ \<Rightarrow> Inl ''Error accessing uploaded files. Please check your API configuration.''
                    | Inr ups \<Rightarrow>
                        if ups = [] then Inl ''No files have been uploaded to Gemini yet. Please run the upload script first.''
                        else
                          (let act0 = filter is_active ups; act = (if act0 = [] then ups else act0);
                               uris = List.map_filter uf_uri (take (length use) (sort_key (\<lambda>f. - uf_time f) act))
                           in if uris = [] then Inl ''Files haven't been uploaded to Gemini yet. Please run the upload script first.''
                              else Inr uris))))"

text \<open>Lines 127 to 256: the prompt, the model call, and what follows a response.\<close>

definition ask_model ::
  "qp_env \<Rightarrow> bool \<Rightarrow> datetime \<Rightarrow> str \<Rightarrow> str list \<Rightarrow> qp_state \<Rightarrow> (ask_error + str) \<times> qp_state" where
  "ask_model env use_cache now question uris st =
     (let base = get_optimized_prompt_base (qp_learn st) question;
          today = long_date now;
          si = system_instruction today (fmt_year_week now) (long_date (next_day now))
      in case generate env si (query_text today question base) uris of
           Gen_fail e \<Rightarrow>
             if contains ''429'' e \<or> contains ''RESOURCE_EXHAUSTED'' e then (Inr rate_limit_message, st)
             else (Inl (Generation_error (''Error generating response: '' @ e)), st)
         | Gen_text t \<Rightarrow>
             (let a0 = (case t of None \<Rightarrow> no_answer_message | Some x \<Rightarrow> if x = [] then no_answer_message else x);
                  a = (case formatter env a0 question of None \<Rightarrow> a0 | Some y \<Rightarrow> y);
                  cf = (if use_cache \<and> a \<noteq> [] then cache_response (key_hash env) now question a (qp_cache st)
                        else qp_cache st);
                  s = fst (calculate_response_quality a question);
                  lf = track_query now question a (score_time env) (1/2 \<le> s) (Some s) False (qp_learn st)
              in (Inr a, \<lparr>qp_cache = cf, qp_learn = lf\<rparr>)))"

definition ask_rest ::
  "qp_env \<Rightarrow> bool \<Rightarrow> datetime \<Rightarrow> str \<Rightarrow> qp_state \<Rightarrow> (ask_error + str) \<times> qp_state" where
  "ask_rest env use_cache now question st =
     (case context_files env of
        Inl msg \<Rightarrow> (Inr msg, st)
      | Inr uris \<Rightarrow> ask_model env use_cache now question uris st)"

definition ask_school_question ::
  "qp_env \<Rightarrow> bool \<Rightarrow> datetime \<Rightarrow> str \<Rightarrow> qp_state \<Rightarrow> (ask_error + str) \<times> qp_state" where
  "ask_school_question env use_cache now question st =
     (if \<not> api_key_set env then (Inl (Value_error ''GOOGLE_API_KEY not set in environment variables''), st)
      else if store_name env = [] then
        (Inl (Value_error ''FILE_SEARCH_STORE_NAME not set in environment variables''), st)
      else
        (let (cached, cf) = (if use_cache then get_cached_response (key_hash env) now question (qp_cache st)
                             else (None, qp_cache st));
             st1 = st\<lparr>qp_cache := cf\<rparr>
         in case cached of
              Some a \<Rightarrow> if a \<noteq> [] then (Inr a, st1) else ask_rest env use_cache now question st1
            | None \<Rightarrow> ask_rest env use_cache now question st1))"

text \<open>A world in which the model answers "Friday", and an empty state.\<close>

definition env0 :: qp_env where
  "env0 = \<lparr>api_key_set = True, store_name = ''fileSearchStores/school'',
     consolidated = Some [\<lparr>md_name = ''school-data-2025-W45.md'', md_mtime = 1, md_size = 100\<rparr>],
     uploaded = Inr [\<lparr>uf_state = Some ''ACTIVE'', uf_time = 1, uf_uri = Some ''files/abc''\<rparr>],
     generate = (\<lambda>_ _ _. Gen_text (Some ''Friday'')), formatter = (\<lambda>x _. Some x),
     key_hash = (\<lambda>s. s), score_time = 0\<rparr>"

definition qp_st0 :: qp_state where
  "qp_st0 = \<lparr>qp_cache = Absent, qp_learn = st0\<rparr>"

section \<open>Properties\<close>

lemma ask_model_text:
  assumes "\<forall>si qt us. generate env si qt us = Gen_text (Some raw)" and "raw \<noteq> []"
    and "formatter env raw q = Some a" and "a \<noteq> []"
  shows "ask_model env True now q uris st =
           (Inr a, \<lparr>qp_cache = cache_response (key_hash env) now q a (qp_cache st),
                    qp_learn = track_query now q a (score_time env) (1/2 \<le> fst (calculate_response_quality a q))
                      (Some (fst (calculate_response_quality a q))) False (qp_learn st)\<rparr>)"
  using assms by (simp add: ask_model_def Let_def)

lemma cached_lookup_hit:
  "local_micros t \<le> local_micros now + int cache_expiry_days * 86400000000 \<Longrightarrow>
   get_cached_response h t q (cache_response h now q a f) = (Some a, cache_response h now q a f)"
  using store_lookup_key [of h now q a f]
  by (simp add: get_cached_response_def is_expired_def Let_def)

lemma context_files_generate [simp]: "context_files (env\<lparr>generate := g\<rparr>) = context_files env"
  by (simp add: context_files_def Let_def cong: option.case_cong sum.case_cong if_cong)

lemma context_files_formatter [simp]: "context_files (env\<lparr>formatter := f\<rparr>) = context_files env"
  by (simp add: context_files_def Let_def cong: option.case_cong sum.case_cong if_cong)

text \<open>The formatter's answer to a blank reply scores at least 0.7 for every question: it
  holds none of the error phrases (it says "couldn't", the list says "could not"), none of
  the generic phrases, and has 78 characters.\<close>

lemma no_information_quality: "7/10 \<le> fst (calculate_response_quality no_information_message q)"
proof -
  have e: "\<not> contains_any error_indicators (py_lower no_information_message)"
    and l: "py_len no_information_message = 78"
    and g: "\<not> contains_any generic_phrases (py_lower no_information_message)"
    by (simp_all add: quality_eval no_information_message_def py_lower_def lower_char_def
        char_of_def bit_0)
  show ?thesis
    using e l g by (auto simp: calculate_response_quality_def Let_def split: prod.split)
qed

lemma env0_context: "context_files env0 = Inr [''files/abc'']"
  by (simp add: context_files_def Let_def env0_def is_school_md_def ends_with_def is_active_def upper_char_def
      is_lower_ascii_def)

lemma qp_st0_miss: "fst (get_cached_response h now q (qp_cache qp_st0)) = None"
  by (simp add: qp_st0_def get_cached_response_def load_cache_def)

text \<open>C33. Composition of the query path with the cache, for any two environments sharing the key hash: once a question has been answered by the model (and formatted to a non-empty answer), asking it again within seven days returns the same answer from the cache and changes no state, whatever the model would now do.\<close>

theorem answer_served_from_cache:
  assumes "api_key_set env1" and "store_name env1 \<noteq> []"
    and "fst (get_cached_response (key_hash env1) now q (qp_cache st)) = None"
    and "context_files env1 = Inr uris"
    and "\<forall>si qt us. generate env1 si qt us = Gen_text (Some raw)" and "raw \<noteq> []"
    and "formatter env1 raw q = Some a" and "a \<noteq> []"
    and "api_key_set env" and "store_name env \<noteq> []" and "key_hash env = key_hash env1"
    and "local_micros t \<le> local_micros now + int cache_expiry_days * 86400000000"
  shows "fst (ask_school_question env1 True now q st) = Inr a
       \<and> ask_school_question env True t q (snd (ask_school_question env1 True now q st)) =
           (Inr a, snd (ask_school_question env1 True now q st))"
proof -
  obtain cf where lk: "get_cached_response (key_hash env1) now q (qp_cache st) = (None, cf)"
    using assms(3) by (cases "get_cached_response (key_hash env1) now q (qp_cache st)") auto
  let ?st1 = "st\<lparr>qp_cache := cf\<rparr>"
  have first: "ask_school_question env1 True now q st = ask_model env1 True now q uris ?st1"
    using assms(1,2,4) lk by (simp add: ask_school_question_def ask_rest_def)
  have cache1: "qp_cache (snd (ask_school_question env1 True now q st)) = cache_response (key_hash env1) now q a cf"
    and res1: "fst (ask_school_question env1 True now q st) = Inr a"
    unfolding first ask_model_text [OF assms(5-8)] by simp_all
  have hit: "get_cached_response (key_hash env) t q (qp_cache (snd (ask_school_question env1 True now q st))) =
               (Some a, qp_cache (snd (ask_school_question env1 True now q st)))"
    unfolding cache1 assms(11) by (rule cached_lookup_hit [OF assms(12)])
  show ?thesis
    using res1 hit assms(8-10) by (simp add: ask_school_question_def)
qed

theorem answer_served_from_cache_witness:
  "fst (ask_school_question env0 True (mk_dt 2025 11 3 18 0 0) ''When is the field trip?'' qp_st0) = Inr ''Friday''
   \<and> fst (ask_school_question (env0\<lparr>generate := (\<lambda>_ _ _. Gen_fail ''503 UNAVAILABLE'')\<rparr>) True
          (mk_dt 2025 11 5 9 0 0) ''When is the field trip?''
          (snd (ask_school_question env0 True (mk_dt 2025 11 3 18 0 0) ''When is the field trip?'' qp_st0)))
     = Inr ''Friday''"
proof -
  have le: "local_micros (mk_dt 2025 11 5 9 0 0) \<le> local_micros (mk_dt 2025 11 3 18 0 0) + int cache_expiry_days * 86400000000"
    by code_simp
  have g: "\<forall>si qt us. generate env0 si qt us = Gen_text (Some ''Friday'')"
    and f: "formatter env0 ''Friday'' ''When is the field trip?'' = Some ''Friday''"
    and k: "api_key_set env0" "store_name env0 \<noteq> []"
    by (simp_all add: env0_def)
  show ?thesis
    using answer_served_from_cache [of env0, OF k qp_st0_miss env0_context g _ f _ _ _ _ le,
        of "env0\<lparr>generate := (\<lambda>_ _ _. Gen_fail ''503 UNAVAILABLE'')\<rparr>"]
    by (simp add: env0_def)
qed

text \<open>C34. A failed model call leaves the learning files untouched and the cache as the lookup left it; a rate-limit failure (429 or RESOURCE_EXHAUSTED) is returned as the rate-limit message, any other as the generation error.\<close>

theorem model_failure_keeps_learning:
  assumes "api_key_set env" and "store_name env \<noteq> []"
    and "fst (get_cached_response (key_hash env) now q (qp_cache st)) = None"
    and "context_files env = Inr uris"
    and "\<forall>si qt us. generate env si qt us = Gen_fail e"
  shows "qp_learn (snd (ask_school_question env True now q st)) = qp_learn st
       \<and> qp_cache (snd (ask_school_question env True now q st)) = snd (get_cached_response (key_hash env) now q (qp_cache st))
       \<and> fst (ask_school_question env True now q st) =
           (if contains ''429'' e \<or> contains ''RESOURCE_EXHAUSTED'' e then Inr rate_limit_message
            else Inl (Generation_error (''Error generating response: '' @ e)))"
proof -
  obtain cf where lk: "get_cached_response (key_hash env) now q (qp_cache st) = (None, cf)"
    using assms(3) by (cases "get_cached_response (key_hash env) now q (qp_cache st)") auto
  show ?thesis
    using assms(1,2,4,5) lk by (simp add: ask_school_question_def ask_rest_def ask_model_def Let_def)
qed

theorem model_failure_keeps_learning_witness:
  "fst (ask_school_question (env0\<lparr>generate := (\<lambda>_ _ _. Gen_fail ''429 RESOURCE_EXHAUSTED'')\<rparr>) True
          (mk_dt 2025 11 3 18 0 0) ''When is the field trip?'' qp_st0) = Inr rate_limit_message
   \<and> qp_learn (snd (ask_school_question (env0\<lparr>generate := (\<lambda>_ _ _. Gen_fail ''429 RESOURCE_EXHAUSTED'')\<rparr>) True
          (mk_dt 2025 11 3 18 0 0) ''When is the field trip?'' qp_st0)) = st0"
proof -
  let ?env = "env0\<lparr>generate := (\<lambda>_ _ _. Gen_fail ''429 RESOURCE_EXHAUSTED'')\<rparr>"
  have k: "api_key_set ?env" "store_name ?env \<noteq> []"
    by (simp_all add: env0_def)
  have c: "context_files ?env = Inr [''files/abc'']"
    using env0_context by (simp add: context_files_generate)
  have g: "\<forall>si qt us. generate ?env si qt us = Gen_fail ''429 RESOURCE_EXHAUSTED''"
    by simp
  have r: "contains ''429'' ''429 RESOURCE_EXHAUSTED''"
    by simp
  show ?thesis
    using model_failure_keeps_learning [OF k qp_st0_miss c g] r by (simp add: qp_st0_def)
qed

text \<open>C35. Composition of the query path with the formatter, the scorer and the
  learning engine: when the model replies with blank text (which is truthy, so it is not
  replaced by the no-answer message), the formatter turns it into "I couldn't find
  information ...", that text is cached for seven days as the answer to the question, and
  the query is tracked as a success with a score of at least 0.7, whatever the question.\<close>

theorem blank_reply_cached_as_success:
  assumes "api_key_set env" and "store_name env \<noteq> []"
    and "get_cached_response (key_hash env) now q (qp_cache st) = (None, cf)"
    and "context_files env = Inr uris"
    and "\<forall>si qt us. generate env si qt us = Gen_text (Some raw)" and "raw \<noteq> []"
    and "py_strip raw = []"
    and "formatter env = (\<lambda>a q. Some (format_response_for_action a q))"
  shows "\<exists>s. 7/10 \<le> s \<and> ask_school_question env True now q st =
      (Inr no_information_message,
       \<lparr>qp_cache = cache_response (key_hash env) now q no_information_message cf,
        qp_learn = track_query now q no_information_message (score_time env) True (Some s) False
                     (qp_learn st)\<rparr>)"
proof -
  have f: "formatter env raw q = Some no_information_message"
    using assms(7,8) by (simp add: format_response_for_action_def)
  have ne: "no_information_message \<noteq> []"
    by (simp add: no_information_message_def)
  have first: "ask_school_question env True now q st = ask_model env True now q uris (st\<lparr>qp_cache := cf\<rparr>)"
    using assms(1-4) by (simp add: ask_school_question_def ask_rest_def)
  have s: "7/10 \<le> fst (calculate_response_quality no_information_message q)"
    by (rule no_information_quality)
  then have "1/2 \<le> fst (calculate_response_quality no_information_message q)"
    by simp
  then show ?thesis
    using s unfolding first ask_model_text [OF assms(5,6) f ne] by auto
qed

theorem blank_reply_cached_as_success_witness:
  "\<exists>s. 7/10 \<le> s \<and>
     qp_learn (snd (ask_school_question (env0\<lparr>generate := (\<lambda>_ _ _. Gen_text (Some '' '')),
        formatter := (\<lambda>a q. Some (format_response_for_action a q))\<rparr>) True (mk_dt 2025 11 3 18 0 0)
        ''When is the field trip?'' qp_st0)) =
     track_query (mk_dt 2025 11 3 18 0 0) ''When is the field trip?'' no_information_message 0 True
       (Some s) False st0"
proof -
  let ?env = "env0\<lparr>generate := (\<lambda>_ _ _. Gen_text (Some '' '')),
        formatter := (\<lambda>a q. Some (format_response_for_action a q))\<rparr>"
  obtain cf where lk: "get_cached_response (key_hash ?env) (mk_dt 2025 11 3 18 0 0)
      ''When is the field trip?'' (qp_cache qp_st0) = (None, cf)"
    using qp_st0_miss by (metis prod.collapse)
  have k: "api_key_set ?env" "store_name ?env \<noteq> []"
    by (simp_all add: env0_def)
  have c: "context_files ?env = Inr [''files/abc'']"
    using env0_context by simp
  have g: "\<forall>si qt us. generate ?env si qt us = Gen_text (Some '' '')"
    by simp
  have b: "py_strip '' '' = []"
    by (simp add: py_strip_def is_space_def)
  show ?thesis
    using blank_reply_cached_as_success [OF k lk c g _ b] by (auto simp: env0_def qp_st0_def)
qed

end
