(* ===== verification/Events.thy ===== *)
theory Events
  imports Regex Calendar
begin

text \<open>
  Calendar events from text: \<open>extract_dates_from_text\<close> of
  \<^verbatim>\<open>src/app/date_extractor.py\<close> (the model's JSON reply turned into events),
  \<open>detect_calendar_intent\<close>, \<open>parse_voice_calendar_command\<close> and
  \<open>create_calendar_from_voice\<close> of \<^verbatim>\<open>src/app/voice_calendar.py\<close>, and the event body
  that \<open>CalendarClient.create_event\<close> of \<^verbatim>\<open>src/app/calendar_client.py\<close> sends.
  The model call, \<open>json.loads\<close> and the Calendar API are fields of environment records:
  the model call gets today's date and the text, which is what its prompt is made of, and
  returns the reply's text or the text of the exception it raised. A JSON value is a
  \<open>jv\<close>; a number carries the text Python's \<open>str()\<close> gives it, which is all the code
  observes of it (its truth value, its type in an error message, its rendering in an
  f-string). Python's \<open>int()\<close> and \<open>datetime.strptime(s, '%Y-%m-%d')\<close> are modelled
  after CPython: \<open>%Y\<close>, \<open>%m\<close>, \<open>%d\<close> are the alternations of \<^verbatim>\<open>_strptime.py\<close>,
  matched with the backtracking matcher of \<^theory_text>\<open>Regex\<close>, and the match must reach
  the end of the string.
\<close>

section \<open>JSON values\<close>

datatype jv = JStr str | JNum str | JBool bool | JNull | JList "jv list" | JObj "(str \<times> jv) list"

text \<open>Truth value; \<open>str()\<close> of a zero is \<open>0\<close>, \<open>0.0\<close> or \<open>-0.0\<close>.\<close>

fun jv_truthy :: "jv \<Rightarrow> bool" where
  "jv_truthy (JStr s) = (s \<noteq> [])"
| "jv_truthy (JNum t) = (t \<notin> {''0'', ''0.0'', ''-0.0''})"
| "jv_truthy (JBool b) = b"
| "jv_truthy JNull = False"
| "jv_truthy (JList xs) = (xs \<noteq> [])"
| "jv_truthy (JObj kvs) = (kvs \<noteq> [])"

text \<open>\<open>d.get(k)\<close> on the dict \<open>json.loads\<close> builds: a repeated key keeps its last
  value.\<close>

definition jv_get :: "(str \<times> jv) list \<Rightarrow> str \<Rightarrow> jv option" where
  "jv_get kvs k = map_of (rev kvs) k"

definition jv_get_default :: "(str \<times> jv) list \<Rightarrow> str \<Rightarrow> jv \<Rightarrow> jv" where
  "jv_get_default kvs k d = (case jv_get kvs k of None \<Rightarrow> d | Some v \<Rightarrow> v)"

text \<open>The keys of that dict in the order of their first occurrence.\<close>

definition jv_keys :: "('a \<times> 'b) list \<Rightarrow> 'a list" where
  "jv_keys kvs = rev (remdups (rev (map fst kvs)))"

definition hex_digit :: "nat \<Rightarrow> char" where
  "hex_digit d = ''0123456789abcdef'' ! d"

text \<open>\<open>repr\<close> of a string: single quotes unless it holds a single quote and no double
  quote; backslash, the quote, \<open>\t \n \r\<close> and the other control characters escaped.
  Bytes outside ASCII are kept.\<close>

definition repr_char :: "char \<Rightarrow> char \<Rightarrow> str" where
  "repr_char q c =
     (if c = q \<or> c = CHR 0x5C then [CHR 0x5C, c]
      else if c = CHR 0x09 then [CHR 0x5C, CHR ''t'']
      else if c = CHR 0x0A then [CHR 0x5C, CHR ''n'']
      else if c = CHR 0x0D then [CHR 0x5C, CHR ''r'']
      else if (of_char c::nat) < 32 \<or> (of_char c::nat) = 127
      then [CHR 0x5C, CHR ''x'', hex_digit (of_char c div 16), hex_digit (of_char c mod 16)]
      else [c])"

definition py_repr_str :: "str \<Rightarrow> str" where
  "py_repr_str s =
     (let q = (if CHR 0x27 \<in> set s \<and> CHR 0x22 \<notin> set s then CHR 0x22 else CHR 0x27)
      in q # concat (map (repr_char q) s) @ [q])"

definition join_comma :: "str list \<Rightarrow> str" where
  "join_comma xs = (case xs of [] \<Rightarrow> [] | x # ys \<Rightarrow> x @ concat (map (\<lambda>y. '', '' @ y) ys))"

text \<open>The entries of a dict whose values are already rendered.\<close>

definition dict_render :: "(str \<times> str) list \<Rightarrow> str list" where
  "dict_render ps =
     map (\<lambda>k. py_repr_str k @ '': '' @ (case map_of (rev ps) k of None \<Rightarrow> [] | Some v \<Rightarrow> v)) (jv_keys ps)"

fun jv_repr :: "jv \<Rightarrow> str" where
  "jv_repr (JStr s) = py_repr_str s"
| "jv_repr (JNum t) = t"
| "jv_repr (JBool b) = (if b then ''True'' else ''False'')"
| "jv_repr JNull = ''None''"
| "jv_repr (JList xs) = ''['' @ join_comma (map jv_repr xs) @ '']''"
| "jv_repr (JObj kvs) = ''{'' @ join_comma (dict_render (map (\<lambda>(k, v). (k, jv_repr v)) kvs)) @ ''}''"

text \<open>\<open>f"{v}"\<close>: a string as it is, anything else as its \<open>repr\<close>.\<close>

definition jv_str :: "jv \<Rightarrow> str" where
  "jv_str v = (case v of JStr s \<Rightarrow> s | _ \<Rightarrow> jv_repr v)"

section \<open>Python's \<open>int()\<close> and \<open>strptime\<close>\<close>

fun no_double_underscore :: "str \<Rightarrow> bool" where
  "no_double_underscore (c # d # cs) =
     (\<not> (c = CHR ''_'' \<and> d = CHR ''_'') \<and> no_double_underscore (d # cs))"
| "no_double_underscore _ = True"

text \<open>\<open>int(s)\<close> for a string: surrounding white space, an optional sign, decimal digits
  with single underscores between them; \<open>None\<close> where it raises \<open>ValueError\<close>.\<close>

definition py_int :: "str \<Rightarrow> int option" where
  "py_int s =
     (let t = py_strip s;
          (neg, ds) = (case t of
                         c # cs \<Rightarrow> if c = CHR ''-'' then (True, cs)
                                  else if c = CHR ''+'' then (False, cs) else (False, t)
                       | [] \<Rightarrow> (False, []))
      in if ds \<noteq> [] \<and> is_digit (hd ds) \<and> is_digit (last ds) \<and> no_double_underscore ds
            \<and> (\<forall>c \<in> set ds. is_digit c \<or> c = CHR ''_'')
         then Some ((if neg then -1 else 1) * int (read_nat (filter is_digit ds)))
         else None)"

text \<open>\<open>%m\<close> is \<open>1[0-2]|0[1-9]|[1-9]\<close> and \<open>%d\<close> is
  \<open>3[01]|[12]\d|0[1-9]|[1-9]| [1-9]\<close>, each as its literals in the order the
  alternation tries them.\<close>

definition month_alts :: "str list" where
  "month_alts = [''10'', ''11'', ''12''] @ map (\<lambda>c. [CHR ''0'', c]) ''123456789'' @
                map (\<lambda>c. [c]) ''123456789''"

definition day_alts :: "str list" where
  "day_alts = [''30'', ''31''] @ concat (map (\<lambda>a. map (\<lambda>b. [a, b]) ''0123456789'') ''12'') @
              map (\<lambda>c. [CHR ''0'', c]) ''123456789'' @ map (\<lambda>c. [c]) ''123456789'' @
              map (\<lambda>c. [CHR '' '', c]) ''123456789''"

definition ymd_rx :: "rx list" where
  "ymd_rx = [Rep is_digit 4 (Some 4), Lit [''-''], Lit month_alts, Lit [''-''], Lit day_alts]"

text \<open>\<open>datetime.strptime(s, '%Y-%m-%d')\<close>; \<open>None\<close> where it raises \<open>ValueError\<close>
  (no match, unconverted data left, or a day the month does not have).\<close>

definition strptime_ymd :: "str \<Rightarrow> datetime option" where
  "strptime_ymd s =
     (case rmatch ymd_rx None s of
        None \<Rightarrow> None
      | Some (m, q, rest) \<Rightarrow>
          if rest \<noteq> [] then None
          else
            (let mo = takeWhile (\<lambda>c. c \<noteq> CHR ''-'') (drop 5 m);
                 t = mk_dt (read_nat (take 4 m)) (read_nat mo)
                       (read_nat (filter is_digit (drop (6 + length mo) m))) 0 0 0
             in if valid_date t then Some t else None))"

section \<open>\<open>extract_dates_from_text\<close>\<close>

text \<open>The start time of a \<open>time\<close> field: \<open>hour=int(parts[0])\<close>,
  \<open>minute=int(parts[1])\<close> (0 when there is no second part), and \<open>date.replace\<close>,
  which raises for an hour or minute out of range. Any raise keeps the date as it was.\<close>

definition set_start_time :: "str list \<Rightarrow> datetime \<Rightarrow> datetime" where
  "set_start_time parts d =
     (case py_int (hd parts) of
        None \<Rightarrow> d
      | Some h \<Rightarrow>
          (case (if 1 < length parts then py_int (parts ! 1) else Some 0) of
             None \<Rightarrow> d
           | Some mi \<Rightarrow>
               if 0 \<le> h \<and> h < 24 \<and> 0 \<le> mi \<and> mi < 60
               then d\<lparr>dt_hour := nat h, dt_minute := nat mi\<rparr> else d))"

text \<open>A \<open>time\<close> that is not a string raises inside the inner \<open>try\<close> (a \<open>TypeError\<close>
  at \<open>in\<close> or an \<open>AttributeError\<close> at \<open>split\<close>) and leaves the date.\<close>

definition apply_time :: "jv \<Rightarrow> datetime \<Rightarrow> datetime" where
  "apply_time t d =
     (case t of
        JStr ts \<Rightarrow>
          if CHR ''-'' \<in> set ts \<and> CHR '':'' \<in> set ts then
            set_start_time (py_split_on CHR '':'' (py_strip (hd (py_split_on CHR ''-'' ts)))) d
          else if CHR '':'' \<in> set ts then set_start_time (py_split_on CHR '':'' ts) d
          else d
      | _ \<Rightarrow> d)"

record parsed_event =
  pe_title :: jv
  pe_date :: datetime
  pe_time :: "jv option"
  pe_description :: jv
  pe_confidence :: jv

text \<open>One element of the reply: an element that is not an object, a missing or false
  \<open>date\<close>, a \<open>date\<close> that is not a string (\<open>TypeError\<close> in \<open>strptime\<close>) or does
  not parse is skipped.\<close>

definition parse_event :: "jv \<Rightarrow> parsed_event option" where
  "parse_event ev =
     (case ev of
        JObj kvs \<Rightarrow>
          (case jv_get kvs ''date'' of
             Some (JStr s) \<Rightarrow>
               if s = [] then None
               else
                 (case strptime_ymd s of
                    None \<Rightarrow> None
                  | Some d \<Rightarrow>
                      (let t = jv_get kvs ''time'';
                           d' = (case t of Some tv \<Rightarrow> if jv_truthy tv then apply_time tv d else d
                                         | None \<Rightarrow> d)
                       in Some \<lparr>pe_title = jv_get_default kvs ''title'' (JStr ''Untitled Event''),
                                pe_date = d', pe_time = t,
                                pe_description = jv_get_default kvs ''description'' (JStr []),
                                pe_confidence = jv_get_default kvs ''confidence'' (JNum ''0.5'')\<rparr>))
           | _ \<Rightarrow> None)
      | _ \<Rightarrow> None)"

fun parse_events :: "jv list \<Rightarrow> parsed_event list" where
  "parse_events [] = []"
| "parse_events (e # es) =
     (case parse_event e of None \<Rightarrow> parse_events es | Some p \<Rightarrow> p # parse_events es)"

text \<open>\<open>for event in events\<close>: a list gives its elements; a dict or a string gives keys or
  characters, each skipped as not an object; a number, boolean or null raises
  \<open>TypeError\<close>, and the outer handler returns the regex fallback, which is empty too.\<close>

definition json_items :: "jv \<Rightarrow> jv list" where
  "json_items j = (case j of JList xs \<Rightarrow> xs | _ \<Rightarrow> [])"

text \<open>The code-fence removal: lines starting with three backquotes toggle
  \<open>in_code_block\<close> and are dropped; other lines are kept inside a block, or when the
  reply starts with neither fence (which it always does where this runs).\<close>

fun fence_lines :: "bool \<Rightarrow> bool \<Rightarrow> str list \<Rightarrow> str list" where
  "fence_lines keep in_code_block [] = []"
| "fence_lines keep in_code_block (l # ls) =
     (if starts_with ''```'' (py_strip l) then fence_lines keep (\<not> in_code_block) ls
      else if in_code_block \<or> keep then l # fence_lines keep in_code_block ls
      else fence_lines keep in_code_block ls)"

definition strip_code_fence :: "str \<Rightarrow> str" where
  "strip_code_fence rt =
     py_join_nl (fence_lines (\<not> starts_with ''```json'' rt \<and> \<not> starts_with ''```'' rt) False
       (py_split_nl rt))"

text \<open>\<open>re.search(r'\[.*\]', s, re.DOTALL)\<close>: from the first \<open>[\<close> to the last \<open>]\<close>
  after it.\<close>

definition bracket_span :: "str \<Rightarrow> str option" where
  "bracket_span s =
     (let s1 = dropWhile (\<lambda>c. c \<noteq> CHR ''['') s;
          b = rev (dropWhile (\<lambda>c. c \<noteq> CHR '']'') (rev s1))
      in if s1 = [] \<or> b = [] then None else Some b)"

text \<open>\<open>_extract_dates_regex\<close>: it runs \<open>re.finditer\<close> over three patterns, but the loop
  body is \<open>pass\<close> and the list it returns is never appended to.\<close>

definition extract_dates_regex :: "str \<Rightarrow> parsed_event list" where
  "extract_dates_regex text = []"

record extract_env =
  ee_api_key :: bool
  ee_generate :: "datetime \<Rightarrow> str \<Rightarrow> str + str option"
  ee_json_loads :: "str \<Rightarrow> jv option"

definition api_key_error :: str where
  "api_key_error = ''GOOGLE_API_KEY not set in environment variables''"

text \<open>\<open>Inl\<close> is the text of the \<open>ValueError\<close> raised without an API key; an exception of
  the model call ends in the regex fallback.\<close>

definition extract_dates_from_text :: "extract_env \<Rightarrow> datetime \<Rightarrow> str \<Rightarrow> str + parsed_event list" where
  "extract_dates_from_text env now text =
     (if \<not> ee_api_key env then Inl api_key_error
      else
        (case ee_generate env now text of
           Inl e \<Rightarrow> Inr (extract_dates_regex text)
         | Inr None \<Rightarrow> Inr []
         | Inr (Some reply) \<Rightarrow>
             if reply = [] then Inr []
             else
               (let rt0 = py_strip reply;
                    rt = (if starts_with ''```'' rt0 then strip_code_fence rt0 else rt0)
                in case ee_json_loads env rt of
                     Some j \<Rightarrow> Inr (parse_events (json_items j))
                   | None \<Rightarrow>
                       (case bracket_span rt of
                          None \<Rightarrow> Inr []
                        | Some b \<Rightarrow>
                            (case ee_json_loads env b of
                               None \<Rightarrow> Inr []
                             | Some j \<Rightarrow> Inr (parse_events (json_items j)))))))"

section \<open>Voice commands\<close>

definition calendar_keywords :: "str list" where
  "calendar_keywords = [''add to calendar'', ''create event'', ''schedule'', ''reminder'', ''calendar'',
     ''add calendar'', ''set reminder'', ''add event'', ''appointment'', ''book'', ''plan'']"

definition detect_calendar_intent :: "str \<Rightarrow> bool" where
  "detect_calendar_intent text \<longleftrightarrow> contains_any calendar_keywords (py_lower text)"

text \<open>The first extracted event, or \<open>None\<close>; the manual fallback computes a title it
  never uses and returns \<open>None\<close>.\<close>

definition parse_voice_calendar_command :: "extract_env \<Rightarrow> datetime \<Rightarrow> str \<Rightarrow> parsed_event option" where
  "parse_voice_calendar_command env now text =
     (case extract_dates_from_text env now text of
        Inr (e # _) \<Rightarrow> Some e
      | _ \<Rightarrow> None)"

subsection \<open>The event body of \<open>create_event\<close>\<close>

definition pad_to :: "nat \<Rightarrow> nat \<Rightarrow> str" where
  "pad_to w n = replicate (w - length (show_nat n)) CHR ''0'' @ show_nat n"

text \<open>\<open>datetime.isoformat()\<close> of a naive time.\<close>

definition iso_format :: "datetime \<Rightarrow> str" where
  "iso_format t =
     pad_to 4 (dt_year t) @ ''-'' @ pad2 (dt_month t) @ ''-'' @ pad2 (dt_day t) @ ''T'' @ fmt_time t @
     (if dt_micro t = 0 then [] else ''.'' @ pad_to 6 (dt_micro t))"

text \<open>\<open>t + timedelta(hours=1)\<close>; \<open>None\<close> where it raises \<open>OverflowError\<close> (past year
  9999).\<close>

definition add_hour :: "datetime \<Rightarrow> datetime option" where
  "add_hour t =
     (if dt_hour t < 23 then Some (t\<lparr>dt_hour := Suc (dt_hour t)\<rparr>)
      else (let n = next_day t in if 9999 < dt_year n then None else Some (n\<lparr>dt_hour := 0\<rparr>)))"

record cal_body =
  cb_summary :: jv
  cb_description :: jv
  cb_location :: str
  cb_start :: str
  cb_end :: str
  cb_time_zone :: str
  cb_reminders :: "(str \<times> int) list"
  cb_attendees :: "str list option"

definition create_event_body ::
  "jv \<Rightarrow> datetime \<Rightarrow> jv \<Rightarrow> str \<Rightarrow> str list option \<Rightarrow> int \<Rightarrow> str + cal_body" where
  "create_event_body title start description location attendees reminder_minutes =
     (case add_hour start of
        None \<Rightarrow> Inl ''date value out of range''
      | Some end_datetime \<Rightarrow>
          Inr \<lparr>cb_summary = title, cb_description = description, cb_location = location,
               cb_start = iso_format start, cb_end = iso_format end_datetime,
               cb_time_zone = ''America/Denver'',
               cb_reminders = [(''email'', reminder_minutes), (''popup'', reminder_minutes)],
               cb_attendees = (case attendees of Some (a # as) \<Rightarrow> Some (a # as) | _ \<Rightarrow> None)\<rparr>)"

subsection \<open>\<open>create_calendar_from_voice\<close>\<close>

text \<open>The calendar side: the attendees and calendar id of the configuration, whether
  \<open>authenticate()\<close> raises (with its text), and the insert, given the calendar id, the
  body and \<open>sendUpdates\<close>, returning the new event's \<open>id\<close> and \<open>htmlLink\<close> or the
  text of its exception.\<close>

record cal_env =
  ce_attendees :: "str list"
  ce_calendar_id :: str
  ce_auth_error :: "str option"
  ce_insert :: "str \<Rightarrow> cal_body \<Rightarrow> str \<Rightarrow> str + (str option \<times> str option)"

record parsed_info =
  pi_title :: jv
  pi_date :: datetime
  pi_time :: "jv option"
  pi_description :: jv

datatype voice_result =
    Voice_created "str option" "str option" str jv str parsed_info
  | Voice_failed str str "parsed_info option"

text \<open>\<open>description[:100]\<close> of a JSON value, and the \<open>TypeError\<close> text where slicing
  raises (a dict's is that of Python 3.11 and earlier).\<close>

definition not_subscriptable :: str where
  "not_subscriptable = '' object is not subscriptable''"

definition slice100 :: "jv \<Rightarrow> str + jv" where
  "slice100 v =
     (case v of
        JStr s \<Rightarrow> Inr (JStr (py_take 100 s))
      | JList xs \<Rightarrow> Inr (JList (take 100 xs))
      | JNull \<Rightarrow> Inl (quoted ''NoneType'' @ not_subscriptable)
      | JBool b \<Rightarrow> Inl (quoted ''bool'' @ not_subscriptable)
      | JNum t \<Rightarrow> Inl (quoted (if CHR ''.'' \<in> set t \<or> CHR ''e'' \<in> set t \<or> CHR ''n'' \<in> set t
                                then ''float'' else ''int'') @ not_subscriptable)
      | JObj kvs \<Rightarrow> Inl (''unhashable type: '' @ quoted ''slice''))"

definition no_dates_message :: str where
  "no_dates_message =
     [CHR 0xE2, CHR 0x9D, CHR 0x8C] @ '' Could not extract date or event details from your request.'' @
     NL @ NL @ ''Please try a format like:'' @ NL @
     ''- '' @ [CHR 0x22] @ ''Add Music class on November 18th at 4:00 PM'' @ [CHR 0x22] @ NL @
     ''- '' @ [CHR 0x22] @ ''Create event: Field trip on December 15th at 10am'' @ [CHR 0x22]"

definition voice_error :: "str \<Rightarrow> voice_result" where
  "voice_error e = Voice_failed ([CHR 0xE2, CHR 0x9D, CHR 0x8C] @ '' Error creating calendar event: '' @ e) e None"

text \<open>\<open>strftime('%B %d, %Y')\<close>\<close>

definition month_day_year :: "datetime \<Rightarrow> str" where
  "month_day_year t = month_full_names ! (dt_month t - 1) @ '' '' @ pad2 (dt_day t) @ '', '' @
     show_nat (dt_year t)"

definition created_message :: "jv \<Rightarrow> datetime \<Rightarrow> jv option \<Rightarrow> str" where
  "created_message title d t =
     [CHR 0xE2, CHR 0x9C, CHR 0x85] @ '' Calendar event created successfully!'' @ NL @ NL @
     [CHR 0xF0, CHR 0x9F, CHR 0x93, CHR 0x85] @ '' **'' @ jv_str title @ ''**'' @ NL @
     [CHR 0xF0, CHR 0x9F, CHR 0x93, CHR 0x86] @ '' '' @ month_day_year d @
     (case t of Some tv \<Rightarrow> if jv_truthy tv then '' at '' @ jv_str tv else [] | None \<Rightarrow> [])"

text \<open>Every event the extractor returns has a date (a \<open>datetime\<close>, always true), so the
  "no date found" branch is not reachable and is left out.\<close>

definition create_calendar_from_voice :: "extract_env \<Rightarrow> cal_env \<Rightarrow> datetime \<Rightarrow> str \<Rightarrow> voice_result" where
  "create_calendar_from_voice env cal now text =
     (case extract_dates_from_text env now text of
        Inl e \<Rightarrow> voice_error e
      | Inr [] \<Rightarrow> Voice_failed no_dates_message ''No dates extracted'' None
      | Inr (ev # _) \<Rightarrow>
          (case slice100 (pe_description ev) of
             Inl e \<Rightarrow> voice_error e
           | Inr desc \<Rightarrow>
               (let info = \<lparr>pi_title = pe_title ev, pi_date = pe_date ev, pi_time = pe_time ev,
                            pi_description = desc\<rparr>
                in case ce_auth_error cal of
                     Some e \<Rightarrow> voice_error e
                   | None \<Rightarrow>
                       (let attendees = (if ce_attendees cal \<noteq> [] then Some (ce_attendees cal) else None)
                        in case create_event_body (pe_title ev) (pe_date ev) (pe_description ev) [] attendees 60 of
                             Inl e \<Rightarrow> voice_error e
                           | Inr body \<Rightarrow>
                               (case ce_insert cal (ce_calendar_id cal) body
                                       (if attendees \<noteq> None then ''all'' else ''none'') of
                                  Inl e \<Rightarrow> voice_error e
                                | Inr (eid, link) \<Rightarrow>
                                    Voice_created eid link (created_message (pe_title ev) (pe_date ev) (pe_time ev))
                                      (pe_title ev) (iso_format (pe_date ev)) info)))))"

section \<open>Properties\<close>

lemma no_double_underscore_digits: "CHR ''_'' \<notin> set s \<Longrightarrow> no_double_underscore s"
  by (induction s rule: no_double_underscore.induct) auto

lemma py_int_digits:
  assumes "s \<noteq> []" and "\<forall>c \<in> set s. is_digit c"
  shows "py_int s = Some (int (read_nat s))"
proof -
  have sp: "py_strip s = s"
    using assms by (intro py_strip_ends) (auto simp: digit_not_space)
  have h: "is_digit (hd s)" and l: "is_digit (last s)"
    using assms by auto
  have "hd s \<noteq> CHR ''-''" "hd s \<noteq> CHR ''+''"
    using h by (auto simp: is_digit_def)
  moreover have "CHR ''_'' \<notin> set s"
    using assms by (auto simp: is_digit_def)
  moreover have "filter is_digit s = s"
    using assms by auto
  ultimately show ?thesis
    using assms sp h l no_double_underscore_digits [of s]
    by (cases s) (auto simp: py_int_def Let_def)
qed

lemma py_int_show_nat: "py_int (show_nat n) = Some (int n)"
  using py_int_digits [of "show_nat n"] show_nat_digits by auto

lemma py_int_pad2: "py_int (pad2 m) = Some (int m)"
  using py_int_digits [of "pad2 m"] pad2_digits by auto

lemma py_int_pm: "py_int (pad2 m @ '' PM'') = None"
proof -
  have hd_d: "is_digit (hd (pad2 m))"
    using pad2_digits [of "hd (pad2 m)" m] by simp
  have "py_strip (pad2 m @ '' PM'') = pad2 m @ '' PM''"
    using digit_not_space [OF hd_d] by (intro py_strip_ends) (simp_all add: is_space_def)
  moreover have "hd (pad2 m @ '' PM'') \<noteq> CHR ''-''" "hd (pad2 m @ '' PM'') \<noteq> CHR ''+''"
    using hd_d by (auto simp: is_digit_def)
  moreover have "\<not> (\<forall>c \<in> set (pad2 m @ '' PM''). is_digit c \<or> c = CHR ''_'')"
    by (simp add: is_digit_def)
  ultimately show ?thesis
    by (cases "pad2 m @ '' PM''") (auto simp: py_int_def Let_def)
qed

lemma rmatch_year:
  assumes "is_digit a" "is_digit b" "is_digit c" "is_digit e"
  shows "rmatch (Rep is_digit 4 (Some 4) # r) p (a # b # c # e # CHR ''-'' # s) =
    map_option (\<lambda>(x, q, v). ([a, b, c, e] @ x, q, v)) (rmatch r (Some e) (CHR ''-'' # s))"
proof -
  have "\<not> is_digit CHR ''-''" by (simp add: is_digit_def)
  then show ?thesis
    using assms by (simp add: last_or_def split: option.split)
qed

lemma rmatch_month:
  assumes "1 \<le> m" "m \<le> 12"
  shows "rmatch (Lit month_alts # Lit [''-''] # r) p (pad2 m @ CHR ''-'' # s) =
    map_option (\<lambda>(x, q, v). (pad2 m @ ''-'' @ x, q, v)) (rmatch r (Some CHR ''-'') s)"
  using month_cases [OF assms]
  by (elim insertE emptyE)
     (simp_all add: month_alts_def pad2_def model_simps digit_char_def last_or_def split: option.split)

lemma day_cases:
  "1 \<le> d \<Longrightarrow> d \<le> 31 \<Longrightarrow> (d::nat) \<in> {1, 2, 3, 4, 5, 6, 7, 8, 9, 10, 11, 12, 13, 14, 15, 16, 17,
     18, 19, 20, 21, 22, 23, 24, 25, 26, 27, 28, 29, 30, 31}"
  by simp presburger

lemma rmatch_day:
  assumes "1 \<le> d" "d \<le> 31"
  shows "rmatch [Lit day_alts] p (pad2 d) = Some (pad2 d, last_or p (pad2 d), [])"
  using day_cases [OF assms]
  by (elim insertE emptyE) (simp_all add: day_alts_def pad2_def model_simps digit_char_def)

lemma pad_to_4:
  assumes "y \<le> 9999"
  shows "\<exists>a b c e. pad_to 4 y = [a, b, c, e] \<and> is_digit a \<and> is_digit b \<and> is_digit c \<and> is_digit e
           \<and> read_nat [a, b, c, e] = y"
proof -
  have "length (show_nat y) \<le> 4"
    using length_show_nat_le [of y 3] assms by simp
  then have l: "length (pad_to 4 y) = 4"
    by (simp add: pad_to_def)
  have d: "\<forall>c \<in> set (pad_to 4 y). is_digit c"
    using show_nat_digits by (auto simp: pad_to_def is_digit_def)
  have r: "read_nat (pad_to 4 y) = y"
    by (simp add: pad_to_def)
  obtain a b c e where "pad_to 4 y = [a, b, c, e]"
    using l by (auto simp: length_Suc_conv numeral_eq_Suc)
  then show ?thesis
    using d r by auto
qed

text \<open>The rules that evaluate the extractor on a concrete reply by \<open>simp\<close>.\<close>

lemma apply_time_date:
  "dt_year (apply_time t dt) = dt_year dt \<and> dt_month (apply_time t dt) = dt_month dt
   \<and> dt_day (apply_time t dt) = dt_day dt"
  by (simp add: apply_time_def set_start_time_def split: jv.split option.split)

lemmas events_eval = extract_dates_from_text_def json_items_def parse_event_def jv_get_def
  jv_get_default_def strptime_ymd_def ymd_rx_def month_alts_def day_alts_def apply_time_def
  set_start_time_def py_int_def py_strip_def is_space_def is_digit_def read_nat_def valid_date_def
  days_in_month_def is_leap_def mk_dt_def last_or_def

text \<open>C38. A failed model call is reported as "no dates found": when the call raises
  (a network or quota error), the "regex fallback" returns no events, so
  \<open>create_calendar_from_voice\<close> answers that no date could be extracted and
  \<open>parse_voice_calendar_command\<close> finds nothing, and the failure itself is never
  shown.\<close>

theorem model_failure_reports_no_dates:
  assumes "ee_api_key env" and "ee_generate env now text = Inl e"
  shows "extract_dates_from_text env now text = Inr []
    \<and> parse_voice_calendar_command env now text = None
    \<and> create_calendar_from_voice env cal now text = Voice_failed no_dates_message ''No dates extracted'' None"
  using assms
  by (simp add: extract_dates_from_text_def extract_dates_regex_def parse_voice_calendar_command_def
      create_calendar_from_voice_def)

theorem model_failure_reports_no_dates_witness:
  "create_calendar_from_voice
     \<lparr>ee_api_key = True, ee_generate = (\<lambda>_ _. Inl ''503 UNAVAILABLE''), ee_json_loads = (\<lambda>_. None)\<rparr>
     \<lparr>ce_attendees = [], ce_calendar_id = ''primary'', ce_auth_error = None,
      ce_insert = (\<lambda>_ _ _. Inr (Some ''ev1'', None))\<rparr>
     (mk_dt 2025 11 3 9 0 0) ''Add Music class on December 15th at 3pm''
   = Voice_failed no_dates_message ''No dates extracted'' None"
  using model_failure_reports_no_dates
    [of "\<lparr>ee_api_key = True, ee_generate = (\<lambda>_ _. Inl ''503 UNAVAILABLE''), ee_json_loads = (\<lambda>_. None)\<rparr>"
        "mk_dt 2025 11 3 9 0 0" "''Add Music class on December 15th at 3pm''" "''503 UNAVAILABLE''"
        "\<lparr>ce_attendees = [], ce_calendar_id = ''primary'', ce_auth_error = None,
          ce_insert = (\<lambda>_ _ _. Inr (Some ''ev1'', None))\<rparr>"]
  by simp

text \<open>C39. The start time of an event: a 24-hour time or range such as \<open>15:45-16:45\<close>
  sets the hour and minute of the event, but a 12-hour time such as
  \<open>3:45 PM - 4:45 PM\<close> or \<open>4:00 PM\<close>, which the comment of the code says it handles,
  leaves the event at midnight, because \<open>int('45 PM')\<close> raises.\<close>

theorem start_time_parsing:
  assumes "h < 24" and "m < 60"
  shows "apply_time (JStr (show_nat h @ '':'' @ pad2 m @ ''-'' @ show_nat h2 @ '':'' @ pad2 m2)) d =
           d\<lparr>dt_hour := h, dt_minute := m\<rparr>
    \<and> apply_time (JStr (show_nat h @ '':'' @ pad2 m @ '' PM - '' @ show_nat h2 @ '':'' @ pad2 m2 @ '' PM'')) d = d
    \<and> apply_time (JStr (show_nat h @ '':'' @ pad2 m @ '' PM'')) d = d"
proof -
  have nd: "\<not> is_digit CHR ''-''" "\<not> is_digit CHR '':''" "\<not> is_digit CHR '' ''" "\<not> is_digit CHR ''P''"
    by (simp_all add: is_digit_def)
  have split1: "py_split_on CHR ''-'' (show_nat h @ '':'' @ pad2 m @ ''-'' @ r) =
      (show_nat h @ '':'' @ pad2 m) # py_split_on CHR ''-'' r" for r
    using py_split_on_sep [of "CHR ''-''" "show_nat h @ '':'' @ pad2 m" r] nd
      show_nat_no [of "CHR ''-''" h] pad2_no [of "CHR ''-''" m] by simp
  have split2: "py_split_on CHR ''-'' (show_nat h @ '':'' @ pad2 m @ '' PM - '' @ r) =
      (show_nat h @ '':'' @ pad2 m @ '' PM '') # py_split_on CHR ''-'' ('' '' @ r)" for r
    using py_split_on_sep [of "CHR ''-''" "show_nat h @ '':'' @ pad2 m @ '' PM ''" "'' '' @ r"] nd
      show_nat_no [of "CHR ''-''" h] pad2_no [of "CHR ''-''" m] by simp
  have c1: "py_split_on CHR '':'' (show_nat h @ '':'' @ pad2 m) = [show_nat h, pad2 m]"
    using py_split_on_sep [of "CHR '':''" "show_nat h" "pad2 m"] py_split_on_none [of "CHR '':''" "pad2 m"]
      nd show_nat_no [of "CHR '':''" h] pad2_no [of "CHR '':''" m] by simp
  have c2: "py_split_on CHR '':'' (show_nat h @ '':'' @ pad2 m @ '' PM'') = [show_nat h, pad2 m @ '' PM'']"
    using py_split_on_sep [of "CHR '':''" "show_nat h" "pad2 m @ '' PM''"]
      py_split_on_none [of "CHR '':''" "pad2 m @ '' PM''"]
      nd show_nat_no [of "CHR '':''" h] pad2_no [of "CHR '':''" m] by simp
  have s1: "py_strip (show_nat h @ '':'' @ pad2 m) = show_nat h @ '':'' @ pad2 m"
    using show_nat_digits [of "hd (show_nat h)" h] pad2_digits [of "last (pad2 m)" m]
    by (intro py_strip_ends) (auto simp: digit_not_space)
  have s2: "py_strip (show_nat h @ '':'' @ pad2 m @ '' PM '') = show_nat h @ '':'' @ pad2 m @ '' PM''"
  proof -
    have e: "show_nat h @ '':'' @ pad2 m @ '' PM '' = (show_nat h @ '':'' @ pad2 m @ '' PM'') @ [CHR '' '']"
      by simp
    have hd_s: "\<not> is_space (hd (show_nat h))"
      using digit_not_space show_nat_digits [of "hd (show_nat h)" h] by simp
    have m: "\<not> is_space CHR ''M''"
      by (simp add: is_space_def)
    have "py_strip (show_nat h @ '':'' @ pad2 m @ '' PM'') = show_nat h @ '':'' @ pad2 m @ '' PM''"
      using hd_s m by (intro py_strip_ends) simp_all
    moreover have "is_space CHR '' ''"
      by (simp add: is_space_def)
    ultimately show ?thesis
      using py_strip_snoc_space [of "CHR '' ''" "show_nat h @ '':'' @ pad2 m @ '' PM''"] e by simp
  qed
  have t1: "set_start_time [show_nat h, pad2 m] d = d\<lparr>dt_hour := h, dt_minute := m\<rparr>"
    using assms by (simp add: set_start_time_def py_int_show_nat py_int_pad2)
  have t2: "set_start_time [show_nat h, pad2 m @ '' PM''] d = d"
    by (simp add: set_start_time_def py_int_show_nat py_int_pm)
  show ?thesis
    using split1 split2 c1 c2 s1 s2 t1 t2 nd show_nat_no [of "CHR ''-''" h] pad2_no [of "CHR ''-''" m]
    by (simp add: apply_time_def)
qed

theorem start_time_parsing_witness:
  "apply_time (JStr ''15:45-16:45'') (mk_dt 2025 11 18 0 0 0) = mk_dt 2025 11 18 15 45 0
   \<and> apply_time (JStr ''3:45 PM - 4:45 PM'') (mk_dt 2025 11 18 0 0 0) = mk_dt 2025 11 18 0 0 0"
proof -
  have e1: "show_nat 15 @ '':'' @ pad2 45 @ ''-'' @ show_nat 16 @ '':'' @ pad2 45 = ''15:45-16:45''"
    and e2: "show_nat 3 @ '':'' @ pad2 45 @ '' PM - '' @ show_nat 4 @ '':'' @ pad2 45 @ '' PM'' =
             ''3:45 PM - 4:45 PM''"
    by (simp_all add: pad2_def model_simps digit_char_def)
  show ?thesis
    using start_time_parsing [of 15 45 16 45 "mk_dt 2025 11 18 0 0 0"]
      start_time_parsing [of 3 45 4 45 "mk_dt 2025 11 18 0 0 0"]
    unfolding e1 e2 by (simp add: mk_dt_def)
qed

text \<open>Round trip with the date format the prompt asks for: every valid date with
  a four-digit year, written \<open>YYYY-MM-DD\<close> with zero padding (the date part of
  \<open>isoformat\<close>), is parsed back to that date by \<open>strptime(s, '%Y-%m-%d')\<close>.\<close>

lemma strptime_ymd_iso:
  assumes "1 \<le> y" "y \<le> 9999" "1 \<le> m" "m \<le> 12" "1 \<le> d" "d \<le> days_in_month y m"
  shows "strptime_ymd (pad_to 4 y @ ''-'' @ pad2 m @ ''-'' @ pad2 d) = Some (mk_dt y m d 0 0 0)"
proof -
  obtain a b c e where y4: "pad_to 4 y = [a, b, c, e]" and da: "is_digit a" "is_digit b" "is_digit c" "is_digit e"
    and ry: "read_nat [a, b, c, e] = y"
    using pad_to_4 [OF assms(2)] by blast
  have d31: "d \<le> 31"
    using assms(3,4,6) days_in_month_le [of m y] by linarith
  let ?w = "[a, b, c, e] @ CHR ''-'' # pad2 m @ CHR ''-'' # pad2 d"
  have r: "rmatch ymd_rx None ([a, b, c, e] @ ''-'' @ pad2 m @ ''-'' @ pad2 d) =
      Some (?w, last_or (Some CHR ''-'') (pad2 d), [])"
    using rmatch_year [OF da, of "[Lit [''-''], Lit month_alts, Lit [''-''], Lit day_alts]" None
        "pad2 m @ ''-'' @ pad2 d"]
      rmatch_month [OF assms(3,4), of "[Lit day_alts]" "Some CHR ''-''" "pad2 d"]
      rmatch_day [OF assms(5) d31, of "Some CHR ''-''"]
    by (simp add: ymd_rx_def last_or_def)
  have mo: "takeWhile (\<lambda>c. c \<noteq> CHR ''-'') (drop 5 ?w) = pad2 m"
  proof -
    have "\<not> is_digit CHR ''-''"
      by (simp add: is_digit_def)
    then have "\<forall>x \<in> set (pad2 m). x \<noteq> CHR ''-''"
      using pad2_digits [of _ m] by blast
    then show ?thesis by (simp add: takeWhile_append2)
  qed
  have dd: "filter is_digit (drop (6 + length (pad2 m)) ?w) = pad2 d"
  proof -
    have six: "6 + length (pad2 m) = Suc (Suc (Suc (Suc (Suc (Suc (length (pad2 m)))))))"
      by simp
    have "drop (6 + length (pad2 m)) ?w = pad2 d"
      unfolding six by simp
    then show ?thesis
      using pad2_digits [of _ d] by simp
  qed
  have v: "valid_date (mk_dt y m d 0 0 0)"
    using assms by (simp add: valid_date_def mk_dt_def)
  show ?thesis
    using r mo dd v ry unfolding y4 by (simp add: strptime_ymd_def Let_def)
qed

text \<open>C40. An event whose \<open>date\<close> is a valid date written \<open>YYYY-MM-DD\<close> (a
  four-digit year, the format the prompt asks for) is never skipped: \<open>parse_event\<close> keeps
  it, its start carries that year, month and day whatever its \<open>time\<close> says (the time only
  sets the hour and minute), the \<open>time\<close> value is kept as given, and without a
  \<open>time\<close> the start is midnight of that day.\<close>

theorem parse_event_iso_date:
  assumes "1 \<le> y" "y \<le> 9999" "1 \<le> m" "m \<le> 12" "1 \<le> d" "d \<le> days_in_month y m"
    and "jv_get kvs ''date'' = Some (JStr (pad_to 4 y @ ''-'' @ pad2 m @ ''-'' @ pad2 d))"
  shows "\<exists>e. parse_event (JObj kvs) = Some e \<and> dt_year (pe_date e) = y \<and> dt_month (pe_date e) = m
           \<and> dt_day (pe_date e) = d \<and> pe_time e = jv_get kvs ''time''
           \<and> (jv_get kvs ''time'' = None \<longrightarrow> pe_date e = mk_dt y m d 0 0 0)"
proof -
  have s: "strptime_ymd (pad_to 4 y @ ''-'' @ pad2 m @ ''-'' @ pad2 d) = Some (mk_dt y m d 0 0 0)"
    using strptime_ymd_iso [OF assms(1-6)] .
  show ?thesis
    using s assms(7) apply_time_date [of _ "mk_dt y m d 0 0 0"]
    by (auto simp add: parse_event_def Let_def mk_dt_def split: option.split)
qed

theorem parse_event_iso_date_witness:
  "\<exists>e. parse_event (JObj [(''title'', JStr ''Trip''), (''date'', JStr ''2025-11-18''),
        (''time'', JStr ''15:00'')]) = Some e
     \<and> dt_year (pe_date e) = 2025 \<and> dt_month (pe_date e) = 11 \<and> dt_day (pe_date e) = 18"
proof -
  have e: "pad_to 4 2025 @ ''-'' @ pad2 11 @ ''-'' @ pad2 18 = ''2025-11-18''"
    by (simp add: pad_to_def pad2_def model_simps digit_char_def)
  have dm: "(18::nat) \<le> days_in_month 2025 11"
    by (simp add: days_in_month_def)
  have "jv_get [(''title'', JStr ''Trip''), (''date'', JStr ''2025-11-18''), (''time'', JStr ''15:00'')]
      ''date'' = Some (JStr (pad_to 4 2025 @ ''-'' @ pad2 11 @ ''-'' @ pad2 18))"
    unfolding e by (simp add: jv_get_def)
  from parse_event_iso_date [of 2025 11 18, OF _ _ _ _ _ dm this]
  show ?thesis by auto
qed

text \<open>Example. A voice command whose reply is a JSON list with one event at
  \<open>2025-12-15\<close>, \<open>15:00\<close>, creates that event.\<close>

theorem voice_event_created_example:
  "create_calendar_from_voice
     \<lparr>ee_api_key = True, ee_generate = (\<lambda>_ _. Inr (Some ''[...]'')),
      ee_json_loads = (\<lambda>_. Some (JList [JObj [(''title'', JStr ''Music class''),
          (''date'', JStr ''2025-12-15''), (''time'', JStr ''15:00'')]]))\<rparr>
     \<lparr>ce_attendees = [], ce_calendar_id = ''primary'', ce_auth_error = None,
      ce_insert = (\<lambda>_ _ _. Inr (Some ''ev1'', None))\<rparr>
     (mk_dt 2025 11 3 9 0 0) ''Add Music class on December 15th at 3pm''
   = Voice_created (Some ''ev1'') None
       (created_message (JStr ''Music class'') (mk_dt 2025 12 15 15 0 0) (Some (JStr ''15:00'')))
       (JStr ''Music class'') ''2025-12-15T15:00:00''
       \<lparr>pi_title = JStr ''Music class'', pi_date = mk_dt 2025 12 15 15 0 0,
        pi_time = Some (JStr ''15:00''), pi_description = JStr []\<rparr>"
  by (simp add: create_calendar_from_voice_def events_eval regex_eval slice100_def create_event_body_def
      add_hour_def iso_format_def pad_to_def pad2_def fmt_time_def model_simps digit_char_def Let_def
      char_of_def bit_0 split: option.split)

end
