(* ===== verification/Gmail.thy ===== *)
theory Gmail
  imports Events Notify
begin

text \<open>
  The Gmail client of \<^verbatim>\<open>src/app/gmail_client.py\<close> and the list parsing of
  \<^verbatim>\<open>src/app/config.py\<close>. The API's replies are decoded JSON (\<open>jv\<close>), and the code
  works on them with Python's dynamic operations: \<open>k in v\<close>, \<open>v.get(k, d)\<close>, \<open>v[k]\<close>
  and \<open>for x in v\<close>, each of which raises on a value of the wrong type; they are
  \<open>py_in\<close>, \<open>py_get\<close>, \<open>py_index\<close> and \<open>py_iter\<close>, with the exception's text as
  \<open>Inl\<close>. The network (\<open>authenticate\<close>, \<open>messages().list\<close>, \<open>messages().get\<close>,
  \<open>attachments().get\<close>), \<open>base64.urlsafe_b64decode\<close>,
  \<open>bytes.decode('utf-8', errors='ignore')\<close>, \<open>parsedate_to_datetime\<close> and
  \<open>datetime.now()\<close> are fields of the record \<open>gmail_env\<close>; an API call returns the
  reply or the text of the \<open>HttpError\<close> it raised. The code catches \<open>HttpError\<close>
  only, so every other exception leaves \<open>fetch_school_emails\<close>: its result is
  \<open>Inl\<close> of that exception's text. Iterating a string yields its characters (bytes here).
\<close>

section \<open>Configuration lists and the search query\<close>

text \<open>\<open>Config._parse_list\<close>: comma-separated items, stripped, empty ones dropped.\<close>

definition parse_list :: "str \<Rightarrow> str list" where
  "parse_list v =
     (if v = [] then [] else filter (\<lambda>i. i \<noteq> []) (map py_strip (py_split_on (CHR '','') v)))"

text \<open>\<open>' OR '.join(xs)\<close>.\<close>

definition join_or :: "str list \<Rightarrow> str" where
  "join_or xs = (case xs of [] \<Rightarrow> [] | x # ys \<Rightarrow> x @ concat (map (\<lambda>y. '' OR '' @ y) ys))"

definition from_group :: "str list \<Rightarrow> str" where
  "from_group xs = ''('' @ join_or (map (\<lambda>d. ''from:'' @ d) xs) @ '')''"

text \<open>\<open>GmailClient._build_query\<close> over \<open>SCHOOL_DOMAINS\<close> and \<open>SCHOOL_SENDERS\<close>.\<close>

definition build_query :: "str list \<Rightarrow> str list \<Rightarrow> str" where
  "build_query domains senders =
     (let query_parts = (if domains \<noteq> [] then [from_group domains] else [])
                        @ (if senders \<noteq> [] then [from_group senders] else []);
          base_query = (if 1 < length query_parts then ''('' @ join_or query_parts @ '')''
                        else if length query_parts = 1 then hd query_parts else [])
      in if base_query \<noteq> [] then base_query @ '' newer_than:30d'' else ''newer_than:30d'')"

section \<open>Python's operations on decoded JSON\<close>

definition py_type_name :: "jv \<Rightarrow> str" where
  "py_type_name v =
     (case v of
        JStr _ \<Rightarrow> ''str''
      | JNum t \<Rightarrow> (if CHR ''.'' \<in> set t \<or> CHR ''e'' \<in> set t \<or> CHR ''n'' \<in> set t
                   then ''float'' else ''int'')
      | JBool _ \<Rightarrow> ''bool''
      | JNull \<Rightarrow> ''NoneType''
      | JList _ \<Rightarrow> ''list''
      | JObj _ \<Rightarrow> ''dict'')"

text \<open>\<open>k in v\<close> for a string \<open>k\<close>: a dict's keys, a substring, a list's items.\<close>

definition py_in :: "str \<Rightarrow> jv \<Rightarrow> str + bool" where
  "py_in k v =
     (case v of
        JObj kvs \<Rightarrow> Inr (k \<in> set (map fst kvs))
      | JStr s \<Rightarrow> Inr (contains k s)
      | JList xs \<Rightarrow> Inr (JStr k \<in> set xs)
      | _ \<Rightarrow> Inl (''argument of type '' @ quoted (py_type_name v) @ '' is not iterable''))"

text \<open>\<open>v.get(k, d)\<close>.\<close>

definition py_get :: "jv \<Rightarrow> str \<Rightarrow> jv \<Rightarrow> str + jv" where
  "py_get v k d =
     (case v of
        JObj kvs \<Rightarrow> Inr (jv_get_default kvs k d)
      | _ \<Rightarrow> Inl (quoted (py_type_name v) @ '' object has no attribute '' @ quoted ''get''))"

text \<open>\<open>v[k]\<close> for a string \<open>k\<close>; \<open>str(KeyError(k))\<close> is \<open>repr(k)\<close>.\<close>

definition py_index :: "jv \<Rightarrow> str \<Rightarrow> str + jv" where
  "py_index v k =
     (case v of
        JObj kvs \<Rightarrow> (case jv_get kvs k of Some x \<Rightarrow> Inr x | None \<Rightarrow> Inl (py_repr_str k))
      | JStr _ \<Rightarrow> Inl (''string indices must be integers, not '' @ quoted ''str'')
      | JList _ \<Rightarrow> Inl ''list indices must be integers or slices, not str''
      | _ \<Rightarrow> Inl (quoted (py_type_name v) @ not_subscriptable))"

text \<open>\<open>for x in v\<close>: a list's items, a string's characters, a dict's keys.\<close>

definition py_iter :: "jv \<Rightarrow> str + jv list" where
  "py_iter v =
     (case v of
        JList xs \<Rightarrow> Inr xs
      | JStr s \<Rightarrow> Inr (map (\<lambda>c. JStr [c]) s)
      | JObj kvs \<Rightarrow> Inr (map JStr (jv_keys kvs))
      | _ \<Rightarrow> Inl (quoted (py_type_name v) @ '' object is not iterable''))"

text \<open>A loop that stops at the first exception.\<close>

fun all_ok :: "('e + 'a) list \<Rightarrow> 'e + 'a list" where
  "all_ok [] = Inr []"
| "all_ok (Inl e # rs) = Inl e"
| "all_ok (Inr a # rs) = map_sum id (Cons a) (all_ok rs)"

section \<open>The environment\<close>

record gmail_env =
  ge_auth_error :: "str option"
  ge_domains :: "str list"
  ge_senders :: "str list"
  ge_list :: "str \<Rightarrow> nat \<Rightarrow> str + jv"
  ge_get :: "jv \<Rightarrow> str + jv"
  ge_attachment :: "jv \<Rightarrow> jv \<Rightarrow> str + jv"
  ge_b64decode :: "str \<Rightarrow> str + str"
  ge_utf8_ignore :: "str \<Rightarrow> str"
  ge_parsedate :: "jv \<Rightarrow> datetime option"
  ge_now :: datetime

text \<open>\<open>base64.urlsafe_b64decode(d)\<close> takes a string; anything else raises.\<close>

definition b64decode :: "gmail_env \<Rightarrow> jv \<Rightarrow> str + str" where
  "b64decode env d =
     (case d of
        JStr s \<Rightarrow> ge_b64decode env s
      | _ \<Rightarrow> Inl (''argument should be a bytes-like object or ASCII string, not ''
                  @ quoted (py_type_name d)))"

section \<open>The message body\<close>

text \<open>\<open>re.sub('<[^<]+?>', '', html)\<close>. After a \<open><\<close>, the lazy \<open>[^<]+?\<close> takes one
  character other than \<open><\<close> and then stops at the first \<open>>\<close>; a \<open><\<close> before it, or the
  end of the text, fails the match there, and the scan goes on after the \<open><\<close>.\<close>

fun tag_close :: "str \<Rightarrow> str option" where
  "tag_close [] = None"
| "tag_close (c # cs) =
     (if c = CHR ''>'' then Some cs else if c = CHR ''<'' then None else tag_close cs)"

definition tag_rest :: "str \<Rightarrow> str option" where
  "tag_rest s = (case s of [] \<Rightarrow> None | c # cs \<Rightarrow> if c = CHR ''<'' then None else tag_close cs)"

lemma tag_close_shorter: "tag_close s = Some r \<Longrightarrow> length r < length s"
  by (induction s) (auto split: if_splits)

lemma tag_rest_shorter: "tag_rest s = Some r \<Longrightarrow> length r < length s"
  by (auto simp: tag_rest_def split: list.splits if_splits dest!: tag_close_shorter)

function strip_tags :: "str \<Rightarrow> str" where
  "strip_tags [] = []"
| "strip_tags (c # cs) =
     (if c = CHR ''<'' then (case tag_rest cs of Some r \<Rightarrow> strip_tags r | None \<Rightarrow> c # strip_tags cs)
      else c # strip_tags cs)"
  by pat_completeness auto
termination
  by (relation "measure length") (auto dest: tag_rest_shorter)

text \<open>\<open>payload.get('body', {}).get('data', '')\<close>.\<close>

definition part_data :: "jv \<Rightarrow> str + jv" where
  "part_data p = (case py_get p ''body'' (JObj []) of Inl e \<Rightarrow> Inl e | Inr b \<Rightarrow> py_get b ''data'' (JStr []))"

text \<open>The leaf branch of \<open>_extract_from_payload\<close> in \<open>_extract_email_body\<close>. Its
  \<open>text\<close> is the local of this call, still empty when the HTML branch asks
  \<open>not text\<close>.\<close>

definition body_leaf :: "gmail_env \<Rightarrow> jv \<Rightarrow> str + str" where
  "body_leaf env p =
     (let text = ([] :: str) in
      case py_get p ''mimeType'' JNull of
        Inl e \<Rightarrow> Inl e
      | Inr m \<Rightarrow>
          if m = JStr ''text/plain'' then
            (case part_data p of
               Inl e \<Rightarrow> Inl e
             | Inr d \<Rightarrow> if jv_truthy d then map_sum id (\<lambda>b. text @ ge_utf8_ignore env b) (b64decode env d)
                       else Inr text)
          else if m = JStr ''text/html'' then
            (case part_data p of
               Inl e \<Rightarrow> Inl e
             | Inr d \<Rightarrow> if jv_truthy d \<and> text = [] then map_sum id (\<lambda>b. strip_tags (ge_utf8_ignore env b)) (b64decode env d)
                       else Inr text)
          else Inr text)"

lemma jobj_entry_smaller: "(k, v) \<in> set kvs \<Longrightarrow> size v < size (JObj kvs)"
  by (induction kvs) auto

lemma py_index_smaller: "py_index p k = Inr v \<Longrightarrow> size v < size p"
proof (cases p)
  case (JObj kvs)
  assume "py_index p k = Inr v"
  then have "(k, v) \<in> set kvs"
    using JObj by (auto simp: py_index_def jv_get_def split: option.splits dest!: map_of_SomeD)
  with JObj jobj_entry_smaller show ?thesis by blast
qed (auto simp: py_index_def)

lemma py_iter_smaller: "py_iter v = Inr xs \<Longrightarrow> x \<in> set xs \<Longrightarrow> size x \<le> size v"
  by (cases v) (auto simp: py_iter_def intro: le_SucI size_list_estimation')

function body_walk :: "gmail_env \<Rightarrow> jv \<Rightarrow> str + str" where
  "body_walk env p =
     (case py_in ''parts'' p of
        Inl e \<Rightarrow> Inl e
      | Inr True \<Rightarrow>
          (case py_index p ''parts'' of
             Inl e \<Rightarrow> Inl e
           | Inr ps \<Rightarrow>
               (case py_iter ps of
                  Inl e \<Rightarrow> Inl e
                | Inr xs \<Rightarrow> map_sum id concat (all_ok (map (body_walk env) xs))))
      | Inr False \<Rightarrow> body_leaf env p)"
  by pat_completeness auto
termination
  by (relation "measure (\<lambda>(env, p). size p)")
     (auto dest!: py_index_smaller py_iter_smaller)

text \<open>\<open>_extract_email_body\<close>: the walk from \<open>message['payload']\<close>, stripped.\<close>

definition extract_email_body :: "gmail_env \<Rightarrow> jv \<Rightarrow> str + str" where
  "extract_email_body env message_json =
     (case py_in ''payload'' message_json of
        Inl e \<Rightarrow> Inl e
      | Inr False \<Rightarrow> Inr (py_strip [])
      | Inr True \<Rightarrow>
          (case py_index message_json ''payload'' of
             Inl e \<Rightarrow> Inl e
           | Inr p \<Rightarrow> map_sum id py_strip (body_walk env p)))"

section \<open>Attachments\<close>

text \<open>The leaf branch of \<open>_extract_from_payload\<close> in \<open>_extract_attachments\<close>: a part
  with a file name and an attachment id is downloaded; an \<open>HttpError\<close> of the download
  is printed and the part skipped, any other exception (a reply without \<open>data\<close>, bad
  base64) propagates.\<close>

definition atts_leaf :: "gmail_env \<Rightarrow> jv \<Rightarrow> jv \<Rightarrow> str + attachment list" where
  "atts_leaf env message_id p =
     (case py_get p ''filename'' (JStr []) of
        Inl e \<Rightarrow> Inl e
      | Inr filename \<Rightarrow>
      if \<not> jv_truthy filename then Inr [] else
      case py_in ''body'' p of
        Inl e \<Rightarrow> Inl e
      | Inr False \<Rightarrow> Inr []
      | Inr True \<Rightarrow>
      case py_index p ''body'' of
        Inl e \<Rightarrow> Inl e
      | Inr body \<Rightarrow>
      case py_in ''attachmentId'' body of
        Inl e \<Rightarrow> Inl e
      | Inr False \<Rightarrow> Inr []
      | Inr True \<Rightarrow>
      case py_index body ''attachmentId'' of
        Inl e \<Rightarrow> Inl e
      | Inr attachment_id \<Rightarrow>
      case py_get p ''mimeType'' (JStr ''application/octet-stream'') of
        Inl e \<Rightarrow> Inl e
      | Inr mime_type \<Rightarrow>
      case ge_attachment env message_id attachment_id of
        Inl http_error \<Rightarrow> Inr []
      | Inr attachment \<Rightarrow>
      case py_index attachment ''data'' of
        Inl e \<Rightarrow> Inl e
      | Inr d \<Rightarrow>
      case b64decode env d of
        Inl e \<Rightarrow> Inl e
      | Inr data \<Rightarrow>
          Inr [\<lparr>att_filename = jv_str filename, att_mime_type = jv_str mime_type, att_data = data\<rparr>])"

function atts_walk :: "gmail_env \<Rightarrow> jv \<Rightarrow> jv \<Rightarrow> str + attachment list" where
  "atts_walk env message_id p =
     (case py_in ''parts'' p of
        Inl e \<Rightarrow> Inl e
      | Inr True \<Rightarrow>
          (case py_index p ''parts'' of
             Inl e \<Rightarrow> Inl e
           | Inr ps \<Rightarrow>
               (case py_iter ps of
                  Inl e \<Rightarrow> Inl e
                | Inr xs \<Rightarrow> map_sum id concat (all_ok (map (atts_walk env message_id) xs))))
      | Inr False \<Rightarrow> atts_leaf env message_id p)"
  by pat_completeness auto
termination
  by (relation "measure (\<lambda>(env, mid, p). size p)")
     (auto dest!: py_index_smaller py_iter_smaller)

definition extract_attachments :: "gmail_env \<Rightarrow> jv \<Rightarrow> str + attachment list" where
  "extract_attachments env message_json =
     (case py_in ''payload'' message_json of
        Inl e \<Rightarrow> Inl e
      | Inr False \<Rightarrow> Inr []
      | Inr True \<Rightarrow>
          (case py_index message_json ''payload'' of
             Inl e \<Rightarrow> Inl e
           | Inr p \<Rightarrow>
               (case py_index message_json ''id'' of
                  Inl e \<Rightarrow> Inl e
                | Inr message_id \<Rightarrow> atts_walk env message_id p)))"

section \<open>Fetching\<close>

text \<open>\<open>{h['name']: h['value'] for h in ...}\<close>: the key first, then the value, then the
  insertion, which raises for an unhashable key; a later header of the same name wins.\<close>

definition unhashable :: "jv \<Rightarrow> bool" where
  "unhashable v = (case v of JList _ \<Rightarrow> True | JObj _ \<Rightarrow> True | _ \<Rightarrow> False)"

fun header_dict :: "jv list \<Rightarrow> str + (jv \<times> jv) list" where
  "header_dict [] = Inr []"
| "header_dict (h # hs) =
     (case py_index h ''name'' of
        Inl e \<Rightarrow> Inl e
      | Inr n \<Rightarrow>
          (case py_index h ''value'' of
             Inl e \<Rightarrow> Inl e
           | Inr v \<Rightarrow>
               if unhashable n then Inl (''unhashable type: '' @ quoted (py_type_name n))
               else map_sum id (Cons (n, v)) (header_dict hs)))"

definition header_value :: "(jv \<times> jv) list \<Rightarrow> str \<Rightarrow> jv \<Rightarrow> jv" where
  "header_value hs k d = (case map_of (rev hs) (JStr k) of None \<Rightarrow> d | Some v \<Rightarrow> v)"

text \<open>\<open>parsedate_to_datetime(date_str) if date_str else datetime.now()\<close>, with
  \<open>ValueError\<close> and \<open>TypeError\<close> falling back to \<open>datetime.now()\<close>.\<close>

definition parse_date :: "gmail_env \<Rightarrow> jv \<Rightarrow> datetime" where
  "parse_date env date_str =
     (if jv_truthy date_str
      then (case ge_parsedate env date_str of Some d \<Rightarrow> d | None \<Rightarrow> ge_now env)
      else ge_now env)"

text \<open>The body of the \<open>try\<close> for one message, after \<open>messages().get\<close>.\<close>

definition parse_message :: "gmail_env \<Rightarrow> jv \<Rightarrow> str + email" where
  "parse_message env message_json =
     (case py_index message_json ''payload'' of
        Inl e \<Rightarrow> Inl e
      | Inr p \<Rightarrow>
      case py_get p ''headers'' (JList []) of
        Inl e \<Rightarrow> Inl e
      | Inr hv \<Rightarrow>
      case py_iter hv of
        Inl e \<Rightarrow> Inl e
      | Inr hl \<Rightarrow>
      case header_dict hl of
        Inl e \<Rightarrow> Inl e
      | Inr headers \<Rightarrow>
      case extract_email_body env message_json of
        Inl e \<Rightarrow> Inl e
      | Inr body \<Rightarrow>
      case extract_attachments env message_json of
        Inl e \<Rightarrow> Inl e
      | Inr attachments \<Rightarrow>
      case py_index message_json ''id'' of
        Inl e \<Rightarrow> Inl e
      | Inr i \<Rightarrow>
          Inr \<lparr>email_id = jv_str i,
               subject = jv_str (header_value headers ''Subject'' (JStr ''(No Subject)'')),
               sender = jv_str (header_value headers ''From'' (JStr ''Unknown'')),
               email_date = parse_date env (header_value headers ''Date'' (JStr [])),
               body_text = body, email_attachments = attachments\<rparr>)"

text \<open>The loop over the listed messages: an \<open>HttpError\<close> of \<open>messages().get\<close> skips
  the message, any other exception ends the fetch.\<close>

fun fetch_messages :: "gmail_env \<Rightarrow> jv list \<Rightarrow> str + email list" where
  "fetch_messages env [] = Inr []"
| "fetch_messages env (msg # msgs) =
     (case py_index msg ''id'' of
        Inl e \<Rightarrow> Inl e
      | Inr i \<Rightarrow>
          (case ge_get env i of
             Inl http_error \<Rightarrow> fetch_messages env msgs
           | Inr message_json \<Rightarrow>
               (case parse_message env message_json of
                  Inl e \<Rightarrow> Inl e
                | Inr em \<Rightarrow> map_sum id (Cons em) (fetch_messages env msgs))))"

text \<open>\<open>fetch_school_emails(max_results)\<close>: a fresh client authenticates, lists the
  messages of the query and fetches each; an \<open>HttpError\<close> of the listing gives no
  e-mails.\<close>

definition fetch_school_emails :: "gmail_env \<Rightarrow> nat \<Rightarrow> str + email list" where
  "fetch_school_emails env max_results =
     (case ge_auth_error env of
        Some e \<Rightarrow> Inl e
      | None \<Rightarrow>
          (case ge_list env (build_query (ge_domains env) (ge_senders env)) max_results of
             Inl http_error \<Rightarrow> Inr []
           | Inr results \<Rightarrow>
               (case py_get results ''messages'' (JList []) of
                  Inl e \<Rightarrow> Inl e
                | Inr messages \<Rightarrow>
                    (case py_iter messages of
                       Inl e \<Rightarrow> Inl e
                     | Inr msgs \<Rightarrow> fetch_messages env msgs))))"

text \<open>The fetch as the notification check sees it: the exception, if any, as a
  \<open>py_error\<close>.\<close>

definition fetch_for_check :: "gmail_env \<Rightarrow> nat \<Rightarrow> py_error + email list" where
  "fetch_for_check env n = map_sum OtherError id (fetch_school_emails env n)"

section \<open>Properties\<close>

lemmas gmail_eval = py_in_def py_index_def py_get_def py_iter_def jv_get_def jv_get_default_def
  body_leaf_def part_data_def b64decode_def extract_email_body_def

lemma body_walk_parts:
  "''parts'' \<in> set (map fst kvs) \<Longrightarrow> jv_get kvs ''parts'' = Some (JList xs) \<Longrightarrow>
   body_walk env (JObj kvs) = map_sum id concat (all_ok (map (body_walk env) xs))"
  by (simp add: body_walk.simps py_in_def py_index_def py_iter_def)

lemma body_walk_leaf:
  "''parts'' \<notin> set (map fst kvs) \<Longrightarrow> body_walk env (JObj kvs) = body_leaf env (JObj kvs)"
  by (simp add: body_walk.simps py_in_def)

lemma fetch_messages_append:
  "fetch_messages env (xs @ ys) =
     (case fetch_messages env xs of Inl e \<Rightarrow> Inl e | Inr a \<Rightarrow> map_sum id (append a) (fetch_messages env ys))"
  by (induction env xs rule: fetch_messages.induct) (auto split: sum.splits simp: map_sum_def)

text \<open>An \<open>HttpError\<close> of \<open>messages().get\<close> drops that message only.\<close>

lemma fetch_messages_http_skip:
  "py_index msg ''id'' = Inr i \<Longrightarrow> ge_get env i = Inl h \<Longrightarrow>
   fetch_messages env (msg # msgs) = fetch_messages env msgs"
  by simp

text \<open>The tag strip is one pass: a tag that the removal of another one closes stays.\<close>

lemma strip_tags_one_pass: "strip_tags ''<<b>i>'' = ''<i>''"
  by (simp add: tag_rest_def)

abbreviation sample_gmail_env :: gmail_env where
  "sample_gmail_env \<equiv>
     \<lparr>ge_auth_error = None, ge_domains = [''school.org''], ge_senders = [],
      ge_list = (\<lambda>q n. Inr (JObj [(''messages'', JList [JObj [(''id'', JStr ''m1'')]])])),
      ge_get = (\<lambda>i. Inr (JObj [(''id'', i)])), ge_attachment = (\<lambda>m a. Inl ''404''),
      ge_b64decode = Inr, ge_utf8_ignore = id, ge_parsedate = (\<lambda>d. None),
      ge_now = mk_dt 2025 11 4 9 0 0\<rparr>"

text \<open>C10. The configured lists are well formed: every item \<open>Config._parse_list\<close>
  returns (the school domains, the senders, the default attendees) is non-empty, holds no
  comma and has no surrounding white space.\<close>

theorem parse_list_wellformed:
  assumes "x \<in> set (parse_list v)"
  shows "x \<noteq> [] \<and> CHR '','' \<notin> set x \<and> py_strip x = x"
proof -
  obtain y where y: "y \<in> set (py_split_on (CHR '','') v)" and x: "x = py_strip y" and ne: "x \<noteq> []"
    using assms by (auto simp: parse_list_def split: if_splits)
  have "CHR '','' \<notin> set y"
    using y by (rule py_split_on_no_sep)
  then have "CHR '','' \<notin> set x"
    using x set_py_strip by blast
  with ne x show ?thesis
    by simp
qed

theorem parse_list_wellformed_witness:
  "parse_list '' a.org , b.org,,'' = [''a.org'', ''b.org''] \<and> CHR '','' \<notin> set ''b.org''
   \<and> py_strip ''b.org'' = ''b.org''"
proof -
  have l: "parse_list '' a.org , b.org,,'' = [''a.org'', ''b.org'']"
    by (simp add: parse_list_def py_strip_def is_space_def)
  have "''b.org'' \<in> set (parse_list '' a.org , b.org,,'')"
    by (simp add: l)
  with l show ?thesis
    using parse_list_wellformed by blast
qed

text \<open>C11. The HTML part is not a fallback: for a \<open>multipart/alternative\<close> message with a
  plain-text part and an HTML part, \<open>_extract_email_body\<close> returns the plain text followed
  by the stripped HTML, the same text twice, because the \<open>not text\<close> test reads the
  empty local of the HTML part's own call (the comment says "Fallback to HTML if plain
  text not available").\<close>

theorem html_kept_beside_plain_text:
  assumes "ge_b64decode env a = Inr x" and "ge_b64decode env b = Inr y" and "a \<noteq> []" and "b \<noteq> []"
  shows "extract_email_body env
           (JObj [(''id'', i), (''payload'', JObj [(''mimeType'', JStr ''multipart/alternative''),
              (''parts'', JList [JObj [(''mimeType'', JStr ''text/plain''), (''body'', JObj [(''data'', JStr a)])],
                                 JObj [(''mimeType'', JStr ''text/html''), (''body'', JObj [(''data'', JStr b)])]])])])
         = Inr (py_strip (ge_utf8_ignore env x @ strip_tags (ge_utf8_ignore env y)))"
  using assms by (simp add: gmail_eval body_walk_parts body_walk_leaf)

theorem html_kept_beside_plain_text_witness:
  "extract_email_body sample_gmail_env
     (JObj [(''id'', JStr ''m1''), (''payload'', JObj [(''mimeType'', JStr ''multipart/alternative''),
        (''parts'', JList [JObj [(''mimeType'', JStr ''text/plain''), (''body'', JObj [(''data'', JStr ''Hi'')])],
                           JObj [(''mimeType'', JStr ''text/html''), (''body'', JObj [(''data'', JStr ''<b>Hi</b>'')])]])])])
   = Inr ''HiHi''"
  using html_kept_beside_plain_text [of sample_gmail_env "''Hi''" "''Hi''" "''<b>Hi</b>''" "''<b>Hi</b>''" "JStr ''m1''"]
  by (simp add: tag_rest_def py_strip_def is_space_def)

text \<open>C12. One malformed message loses the whole fetch: a listed message whose reply has no
  \<open>payload\<close> raises \<open>KeyError\<close> inside the per-message \<open>try\<close>, which catches
  \<open>HttpError\<close> only, so \<open>fetch_school_emails\<close> raises and returns none of the other
  messages, where an \<open>HttpError\<close> would have skipped just that one.\<close>

theorem malformed_message_aborts_fetch:
  assumes "ge_auth_error env = None"
    and "ge_list env (build_query (ge_domains env) (ge_senders env)) n
           = Inr (JObj [(''messages'', JList (ms @ JObj [(''id'', j)] # ms'))])"
    and "ge_get env j = Inr (JObj [(''id'', j)])"
  shows "\<exists>e. fetch_school_emails env n = Inl e"
proof -
  have "fetch_messages env (JObj [(''id'', j)] # ms') = Inl (py_repr_str ''payload'')"
    using assms(3) by (simp add: parse_message_def gmail_eval)
  then show ?thesis
    using assms(1,2) by (auto simp: fetch_school_emails_def gmail_eval fetch_messages_append split: sum.split)
qed

theorem malformed_message_aborts_fetch_witness:
  "\<exists>e. fetch_school_emails sample_gmail_env 50 = Inl e"
  using malformed_message_aborts_fetch [of sample_gmail_env 50 "[]" "JStr ''m1''" "[]"]
  by simp

end
