(* ===== verification/Upload.thy ===== *)
theory Upload
  imports Dedup Consolidator "HOL-Library.List_Lexorder" "HOL-Library.Char_ord"
begin

text \<open>
  The upload side of \<^verbatim>\<open>src/app/gemini_file_search.py\<close>, \<open>get_latest_markdown_file\<close>
  of \<^verbatim>\<open>src/app/markdown_consolidator.py\<close> and the backfill script
  \<^verbatim>\<open>src/scripts/backfill_emails.py\<close>. The file system is a \<open>dir\<close> from a path to its
  contents, next to the two tracker files of \<^theory_text>\<open>Dedup\<close>. The Gemini Files API
  (\<open>client.files.upload\<close>, \<open>client.files.get\<close>), the modification time of a file
  (its text \<open>str(os.path.getmtime(p))\<close> for the tracker and the number \<open>st_mtime\<close> for
  sorting), whether a write or copy to a path succeeds, and whether a directory exists
  are fields of \<open>gemini_env\<close>; an API call returns the file's record or the text of the
  exception it raised, and a poll of \<open>files.get\<close> is indexed by the seconds waited so
  far. \<open>os.walk\<close> and \<open>glob\<close> list a directory in name order. The operations return
  the resulting state beside their result, so that what an exception leaves behind on
  disk is part of the model.
\<close>

section \<open>The environment and the state\<close>

record gfile =
  gf_name :: str
  gf_state :: str

record gemini_env =
  gm_api_key :: str
  gm_mtime :: "str \<Rightarrow> str"
  gm_stat :: "str \<Rightarrow> rat"
  gm_io_ok :: "str \<Rightarrow> bool"
  gm_isdir :: "str \<Rightarrow> bool"
  gm_upload :: "str \<Rightarrow> str \<Rightarrow> str + gfile"
  gm_get :: "str \<Rightarrow> nat \<Rightarrow> str + gfile"

record up_state =
  up_files :: dir
  up_trackers :: trackers

text \<open>What \<^theory_text>\<open>Dedup\<close> reads of the file system: the time of an existing path.\<close>

definition file_mtimes :: "gemini_env \<Rightarrow> dir \<Rightarrow> mtimes" where
  "file_mtimes env d p = (if p |\<in>| fmdom d then Some (gm_mtime env p) else None)"

text \<open>The paths of a directory, in name order.\<close>

definition listing :: "dir \<Rightarrow> str list" where
  "listing d = sorted_list_of_set (fset (fmdom d))"

definition dir_exists :: "gemini_env \<Rightarrow> dir \<Rightarrow> str \<Rightarrow> bool" where
  "dir_exists env d p \<longleftrightarrow> gm_isdir env p \<or> list_ex (starts_with (p @ ''/'')) (listing d)"

text \<open>\<open>PurePath.suffix\<close>: the suffix of the last component.\<close>

definition path_suffix :: "str \<Rightarrow> str" where
  "path_suffix p = (let n = basename p in drop (length (path_stem n)) n)"

section \<open>Uploading one file\<close>

text \<open>\<open>initialize_client\<close>: a missing key raises \<open>ValueError\<close>.\<close>

definition initialize_client :: "gemini_env \<Rightarrow> py_error option" where
  "initialize_client env =
     (if gm_api_key env = [] then Some (OtherError ''GOOGLE_API_KEY not set in environment variables'')
      else None)"

definition get_state_string :: "str \<Rightarrow> str" where
  "get_state_string s = py_upper s"

definition max_wait :: nat where
  "max_wait = 120"

text \<open>The polling loop: while the state says \<open>PROCESSING\<close> and less than
  \<open>max_wait\<close> seconds have passed, wait five seconds and ask again.\<close>

function wait_processing :: "gemini_env \<Rightarrow> nat \<Rightarrow> gfile \<Rightarrow> str + gfile \<times> nat" where
  "wait_processing env wait_time file =
     (if contains ''PROCESSING'' (get_state_string (gf_state file)) \<and> wait_time < max_wait
      then (case gm_get env (gf_name file) (wait_time + 5) of
              Inl e \<Rightarrow> Inl e
            | Inr file' \<Rightarrow> wait_processing env (wait_time + 5) file')
      else Inr (file, wait_time))"
  by pat_completeness auto
termination
  by (relation "measure (\<lambda>(env, wait_time, file). max_wait - wait_time)") auto

text \<open>The texts of the exceptions \<open>shutil.copy2\<close> raises.\<close>

definition same_file_error :: "str \<Rightarrow> str" where
  "same_file_error p = quoted p @ '' and '' @ quoted p @ '' are the same file''"

definition no_such_file :: "str \<Rightarrow> str" where
  "no_such_file p = ''[Errno 2] No such file or directory: '' @ quoted p"

text \<open>The handler of the \<open>try\<close> in \<open>upload_file_to_store\<close>: the exception's text is
  wrapped, and the files are as the failed step left them.\<close>

definition upload_error :: "str \<Rightarrow> up_state \<Rightarrow> dir \<Rightarrow> str \<Rightarrow> (py_error + str option) \<times> up_state" where
  "upload_error filepath st d msg =
     (Inl (OtherError (''Error uploading file '' @ filepath @ '': '' @ msg)), st\<lparr>up_files := d\<rparr>)"

text \<open>The end of the \<open>try\<close> after \<open>files.upload\<close>: wait while the file is processing,
  then mark it uploaded if it is still processing or active, and raise otherwise.\<close>

definition finish_upload ::
  "gemini_env \<Rightarrow> str \<Rightarrow> up_state \<Rightarrow> dir \<Rightarrow> gfile \<Rightarrow> (py_error + str option) \<times> up_state" where
  "finish_upload env filepath st d file =
     (case wait_processing env 0 file of
        Inl msg \<Rightarrow> upload_error filepath st d msg
      | Inr (file', wait_time) \<Rightarrow>
          let state = get_state_string (gf_state file');
              marked = \<lparr>up_files = d,
                        up_trackers = mark_file_uploaded (file_mtimes env (up_files st)) filepath (up_trackers st)\<rparr>
          in if contains ''PROCESSING'' state then (Inr (Some (gf_name file')), marked)
             else if \<not> contains ''ACTIVE'' state
             then upload_error filepath st d (''File upload failed. State: '' @ state)
             else (Inr (Some (gf_name file')), marked))"

text \<open>\<open>upload_file_to_store(filepath, store_name, skip_if_exists)\<close>. Everything after
  \<open>initialize_client\<close> is inside the \<open>try\<close>. A markdown file is uploaded through a
  \<open>.txt\<close> copy made by \<open>filepath.replace('.md', '.txt')\<close> and \<open>shutil.copy2\<close>, which is
  removed only after a successful \<open>files.upload\<close>.\<close>

definition upload_file_to_store ::
  "gemini_env \<Rightarrow> str \<Rightarrow> bool \<Rightarrow> up_state \<Rightarrow> (py_error + str option) \<times> up_state" where
  "upload_file_to_store env filepath skip_if_exists st =
     (let fs = file_mtimes env (up_files st) in
      if fs filepath = None then (Inl (FileNotFound (''File not found: '' @ filepath)), st)
      else if skip_if_exists \<and> is_file_uploaded fs filepath (up_trackers st) then (Inr None, st)
      else case initialize_client env of
        Some e \<Rightarrow> (Inl e, st)
      | None \<Rightarrow>
      let is_md = (py_lower (path_suffix filepath) = ''.md'');
          temp_filepath = (if is_md then py_replace ''.md'' ''.txt'' filepath else filepath)
      in if is_md \<and> temp_filepath = filepath
         then upload_error filepath st (up_files st) (same_file_error filepath)
      else if is_md \<and> \<not> gm_io_ok env temp_filepath
         then upload_error filepath st (up_files st) (no_such_file temp_filepath)
      else
      let d1 = (if is_md then fmupd temp_filepath (the (fmlookup (up_files st) filepath)) (up_files st)
                else up_files st)
      in case gm_upload env temp_filepath (the (fmlookup d1 temp_filepath)) of
        Inl msg \<Rightarrow> upload_error filepath st d1 msg
      | Inr file \<Rightarrow>
          finish_upload env filepath st
            (if temp_filepath \<noteq> filepath \<and> temp_filepath |\<in>| fmdom d1 then fmdrop temp_filepath d1 else d1)
            file)"

section \<open>Uploading the consolidated documents\<close>

text \<open>\<open>glob(pattern)\<close> of a name: a fixed prefix, any middle, a fixed suffix.\<close>

definition glob_match :: "str \<Rightarrow> str \<Rightarrow> str \<Rightarrow> bool" where
  "glob_match pre suf n \<longleftrightarrow>
     starts_with pre n \<and> starts_with (rev suf) (rev n) \<and> length pre + length suf \<le> length n"

definition consolidated_dir :: str where
  "consolidated_dir = ''data/consolidated''"

text \<open>\<open>Path("data/consolidated").glob("school-data-*.md")\<close>.\<close>

definition md_glob :: "dir \<Rightarrow> str list" where
  "md_glob d =
     filter (\<lambda>p. starts_with (consolidated_dir @ ''/'') p \<and> CHR ''/'' \<notin> set (drop (length consolidated_dir + 1) p)
                 \<and> glob_match ''school-data-'' ''.md'' (drop (length consolidated_dir + 1) p)) (listing d)"

text \<open>\<open>sorted(..., key=st_mtime, reverse=True)\<close>: newest first, ties in listing order.\<close>

definition newest_first :: "gemini_env \<Rightarrow> str list \<Rightarrow> str list" where
  "newest_first env ps = sort_key (\<lambda>p. - gm_stat env p) ps"

definition get_latest_markdown_file :: "gemini_env \<Rightarrow> dir \<Rightarrow> str option" where
  "get_latest_markdown_file env d =
     (if \<not> dir_exists env d consolidated_dir then None
      else case newest_first env (md_glob d) of [] \<Rightarrow> None | p # _ \<Rightarrow> Some p)"

definition upload_consolidated_markdown ::
  "gemini_env \<Rightarrow> str option \<Rightarrow> up_state \<Rightarrow> (py_error + str option) \<times> up_state" where
  "upload_consolidated_markdown env markdown_path st =
     (case (if markdown_path = None \<or> markdown_path = Some [] then get_latest_markdown_file env (up_files st)
            else markdown_path) of
        None \<Rightarrow> (Inr None, st)
      | Some p \<Rightarrow>
          if p |\<notin>| fmdom (up_files st) then (Inl (FileNotFound (''Markdown file not found: '' @ p)), st)
          else if is_file_uploaded (file_mtimes env (up_files st)) p (up_trackers st) then (Inr None, st)
          else upload_file_to_store env p True st)"

section \<open>Whole directories\<close>

text \<open>The files \<open>os.walk(dir_path)\<close> yields, without those whose own name starts with a
  dot; a file inside a hidden directory is kept.\<close>

definition walk_files :: "str \<Rightarrow> dir \<Rightarrow> str list" where
  "walk_files dir_path d =
     filter (\<lambda>p. starts_with (dir_path @ ''/'') p \<and> \<not> starts_with ''.'' (basename p)) (listing d)"

text \<open>The loop of \<open>bulk_upload_directory\<close>: uploaded, skipped and failed counts.\<close>

fun bulk_loop ::
  "gemini_env \<Rightarrow> str list \<Rightarrow> nat \<times> nat \<times> nat \<Rightarrow> up_state \<Rightarrow> (nat \<times> nat \<times> nat) \<times> up_state" where
  "bulk_loop env [] counts st = (counts, st)"
| "bulk_loop env (filepath # files) (uploaded, skipped, failed) st =
     (case upload_file_to_store env filepath True st of
        (Inr None, st') \<Rightarrow> bulk_loop env files (uploaded, Suc skipped, failed) st'
      | (Inr (Some _), st') \<Rightarrow> bulk_loop env files (Suc uploaded, skipped, failed) st'
      | (Inl _, st') \<Rightarrow> bulk_loop env files (uploaded, skipped, Suc failed) st')"

definition bulk_upload_directory ::
  "gemini_env \<Rightarrow> str \<Rightarrow> str \<Rightarrow> up_state \<Rightarrow> (py_error + nat) \<times> up_state" where
  "bulk_upload_directory env dir_path store_name st =
     (if \<not> dir_exists env (up_files st) dir_path then (Inr 0, st)
      else if store_name = [] then
        (Inl (OtherError ''FILE_SEARCH_STORE_NAME not set in environment variables''), st)
      else
        let files = walk_files dir_path (up_files st)
        in if files = [] then (Inr 0, st)
           else case bulk_loop env files (0, 0, 0) st of ((uploaded, _, _), st') \<Rightarrow> (Inr uploaded, st'))"

text \<open>The deletion loop of \<open>cleanup_old_files\<close> over the files under one directory:
  deleted and failed counts.\<close>

fun unlink_all :: "gemini_env \<Rightarrow> str list \<Rightarrow> nat \<times> nat \<Rightarrow> dir \<Rightarrow> (nat \<times> nat) \<times> dir" where
  "unlink_all env [] counts d = (counts, d)"
| "unlink_all env (p # ps) (deleted, errors) d =
     (if gm_io_ok env p then unlink_all env ps (Suc deleted, errors) (fmdrop p d)
      else unlink_all env ps (deleted, Suc errors) d)"

definition files_under :: "str \<Rightarrow> dir \<Rightarrow> str list" where
  "files_under dir_path d = filter (starts_with (dir_path @ ''/'')) (listing d)"

record cleanup_stats =
  emails_deleted :: nat
  attachments_deleted :: nat
  cleanup_errors :: nat

text \<open>\<open>cleanup_old_files(keep_markdown)\<close>: every file under the raw e-mail and the
  attachment directories is unlinked; \<open>keep_markdown\<close> is not read.\<close>

definition cleanup_old_files :: "gemini_env \<Rightarrow> bool \<Rightarrow> dir \<Rightarrow> cleanup_stats \<times> dir" where
  "cleanup_old_files env keep_markdown d =
     (let ((e_del, e_err), d1) =
            (if dir_exists env d ''data/raw_emails''
             then unlink_all env (files_under ''data/raw_emails'' d) (0, 0) d else ((0, 0), d));
          ((a_del, a_err), d2) =
            (if dir_exists env d1 ''data/attachments''
             then unlink_all env (files_under ''data/attachments'' d1) (0, 0) d1 else ((0, 0), d1))
      in (\<lparr>emails_deleted = e_del, attachments_deleted = a_del, cleanup_errors = e_err + a_err\<rparr>, d2))"

section \<open>The backfill script\<close>

text \<open>How the script ends: \<open>sys.exit(n)\<close>, or an exception that escapes \<open>main\<close>;
  or it does not end, \<open>Waiting\<close> in \<open>input()\<close> for a line nobody types.\<close>

datatype exit_status = Exited nat | Raised str | Waiting

text \<open>The standard input \<open>input()\<close> reads from: a line, the end of the input
  (\<open>EOFError\<close>), or a terminal on which no line ever comes, where \<open>input()\<close> blocks.\<close>

datatype stdin = Stdin_line str | Stdin_eof | Stdin_tty

text \<open>The script's collaborators: the store name, the ingestion subprocess
  (\<open>python -m app.ingest_emails\<close>, which succeeds or fails and leaves the state it
  leaves), and the standard input \<open>input()\<close> reads.\<close>

record backfill_env =
  bf_store_name :: str
  bf_ingest :: "up_state \<Rightarrow> bool \<times> up_state"
  bf_input :: stdin

text \<open>The upload loop of step 2: a truthy file name counts as uploaded, an exception is
  printed and the loop goes on.\<close>

fun backfill_uploads :: "gemini_env \<Rightarrow> str list \<Rightarrow> nat \<Rightarrow> up_state \<Rightarrow> nat \<times> up_state" where
  "backfill_uploads env [] n st = (n, st)"
| "backfill_uploads env (md_file # md_files) n st =
     (case upload_consolidated_markdown env (Some md_file) st of
        (Inr (Some uri), st') \<Rightarrow> backfill_uploads env md_files (if uri \<noteq> [] then Suc n else n) st'
      | (_, st') \<Rightarrow> backfill_uploads env md_files n st')"

definition backfill_main :: "gemini_env \<Rightarrow> backfill_env \<Rightarrow> up_state \<Rightarrow> exit_status \<times> up_state" where
  "backfill_main env be st =
     (if bf_store_name be = [] then (Exited 1, st)
      else case bf_ingest be st of
        (False, st1) \<Rightarrow> (Exited 1, st1)
      | (True, st1) \<Rightarrow>
          if \<not> dir_exists env (up_files st1) consolidated_dir then (Exited 1, st1)
          else
            let md_files = newest_first env (md_glob (up_files st1))
            in if md_files = [] then (Exited 1, st1)
               else case backfill_uploads env md_files 0 st1 of
                 (uploaded_count, st2) \<Rightarrow>
                   if 0 < uploaded_count then
                     (case bf_input be of
                        Stdin_eof \<Rightarrow> (Raised ''EOFError'', st2)
                      | Stdin_tty \<Rightarrow> (Waiting, st2)
                      | Stdin_line line \<Rightarrow>
                          if py_lower (py_strip line) = ''y''
                          then (Exited 0, st2\<lparr>up_files := snd (cleanup_old_files env True (up_files st2))\<rparr>)
                          else (Exited 0, st2))
                   else (Exited 0, st2))"

section \<open>Properties\<close>

lemma py_lower_md [simp]: "py_lower ''.md'' = ''.md''"
  by (simp add: py_lower_def lower_char_def is_upper_ascii_def)

lemma py_lower_MD [simp]: "py_lower ''.MD'' = ''.md''"
  by (simp add: py_lower_def lower_char_def is_upper_ascii_def char_of_def bit_0)

lemma path_suffix_contains: "path_suffix p = sfx \<Longrightarrow> contains sfx p"
proof -
  assume s: "path_suffix p = sfx"
  obtain a where a: "p = a @ basename p"
    using basename_suffix by blast
  let ?k = "length (path_stem (basename p))"
  have "drop ?k (basename p) = sfx"
    using s by (simp add: path_suffix_def Let_def)
  then have "basename p = take ?k (basename p) @ sfx"
    by (metis append_take_drop_id)
  then have "p = (a @ take ?k (basename p)) @ sfx @ []"
    using a by (metis append.assoc append_Nil2)
  then show ?thesis
    by (metis contains_iff)
qed

lemma temp_path_differs: "path_suffix fp = ''.md'' \<Longrightarrow> py_replace ''.md'' ''.txt'' fp \<noteq> fp"
  using py_replace_grows [of "''.md''" "''.txt''" fp] by (auto dest: path_suffix_contains)

lemma upload_error_simps [simp]:
  "up_files (snd (upload_error fp st d msg)) = d" "isl (fst (upload_error fp st d msg))"
  "up_trackers (snd (upload_error fp st d msg)) = up_trackers st"
  by (simp_all add: upload_error_def)

lemma finish_upload_files [simp]: "up_files (snd (finish_upload env fp st d f)) = d"
  by (simp add: finish_upload_def Let_def split: sum.split prod.split)

lemma wait_processing_stuck:
  "(\<forall>k. gm_get env (gf_name fl) k = Inr fl) \<Longrightarrow> contains ''PROCESSING'' (get_state_string (gf_state fl)) \<Longrightarrow>
   w \<le> max_wait \<Longrightarrow> 5 dvd w \<Longrightarrow> wait_processing env w fl = Inr (fl, max_wait)"
proof (induction env w fl rule: wait_processing.induct)
  case (1 env wait_time fl)
  show ?case
  proof (cases "wait_time < max_wait")
    case True
    have "wait_time + 5 \<le> max_wait"
      using True "1.prems"(4) by (auto simp: max_wait_def elim!: dvdE)
    then show ?thesis
      using True "1.prems" "1.IH" [of fl] by (simp add: wait_processing.simps [of env wait_time])
  next
    case False
    then show ?thesis
      using "1.prems" by (simp add: wait_processing.simps [of env wait_time])
  qed
qed

lemma is_file_uploaded_mark [simp]:
  "fs p = Some m \<Longrightarrow> is_file_uploaded fs p (mark_file_uploaded fs p st)"
  by (simp add: tracker_simps)

lemmas upload_eval = path_suffix_def basename_def path_stem_def file_mtimes_def tracker_simps
  get_state_string_def py_upper_def upper_char_def is_lower_ascii_def py_lower_def lower_char_def
  is_upper_ascii_def char_of_def bit_0

abbreviation sample_gemini_env :: gemini_env where
  "sample_gemini_env \<equiv>
     \<lparr>gm_api_key = ''key'', gm_mtime = (\<lambda>p. ''1762200000.0''), gm_stat = (\<lambda>p. 1762200000),
      gm_io_ok = (\<lambda>p. True), gm_isdir = (\<lambda>p. True),
      gm_upload = (\<lambda>p c. Inl ''503 Service Unavailable''),
      gm_get = (\<lambda>n k. Inr \<lparr>gf_name = ''files/f1'', gf_state = ''processing''\<rparr>)\<rparr>"

abbreviation sample_up_state :: up_state where
  "sample_up_state \<equiv>
     \<lparr>up_files = fmupd ''data/consolidated/school-data-2025-W45.md'' ''# Week 45''
                   (fmupd ''data/NOTES.MD'' ''notes'' (fmupd ''data/a.txt'' ''a'' fmempty)),
      up_trackers = \<lparr>upload_tracker = Absent, email_tracker = Absent\<rparr>\<rparr>"

text \<open>C13. The temporary copy outlives a failed upload: for a \<open>.md\<close> file the \<open>.txt\<close>
  copy made by \<open>shutil.copy2\<close> is still on disk after \<open>files.upload\<close> raises (the
  removal is not in a \<open>finally\<close>), and after a successful call the path is gone,
  together with any file of that name that was there before the copy overwrote it.\<close>

theorem failed_upload_leaves_copy:
  assumes "fmlookup (up_files st) fp = Some c" and "path_suffix fp = ''.md''"
    and "\<not> is_file_uploaded (file_mtimes env (up_files st)) fp (up_trackers st)"
    and "gm_api_key env \<noteq> []" and "gm_io_ok env (py_replace ''.md'' ''.txt'' fp)"
  shows "(gm_upload env (py_replace ''.md'' ''.txt'' fp) c = Inl e \<longrightarrow>
            fmlookup (up_files (snd (upload_file_to_store env fp True st))) (py_replace ''.md'' ''.txt'' fp) = Some c
            \<and> isl (fst (upload_file_to_store env fp True st)))
       \<and> (gm_upload env (py_replace ''.md'' ''.txt'' fp) c = Inr fl \<longrightarrow>
            py_replace ''.md'' ''.txt'' fp |\<notin>| fmdom (up_files (snd (upload_file_to_store env fp True st))))"
proof -
  have t: "py_replace ''.md'' ''.txt'' fp \<noteq> fp"
    using assms(2) by (rule temp_path_differs)
  have fs: "file_mtimes env (up_files st) fp = Some (gm_mtime env fp)"
    using assms(1) by (simp add: file_mtimes_def fmdomI)
  show ?thesis
    using assms t fs by (simp add: upload_file_to_store_def initialize_client_def Let_def)
qed

theorem failed_upload_leaves_copy_witness:
  "fmlookup (up_files (snd (upload_file_to_store sample_gemini_env
      ''data/consolidated/school-data-2025-W45.md'' True sample_up_state)))
      ''data/consolidated/school-data-2025-W45.txt'' = Some ''# Week 45''
   \<and> isl (fst (upload_file_to_store sample_gemini_env
      ''data/consolidated/school-data-2025-W45.md'' True sample_up_state))"
proof -
  have r: "py_replace ''.md'' ''.txt'' ''data/consolidated/school-data-2025-W45.md''
           = ''data/consolidated/school-data-2025-W45.txt''"
    by simp
  show ?thesis
    using failed_upload_leaves_copy [of sample_up_state "''data/consolidated/school-data-2025-W45.md''"
        "''# Week 45''" sample_gemini_env "''503 Service Unavailable''"]
    by (simp add: r upload_eval Let_def)
qed

text \<open>C14. A file with the suffix \<open>.MD\<close> can never be uploaded: the suffix test
  lowers it, but \<open>replace('.md', '.txt')\<close> does not, so the copy's target is the file
  itself and \<open>shutil.copy2\<close> raises \<open>SameFileError\<close>; the state is left as it was
  and the file is never marked.\<close>

theorem uppercase_md_never_uploaded:
  assumes "fp |\<in>| fmdom (up_files st)" and "path_suffix fp = ''.MD''" and "\<not> contains ''.md'' fp"
    and "\<not> is_file_uploaded (file_mtimes env (up_files st)) fp (up_trackers st)"
    and "gm_api_key env \<noteq> []"
  shows "upload_file_to_store env fp skip st
           = (Inl (OtherError (''Error uploading file '' @ fp @ '': '' @ same_file_error fp)), st)"
  using assms py_replace_no_occurrence [OF assms(3)]
  by (simp add: upload_file_to_store_def Let_def initialize_client_def file_mtimes_def upload_error_def)

theorem uppercase_md_never_uploaded_witness:
  "upload_file_to_store sample_gemini_env ''data/NOTES.MD'' True sample_up_state
     = (Inl (OtherError (''Error uploading file data/NOTES.MD: '' @ same_file_error ''data/NOTES.MD'')),
        sample_up_state)"
  using uppercase_md_never_uploaded [of "''data/NOTES.MD''" sample_up_state sample_gemini_env True]
  by (simp add: upload_eval Let_def)

text \<open>C15. The wait for processing is bounded: started at 0 (or any multiple of five up
  to 120), the polling loop ends after at most 24 polls with a waited time that is a
  multiple of five, at most 120 seconds, and exactly 120 when the file is still
  processing.\<close>

theorem wait_processing_bounded:
  "wait_processing env w f = Inr (f', w') \<Longrightarrow> w \<le> max_wait \<Longrightarrow> 5 dvd w \<Longrightarrow>
   w \<le> w' \<and> w' \<le> max_wait \<and> 5 dvd w'
   \<and> (contains ''PROCESSING'' (get_state_string (gf_state f')) \<longrightarrow> w' = max_wait)"
proof (induction env w f rule: wait_processing.induct)
  case (1 env wait_time fl)
  show ?case
  proof (cases "contains ''PROCESSING'' (get_state_string (gf_state fl)) \<and> wait_time < max_wait")
    case True
    then obtain file' where g: "gm_get env (gf_name fl) (wait_time + 5) = Inr file'"
      and r: "wait_processing env (wait_time + 5) file' = Inr (f', w')"
      using "1.prems"(1) by (auto simp: wait_processing.simps [of env wait_time] split: sum.splits)
    have "wait_time + 5 \<le> max_wait"
      using True "1.prems"(3) by (auto simp: max_wait_def elim!: dvdE)
    moreover have "5 dvd wait_time + 5"
      using "1.prems"(3) by simp
    ultimately show ?thesis
      using "1.IH" [OF True g r] by simp
  next
    case False
    then show ?thesis
      using "1.prems" by (auto simp: wait_processing.simps [of env wait_time] max_wait_def)
  qed
qed

theorem wait_processing_bounded_witness:
  "wait_processing sample_gemini_env 0 \<lparr>gf_name = ''files/f1'', gf_state = ''processing''\<rparr>
     = Inr (\<lparr>gf_name = ''files/f1'', gf_state = ''processing''\<rparr>, 120)
   \<and> (120::nat) \<le> max_wait"
proof -
  have w: "wait_processing sample_gemini_env 0 \<lparr>gf_name = ''files/f1'', gf_state = ''processing''\<rparr>
     = Inr (\<lparr>gf_name = ''files/f1'', gf_state = ''processing''\<rparr>, max_wait)"
    by (rule wait_processing_stuck) (simp_all add: upload_eval max_wait_def)
  have "0 \<le> (120::nat) \<and> 120 \<le> max_wait \<and> 5 dvd (120::nat)"
    using wait_processing_bounded [OF w] by (simp add: max_wait_def)
  then show ?thesis
    using w by (simp add: max_wait_def)
qed

text \<open>C16. A file still processing after two minutes counts as uploaded: when every poll
  answers \<open>PROCESSING\<close>, \<open>upload_file_to_store\<close> returns the file's name and marks it
  in the upload tracker, so a later run skips it even if the service never finishes
  processing it.\<close>

theorem still_processing_marked_uploaded:
  assumes "fmlookup (up_files st) fp = Some c" and "py_lower (path_suffix fp) \<noteq> ''.md''"
    and "\<not> is_file_uploaded (file_mtimes env (up_files st)) fp (up_trackers st)"
    and "gm_api_key env \<noteq> []" and "gm_upload env fp c = Inr fl"
    and "\<forall>k. gm_get env (gf_name fl) k = Inr fl" and "contains ''PROCESSING'' (get_state_string (gf_state fl))"
  shows "upload_file_to_store env fp True st
           = (Inr (Some (gf_name fl)),
              st\<lparr>up_trackers := mark_file_uploaded (file_mtimes env (up_files st)) fp (up_trackers st)\<rparr>)
         \<and> is_file_uploaded (file_mtimes env (up_files st)) fp
             (up_trackers (snd (upload_file_to_store env fp True st)))"
proof -
  have fs: "file_mtimes env (up_files st) fp = Some (gm_mtime env fp)"
    using assms(1) by (simp add: file_mtimes_def fmdomI)
  have w: "wait_processing env 0 fl = Inr (fl, max_wait)"
    using assms(6,7) by (rule wait_processing_stuck) (simp_all add: max_wait_def)
  have "upload_file_to_store env fp True st
           = (Inr (Some (gf_name fl)),
              st\<lparr>up_trackers := mark_file_uploaded (file_mtimes env (up_files st)) fp (up_trackers st)\<rparr>)"
    using assms fs w by (simp add: upload_file_to_store_def initialize_client_def finish_upload_def Let_def)
  then show ?thesis
    using fs by simp
qed

theorem still_processing_marked_uploaded_witness:
  "upload_file_to_store (sample_gemini_env\<lparr>gm_upload := (\<lambda>p c. Inr \<lparr>gf_name = ''files/f1'', gf_state = ''processing''\<rparr>)\<rparr>)
     ''data/a.txt'' True sample_up_state
   = (Inr (Some ''files/f1''),
      sample_up_state\<lparr>up_trackers := \<lparr>upload_tracker = Stored {''data/a.txt:1762200000.0''}, email_tracker = Absent\<rparr>\<rparr>)"
  using still_processing_marked_uploaded [of sample_up_state "''data/a.txt''" "''a''"
      "sample_gemini_env\<lparr>gm_upload := (\<lambda>p c. Inr \<lparr>gf_name = ''files/f1'', gf_state = ''processing''\<rparr>)\<rparr>"
      "\<lparr>gf_name = ''files/f1'', gf_state = ''processing''\<rparr>"]
  by (simp add: upload_eval Let_def file_id_def)

end
