(* ===== verification/Transcribe.thy ===== *)
theory Transcribe
  imports Upload
begin

text \<open>
  Attachment transcription: \<open>transcribe_attachment\<close>, \<open>transcribe_pdf\<close> and
  \<open>transcribe_image\<close> of \<^verbatim>\<open>src/app/attachment_transcriber.py\<close>, and
  \<open>extract_text_from_image\<close> of \<^verbatim>\<open>src/app/image_processor.py\<close>. The Files API and the
  vision model are fields of \<open>vision_env\<close>: an upload gets the path and the bytes, a poll
  the file's name and the seconds waited, the model call the prompt (which of the two
  fixed prompts) and the uploaded file; each returns its result or the text of the
  exception it raised. A response is its \<open>text\<close> and, per candidate with content, the
  texts of its parts (empty where a part has none). \<open>transcribe_attachment\<close> gets the
  file's bytes, \<open>None\<close> for a path that does not exist, so that it is a \<open>transcriber\<close>
  of \<^theory_text>\<open>Consolidator\<close> once the bytes are given.
\<close>

datatype vision_prompt = Pdf_prompt | Image_prompt

record vision_response =
  vr_text :: str
  vr_candidates :: "str list list"

record vision_env =
  ve_api_key :: str
  ve_upload :: "str \<Rightarrow> str \<Rightarrow> str + gfile"
  ve_get :: "str \<Rightarrow> nat \<Rightarrow> str + gfile"
  ve_generate :: "vision_prompt \<Rightarrow> gfile \<Rightarrow> str + vision_response"
  ve_utf8_ignore :: "str \<Rightarrow> str"

text \<open>The text taken from a response: \<open>response.text\<close> if it is non-empty, else the
  first non-empty part text of the candidates in order.\<close>

definition response_text :: "vision_response \<Rightarrow> str option" where
  "response_text r =
     (if vr_text r \<noteq> [] then Some (vr_text r)
      else case filter (\<lambda>t. t \<noteq> []) (concat (vr_candidates r)) of [] \<Rightarrow> None | t # _ \<Rightarrow> Some t)"

text \<open>The polling loops of the two files: two-second steps, at most 60 seconds for a
  PDF and 30 for an image.\<close>

function poll_pdf :: "vision_env \<Rightarrow> nat \<Rightarrow> gfile \<Rightarrow> str + gfile" where
  "poll_pdf env wait_time file =
     (if contains ''PROCESSING'' (get_state_string (gf_state file)) \<and> wait_time < 60
      then (case ve_get env (gf_name file) (wait_time + 2) of
              Inl e \<Rightarrow> Inl e
            | Inr file' \<Rightarrow> poll_pdf env (wait_time + 2) file')
      else Inr file)"
  by pat_completeness auto
termination
  by (relation "measure (\<lambda>(env, wait_time, file). 60 - wait_time)") auto

function poll_image :: "vision_env \<Rightarrow> nat \<Rightarrow> gfile \<Rightarrow> str + gfile" where
  "poll_image env wait_time file =
     (if contains ''PROCESSING'' (get_state_string (gf_state file)) \<and> wait_time < 30
      then (case ve_get env (gf_name file) (wait_time + 2) of
              Inl e \<Rightarrow> Inl e
            | Inr file' \<Rightarrow> poll_image env (wait_time + 2) file')
      else Inr file)"
  by pat_completeness auto
termination
  by (relation "measure (\<lambda>(env, wait_time, file). 30 - wait_time)") auto

text \<open>After the upload and the wait: the state must say \<open>ACTIVE\<close>, then the model's
  response must hold some text. \<open>kind\<close> is the word the messages use.\<close>

definition extract_after_wait ::
  "vision_env \<Rightarrow> vision_prompt \<Rightarrow> str \<Rightarrow> str \<Rightarrow> gfile \<Rightarrow> str + str" where
  "extract_after_wait env prompt kind empty_msg file =
     (let state = get_state_string (gf_state file)
      in if \<not> contains ''ACTIVE'' state then Inl (kind @ '' upload failed. State: '' @ state)
         else case ve_generate env prompt file of
                Inl e \<Rightarrow> Inl e
              | Inr response \<Rightarrow> (case response_text response of None \<Rightarrow> Inl empty_msg | Some t \<Rightarrow> Inr t))"

text \<open>\<open>transcribe_pdf(pdf_path)\<close>: the key and the file are checked before the \<open>try\<close>,
  whose handler wraps every exception.\<close>

definition transcribe_pdf :: "vision_env \<Rightarrow> str \<Rightarrow> str option \<Rightarrow> str + str" where
  "transcribe_pdf env pdf_path content =
     (if ve_api_key env = [] then Inl ''GOOGLE_API_KEY not set in environment variables''
      else case content of
        None \<Rightarrow> Inl (''PDF not found: '' @ pdf_path)
      | Some bytes \<Rightarrow>
          map_sum (\<lambda>e. ''Error processing PDF '' @ pdf_path @ '': '' @ e) id
            (case ve_upload env pdf_path bytes of
               Inl e \<Rightarrow> Inl e
             | Inr file \<Rightarrow>
                 (case poll_pdf env 0 file of
                    Inl e \<Rightarrow> Inl e
                  | Inr file' \<Rightarrow>
                      extract_after_wait env Pdf_prompt ''PDF''
                        ''Could not extract text from PDF. The PDF may be scanned images or empty.'' file')))"

text \<open>\<open>extract_text_from_image(image_path)\<close>, which \<open>transcribe_image\<close> calls.\<close>

definition extract_text_from_image :: "vision_env \<Rightarrow> str \<Rightarrow> str option \<Rightarrow> str + str" where
  "extract_text_from_image env image_path content =
     (if ve_api_key env = [] then Inl ''GOOGLE_API_KEY not set in environment variables''
      else case content of
        None \<Rightarrow> Inl (''Image not found: '' @ image_path)
      | Some bytes \<Rightarrow>
          map_sum (\<lambda>e. ''Error processing image: '' @ e) id
            (case ve_upload env image_path bytes of
               Inl e \<Rightarrow> Inl e
             | Inr file \<Rightarrow>
                 (case poll_image env 0 file of
                    Inl e \<Rightarrow> Inl e
                  | Inr file' \<Rightarrow>
                      extract_after_wait env Image_prompt ''Image''
                        ''Could not extract text from image. The image may be unclear or contain no readable text.''
                        file')))"

text \<open>Reading a file in text mode: \<open>\r\n\<close> and a lone \<open>\r\<close> become \<open>\n\<close>.\<close>

function universal_newlines :: "str \<Rightarrow> str" where
  "universal_newlines [] = []"
| "universal_newlines (c # cs) =
     (if c = CHR 0x0D
      then CHR 0x0A # universal_newlines (if cs \<noteq> [] \<and> hd cs = CHR 0x0A then tl cs else cs)
      else c # universal_newlines cs)"
  by pat_completeness auto
termination
  by (relation "measure length") auto

definition image_exts :: "str list" where
  "image_exts = [''.jpg'', ''.jpeg'', ''.png'', ''.gif'', ''.bmp'', ''.webp'']"

definition text_exts :: "str list" where
  "text_exts = [''.txt'', ''.md'', ''.csv'']"

text \<open>\<open>transcribe_attachment(attachment_path, mime_type)\<close>: the type is decided by the
  lowered suffix alone; \<open>mime_type\<close> is not read.\<close>

definition transcribe_attachment :: "vision_env \<Rightarrow> str \<Rightarrow> str option \<Rightarrow> str + str" where
  "transcribe_attachment env attachment_path content =
     (case content of
        None \<Rightarrow> Inl (''Attachment not found: '' @ attachment_path)
      | Some bytes \<Rightarrow>
          let ext = py_lower (path_suffix attachment_path)
          in if ext \<in> set image_exts then extract_text_from_image env attachment_path content
             else if ext = ''.pdf'' then transcribe_pdf env attachment_path content
             else if ext \<in> set text_exts then Inr (universal_newlines (ve_utf8_ignore env bytes))
             else Inr (''[Attachment: '' @ basename attachment_path
                       @ '' - File type not supported for transcription]''))"

text \<open>The transcriber the consolidator calls on a file it found.\<close>

definition attachment_transcriber :: "vision_env \<Rightarrow> transcriber" where
  "attachment_transcriber env p bytes = transcribe_attachment env p (Some bytes)"

section \<open>Properties\<close>

lemma universal_newlines_no_cr: "CHR 0x0D \<notin> set (universal_newlines s)"
  by (induction s rule: universal_newlines.induct) auto

text \<open>Composed with consolidation: a text attachment is embedded decoded and with its
  line endings normalised; without an API key, a PDF or an image attachment is embedded as
  the error placeholder, and the e-mail is consolidated all the same.\<close>

lemma consolidated_text_attachment:
  "fmlookup ad p = Some b \<Longrightarrow> py_lower (path_suffix p) \<in> set text_exts \<Longrightarrow>
   transcribe_attachments (attachment_transcriber env) ad [p]
     = [(p, universal_newlines (ve_utf8_ignore env b))]"
  by (auto simp: attachment_transcriber_def transcribe_attachment_def image_exts_def text_exts_def)

lemma consolidated_without_key:
  "fmlookup ad p = Some b \<Longrightarrow> ve_api_key env = [] \<Longrightarrow>
   py_lower (path_suffix p) \<in> set image_exts \<or> py_lower (path_suffix p) = ''.pdf'' \<Longrightarrow>
   transcribe_attachments (attachment_transcriber env) ad [p]
     = [(p, ''[Error transcribing attachment: GOOGLE_API_KEY not set in environment variables]'')]"
  by (auto simp: attachment_transcriber_def transcribe_attachment_def transcribe_pdf_def
      extract_text_from_image_def image_exts_def text_exts_def)

end
