(* ===== verification/Scheduler.thy ===== *)
theory Scheduler
  imports Ingest Upload Transcribe Gmail Notify QueryPath
    "HOL-Library.AList" "HOL-Library.Multiset"
begin

text \<open>
  The scheduled side of the service: the \<open>EmailScheduler\<close> of
  \<^verbatim>\<open>src/app/scheduler.py\<close> with its two jobs, the \<open>startup_event\<close> hook of
  \<^verbatim>\<open>src/app/main.py\<close> that installs them, and \<open>main\<close> of
  \<^verbatim>\<open>src/app/ingest_emails.py\<close> run as the subprocess the backfill script starts.
  Time is a clock of whole minutes since a local midnight \<open>se_epoch\<close>. A tick is one
  minute: it runs every job whose trigger fires at the new minute and whose previous run
  has returned, in job-store order. The state of the service is the clock, the job store,
  the check file of the notification service, the files and trackers of the upload side,
  the cache and learning files of the query path, and the jobs still running. The environment is the outside world, including the
  mailbox as it is at each minute.
\<close>

section \<open>The ingestion subprocess\<close>

text \<open>\<^theory_text>\<open>Ingest\<close> sees the documents of \<open>data/consolidated\<close> under their
  names and the attachment directory under full paths. \<open>subdir pre d\<close> is the part of
  \<open>d\<close> under the prefix with the prefix cut; \<open>with_subdir pre sub d\<close> puts it back.\<close>

definition subdir :: "str \<Rightarrow> dir \<Rightarrow> dir" where
  "subdir pre d =
     fmap_of_list (map (\<lambda>p. (drop (length pre) p, the (fmlookup d p))) (filter (starts_with pre) (listing d)))"

definition with_subdir :: "str \<Rightarrow> dir \<Rightarrow> dir \<Rightarrow> dir" where
  "with_subdir pre sub d =
     fmadd (fmfilter (\<lambda>p. \<not> starts_with pre p) d)
       (fmap_of_list (map (\<lambda>p. (pre @ p, the (fmlookup sub p))) (listing sub)))"

definition consolidated_prefix :: str where
  "consolidated_prefix = consolidated_dir @ ''/''"

text \<open>\<open>python -m app.ingest_emails\<close>: \<open>fetch_school_emails(max_results=50)\<close> is outside
  every \<open>try\<close>, so its exception ends the process with a non-zero status; otherwise
  \<open>main\<close> runs with the attachment transcriber and the process exits with 0.\<close>

definition ingest_subprocess ::
  "gmail_env \<Rightarrow> gemini_env \<Rightarrow> vision_env \<Rightarrow> datetime \<Rightarrow> up_state \<Rightarrow> bool \<times> up_state" where
  "ingest_subprocess genv env venv now st =
     (case fetch_school_emails genv 50 of
        Inl _ \<Rightarrow> (False, st)
      | Inr emails \<Rightarrow>
          (let ist = \<lparr>tracker_files = up_trackers st,
                      corpus = subdir consolidated_prefix (up_files st),
                      att_dir = up_files st\<rparr>;
               ist' = fst (ingest_main (\<lambda>p. gm_io_ok env (consolidated_prefix @ p))
                             (attachment_transcriber venv) now emails ist)
           in (True, \<lparr>up_files = with_subdir consolidated_prefix (corpus ist') (att_dir ist'),
                      up_trackers = tracker_files ist'\<rparr>)))"

section \<open>Jobs and triggers\<close>

text \<open>A \<open>CronTrigger(hour, minute)\<close> fires once a day; an
  \<open>IntervalTrigger(minutes=n)\<close> fires every \<open>n\<close> minutes after the minute it was
  added (APScheduler runs an interval of zero every second, here every minute).\<close>

datatype trigger = Cron_trigger nat nat | Interval_trigger nat

datatype job_func = Run_check | Run_ingestion

record job =
  jb_func :: job_func
  jb_trigger :: trigger
  jb_start :: nat

type_synonym jobstore = "(str \<times> job) list"

definition due :: "nat \<Rightarrow> job \<Rightarrow> bool" where
  "due t j =
     (case jb_trigger j of
        Cron_trigger h m \<Rightarrow> t mod 1440 = h * 60 + m
      | Interval_trigger n \<Rightarrow> jb_start j < t \<and> (t - jb_start j) mod max n 1 = 0)"

text \<open>The first minute after \<open>t\<close> at which a daily trigger at minute \<open>hm\<close> of the day
  fires, and the first minute after \<open>t\<close> at which a job fires (its \<open>next_run_time\<close>).\<close>

definition next_cron :: "nat \<Rightarrow> nat \<Rightarrow> nat" where
  "next_cron hm t = Suc t + (hm + 1440 - Suc t mod 1440) mod 1440"

definition next_fire :: "job \<Rightarrow> nat \<Rightarrow> nat" where
  "next_fire j t =
     (case jb_trigger j of
        Cron_trigger h m \<Rightarrow> next_cron (h * 60 + m) t
      | Interval_trigger n \<Rightarrow>
          if t < jb_start j then jb_start j + max n 1
          else jb_start j + max n 1 * ((t - jb_start j) div max n 1 + 1))"

text \<open>\<open>add_job(..., id=i, replace_existing=True)\<close>.\<close>

definition add_job :: "str \<Rightarrow> job \<Rightarrow> jobstore \<Rightarrow> jobstore" where
  "add_job i j js = AList.update i j js"

text \<open>\<open>CronTrigger(hour=h, minute=m)\<close> raises \<open>ValueError\<close> for an hour outside
  0..23 or a minute outside 0..59.\<close>

definition cron_trigger :: "int \<Rightarrow> int \<Rightarrow> trigger option" where
  "cron_trigger h m =
     (if 0 \<le> h \<and> h < 24 \<and> 0 \<le> m \<and> m < 60 then Some (Cron_trigger (nat h) (nat m)) else None)"

definition schedule_daily_ingestion :: "nat \<Rightarrow> int \<Rightarrow> int \<Rightarrow> jobstore \<Rightarrow> jobstore option" where
  "schedule_daily_ingestion now hour minute js =
     map_option (\<lambda>tr. add_job ''daily_email_ingestion''
                        \<lparr>jb_func = Run_ingestion, jb_trigger = tr, jb_start = now\<rparr> js)
       (cron_trigger hour minute)"

definition schedule_periodic_checks :: "nat \<Rightarrow> nat \<Rightarrow> jobstore \<Rightarrow> jobstore" where
  "schedule_periodic_checks now interval_minutes js =
     add_job ''periodic_email_check''
       \<lparr>jb_func = Run_check, jb_trigger = Interval_trigger interval_minutes, jb_start = now\<rparr> js"

text \<open>The minute \<open>get_next_run_time\<close> reports for the daily job.\<close>

definition next_run_minute :: "jobstore \<Rightarrow> nat \<Rightarrow> nat option" where
  "next_run_minute js t = map_option (\<lambda>j. next_fire j t) (map_of js ''daily_email_ingestion'')"

section \<open>The service\<close>

text \<open>The clock as a \<open>datetime\<close>: the day count from the epoch, the hour and minute.\<close>

definition clock_time :: "datetime \<Rightarrow> nat \<Rightarrow> datetime" where
  "clock_time epoch t =
     ((next_day ^^ (t div 1440)) epoch)\<lparr>dt_hour := t mod 1440 div 60, dt_minute := t mod 60,
                                        dt_second := 0\<rparr>"

text \<open>\<open>job.next_run_time.strftime("%Y-%m-%d %H:%M:%S")\<close>, or \<open>Not scheduled\<close>.\<close>

definition get_next_run_time :: "datetime \<Rightarrow> jobstore \<Rightarrow> nat \<Rightarrow> str" where
  "get_next_run_time epoch js t =
     (case next_run_minute js t of
        None \<Rightarrow> ''Not scheduled''
      | Some t' \<Rightarrow> (let d = clock_time epoch t'
                   in show_nat (dt_year d) @ ''-'' @ pad2 (dt_month d) @ ''-'' @ pad2 (dt_day d) @ '' '' @
                      fmt_time d))"

text \<open>\<open>calendar_token.json\<close>: whether it exists, unpickles, and holds valid
  credentials.\<close>

record token_state =
  tk_present :: bool
  tk_readable :: bool
  tk_valid :: bool

text \<open>The outside world: the query path's configuration, Files API and model, the model
  of the date extractor, the vision model, the calendar, whether \<open>credentials.json\<close>
  exists, the calendar token, the mailbox at each minute, the file-system side of the
  upload module, the server's standard input (inherited by the scheduled subprocess), the
  epoch of the clock, \<open>EMAIL_INGESTION_TIME\<close>, whether a file's bytes decode as UTF-8,
  and \<open>email.utils.parsedate_to_datetime\<close>.\<close>

record svc_env =
  se_qp :: qp_env
  se_extract :: extract_env
  se_vision :: vision_env
  se_cal :: cal_env
  se_credentials :: bool
  se_token :: token_state
  se_gmail :: "nat \<Rightarrow> gmail_env"
  se_gemini :: gemini_env
  se_stdin :: stdin
  se_epoch :: datetime
  se_ingestion_time :: str
  se_utf8_ok :: "str \<Rightarrow> bool"
  se_parsedate :: "str \<Rightarrow> datetime option"

text \<open>The state: the clock, the job store, the notification check file, the files and
  trackers, the query path's state, and the ids of the jobs whose last run has not
  returned (APScheduler counts a job's running instances).\<close>

record svc_state =
  sv_clock :: nat
  sv_jobs :: jobstore
  sv_check :: "check_file stored"
  sv_files :: up_state
  sv_qp :: qp_state
  sv_running :: "str set"

definition svc_now :: "svc_env \<Rightarrow> svc_state \<Rightarrow> datetime" where
  "svc_now env st = clock_time (se_epoch env) (sv_clock st)"

text \<open>\<open>run_check\<close>: \<open>check_for_new_emails(manual=False)\<close>, whose result is only
  printed.\<close>

definition run_check :: "svc_env \<Rightarrow> svc_state \<Rightarrow> svc_state" where
  "run_check env st =
     st\<lparr>sv_check := snd (check_for_new_emails False (fetch_for_check (se_gmail env (sv_clock st)) 20)
                          (svc_now env st) (sv_check st))\<rparr>"

text \<open>\<open>run_ingestion\<close>: \<open>scripts/backfill_emails.py\<close> as a subprocess, which inherits
  the server's standard input; its exit status is only printed. When the script waits in
  \<open>input()\<close> for ever, \<open>subprocess.run\<close> never returns and the job's instance stays
  running. The closure is only ever added under the id \<open>daily_email_ingestion\<close>.\<close>

definition scheduled_backfill :: "svc_env \<Rightarrow> svc_state \<Rightarrow> backfill_env" where
  "scheduled_backfill env st =
     \<lparr>bf_store_name = store_name (se_qp env),
      bf_ingest = ingest_subprocess (se_gmail env (sv_clock st)) (se_gemini env) (se_vision env) (svc_now env st),
      bf_input = se_stdin env\<rparr>"

definition run_ingestion :: "svc_env \<Rightarrow> svc_state \<Rightarrow> svc_state" where
  "run_ingestion env st =
     (let (status, files) = backfill_main (se_gemini env) (scheduled_backfill env st) (sv_files st)
      in st\<lparr>sv_files := files,
            sv_running := (if status = Waiting then insert ''daily_email_ingestion'' (sv_running st)
                           else sv_running st)\<rparr>)"

primrec run_job :: "svc_env \<Rightarrow> job_func \<Rightarrow> svc_state \<Rightarrow> svc_state" where
  "run_job env Run_check st = run_check env st"
| "run_job env Run_ingestion st = run_ingestion env st"

text \<open>One minute of the background scheduler: the ids of the jobs that ran, and the state.
  A due job whose previous run has not returned is skipped (\<open>max_instances\<close> is 1 by
  default: "maximum number of running instances reached").\<close>

definition tick :: "svc_env \<Rightarrow> svc_state \<Rightarrow> str list \<times> svc_state" where
  "tick env st =
     (let t = Suc (sv_clock st); js = filter (\<lambda>(i, j). due t j \<and> i \<notin> sv_running st) (sv_jobs st)
      in (map fst js, fold (\<lambda>(i, j). run_job env (jb_func j)) js (st\<lparr>sv_clock := t\<rparr>)))"

primrec run_ticks :: "svc_env \<Rightarrow> nat \<Rightarrow> svc_state \<Rightarrow> svc_state" where
  "run_ticks env 0 st = st"
| "run_ticks env (Suc n) st = snd (tick env (run_ticks env n st))"

section \<open>Startup\<close>

text \<open>\<open>EMAIL_INGESTION_TIME.split(':')\<close>, \<open>int\<close> of the first part and of the second
  (0 when there is none); \<open>None\<close> where \<open>int\<close> raises.\<close>

definition parse_ingestion_time :: "str \<Rightarrow> (int \<times> int) option" where
  "parse_ingestion_time s =
     (let time_parts = py_split_on CHR '':'' s
      in case py_int (hd time_parts) of
           None \<Rightarrow> None
         | Some hour \<Rightarrow>
             map_option (Pair hour) (if 1 < length time_parts then py_int (time_parts ! 1) else Some 0))"

text \<open>\<open>startup_event\<close>: the daily ingestion where the time parses and the trigger
  accepts it (every exception is printed and swallowed), then the check every 30
  minutes.\<close>

definition startup_event :: "svc_env \<Rightarrow> svc_state \<Rightarrow> svc_state" where
  "startup_event env st =
     (let t = sv_clock st;
          js = (case parse_ingestion_time (se_ingestion_time env) of
                  None \<Rightarrow> sv_jobs st
                | Some (hour, minute) \<Rightarrow>
                    (case schedule_daily_ingestion t hour minute (sv_jobs st) of
                       None \<Rightarrow> sv_jobs st
                     | Some js' \<Rightarrow> js'))
      in st\<lparr>sv_jobs := schedule_periodic_checks t 30 js\<rparr>)"

text \<open>A world for the examples: the query path answers, the image holds one date, every
  calendar insert fails, and the mailbox is the one of \<^theory_text>\<open>Gmail\<close>.\<close>

abbreviation sample_svc_env :: svc_env where
  "sample_svc_env \<equiv>
     \<lparr>se_qp = env0,
      se_extract = \<lparr>ee_api_key = True, ee_generate = (\<lambda>_ _. Inr (Some ''[...]'')),
        ee_json_loads = (\<lambda>_. Some (JList [JObj [(''title'', JStr ''Music class''),
                                                (''date'', JStr ''2025-12-15'')]]))\<rparr>,
      se_vision = \<lparr>ve_api_key = ''key'', ve_upload = (\<lambda>_ _. Inr \<lparr>gf_name = ''files/i1'', gf_state = ''ACTIVE''\<rparr>),
        ve_get = (\<lambda>_ _. Inr \<lparr>gf_name = ''files/i1'', gf_state = ''ACTIVE''\<rparr>),
        ve_generate = (\<lambda>_ _. Inr \<lparr>vr_text = ''Music class on December 15'', vr_candidates = []\<rparr>),
        ve_utf8_ignore = (\<lambda>s. s)\<rparr>,
      se_cal = \<lparr>ce_attendees = [], ce_calendar_id = ''primary'', ce_auth_error = None,
        ce_insert = (\<lambda>_ _ _. Inl ''Error creating calendar event: <HttpError 403>'')\<rparr>,
      se_credentials = True, se_token = \<lparr>tk_present = False, tk_readable = False, tk_valid = False\<rparr>,
      se_gmail = (\<lambda>_. sample_gmail_env), se_gemini = sample_gemini_env, se_stdin = Stdin_eof,
      se_epoch = mk_dt 2025 11 3 0 0 0, se_ingestion_time = ''18:00'', se_utf8_ok = (\<lambda>_. True),
      se_parsedate = (\<lambda>_. None)\<rparr>"

abbreviation sample_svc_state :: svc_state where
  "sample_svc_state \<equiv>
     \<lparr>sv_clock = 0, sv_jobs = [], sv_check = Absent, sv_files = sample_up_state, sv_qp = qp_st0,
      sv_running = {}\<rparr>"

section \<open>Properties\<close>

text \<open>\<open>config.RAW_EMAILS_DIR\<close>, and the relation between two file systems in which the
  second has no file under it that the first lacks.\<close>

definition raw_emails_dir :: str where
  "raw_emails_dir = ''data/raw_emails''"

definition keeps_raw :: "dir \<Rightarrow> dir \<Rightarrow> bool" where
  "keeps_raw d d' \<longleftrightarrow>
     (\<forall>p. p |\<in>| fmdom d' \<longrightarrow> starts_with (raw_emails_dir @ ''/'') p \<longrightarrow> p |\<in>| fmdom d)"

text \<open>Every e-mail recorded as processed in the first state is recorded in the second.\<close>

definition keeps_processed :: "svc_state \<Rightarrow> svc_state \<Rightarrow> bool" where
  "keeps_processed st st' \<longleftrightarrow>
     (\<forall>x. is_email_processed x (up_trackers (sv_files st)) \<longrightarrow>
          is_email_processed x (up_trackers (sv_files st')))"

subsection \<open>Paths\<close>

lemma starts_with_conv: "starts_with xs ys \<longleftrightarrow> (\<exists>s. ys = xs @ s)"
  by (induction xs ys rule: starts_with.induct) auto

lemma starts_with_append [simp]: "starts_with xs (xs @ s)"
  by (simp add: starts_with_conv)

lemma consolidated_not_raw:
  "starts_with consolidated_prefix p \<Longrightarrow> \<not> starts_with (raw_emails_dir @ ''/'') p"
  by (auto simp: starts_with_conv consolidated_prefix_def consolidated_dir_def raw_emails_dir_def)

lemma py_replace_prefix:
  "old \<noteq> [] \<Longrightarrow> hd old \<notin> set pre \<Longrightarrow> py_replace old new (pre @ s) = pre @ py_replace old new s"
proof (induction pre)
  case Nil
  then show ?case by simp
next
  case (Cons c pre)
  then have "\<not> starts_with old (c # pre @ s)"
    by (cases old) auto
  with Cons show ?case by simp
qed

lemma temp_copy_consolidated:
  "starts_with consolidated_prefix p \<Longrightarrow> starts_with consolidated_prefix (py_replace ''.md'' ''.txt'' p)"
  by (auto simp: starts_with_conv py_replace_prefix consolidated_prefix_def consolidated_dir_def)

lemma md_glob_consolidated: "p \<in> set (md_glob d) \<Longrightarrow> starts_with consolidated_prefix p"
  by (simp add: md_glob_def consolidated_prefix_def)

subsection \<open>What the jobs do to the files\<close>

lemma keeps_raw_refl [simp]: "keeps_raw d d"
  by (simp add: keeps_raw_def)

lemma keeps_raw_trans: "keeps_raw d1 d2 \<Longrightarrow> keeps_raw d2 d3 \<Longrightarrow> keeps_raw d1 d3"
  by (simp add: keeps_raw_def)

lemma keeps_raw_subset: "fmdom d' |\<subseteq>| fmdom d \<Longrightarrow> keeps_raw d d'"
  by (auto simp: keeps_raw_def)

lemma keeps_raw_consolidated:
  "fmdom d' |\<subseteq>| fmdom d |\<union>| S \<Longrightarrow> (\<forall>p. p |\<in>| S \<longrightarrow> starts_with consolidated_prefix p) \<Longrightarrow>
   keeps_raw d d'"
  using consolidated_not_raw by (fastforce simp: keeps_raw_def)

lemma unlink_all_dom: "fmdom (snd (unlink_all env ps c d)) |\<subseteq>| fmdom d"
  by (induction env ps c d rule: unlink_all.induct) (auto dest: fsubsetD)

lemma cleanup_old_files_dom: "fmdom (snd (cleanup_old_files env k d)) |\<subseteq>| fmdom d"
proof -
  obtain c1 d1 where u1: "(if dir_exists env d ''data/raw_emails''
      then unlink_all env (files_under ''data/raw_emails'' d) (0, 0) d else ((0, 0), d)) = (c1, d1)"
    by fastforce
  obtain c2 d2 where u2: "(if dir_exists env d1 ''data/attachments''
      then unlink_all env (files_under ''data/attachments'' d1) (0, 0) d1 else ((0, 0), d1)) = (c2, d2)"
    by fastforce
  have "fmdom d1 |\<subseteq>| fmdom d"
    using u1 unlink_all_dom [of env "files_under ''data/raw_emails'' d" "(0, 0)" d]
    by (auto split: if_splits)
  moreover have "fmdom d2 |\<subseteq>| fmdom d1"
    using u2 unlink_all_dom [of env "files_under ''data/attachments'' d1" "(0, 0)" d1]
    by (auto split: if_splits)
  moreover have "snd (cleanup_old_files env k d) = d2"
    using u1 u2 by (simp add: cleanup_old_files_def split: prod.split)
  ultimately show ?thesis by auto
qed

lemma upload_file_to_store_dom:
  "fmdom (up_files (snd (upload_file_to_store env fp b st))) |\<subseteq>|
     finsert (py_replace ''.md'' ''.txt'' fp) (fmdom (up_files st))"
  by (auto simp: upload_file_to_store_def Let_def split: option.split sum.split)

subsection \<open>What the jobs do to the trackers\<close>

lemma email_tracker_mark_file [simp]:
  "email_tracker (mark_file_uploaded fs p t) = email_tracker t"
  by (simp add: mark_file_uploaded_def split: option.split)

lemma finish_upload_email [simp]:
  "email_tracker (up_trackers (snd (finish_upload env fp st d f))) = email_tracker (up_trackers st)"
  by (simp add: finish_upload_def Let_def split: sum.split prod.split)

lemma upload_file_to_store_email [simp]:
  "email_tracker (up_trackers (snd (upload_file_to_store env fp b st))) = email_tracker (up_trackers st)"
  by (simp add: upload_file_to_store_def Let_def split: option.split sum.split)

lemma upload_consolidated_markdown_email [simp]:
  "email_tracker (up_trackers (snd (upload_consolidated_markdown env mp st))) = email_tracker (up_trackers st)"
  by (simp add: upload_consolidated_markdown_def split: option.split)

lemma upload_consolidated_markdown_dom:
  "p \<noteq> [] \<Longrightarrow> fmdom (up_files (snd (upload_consolidated_markdown env (Some p) st))) |\<subseteq>|
     finsert (py_replace ''.md'' ''.txt'' p) (fmdom (up_files st))"
  using upload_file_to_store_dom [of env p True st]
  by (auto simp: upload_consolidated_markdown_def)

lemma backfill_uploads_email [simp]:
  "email_tracker (up_trackers (snd (backfill_uploads env ps n st))) = email_tracker (up_trackers st)"
proof (induction env ps n st rule: backfill_uploads.induct)
  case (2 env md_file md_files n st)
  then show ?case
    by (auto split: prod.split sum.split option.split
        dest: arg_cong [where f = "\<lambda>x. email_tracker (up_trackers (snd x))"])
qed simp

lemma backfill_uploads_keeps_raw:
  "\<forall>p \<in> set ps. starts_with consolidated_prefix p \<Longrightarrow>
   keeps_raw (up_files st) (up_files (snd (backfill_uploads env ps n st)))"
proof (induction ps arbitrary: n st)
  case (Cons md_file md_files)
  obtain r st' where u: "upload_consolidated_markdown env (Some md_file) st = (r, st')" by fastforce
  have pre: "starts_with consolidated_prefix md_file"
    using Cons.prems by simp
  then have "md_file \<noteq> []"
    by (auto simp: consolidated_prefix_def consolidated_dir_def)
  then have "keeps_raw (up_files st) (up_files st')"
    using upload_consolidated_markdown_dom [of md_file env st] u temp_copy_consolidated [OF pre]
    by (intro keeps_raw_consolidated [where S = "{|py_replace ''.md'' ''.txt'' md_file|}"]) auto
  moreover have "keeps_raw (up_files st') (up_files (snd (backfill_uploads env md_files n' st')))" for n'
    using Cons by simp
  ultimately show ?case
    using u by (auto split: sum.split option.split intro: keeps_raw_trans)
qed simp

lemma newest_first_md_glob: "p \<in> set (newest_first env (md_glob d)) \<Longrightarrow> starts_with consolidated_prefix p"
  by (simp add: newest_first_def md_glob_consolidated)

lemma backfill_main_keeps_raw:
  assumes "keeps_raw (up_files st) (up_files (snd (bf_ingest be st)))"
  shows "keeps_raw (up_files st) (up_files (snd (backfill_main env be st)))"
proof -
  obtain ok st1 where i: "bf_ingest be st = (ok, st1)" by fastforce
  let ?ms = "newest_first env (md_glob (up_files st1))"
  obtain c st2 where b: "backfill_uploads env ?ms 0 st1 = (c, st2)" by fastforce
  have k1: "keeps_raw (up_files st) (up_files st1)"
    using assms i by simp
  have "keeps_raw (up_files st1) (up_files st2)"
    using backfill_uploads_keeps_raw [of ?ms st1 env 0] b newest_first_md_glob by auto
  then have k2: "keeps_raw (up_files st) (up_files st2)"
    using k1 by (rule keeps_raw_trans [rotated])
  have "keeps_raw (up_files st) (snd (cleanup_old_files env True (up_files st2)))"
    using k2 keeps_raw_subset [OF cleanup_old_files_dom] by (rule keeps_raw_trans)
  then show ?thesis
    using i b k1 k2 by (simp add: backfill_main_def Let_def split: bool.split stdin.split)
qed

lemma backfill_main_email:
  "email_tracker (up_trackers (snd (backfill_main env be st))) =
     (if bf_store_name be = [] then email_tracker (up_trackers st)
      else email_tracker (up_trackers (snd (bf_ingest be st))))"
  by (simp add: backfill_main_def Let_def prod.case_eq_if split: bool.split stdin.split)

lemma backfill_main_waiting:
  "fst (backfill_main env be st) = Waiting \<Longrightarrow> bf_input be = Stdin_tty"
  by (auto simp: backfill_main_def Let_def split: if_splits prod.splits bool.splits stdin.splits)

lemma processed_email_tracker:
  "email_tracker t = email_tracker t' \<Longrightarrow> is_email_processed x t = is_email_processed x t'"
  by (simp add: is_email_processed_def)

lemma fmdom_with_subdir:
  "p |\<in>| fmdom (with_subdir pre sub d) \<longleftrightarrow>
     (\<not> starts_with pre p \<and> p |\<in>| fmdom d) \<or> (\<exists>q. p = pre @ q \<and> q |\<in>| fmdom sub)"
  by (auto simp: with_subdir_def listing_def fset_of_list_elem image_iff)

lemma ingest_subprocess_keeps_raw:
  "keeps_raw (up_files st) (up_files (snd (ingest_subprocess genv env venv now st)))"
proof (cases "fetch_school_emails genv 50")
  case (Inl e)
  then show ?thesis by (simp add: ingest_subprocess_def)
next
  case (Inr emails)
  have "starts_with consolidated_prefix (consolidated_prefix @ q)" for q
    by simp
  then show ?thesis
    using Inr consolidated_not_raw
    by (auto simp: ingest_subprocess_def Let_def keeps_raw_def fmdom_with_subdir ingest_main_att_dir)
qed

lemma ingest_subprocess_processed:
  "is_email_processed x (up_trackers (snd (ingest_subprocess genv env venv now st))) \<longleftrightarrow>
     is_email_processed x (up_trackers st) \<or>
     (\<exists>es. fetch_school_emails genv 50 = Inr es \<and> x \<in> email_id ` set es)"
  using ingest_main_effect by (auto simp: ingest_subprocess_def Let_def split: sum.split)

subsection \<open>Jobs and ticks\<close>

lemma keeps_processed_refl [simp]: "keeps_processed st st"
  by (simp add: keeps_processed_def)

lemma keeps_processed_trans: "keeps_processed s1 s2 \<Longrightarrow> keeps_processed s2 s3 \<Longrightarrow> keeps_processed s1 s3"
  by (simp add: keeps_processed_def)

lemma run_ingestion_fields:
  "sv_clock (run_ingestion env st) = sv_clock st" "sv_jobs (run_ingestion env st) = sv_jobs st"
  "sv_check (run_ingestion env st) = sv_check st" "sv_qp (run_ingestion env st) = sv_qp st"
  "sv_files (run_ingestion env st) = snd (backfill_main (se_gemini env) (scheduled_backfill env st) (sv_files st))"
  "sv_running (run_ingestion env st) =
     (if fst (backfill_main (se_gemini env) (scheduled_backfill env st) (sv_files st)) = Waiting
      then insert ''daily_email_ingestion'' (sv_running st) else sv_running st)"
  by (simp_all add: run_ingestion_def split: prod.split)

lemma run_job_frame [simp]:
  "sv_clock (run_job env f st) = sv_clock st" "sv_jobs (run_job env f st) = sv_jobs st"
  by (cases f; simp add: run_check_def run_ingestion_fields)+

lemma run_job_keeps_raw:
  "keeps_raw (up_files (sv_files st)) (up_files (sv_files (run_job env f st)))"
  by (cases f) (simp_all add: run_check_def scheduled_backfill_def run_ingestion_fields
      backfill_main_keeps_raw ingest_subprocess_keeps_raw)

lemma run_job_running:
  "sv_running st \<subseteq> sv_running (run_job env f st)"
  "se_stdin env \<noteq> Stdin_tty \<Longrightarrow> sv_running (run_job env f st) = sv_running st"
  by (cases f; auto simp: run_check_def scheduled_backfill_def run_ingestion_fields
      dest: backfill_main_waiting)+

lemma run_ingestion_processed:
  "is_email_processed x (up_trackers (sv_files (run_ingestion env st))) \<longleftrightarrow>
     is_email_processed x (up_trackers (sv_files st)) \<or>
     (store_name (se_qp env) \<noteq> [] \<and>
      (\<exists>es. fetch_school_emails (se_gmail env (sv_clock st)) 50 = Inr es \<and> x \<in> email_id ` set es))"
proof (cases "store_name (se_qp env) = []")
  case True
  then show ?thesis
    using backfill_main_email [of "se_gemini env" "scheduled_backfill env st" "sv_files st"]
    by (simp add: scheduled_backfill_def is_email_processed_def run_ingestion_fields)
next
  case False
  then show ?thesis
    using backfill_main_email [of "se_gemini env" "scheduled_backfill env st" "sv_files st"]
      ingest_subprocess_processed [of x]
    by (simp add: scheduled_backfill_def is_email_processed_def run_ingestion_fields)
qed

lemma run_job_keeps_processed: "keeps_processed st (run_job env f st)"
  by (cases f) (simp_all add: keeps_processed_def run_check_def run_ingestion_processed)

lemma fold_jobs_frame:
  "sv_clock (fold (\<lambda>(i, j). run_job env (jb_func j)) js st) = sv_clock st \<and>
   sv_jobs (fold (\<lambda>(i, j). run_job env (jb_func j)) js st) = sv_jobs st \<and>
   keeps_raw (up_files (sv_files st)) (up_files (sv_files (fold (\<lambda>(i, j). run_job env (jb_func j)) js st))) \<and>
   keeps_processed st (fold (\<lambda>(i, j). run_job env (jb_func j)) js st) \<and>
   sv_running st \<subseteq> sv_running (fold (\<lambda>(i, j). run_job env (jb_func j)) js st)"
proof (induction js arbitrary: st)
  case (Cons ij js)
  obtain i j where ij: "ij = (i, j)" by fastforce
  show ?case
    using Cons [of "run_job env (jb_func j) st"] ij run_job_running(1) [of st env "jb_func j"]
    by (auto intro: keeps_raw_trans [OF run_job_keeps_raw] keeps_processed_trans [OF run_job_keeps_processed])
qed simp

lemma fold_jobs_running:
  "se_stdin env \<noteq> Stdin_tty \<Longrightarrow>
   sv_running (fold (\<lambda>(i, j). run_job env (jb_func j)) js st) = sv_running st"
  by (induction js arbitrary: st) (auto simp: run_job_running(2))

lemma fold_jobs_ingestion:
  assumes "(i, j) \<in> set js" "jb_func j = Run_ingestion" "store_name (se_qp env) \<noteq> []"
    and "fetch_school_emails (se_gmail env (sv_clock st)) 50 = Inr es" "e \<in> set es"
  shows "is_email_processed (email_id e) (up_trackers (sv_files (fold (\<lambda>(i, j). run_job env (jb_func j)) js st)))"
  using assms(1,4)
proof (induction js arbitrary: st)
  case (Cons ij js)
  obtain i' j' where ij: "ij = (i', j')" by fastforce
  let ?s = "run_job env (jb_func j') st"
  show ?case
  proof (cases "(i, j) \<in> set js")
    case True
    then show ?thesis using Cons.IH [of ?s] Cons.prems ij by simp
  next
    case False
    then have "ij = (i, j)" using Cons.prems by simp
    then have "is_email_processed (email_id e) (up_trackers (sv_files ?s))"
      using assms(2,3,5) Cons.prems ij by (auto simp: run_ingestion_processed)
    then show ?thesis
      using fold_jobs_frame [of env js ?s] ij by (simp add: keeps_processed_def)
  qed
qed simp

lemma tick_frame:
  "sv_clock (snd (tick env st)) = Suc (sv_clock st) \<and> sv_jobs (snd (tick env st)) = sv_jobs st \<and>
   keeps_raw (up_files (sv_files st)) (up_files (sv_files (snd (tick env st)))) \<and>
   keeps_processed st (snd (tick env st)) \<and> sv_running st \<subseteq> sv_running (snd (tick env st))"
  using fold_jobs_frame [of env _ "st\<lparr>sv_clock := Suc (sv_clock st)\<rparr>"]
  by (simp add: tick_def Let_def keeps_processed_def)

lemma tick_running:
  "se_stdin env \<noteq> Stdin_tty \<Longrightarrow> sv_running (snd (tick env st)) = sv_running st"
  by (simp add: tick_def Let_def fold_jobs_running)

lemma run_ticks_frame:
  "sv_clock (run_ticks env n st) = sv_clock st + n \<and> sv_jobs (run_ticks env n st) = sv_jobs st \<and>
   keeps_raw (up_files (sv_files st)) (up_files (sv_files (run_ticks env n st))) \<and>
   keeps_processed st (run_ticks env n st) \<and> sv_running st \<subseteq> sv_running (run_ticks env n st)"
proof (induction n)
  case (Suc n)
  then show ?case
    using tick_frame [of env "run_ticks env n st"] by (auto intro: keeps_raw_trans keeps_processed_trans)
qed simp

lemma run_ticks_running:
  "se_stdin env \<noteq> Stdin_tty \<Longrightarrow> sv_running (run_ticks env n st) = sv_running st"
  by (induction n) (simp_all add: tick_running)

subsection \<open>The daily trigger\<close>

lemma next_cron_bounds:
  assumes "hm < 1440"
  shows "t < next_cron hm t \<and> next_cron hm t \<le> t + 1440 \<and> next_cron hm t mod 1440 = hm"
proof -
  let ?r = "Suc t mod 1440"
  let ?x = "hm + 1440 - ?r"
  have r: "?r < 1440" by simp
  have "(Suc t + ?x mod 1440) mod 1440 = (Suc t + ?x) mod 1440"
    by (rule mod_add_right_eq)
  also have "\<dots> = (?r + ?x) mod 1440"
    by (rule mod_add_left_eq [symmetric])
  also have "?r + ?x = hm + 1440"
    using r by linarith
  finally show ?thesis
    using assms by (simp add: next_cron_def)
qed

lemma next_fire_cron:
  "jb_trigger j = Cron_trigger h m \<Longrightarrow> h * 60 + m < 1440 \<Longrightarrow>
   t < next_fire j t \<and> next_fire j t \<le> t + 1440 \<and> due (next_fire j t) j"
  using next_cron_bounds [of "h * 60 + m" t] by (simp add: next_fire_def due_def)

lemma ingestion_at_next_fire:
  assumes "map_of (sv_jobs st) ''daily_email_ingestion'' = Some j" "jb_func j = Run_ingestion"
    and "jb_trigger j = Cron_trigger h m" "h * 60 + m < 1440" "store_name (se_qp env) \<noteq> []"
    and "fetch_school_emails (se_gmail env (next_fire j (sv_clock st))) 50 = Inr es" "e \<in> set es"
    and "se_stdin env \<noteq> Stdin_tty" "''daily_email_ingestion'' \<notin> sv_running st"
  shows "is_email_processed (email_id e)
           (up_trackers (sv_files (run_ticks env (next_fire j (sv_clock st) - sv_clock st) st)))"
proof -
  let ?T = "next_fire j (sv_clock st)"
  have b: "sv_clock st < ?T" "due ?T j"
    using next_fire_cron [OF assms(3,4)] by auto
  then obtain k where k: "?T - sv_clock st = Suc k" "Suc (sv_clock st + k) = ?T"
    by (metis Suc_diff_Suc add_Suc_right le_add_diff_inverse less_imp_le_nat)
  let ?s = "run_ticks env k st"
  have s: "sv_clock ?s = sv_clock st + k" "sv_jobs ?s = sv_jobs st" "sv_running ?s = sv_running st"
    using run_ticks_frame [of env k st] run_ticks_running [OF assms(8)] by auto
  have "(''daily_email_ingestion'', j) \<in> set (filter (\<lambda>(i, j). due ?T j \<and> i \<notin> sv_running ?s) (sv_jobs ?s))"
    using map_of_SomeD [OF assms(1)] b s assms(9) by simp
  then have "is_email_processed (email_id e) (up_trackers (sv_files
      (fold (\<lambda>(i, j). run_job env (jb_func j)) (filter (\<lambda>(i, j). due ?T j \<and> i \<notin> sv_running ?s) (sv_jobs ?s))
        (?s\<lparr>sv_clock := ?T\<rparr>))))"
    using assms(2,5,6,7) by (intro fold_jobs_ingestion) auto
  then show ?thesis
    using k s by (simp add: tick_def Let_def)
qed

subsection \<open>Startup\<close>

lemma startup_jobs_periodic:
  "map_of (sv_jobs (startup_event env st)) ''periodic_email_check'' =
     Some \<lparr>jb_func = Run_check, jb_trigger = Interval_trigger 30, jb_start = sv_clock st\<rparr>"
  by (auto simp: startup_event_def schedule_periodic_checks_def add_job_def update_conv' Let_def)

lemma startup_jobs_daily:
  "map_of (sv_jobs (startup_event env st)) ''daily_email_ingestion'' =
     (case parse_ingestion_time (se_ingestion_time env) of
        Some (h, m) \<Rightarrow>
          (case cron_trigger h m of
             Some tr \<Rightarrow> Some \<lparr>jb_func = Run_ingestion, jb_trigger = tr, jb_start = sv_clock st\<rparr>
           | None \<Rightarrow> map_of (sv_jobs st) ''daily_email_ingestion'')
      | None \<Rightarrow> map_of (sv_jobs st) ''daily_email_ingestion'')"
  by (auto simp: startup_event_def schedule_periodic_checks_def schedule_daily_ingestion_def add_job_def
      update_conv' Let_def split: option.split)

lemma parse_ingestion_time_pad2:
  "parse_ingestion_time (pad2 h @ '':'' @ pad2 m) = Some (int h, int m)"
proof -
  have "CHR '':'' \<notin> set (pad2 k)" for k
    by (rule pad2_no) (simp add: is_digit_def)
  then have "py_split_on CHR '':'' (pad2 h @ '':'' @ pad2 m) = [pad2 h, pad2 m]"
    by (simp add: py_split_on_sep py_split_on_none)
  then show ?thesis
    by (simp add: parse_ingestion_time_def py_int_pad2)
qed

subsection \<open>Jobs of the same minute\<close>

lemma run_jobs_commute:
  "run_job env f (run_job env g st) = run_job env g (run_job env f st)"
  by (cases f; cases g)
    (simp_all add: run_check_def run_ingestion_def scheduled_backfill_def svc_now_def split: prod.split)

lemma run_job_jobs_field:
  "run_job env f (st\<lparr>sv_jobs := js\<rparr>) = (run_job env f st)\<lparr>sv_jobs := js\<rparr>"
  by (cases f)
    (simp_all add: run_check_def run_ingestion_def scheduled_backfill_def svc_now_def split: prod.split)

lemma fold_jobs_field:
  "fold (\<lambda>(i, j). run_job env (jb_func j)) xs (st\<lparr>sv_jobs := js\<rparr>) =
     (fold (\<lambda>(i, j). run_job env (jb_func j)) xs st)\<lparr>sv_jobs := js\<rparr>"
  by (induction xs arbitrary: st) (auto simp: run_job_jobs_field)

text \<open>C21. The jobs that fall due in the same minute run in APScheduler's thread pool in
  no fixed order; the state after the minute does not depend on that order: any
  permutation of the job store gives the same state.\<close>

theorem tick_order_irrelevant:
  assumes "mset js = mset (sv_jobs st)"
  shows "snd (tick env (st\<lparr>sv_jobs := js\<rparr>)) = (snd (tick env st))\<lparr>sv_jobs := js\<rparr>"
proof -
  let ?f = "\<lambda>(i :: str, j). run_job env (jb_func j)"
  let ?t = "Suc (sv_clock st)"
  let ?P = "\<lambda>(i, j). due ?t j \<and> i \<notin> sv_running st"
  have m: "mset (filter ?P js) = mset (filter ?P (sv_jobs st))"
    using assms by simp
  have c: "?f x \<circ> ?f y = ?f y \<circ> ?f x" for x y :: "str \<times> job"
    by (auto simp: fun_eq_iff run_jobs_commute split: prod.split)
  have eq: "fold ?f (filter ?P js) = fold ?f (filter ?P (sv_jobs st))"
    by (rule fold_multiset_equiv [OF _ m]) (simp add: c)
  have e: "st\<lparr>sv_jobs := js, sv_clock := ?t\<rparr> = st\<lparr>sv_clock := ?t\<rparr>\<lparr>sv_jobs := js\<rparr>"
    by (cases st) simp
  have "snd (tick env (st\<lparr>sv_jobs := js\<rparr>)) =
      fold ?f (filter ?P js) (st\<lparr>sv_jobs := js, sv_clock := ?t\<rparr>)"
    by (simp add: tick_def Let_def)
  also have "\<dots> = fold ?f (filter ?P (sv_jobs st)) (st\<lparr>sv_clock := ?t\<rparr>\<lparr>sv_jobs := js\<rparr>)"
    by (simp only: eq e)
  also have "\<dots> = (fold ?f (filter ?P (sv_jobs st)) (st\<lparr>sv_clock := ?t\<rparr>))\<lparr>sv_jobs := js\<rparr>"
    by (rule fold_jobs_field)
  also have "\<dots> = (snd (tick env st))\<lparr>sv_jobs := js\<rparr>"
    by (simp add: tick_def Let_def)
  finally show ?thesis .
qed

text \<open>C22. Startup schedules the configured time: when \<open>EMAIL_INGESTION_TIME\<close> is
  \<open>HH:MM\<close> with an hour below 24 and a minute below 60, the job store holds the daily
  ingestion at that hour and minute, and the e-mail check every 30 minutes.\<close>

theorem startup_schedules_configured_time:
  assumes "se_ingestion_time env = pad2 h @ '':'' @ pad2 m" and "h < 24" "m < 60"
  shows "map_of (sv_jobs (startup_event env st)) ''daily_email_ingestion'' =
           Some \<lparr>jb_func = Run_ingestion, jb_trigger = Cron_trigger h m, jb_start = sv_clock st\<rparr> \<and>
         map_of (sv_jobs (startup_event env st)) ''periodic_email_check'' =
           Some \<lparr>jb_func = Run_check, jb_trigger = Interval_trigger 30, jb_start = sv_clock st\<rparr>"
  using assms parse_ingestion_time_pad2 [of h m]
  by (simp add: startup_jobs_daily startup_jobs_periodic cron_trigger_def)

theorem tick_order_irrelevant_witness:
  "mset (rev (sv_jobs (startup_event sample_svc_env sample_svc_state))) =
     mset (sv_jobs (startup_event sample_svc_env sample_svc_state)) \<and>
   snd (tick sample_svc_env ((startup_event sample_svc_env sample_svc_state)
          \<lparr>sv_jobs := rev (sv_jobs (startup_event sample_svc_env sample_svc_state))\<rparr>)) =
     (snd (tick sample_svc_env (startup_event sample_svc_env sample_svc_state)))
       \<lparr>sv_jobs := rev (sv_jobs (startup_event sample_svc_env sample_svc_state))\<rparr>"
proof -
  have h: "mset (rev (sv_jobs (startup_event sample_svc_env sample_svc_state))) =
     mset (sv_jobs (startup_event sample_svc_env sample_svc_state))"
    by simp
  show ?thesis
    by (intro conjI h tick_order_irrelevant [OF h])
qed

theorem startup_schedules_configured_time_witness:
  "se_ingestion_time sample_svc_env = pad2 18 @ '':'' @ pad2 0 \<and> (18::nat) < 24 \<and> (0::nat) < 60 \<and>
   map_of (sv_jobs (startup_event sample_svc_env sample_svc_state)) ''daily_email_ingestion'' =
     Some \<lparr>jb_func = Run_ingestion, jb_trigger = Cron_trigger 18 0, jb_start = 0\<rparr> \<and>
   map_of (sv_jobs (startup_event sample_svc_env sample_svc_state)) ''periodic_email_check'' =
     Some \<lparr>jb_func = Run_check, jb_trigger = Interval_trigger 30, jb_start = 0\<rparr>"
proof -
  have t: "se_ingestion_time sample_svc_env = pad2 18 @ '':'' @ pad2 0"
    by (simp add: pad2_def show_nat.simps digit_char_def)
  show ?thesis
    using startup_schedules_configured_time [of sample_svc_env 18 0 sample_svc_state, OF t] t by simp
qed

end
