(* ===== verification/Api.thy ===== *)
theory Api
  imports Scheduler "HOL-Library.Product_Lexorder"
begin

text \<open>
  The HTTP endpoints of \<^verbatim>\<open>src/app/main.py\<close> and the service they make up with the
  scheduler. Each endpoint is a function of the environment and the state of
  \<^theory_text>\<open>Scheduler\<close> returning its response and the new state; an
  \<open>HTTPException(status_code, detail)\<close> is the value \<open>Inl (status_code, detail)\<close>.
  A \<open>request\<close> names an endpoint with its parameters, \<open>handle\<close> answers it, and
  \<open>svc_step\<close> is the service as a transition system: a request or a minute of the
  scheduler, in any interleaving. The static pages (\<open>/\<close>, \<open>/ui\<close>), the logging
  middleware and \<open>/rag/metrics\<close> are not modelled.
\<close>

type_synonym 'a http = "(nat \<times> str) + 'a"

section \<open>Chat and date extraction\<close>

definition ask_error_text :: "ask_error \<Rightarrow> str" where
  "ask_error_text e = (case e of Value_error s \<Rightarrow> s | Generation_error s \<Rightarrow> s)"

text \<open>\<open>POST /chat\<close>: \<open>ask_school_question(question, FILE_SEARCH_STORE_NAME)\<close> with the
  cache on; its exception becomes a 429 when its text mentions a rate limit and a 500
  otherwise.\<close>

definition chat :: "qp_env \<Rightarrow> datetime \<Rightarrow> str \<Rightarrow> qp_state \<Rightarrow> str http \<times> qp_state" where
  "chat env now question st =
     (if question = [] \<or> py_strip question = [] then (Inl (400, ''Question cannot be empty''), st)
      else if store_name env = [] then
        (Inl (500, ''FILE_SEARCH_STORE_NAME not configured. Please run init_file_search_store.py first.''), st)
      else
        (case ask_school_question env True now question st of
           (Inr answer, st') \<Rightarrow> (Inr answer, st')
         | (Inl e, st') \<Rightarrow>
             (let error_msg = ask_error_text e
              in if contains ''429'' error_msg \<or> contains ''RESOURCE_EXHAUSTED'' error_msg
                 then (Inl (429, ''Rate limit exceeded. Please wait a moment and try again.''), st')
                 else (Inl (500, ''Error processing question: '' @ error_msg), st'))))"

definition extracted_message :: "nat \<Rightarrow> str \<Rightarrow> str" where
  "extracted_message n src = ''Extracted '' @ show_nat n @ '' event(s) from '' @ src"

text \<open>\<open>POST /upload-image\<close>: the image is written to a temporary file named
  \<open>tmp_name\<close> plus the upload's extension, read by the vision model, and its text given
  to the date extractor. The temporary file is removed in the \<open>finally\<close> block.\<close>

definition upload_image ::
  "vision_env \<Rightarrow> extract_env \<Rightarrow> datetime \<Rightarrow> str option \<Rightarrow> str \<Rightarrow> str \<Rightarrow> str \<Rightarrow> bool \<Rightarrow>
   (parsed_event list \<times> str \<times> str option) http" where
  "upload_image venv eenv now content_type filename tmp_name content debug =
     (if (case content_type of None \<Rightarrow> True | Some ct \<Rightarrow> \<not> starts_with ''image/'' ct)
      then Inl (400, ''File must be an image'')
      else
        (case extract_text_from_image venv (tmp_name @ snd (split_ext filename)) (Some content) of
           Inl e \<Rightarrow> Inl (500, ''Error processing image: '' @ e)
         | Inr extracted_text \<Rightarrow>
             (case extract_dates_from_text eenv now extracted_text of
                Inl e \<Rightarrow> Inl (500, ''Error processing image: '' @ e)
              | Inr events \<Rightarrow>
                  Inr (events, extracted_message (length events) ''image'',
                       if debug then Some (py_take 500 extracted_text) else None))))"

text \<open>\<open>POST /extract-dates\<close>.\<close>

definition extract_dates :: "extract_env \<Rightarrow> datetime \<Rightarrow> str \<Rightarrow> (parsed_event list \<times> str) http" where
  "extract_dates env now text =
     (case extract_dates_from_text env now text of
        Inl e \<Rightarrow> Inl (500, ''Error extracting dates: '' @ e)
      | Inr events \<Rightarrow> Inr (events, extracted_message (length events) ''text''))"

section \<open>Calendar\<close>

record calendar_status =
  cs_configured :: bool
  cs_authenticated :: bool
  cs_message :: str
  cs_setup_required :: "str list"

text \<open>\<open>GET /calendar/status\<close>.\<close>

definition get_calendar_status :: "bool \<Rightarrow> token_state \<Rightarrow> calendar_status" where
  "get_calendar_status credentials token =
     (if \<not> credentials then
        \<lparr>cs_configured = False, cs_authenticated = False,
         cs_message = ''Calendar credentials not found. Setup required.'',
         cs_setup_required = [''Enable Google Calendar API in Google Cloud Console'',
                              ''Create OAuth credentials'', ''Download credentials.json file'']\<rparr>
      else
        (let status = \<lparr>cs_configured = True, cs_authenticated = False, cs_message = [],
                       cs_setup_required = []\<rparr>
         in if \<not> tk_present token then
              status\<lparr>cs_message := ''Calendar not authenticated. First use will prompt for authorization.''\<rparr>
            else if \<not> tk_readable token then
              status\<lparr>cs_message := ''Calendar token invalid. Re-authentication needed.''\<rparr>
            else if tk_valid token then
              status\<lparr>cs_authenticated := True, cs_message := ''Calendar is connected and ready''\<rparr>
            else status\<lparr>cs_message := ''Calendar token expired. Re-authentication needed.''\<rparr>))"

record event_request =
  rq_title :: str
  rq_date :: str
  rq_time :: "str option"
  rq_description :: "str option"
  rq_location :: "str option"
  rq_attendees :: "str list option"
  rq_reminder_minutes :: "int option"

definition calendar_setup_message :: str where
  "calendar_setup_message =
     ''Calendar not set up. Please:'' @ NL @ ''1. Enable Google Calendar API in Google Cloud Console'' @ NL @
     ''2. Create OAuth credentials'' @ NL @ ''3. Save as '' @ quoted ''credentials.json'' @ NL @
     ''See CALENDAR_SETUP_GUIDE.md for details''"

definition calendar_api_message :: str where
  "calendar_api_message =
     ''Google Calendar API not enabled.'' @ NL @ ''Please enable it in Google Cloud Console:'' @ NL @
     ''https://console.cloud.google.com/apis/library/calendar-json.googleapis.com''"

text \<open>The text of the \<open>ValueError\<close> of \<open>datetime.strptime(s, '%Y-%m-%d')\<close> where
  \<^const>\<open>strptime_ymd\<close> gives \<open>None\<close>.\<close>

definition strptime_error :: "str \<Rightarrow> str" where
  "strptime_error s =
     (case rmatch ymd_rx None s of
        None \<Rightarrow> ''time data '' @ py_repr_str s @ '' does not match format '' @ py_repr_str ''%Y-%m-%d''
      | Some (m, q, rest) \<Rightarrow>
          if rest \<noteq> [] then ''unconverted data remains: '' @ rest
          else if read_nat (take 4 m) = 0 then ''year 0 is out of range''
          else ''day is out of range for month'')"

definition int_error :: "str \<Rightarrow> str" where
  "int_error s = ''invalid literal for int() with base 10: '' @ py_repr_str s"

text \<open>The start of the event: the date, then \<open>replace(hour=int(parts[0]),
  minute=int(parts[1]))\<close> for a non-empty time (minute 0 without a second part), or
  9:00 without one.\<close>

definition request_start :: "str \<Rightarrow> str option \<Rightarrow> str + datetime" where
  "request_start date time =
     (case strptime_ymd date of
        None \<Rightarrow> Inl (strptime_error date)
      | Some date_obj \<Rightarrow>
          (case time of
             Some tm \<Rightarrow>
               if tm = [] then Inr (date_obj\<lparr>dt_hour := 9, dt_minute := 0\<rparr>)
               else
                 (let time_parts = py_split_on CHR '':'' tm
                  in case py_int (hd time_parts) of
                       None \<Rightarrow> Inl (int_error (hd time_parts))
                     | Some hour \<Rightarrow>
                         (case (if 1 < length time_parts then py_int (time_parts ! 1) else Some 0) of
                            None \<Rightarrow> Inl (int_error (time_parts ! 1))
                          | Some minute \<Rightarrow>
                              if \<not> (0 \<le> hour \<and> hour < 24) then Inl ''hour must be in 0..23''
                              else if \<not> (0 \<le> minute \<and> minute < 60) then Inl ''minute must be in 0..59''
                              else Inr (date_obj\<lparr>dt_hour := nat hour, dt_minute := nat minute\<rparr>)))
           | None \<Rightarrow> Inr (date_obj\<lparr>dt_hour := 9, dt_minute := 0\<rparr>)))"

text \<open>The body \<open>create_event\<close> builds from the request: \<open>description or ""\<close>,
  \<open>location or ""\<close>, the request's attendees or the configured ones, and
  \<open>reminder_minutes or 60\<close>.\<close>

definition event_request_body :: "cal_env \<Rightarrow> event_request \<Rightarrow> datetime \<Rightarrow> str + cal_body" where
  "event_request_body cal rq date_obj =
     (let attendees = (case rq_attendees rq of Some (a # as) \<Rightarrow> a # as | _ \<Rightarrow> ce_attendees cal)
      in create_event_body (JStr (rq_title rq)) date_obj
           (JStr (case rq_description rq of Some d \<Rightarrow> d | None \<Rightarrow> []))
           (case rq_location rq of Some l \<Rightarrow> l | None \<Rightarrow> [])
           (if attendees \<noteq> [] then Some attendees else None)
           (case rq_reminder_minutes rq of Some r \<Rightarrow> if r \<noteq> 0 then r else 60 | None \<Rightarrow> 60))"

text \<open>\<open>POST /create-calendar-event\<close>: every exception after the credentials check
  (the date, the time, \<open>authenticate\<close>, \<open>create_event\<close>) goes to the handler that
  tells a disabled API (400) from the rest (500).\<close>

definition create_calendar_event ::
  "bool \<Rightarrow> cal_env \<Rightarrow> event_request \<Rightarrow> (bool \<times> str option \<times> str option \<times> str) http" where
  "create_calendar_event credentials cal rq =
     (if \<not> credentials then Inl (400, calendar_setup_message)
      else
        (let r = (case request_start (rq_date rq) (rq_time rq) of
                    Inl e \<Rightarrow> Inl e
                  | Inr date_obj \<Rightarrow>
                      (case ce_auth_error cal of
                         Some e \<Rightarrow> Inl e
                       | None \<Rightarrow>
                           (case event_request_body cal rq date_obj of
                              Inl e \<Rightarrow> Inl e
                            | Inr body \<Rightarrow>
                                ce_insert cal (ce_calendar_id cal) body
                                  (if cb_attendees body \<noteq> None then ''all'' else ''none''))))
         in case r of
              Inr (eid, link) \<Rightarrow>
                Inr (True, eid, link, ''Calendar event '' @ quoted (rq_title rq) @ '' created successfully'')
            | Inl error_msg \<Rightarrow>
                if contains ''Calendar API'' error_msg \<or> contains ''not enabled'' error_msg
                then Inl (400, calendar_api_message)
                else Inl (500, ''Error creating calendar event: '' @ error_msg)))"

datatype created_entry = Created_event jv str "str option" "str option" | Create_failed jv str

record conversation_result =
  cv_success :: bool
  cv_message :: str
  cv_events :: "parsed_event list"
  cv_created :: "created_entry list option"

text \<open>The loop of \<open>/process-conversation-image\<close>: one \<open>create_event\<close> per extracted
  event, an exception recorded as an entry with its text.\<close>

fun create_each :: "cal_env \<Rightarrow> str list \<Rightarrow> parsed_event list \<Rightarrow> created_entry list" where
  "create_each cal attendee_list [] = []"
| "create_each cal attendee_list (event # events) =
     (let attendees = (if attendee_list \<noteq> [] then Some attendee_list else None);
          entry = (case create_event_body (pe_title event) (pe_date event) (pe_description event) []
                          attendees 60 of
                     Inl e \<Rightarrow> Create_failed (pe_title event) e
                   | Inr body \<Rightarrow>
                       (case ce_insert cal (ce_calendar_id cal) body
                               (if attendees \<noteq> None then ''all'' else ''none'') of
                          Inl e \<Rightarrow> Create_failed (pe_title event) e
                        | Inr (eid, link) \<Rightarrow> Created_event (pe_title event) (iso_format (pe_date event)) eid link))
      in entry # create_each cal attendee_list events)"

definition no_events_message :: str where
  "no_events_message =
     ''No dates or events found in the image. The image may not contain clear date information, '' @
     ''or the text extraction may have failed. Please try:'' @ NL @ ''1. Ensure the image is clear and readable'' @
     NL @ ''2. Make sure dates are visible in the image'' @ NL @ ''3. Try a different image format''"

text \<open>\<open>POST /process-conversation-image\<close>. The \<open>HTTPException\<close> of
  \<open>upload_image\<close> is caught as an exception, whose text is \<open>"{status}: {detail}"\<close>.\<close>

definition process_conversation_image ::
  "vision_env \<Rightarrow> extract_env \<Rightarrow> cal_env \<Rightarrow> datetime \<Rightarrow> str option \<Rightarrow> str \<Rightarrow> str \<Rightarrow> str \<Rightarrow>
   str option \<Rightarrow> conversation_result" where
  "process_conversation_image venv eenv cal now content_type filename tmp_name content attendees =
     (case upload_image venv eenv now content_type filename tmp_name content False of
        Inl (code, detail) \<Rightarrow>
          \<lparr>cv_success = False, cv_message = ''Error processing image: '' @ show_nat code @ '': '' @ detail,
           cv_events = [], cv_created = None\<rparr>
      | Inr (events, _, _) \<Rightarrow>
          if events = [] then
            \<lparr>cv_success = False, cv_message = no_events_message, cv_events = [], cv_created = None\<rparr>
          else
            (let attendee_list = (case attendees of
                                    Some a \<Rightarrow> if a \<noteq> [] then parse_list a else ce_attendees cal
                                  | None \<Rightarrow> ce_attendees cal)
             in case ce_auth_error cal of
                  Some e \<Rightarrow>
                    \<lparr>cv_success = False, cv_message = ''Calendar authentication failed: '' @ e,
                     cv_events = events, cv_created = Some []\<rparr>
                | None \<Rightarrow>
                    (let created_events = create_each cal attendee_list events
                     in \<lparr>cv_success = True,
                         cv_message = ''Created '' @ show_nat (length created_events) @ '' calendar event(s)'',
                         cv_events = events, cv_created = Some created_events\<rparr>)))"

text \<open>\<open>POST /voice-calendar\<close>.\<close>

definition voice_calendar ::
  "extract_env \<Rightarrow> cal_env \<Rightarrow> datetime \<Rightarrow> str \<Rightarrow> (bool \<times> str option \<times> str option \<times> str) http" where
  "voice_calendar eenv cal now text =
     (if text = [] \<or> py_strip text = [] then Inl (400, ''Text cannot be empty'')
      else
        (case create_calendar_from_voice eenv cal now text of
           Voice_created eid link msg _ _ _ \<Rightarrow> Inr (True, eid, link, msg)
         | Voice_failed msg _ _ \<Rightarrow> Inl (400, msg)))"

section \<open>Recent e-mails\<close>

record recent_email =
  re_subject :: str
  re_date :: "str option"
  re_sender :: str
  re_preview :: str
  re_filename :: str

record recent_result =
  rr_emails :: "recent_email list"
  rr_last_ingestion :: "str option"
  rr_total_count :: nat

text \<open>\<open>Path(RAW_EMAILS_DIR).glob("*.txt")\<close>.\<close>

definition raw_email_files :: "dir \<Rightarrow> str list" where
  "raw_email_files d =
     filter (\<lambda>p. starts_with (raw_emails_dir @ ''/'') p \<and> CHR ''/'' \<notin> set (drop (length raw_emails_dir + 1) p)
                 \<and> glob_match [] ''.txt'' (drop (length raw_emails_dir + 1) p)) (listing d)"

text \<open>The date part of \<open>get_sort_key\<close>: the date before the first underscore of the
  name, or \<open>datetime.min\<close> where there is none or it does not parse.\<close>

definition name_date_key :: "str \<Rightarrow> nat \<times> nat \<times> nat" where
  "name_date_key filename =
     (if CHR ''_'' \<in> set filename then
        (case strptime_ymd (hd (py_split_on CHR ''_'' filename)) of
           Some d \<Rightarrow> (dt_year d, dt_month d, dt_day d)
         | None \<Rightarrow> (1, 1, 1))
      else (1, 1, 1))"

text \<open>\<open>sorted(files, key=get_sort_key, reverse=True)\<close>: descending, and stable.\<close>

definition recent_order :: "gemini_env \<Rightarrow> str list \<Rightarrow> str list" where
  "recent_order env ps = rev (sort_key (\<lambda>p. (name_date_key (basename p), gm_stat env p)) (rev ps))"

definition strftime_ymd :: "datetime \<Rightarrow> str" where
  "strftime_ymd d = show_nat (dt_year d) @ ''-'' @ pad2 (dt_month d) @ ''-'' @ pad2 (dt_day d)"

text \<open>The scan of the first ten lines for the sender and the date.\<close>

fun scan_header_lines :: "(str \<Rightarrow> datetime option) \<Rightarrow> str list \<Rightarrow> str \<times> str option \<Rightarrow> str \<times> str option" where
  "scan_header_lines pd [] acc = acc"
| "scan_header_lines pd (line # lines) (sender_text, date_text) =
     scan_header_lines pd lines
       (if starts_with ''From:'' line then (py_strip (py_replace ''From:'' [] line), date_text)
        else if starts_with ''Date:'' line then
          (sender_text, case pd (py_strip (py_replace ''Date:'' [] line)) of
                     None \<Rightarrow> date_text
                   | Some parsed_date \<Rightarrow> Some (strftime_ymd parsed_date))
        else (sender_text, date_text))"

definition recent_entry :: "(str \<Rightarrow> datetime option) \<Rightarrow> str \<Rightarrow> str \<Rightarrow> recent_email" where
  "recent_entry pd filename content =
     (let has_sep = (CHR ''_'' \<in> set filename);
          date_str = hd (py_split_on CHR ''_'' filename);
          subject = (if has_sep then py_replace ''.txt'' [] (drop (Suc (length date_str)) filename)
                     else filename);
          lines = py_split_nl content;
          (sender_text, date_text) = scan_header_lines pd (take 10 lines)
                                   (''Unknown'', if has_sep then Some date_str else None)
      in \<lparr>re_subject = subject, re_date = date_text, re_sender = sender_text,
          re_preview = py_take 200 (py_join_nl (take 5 lines)), re_filename = filename\<rparr>)"

text \<open>\<open>GET /emails/recent\<close>: a file that does not decode as UTF-8 is skipped;
  \<open>last_ingestion\<close> is the time of the last e-mail check.\<close>

definition get_recent_emails :: "svc_env \<Rightarrow> svc_state \<Rightarrow> recent_result" where
  "get_recent_emails env st =
     (let d = up_files (sv_files st)
      in if \<not> dir_exists (se_gemini env) d raw_emails_dir then
           \<lparr>rr_emails = [], rr_last_ingestion = None, rr_total_count = 0\<rparr>
         else
           (let email_files = recent_order (se_gemini env) (raw_email_files d);
                readable = filter (\<lambda>p. se_utf8_ok env (the (fmlookup d p))) (take 10 email_files)
            in \<lparr>rr_emails = map (\<lambda>p. recent_entry (se_parsedate env) (basename p)
                                        (universal_newlines (the (fmlookup d p)))) readable,
                rr_last_ingestion = map_option iso_format (get_last_check_time (sv_check st)),
                rr_total_count = length email_files\<rparr>))"

section \<open>The service\<close>

datatype request =
    Chat str
  | Upload_image "str option" str str str bool
  | Extract_dates str
  | Calendar_status
  | Create_calendar_event event_request
  | Conversation_image "str option" str str str "str option"
  | Schedule_status
  | Check_new_emails
  | Notification_status
  | Cache_stats
  | Feedback str str bool "str option"
  | Voice_calendar str
  | Recent_emails
  | Health

datatype response =
    R_chat "str http"
  | R_image "(parsed_event list \<times> str \<times> str option) http"
  | R_dates "(parsed_event list \<times> str) http"
  | R_calendar_status calendar_status
  | R_event "(bool \<times> str option \<times> str option \<times> str) http"
  | R_conversation conversation_result
  | R_schedule bool str str
  | R_check check_result
  | R_notification notification_status
  | R_cache "nat \<times> nat \<times> nat"
  | R_feedback
  | R_recent recent_result
  | R_health bool str

text \<open>One request, answered at the current minute.\<close>

primrec handle :: "svc_env \<Rightarrow> request \<Rightarrow> svc_state \<Rightarrow> response \<times> svc_state" where
  "handle env (Chat question) st =
     (case chat (se_qp env) (svc_now env st) question (sv_qp st) of
        (r, q) \<Rightarrow> (R_chat r, st\<lparr>sv_qp := q\<rparr>))"
| "handle env (Upload_image ct fn tmp content debug) st =
     (R_image (upload_image (se_vision env) (se_extract env) (svc_now env st) ct fn tmp content debug), st)"
| "handle env (Extract_dates text) st = (R_dates (extract_dates (se_extract env) (svc_now env st) text), st)"
| "handle env Calendar_status st = (R_calendar_status (get_calendar_status (se_credentials env) (se_token env)), st)"
| "handle env (Create_calendar_event rq) st =
     (R_event (create_calendar_event (se_credentials env) (se_cal env) rq), st)"
| "handle env (Conversation_image ct fn tmp content attendees) st =
     (R_conversation (process_conversation_image (se_vision env) (se_extract env) (se_cal env) (svc_now env st)
        ct fn tmp content attendees), st)"
| "handle env Schedule_status st =
     (R_schedule (map_of (sv_jobs st) ''daily_email_ingestion'' \<noteq> None)
        (get_next_run_time (se_epoch env) (sv_jobs st) (sv_clock st)) (se_ingestion_time env), st)"
| "handle env Check_new_emails st =
     (case check_for_new_emails True (fetch_for_check (se_gmail env (sv_clock st)) 20) (svc_now env st)
             (sv_check st) of
        (r, f) \<Rightarrow> (R_check r, st\<lparr>sv_check := f\<rparr>))"
| "handle env Notification_status st =
     (R_notification (get_notification_status (se_ingestion_time env) (sv_check st)), st)"
| "handle env Cache_stats st = (R_cache (get_cache_stats (svc_now env st) (qp_cache (sv_qp st))), st)"
| "handle env (Feedback question answer helpful comment) st =
     (R_feedback, st\<lparr>sv_qp := (sv_qp st)\<lparr>qp_learn := record_feedback (svc_now env st) question answer helpful
                                                  comment (qp_learn (sv_qp st))\<rparr>\<rparr>)"
| "handle env (Voice_calendar text) st =
     (R_event (voice_calendar (se_extract env) (se_cal env) (svc_now env st) text), st)"
| "handle env Recent_emails st = (R_recent (get_recent_emails env st), st)"
| "handle env Health st =
     (R_health (store_name (se_qp env) \<noteq> []) (get_next_run_time (se_epoch env) (sv_jobs st) (sv_clock st)), st)"

text \<open>The service as a transition system: a request, or a minute of the scheduler.\<close>

inductive svc_step :: "svc_env \<Rightarrow> svc_state \<Rightarrow> svc_state \<Rightarrow> bool" where
  request: "svc_step env st (snd (handle env r st))"
| minute: "svc_step env st (snd (tick env st))"

inductive svc_reach :: "svc_env \<Rightarrow> svc_state \<Rightarrow> svc_state \<Rightarrow> bool" where
  reach_refl: "svc_reach env st st"
| reach_step: "svc_reach env st st' \<Longrightarrow> svc_step env st' st'' \<Longrightarrow> svc_reach env st st''"

inductive_cases svc_step_cases: "svc_step env st st'"

section \<open>Properties\<close>

subsection \<open>Frames\<close>

lemma handle_frame [simp]:
  "sv_clock (snd (handle env r st)) = sv_clock st"
  "sv_jobs (snd (handle env r st)) = sv_jobs st"
  "sv_files (snd (handle env r st)) = sv_files st"
  "sv_running (snd (handle env r st)) = sv_running st"
  by (cases r; simp split: prod.split)+

lemma svc_step_frame:
  "svc_step env st st' \<Longrightarrow>
   sv_jobs st' = sv_jobs st \<and> keeps_raw (up_files (sv_files st)) (up_files (sv_files st')) \<and>
   keeps_processed st st' \<and> sv_running st \<subseteq> sv_running st'"
  using tick_frame [of env st] by (auto elim!: svc_step_cases simp: keeps_processed_def)

lemma svc_reach_frame:
  "svc_reach env st st' \<Longrightarrow>
   sv_jobs st' = sv_jobs st \<and> keeps_raw (up_files (sv_files st)) (up_files (sv_files st')) \<and>
   keeps_processed st st' \<and> sv_running st \<subseteq> sv_running st'"
  by (induction rule: svc_reach.induct)
    (auto dest: svc_step_frame intro: keeps_raw_trans keeps_processed_trans)

subsection \<open>Errors of the chat endpoint\<close>

lemma contains_generation_prefix:
  "contains w (''Error generating response: '' @ e) \<longleftrightarrow> contains w e"
  if "w = ''429'' \<or> w = ''RESOURCE_EXHAUSTED''"
  using that by auto

lemma ask_school_question_error:
  assumes "fst (ask_school_question env uc now q st) = Inl e"
  shows "\<not> contains ''429'' (ask_error_text e) \<and> \<not> contains ''RESOURCE_EXHAUSTED'' (ask_error_text e)"
  using assms contains_generation_prefix
  by (auto simp: ask_school_question_def ask_rest_def ask_model_def ask_error_text_def Let_def
      split: if_splits prod.splits option.splits sum.splits gen_outcome.splits)

lemma create_each_failed:
  assumes "\<forall>cid body su. ce_insert cal cid body su = Inl err"
  shows "length (create_each cal al evs) = length evs \<and>
         (\<forall>c \<in> set (create_each cal al evs). \<exists>t e. c = Create_failed t e)"
  using assms by (induction evs) (auto simp: Let_def split: sum.split)

lemma raw_email_files_under:
  "p \<in> set (raw_email_files d) \<Longrightarrow> p |\<in>| fmdom d \<and> starts_with (raw_emails_dir @ ''/'') p"
  by (auto simp: raw_email_files_def listing_def)

lemma files_under_keeps_raw:
  assumes "keeps_raw d0 d" and "files_under raw_emails_dir d0 = []"
  shows "raw_email_files d = []"
proof (rule ccontr)
  assume "raw_email_files d \<noteq> []"
  then obtain p where "p \<in> set (raw_email_files d)"
    by (cases "raw_email_files d") auto
  then have "p |\<in>| fmdom d0 \<and> starts_with (raw_emails_dir @ ''/'') p"
    using assms(1) raw_email_files_under unfolding keeps_raw_def by blast
  then have "p \<in> set (files_under raw_emails_dir d0)"
    by (simp add: files_under_def listing_def)
  with assms(2) show False by simp
qed

subsection \<open>The service over time\<close>

text \<open>C17. The daily ingestion happens, within a day, at the time the status endpoints
  report. In every state the service reaches from startup (any interleaving of requests
  and minutes), when \<open>EMAIL_INGESTION_TIME\<close> parsed to a valid hour and minute and the
  store is configured, \<open>get_next_run_time\<close> names a minute at most 1440 minutes ahead.
  When the standard input the subprocess inherits is not a terminal (where \<open>input()\<close>
  would block) and no earlier run of the job is still running (APScheduler would skip
  the run), then after the scheduler has run up to that minute, every e-mail the mailbox
  returns then is recorded as processed: the backfill subprocess ran the ingestion
  subprocess on it.\<close>

theorem daily_ingestion_within_a_day:
  assumes "parse_ingestion_time (se_ingestion_time env) = Some (h, m)"
    and "0 \<le> h" "h < 24" "0 \<le> m" "m < 60"
    and "store_name (se_qp env) \<noteq> []"
    and "svc_reach env (startup_event env st_start) st"
    and "se_stdin env \<noteq> Stdin_tty" and "''daily_email_ingestion'' \<notin> sv_running st"
  shows "\<exists>t. next_run_minute (sv_jobs st) (sv_clock st) = Some t \<and> sv_clock st < t \<and>
           t \<le> sv_clock st + 1440 \<and>
           (\<forall>es. fetch_school_emails (se_gmail env t) 50 = Inr es \<longrightarrow>
              (\<forall>e \<in> set es. is_email_processed (email_id e)
                               (up_trackers (sv_files (run_ticks env (t - sv_clock st) st)))))"
proof -
  let ?j = "\<lparr>jb_func = Run_ingestion, jb_trigger = Cron_trigger (nat h) (nat m), jb_start = sv_clock st_start\<rparr>"
  have "map_of (sv_jobs (startup_event env st_start)) ''daily_email_ingestion'' = Some ?j"
    using assms(1-5) by (simp add: startup_jobs_daily cron_trigger_def)
  then have j: "map_of (sv_jobs st) ''daily_email_ingestion'' = Some ?j"
    using svc_reach_frame [OF assms(7)] by simp
  have hm: "nat h * 60 + nat m < 1440"
    using assms(2-5) by linarith
  let ?T = "next_fire ?j (sv_clock st)"
  have "sv_clock st < ?T \<and> ?T \<le> sv_clock st + 1440"
    using next_fire_cron [of ?j "nat h" "nat m"] hm by simp
  moreover have "next_run_minute (sv_jobs st) (sv_clock st) = Some ?T"
    using j by (simp add: next_run_minute_def)
  moreover have "\<forall>es. fetch_school_emails (se_gmail env ?T) 50 = Inr es \<longrightarrow>
      (\<forall>e \<in> set es. is_email_processed (email_id e) (up_trackers (sv_files (run_ticks env (?T - sv_clock st) st))))"
    using ingestion_at_next_fire [OF j _ _ hm assms(6) _ _ assms(8,9)] by simp
  ultimately show ?thesis by blast
qed

theorem daily_ingestion_within_a_day_witness:
  "parse_ingestion_time (se_ingestion_time sample_svc_env) = Some (18, 0) \<and> (0::int) \<le> 18 \<and> (18::int) < 24 \<and>
   (0::int) \<le> 0 \<and> (0::int) < 60 \<and> store_name (se_qp sample_svc_env) \<noteq> [] \<and>
   svc_reach sample_svc_env (startup_event sample_svc_env sample_svc_state)
     (startup_event sample_svc_env sample_svc_state) \<and>
   se_stdin sample_svc_env \<noteq> Stdin_tty \<and>
   ''daily_email_ingestion'' \<notin> sv_running (startup_event sample_svc_env sample_svc_state) \<and>
   (\<exists>t. next_run_minute (sv_jobs (startup_event sample_svc_env sample_svc_state)) 0 = Some t \<and> 0 < t \<and>
      t \<le> 0 + 1440 \<and>
      (\<forall>es. fetch_school_emails (se_gmail sample_svc_env t) 50 = Inr es \<longrightarrow>
         (\<forall>e \<in> set es. is_email_processed (email_id e)
            (up_trackers (sv_files (run_ticks sample_svc_env (t - 0) (startup_event sample_svc_env sample_svc_state)))))))"
proof -
  have p: "parse_ingestion_time (se_ingestion_time sample_svc_env) = Some (18, 0)"
    using parse_ingestion_time_pad2 [of 18 0] by (simp add: pad2_def show_nat.simps digit_char_def)
  have s: "store_name (se_qp sample_svc_env) \<noteq> []"
    by (simp add: env0_def)
  have r: "svc_reach sample_svc_env (startup_event sample_svc_env sample_svc_state)
      (startup_event sample_svc_env sample_svc_state)"
    by (rule reach_refl)
  have c: "sv_clock (startup_event sample_svc_env sample_svc_state) = 0"
    by (simp add: startup_event_def Let_def)
  have n: "''daily_email_ingestion'' \<notin> sv_running (startup_event sample_svc_env sample_svc_state)"
    by (simp add: startup_event_def Let_def)
  show ?thesis
    using daily_ingestion_within_a_day [OF p _ _ _ _ s r _ n] c p s r n by simp
qed



text \<open>C19. Processed e-mails stay processed: no request and no minute of the scheduler
  ever removes an id from the e-mail tracker, whatever the ingestion, the uploads and the
  clean-up of the backfill subprocess do on the way.\<close>

theorem processed_emails_stay_processed:
  assumes "svc_reach env st st'" and "is_email_processed x (up_trackers (sv_files st))"
  shows "is_email_processed x (up_trackers (sv_files st'))"
  using svc_reach_frame [OF assms(1)] assms(2) by (simp add: keeps_processed_def)

theorem processed_emails_stay_processed_witness:
  "svc_reach sample_svc_env
     (sample_svc_state\<lparr>sv_files := \<lparr>up_files = fmempty, up_trackers =
        \<lparr>upload_tracker = Absent, email_tracker = Stored {''m1''}\<rparr>\<rparr>\<rparr>)
     (snd (tick sample_svc_env (sample_svc_state\<lparr>sv_files := \<lparr>up_files = fmempty, up_trackers =
        \<lparr>upload_tracker = Absent, email_tracker = Stored {''m1''}\<rparr>\<rparr>\<rparr>))) \<and>
   is_email_processed ''m1'' (\<lparr>upload_tracker = Absent, email_tracker = Stored {''m1''}\<rparr>) \<and>
   is_email_processed ''m1'' (up_trackers (sv_files (snd (tick sample_svc_env
     (sample_svc_state\<lparr>sv_files := \<lparr>up_files = fmempty, up_trackers =
        \<lparr>upload_tracker = Absent, email_tracker = Stored {''m1''}\<rparr>\<rparr>\<rparr>)))))"
proof -
  let ?s = "sample_svc_state\<lparr>sv_files := \<lparr>up_files = fmempty, up_trackers =
        \<lparr>upload_tracker = Absent, email_tracker = Stored {''m1''}\<rparr>\<rparr>\<rparr>"
  have r: "svc_reach sample_svc_env ?s (snd (tick sample_svc_env ?s))"
    by (rule reach_step [OF reach_refl minute])
  have p: "is_email_processed ''m1'' (up_trackers (sv_files ?s))"
    by (simp add: tracker_simps)
  show ?thesis
    using processed_emails_stay_processed [OF r p] r p by simp
qed

text \<open>C20. The recent e-mails endpoint stays empty: ingestion now writes only the
  consolidated documents (and transient attachments), and the upload side only temporary
  copies beside them, so nothing ever writes to \<open>data/raw_emails\<close>. From a start with
  no file there, in every state the service reaches \<open>GET /emails/recent\<close> lists no
  e-mail and counts none.\<close>

theorem recent_emails_stay_empty:
  assumes "svc_reach env st_start st"
    and "files_under raw_emails_dir (up_files (sv_files st_start)) = []"
  shows "rr_emails (get_recent_emails env st) = [] \<and> rr_total_count (get_recent_emails env st) = 0"
proof -
  have "raw_email_files (up_files (sv_files st)) = []"
    using svc_reach_frame [OF assms(1)] assms(2) by (blast intro: files_under_keeps_raw)
  then show ?thesis
    by (simp add: get_recent_emails_def Let_def recent_order_def)
qed

theorem recent_emails_stay_empty_witness:
  "svc_reach sample_svc_env (sample_svc_state\<lparr>sv_files := \<lparr>up_files = fmempty, up_trackers =
        \<lparr>upload_tracker = Absent, email_tracker = Absent\<rparr>\<rparr>\<rparr>)
     (snd (tick sample_svc_env (sample_svc_state\<lparr>sv_files := \<lparr>up_files = fmempty, up_trackers =
        \<lparr>upload_tracker = Absent, email_tracker = Absent\<rparr>\<rparr>\<rparr>))) \<and>
   files_under raw_emails_dir (fmempty :: dir) = [] \<and>
   rr_emails (get_recent_emails sample_svc_env (snd (tick sample_svc_env (sample_svc_state\<lparr>sv_files :=
     \<lparr>up_files = fmempty, up_trackers = \<lparr>upload_tracker = Absent, email_tracker = Absent\<rparr>\<rparr>\<rparr>)))) = [] \<and>
   rr_total_count (get_recent_emails sample_svc_env (snd (tick sample_svc_env (sample_svc_state\<lparr>sv_files :=
     \<lparr>up_files = fmempty, up_trackers = \<lparr>upload_tracker = Absent, email_tracker = Absent\<rparr>\<rparr>\<rparr>)))) = 0"
proof -
  let ?s = "sample_svc_state\<lparr>sv_files := \<lparr>up_files = fmempty, up_trackers =
        \<lparr>upload_tracker = Absent, email_tracker = Absent\<rparr>\<rparr>\<rparr>"
  have r: "svc_reach sample_svc_env ?s (snd (tick sample_svc_env ?s))"
    by (rule reach_step [OF reach_refl minute])
  have f: "files_under raw_emails_dir (up_files (sv_files ?s)) = []"
    by (simp add: files_under_def listing_def)
  show ?thesis
    using recent_emails_stay_empty [OF r f] r f by simp
qed

text \<open>C23. The rate-limit branch of \<open>/chat\<close> is dead: \<open>ask_school_question\<close> turns an
  exception that mentions 429 or RESOURCE_EXHAUSTED into its rate-limit answer, and the
  exceptions it raises never mention either, so the endpoint never answers 429 (a
  rate-limited question is answered 200 with the rate-limit text).\<close>

theorem chat_never_rate_limited:
  "fst (chat env now question st) \<noteq> Inl (429, detail)"
  using ask_school_question_error [of env True now question st]
  by (auto simp: chat_def Let_def split: prod.split sum.split)

text \<open>C24. \<open>/process-conversation-image\<close> reports failed inserts as created: when the
  image yields events and the calendar authenticates but every insert raises, the
  response still says \<open>success\<close> and "Created n calendar event(s)" for all \<open>n\<close> events,
  while every entry of \<open>created_events\<close> is an error.\<close>

theorem conversation_reports_failures_as_created:
  assumes "upload_image venv eenv now ct fn tmp content False = Inr (events, msg, dbg)"
    and "events \<noteq> []" and "ce_auth_error cal = None"
    and "\<forall>cid body su. ce_insert cal cid body su = Inl err"
  shows "cv_success (process_conversation_image venv eenv cal now ct fn tmp content attendees) \<and>
         cv_message (process_conversation_image venv eenv cal now ct fn tmp content attendees) =
           ''Created '' @ show_nat (length events) @ '' calendar event(s)'' \<and>
         (\<forall>c \<in> set (the (cv_created (process_conversation_image venv eenv cal now ct fn tmp content attendees))).
            \<exists>t e. c = Create_failed t e)"
  using assms create_each_failed [OF assms(4)]
  by (simp add: process_conversation_image_def Let_def)

theorem conversation_reports_failures_as_created_witness:
  "upload_image (se_vision sample_svc_env) (se_extract sample_svc_env) (mk_dt 2025 11 3 9 0 0)
     (Some ''image/png'') ''shot.png'' ''/tmp/tmpab12'' ''PNG'' False =
   Inr ([\<lparr>pe_title = JStr ''Music class'', pe_date = mk_dt 2025 12 15 0 0 0, pe_time = None,
          pe_description = JStr [], pe_confidence = JNum ''0.5''\<rparr>], ''Extracted 1 event(s) from image'', None) \<and>
   [\<lparr>pe_title = JStr ''Music class'', pe_date = mk_dt 2025 12 15 0 0 0, pe_time = None,
     pe_description = JStr [], pe_confidence = JNum ''0.5''\<rparr>] \<noteq> [] \<and>
   ce_auth_error (se_cal sample_svc_env) = None \<and>
   (\<forall>cid body su. ce_insert (se_cal sample_svc_env) cid body su = Inl ''Error creating calendar event: <HttpError 403>'') \<and>
   cv_success (process_conversation_image (se_vision sample_svc_env) (se_extract sample_svc_env) (se_cal sample_svc_env)
     (mk_dt 2025 11 3 9 0 0) (Some ''image/png'') ''shot.png'' ''/tmp/tmpab12'' ''PNG'' None) \<and>
   cv_message (process_conversation_image (se_vision sample_svc_env) (se_extract sample_svc_env) (se_cal sample_svc_env)
     (mk_dt 2025 11 3 9 0 0) (Some ''image/png'') ''shot.png'' ''/tmp/tmpab12'' ''PNG'' None) =
     ''Created '' @ show_nat (length [\<lparr>pe_title = JStr ''Music class'', pe_date = mk_dt 2025 12 15 0 0 0,
        pe_time = None, pe_description = JStr [], pe_confidence = JNum ''0.5''\<rparr>]) @ '' calendar event(s)''"
proof -
  have u: "upload_image (se_vision sample_svc_env) (se_extract sample_svc_env) (mk_dt 2025 11 3 9 0 0)
     (Some ''image/png'') ''shot.png'' ''/tmp/tmpab12'' ''PNG'' False =
   Inr ([\<lparr>pe_title = JStr ''Music class'', pe_date = mk_dt 2025 12 15 0 0 0, pe_time = None,
          pe_description = JStr [], pe_confidence = JNum ''0.5''\<rparr>], ''Extracted 1 event(s) from image'', None)"
    by (simp add: upload_image_def extract_text_from_image_def extract_after_wait_def upload_eval
        response_text_def extract_dates_from_text_def events_eval regex_eval model_simps
        extracted_message_def digit_char_def Let_def char_of_def bit_0 split: option.split)
  have i: "\<forall>cid body su. ce_insert (se_cal sample_svc_env) cid body su = Inl ''Error creating calendar event: <HttpError 403>''"
    by simp
  show ?thesis
    using conversation_reports_failures_as_created [OF u _ _ i, of None] u i by simp
qed

end
