(* ===== verification/Spec2Isabelle.thy ===== *)
theory Spec2Isabelle
  imports Dedup Consolidator Ingest Cache Learning Notify Formatter QueryPath Events Gmail Upload Transcribe Scheduler Api
begin

text \<open>
  \<^bold>\<open>A verification library for School Copilot\<close> (\<^verbatim>\<open>src/app\<close>).

  \<^bold>\<open>The program.\<close> School Copilot ingests school e-mail into weekly markdown
  documents and answers questions about them with a language model. Its components share
  state only through JSON and markdown files under \<^verbatim>\<open>data/\<close>, each read whole, changed
  and written back whole:
  \<^item> the dedup tracker (\<^verbatim>\<open>upload_tracker.py\<close>): the sets of processed e-mail ids and
    uploaded file identities;
  \<^item> the markdown consolidator (\<^verbatim>\<open>markdown_consolidator.py\<close>): formats one e-mail
    with its transcribed attachments and appends it to the weekly document, rotating to a
    numbered part file once the document is over 5 MB;
  \<^item> the ingestion script (\<^verbatim>\<open>ingest_emails.py\<close>): skips processed e-mails, saves
    attachments to temporary files, consolidates, marks processed, deletes the files;
  \<^item> the response cache (\<^verbatim>\<open>rag_cache.py\<close>): normalised question to answer, with a
    seven-day time to live, purged lazily;
  \<^item> the learning engine (\<^verbatim>\<open>rag_improvement.py\<close>): scores answers, aggregates
    per-pattern statistics, logs failures and successes, auto-optimises every tenth query
    and derives the prompt fragment;
  \<^item> the notification service (\<^verbatim>\<open>notification_service.py\<close>): reports e-mails newer
    than the last check;
  \<^item> the answer formatter (\<^verbatim>\<open>response_formatter.py\<close>): restructures the model's
    answer by the kind of question;
  \<^item> the query path (\<^verbatim>\<open>rag_chat.py\<close>): ties cache, model, formatter, scorer and
    learning engine together;
  \<^item> calendar events (\<^verbatim>\<open>date_extractor.py\<close>, \<^verbatim>\<open>voice_calendar.py\<close>,
    \<^verbatim>\<open>calendar_client.py\<close>): the model's JSON reply turned into dated events, and a
    voice command turned into a calendar event;
  \<^item> the Gmail client (\<^verbatim>\<open>gmail_client.py\<close>, with \<open>_parse_list\<close> of
    \<^verbatim>\<open>config.py\<close>): builds the search query, walks the API's JSON message parts for
    the body and the attachments, and feeds ingestion and the notification check;
  \<^item> the upload side (\<^verbatim>\<open>gemini_file_search.py\<close>, \<^verbatim>\<open>scripts/backfill_emails.py\<close>):
    uploads the consolidated documents to the Gemini Files API, skipping the file
    identities the dedup tracker holds, and cleans up the raw files;
  \<^item> the service (\<^verbatim>\<open>main.py\<close>, \<^verbatim>\<open>scheduler.py\<close>): the HTTP endpoints over all of
    the above, and a background scheduler that runs the notification check every 30
    minutes and, once a day, the backfill script as a subprocess, which itself runs the
    ingestion script as a subprocess before uploading.

  \<^bold>\<open>The theories.\<close>
  \<^item> \<^theory_text>\<open>Prelude\<close>: \<open>'a stored\<close> (a JSON file: \<open>Absent\<close>, \<open>Corrupt\<close> or a
    \<open>Stored\<close> value) with \<open>load_stored\<close>, the "missing or unreadable file reads as the
    default" rule of every loader; byte strings (UTF-8) with Python's \<open>len\<close>,
    \<open>lower\<close>, \<open>strip\<close>, \<open>in\<close>, \<open>split('\n')\<close> and \<open>'\n'.join\<close>; \<open>show_nat\<close> with its
    inverse; \<open>keep_last\<close> (the \<open>[-n:]\<close> caps); \<open>next_free\<close>, the "first numbered
    name that does not exist" loop, a \<^theory_text>\<open>function\<close> whose termination rests on the
    injectivity of \<open>show_nat\<close> and the finiteness of a directory (the measure
    \<open>taken_from\<close>, the taken names ahead of the counter).
  \<^item> \<^theory_text>\<open>Calendar\<close>: the part of \<^verbatim>\<open>datetime\<close> the program uses (ordinals, ISO
    calendar, \<open>strftime\<close> fields, comparison raising \<open>TypeError\<close> between naive and
    aware times), the month names and day arithmetic the query path and the calendar
    code share, and the e-mail records of \<^verbatim>\<open>gmail_client.py\<close>.
  \<^item> \<^theory_text>\<open>Dedup\<close>: the record \<open>trackers\<close> and one definition per function of
    \<^verbatim>\<open>upload_tracker.py\<close>; modification times are a map from path to the time's text.
  \<^item> \<^theory_text>\<open>Consolidator\<close>: \<open>append_to_master_markdown\<close> and
    \<open>consolidate_email_with_attachments\<close> over a directory (\<open>fmap\<close> from name to
    contents), transcription as an oracle returning text or an exception message.
  \<^item> \<^theory_text>\<open>Ingest\<close>: \<open>main\<close> of \<^verbatim>\<open>ingest_emails.py\<close> as \<open>ingest_main\<close>, the loop
    over fetched e-mails as \<open>ingest_loop\<close>, the \<open>finally\<close> clean-up as
    \<open>cleanup_attachments\<close>.
  \<^item> \<^theory_text>\<open>Cache\<close>: the cache file, \<open>get_cached_response\<close>, \<open>cache_response\<close>,
    \<open>get_cache_stats\<close>, and the abstract map of live entries \<open>live_view\<close>.
  \<^item> \<^theory_text>\<open>Regex\<close>: the fragment of \<^verbatim>\<open>re\<close> the program uses (word boundaries,
    literal alternations, case-insensitive literals, bounded greedy repetitions of a
    class, top-level alternation) as a backtracking matcher \<open>rmatch\<close>, with
    \<open>search\<close>, \<open>match\<close>, \<open>findall\<close> and \<open>sub\<close>; the scans are \<^theory_text>\<open>function\<close>s whose
    termination is the length of the rest of the subject.
  \<^item> \<^theory_text>\<open>Quality\<close>: \<open>calculate_response_quality\<close> and \<open>extract_query_pattern\<close>.
  \<^item> \<^theory_text>\<open>Learning\<close>: the metrics and learning files as records, \<open>track_query\<close>
    (split into its metrics and learning halves and \<open>auto_optimize\<close>),
    \<open>get_optimized_prompt_base\<close>, \<open>record_feedback\<close>.
  \<^item> \<^theory_text>\<open>Notify\<close>: the check file, \<open>check_for_new_emails\<close> with the Gmail fetch as
    a parameter, \<open>get_notification_status\<close>.
  \<^item> \<^theory_text>\<open>Formatter\<close>: \<open>format_response_for_action\<close>, its five strategies and the
    three passes after them; each line loop is a recursive function whose parameters are
    the loop's variables.
  \<^item> \<^theory_text>\<open>QueryPath\<close>: \<open>ask_school_question\<close> over a state of cache and learning
    files, with the environment (API key, store name, file listings, the model call, the
    formatter, the hash, the scoring time) as a record \<open>qp_env\<close> of values and functions.
  \<^item> \<^theory_text>\<open>Events\<close>: JSON values as a \<open>datatype jv\<close>, Python's \<open>int()\<close> and
    \<open>strptime('%Y-%m-%d')\<close>, \<open>extract_dates_from_text\<close> with the model call and
    \<open>json.loads\<close> as oracles, \<open>create_calendar_from_voice\<close> with the calendar insert as an
    oracle, and the event body of \<open>create_event\<close>.
  \<^item> \<^theory_text>\<open>Gmail\<close>: Python's \<open>in\<close>, \<open>get\<close>, \<open>[]\<close> and iteration on decoded JSON with the
    exceptions they raise, \<open>_build_query\<close>, the payload walks of
    \<open>_extract_email_body\<close> and \<open>_extract_attachments\<close> (\<^theory_text>\<open>function\<close>s terminating
    on the size of the JSON value), the HTML tag strip, the header dict and
    \<open>fetch_school_emails\<close>, with the API calls and the decoders as fields of
    \<open>gmail_env\<close>; \<open>fetch_for_check\<close> is its result as the notification check takes it.
  \<^item> \<^theory_text>\<open>Upload\<close>: \<open>upload_file_to_store\<close> (split as its \<open>try\<close> is: the copy, the
    call, \<open>finish_upload\<close> with the polling loop \<open>wait_processing\<close>, a \<^theory_text>\<open>function\<close>
    terminating on the time left, and the handler \<open>upload_error\<close>),
    \<open>upload_consolidated_markdown\<close>, \<open>get_latest_markdown_file\<close>,
    \<open>bulk_upload_directory\<close>, \<open>cleanup_old_files\<close> and the backfill script's
    \<open>main\<close>, over a directory of full paths and the trackers of \<^theory_text>\<open>Dedup\<close>; every
    operation returns the state it leaves beside its result or exception.
  \<^item> \<^theory_text>\<open>Transcribe\<close>: \<open>transcribe_attachment\<close> with \<open>transcribe_pdf\<close> and
    \<open>extract_text_from_image\<close> (their polling loops, the \<open>ACTIVE\<close> check, the text taken
    from the response) and text-mode reading; \<open>attachment_transcriber\<close> is the
    \<open>transcriber\<close> the consolidator calls, with the vision model as a field of
    \<open>vision_env\<close>.
  \<^item> \<^theory_text>\<open>Scheduler\<close>: the service's state (clock in minutes, job store, check
    file, files and trackers, cache and learning files, the ids of the jobs whose run
    has not returned) and environment (every oracle above, the mailbox at each minute,
    the server's standard input: a line, end of input, or a terminal on which
    \<open>input()\<close> blocks); the ingestion
    subprocess \<open>ingest_subprocess\<close>, which runs \<open>ingest_main\<close> on the Gmail fetch over
    the shared files (the consolidated documents seen under their names); the triggers,
    \<open>startup_event\<close>, the jobs \<open>run_check\<close> and \<open>run_ingestion\<close> (the backfill
    script with that subprocess; a run whose script blocks in \<open>input()\<close> never
    returns and stays running), and \<open>tick\<close>, one minute of the scheduler, which skips
    a due job whose previous run is still running (APScheduler's default
    \<open>max_instances=1\<close>).
  \<^item> \<^theory_text>\<open>Api\<close>: one definition per endpoint of \<^verbatim>\<open>main.py\<close> (with \<open>HTTPException\<close>
    as \<open>Inl (status, detail)\<close>), a \<open>request\<close> datatype answered by \<open>handle\<close>, and the
    service as the inductive step relation \<open>svc_step\<close> (a request or a minute) with its
    reachability \<open>svc_reach\<close>; invariants are proved by rule induction over it.

  \<^bold>\<open>What is proved.\<close>
  \<^item> Dedup (C1-C2): marking marks exactly one id in the right file, the
    \<open>path:mtime\<close> identity round-trips.
  \<^item> Consolidator (C3-C7): rotation to a fresh part file, append-only documents, the
    weekly file name determined by calendar year and ISO week (so two ISO years collide
    at year ends), rotation on every later e-mail, and the termination of the numbering
    loop.
  \<^item> Ingestion (C8-C9): re-runs are no-ops, every fetched e-mail ends marked.
  \<^item> Gmail (C10-C12): configured lists are well formed; the HTML part is kept beside
    the plain text; one malformed message loses the whole fetch.
  \<^item> Upload (C13-C16): the temporary copy outlives a failed upload; \<open>.MD\<close> files
    are never uploaded; the polling loop is bounded; a file still processing is marked.
  \<^item> The service (C17-C24): liveness of the daily ingestion (from any state reached
    after startup, when the inherited standard input is not a terminal and no earlier
    run is still running, the ingestion runs within 1440 minutes, at the minute the
    status endpoints report, and marks every e-mail fetched then); once a run has
    blocked in \<open>input()\<close> the daily ingestion never runs again; processed e-mails stay
    processed and nothing ever writes \<^verbatim>\<open>data/raw_emails\<close>, so \<open>/emails/recent\<close> stays
    empty (invariants over every request and minute); the jobs of one minute commute;
    startup schedules the configured \<open>HH:MM\<close>; \<open>/chat\<close> never answers 429;
    \<open>/process-conversation-image\<close> reports failed inserts as created.
  \<^item> Cache (C25-C26): store then lookup, refinement of the live map.
  \<^item> Learning and scoring (C27-C31): running means per pattern, the score range, capped
    logs, and the findings that a zero score is averaged as 0.5 and that the PERSON
    placeholder is never produced.
  \<^item> Notification (C32): automatic checks stall after a naive time meets an aware one.
  \<^item> Query path (C33-C35): answers served from the cache, in any environment with the
    same key, whatever the model would do;
    failed model calls change no learning state; a blank model reply is cached and tracked
    as a success through the formatter's fallback message.
  \<^item> Formatter (C36-C37): the blank-line collapse equals its reference
    \<open>squeeze_newlines\<close>; "may not" lines are tagged as allowed on the policy path.
  \<^item> Calendar events (C38-C40): a failed model call is reported as "no dates"; 24-hour
    start times are applied and 12-hour ones leave the event at midnight; an event with a
    zero-padded ISO date is kept by \<open>parse_event\<close> on that day.
  Further proved lemmas that are not claims: file identity by modification time, corrupt
  tracker and cache files, failed transcriptions kept as placeholders, temporary
  attachments removed after a run, safe attachment names, lazy expiry and the sweep on
  store of the cache, auto-optimisation only on every tenth query, when the check file is
  written, appending below the ceiling, the corpus only growing in a run, the cache statistics partition, the spec's ingestion scenario, full
  marks of the score, what the tenth query flags, the prompt after a success and after a
  failure and its missed policy exemplars, a voice command creating its event from a JSON reply, the
  one-pass tag strip and the skip of a message the API refuses.

  \<^bold>\<open>Approximations.\<close> Python floats of the scores are exact rationals, which agree
  with every comparison the source makes (see \<^theory_text>\<open>Quality\<close>). Text is bytes:
  \<open>lower\<close>, \<open>strip\<close> and the classes \<open>\w\<close>, \<open>\d\<close>, \<open>\s\<close> act on the ASCII range
  only, and \<open>len\<close> counts code points by skipping UTF-8 continuation bytes. Times are
  microsecond counts of the wall-clock fields. No loop needs fuel: every loop of the
  modelled code runs over a finite list or is a \<^theory_text>\<open>function\<close> with a termination
  proof. The scheduler's clock is whole minutes (both triggers fire on minute
  boundaries); a tick runs the due jobs in job-store order, which the commutation
  theorem shows immaterial. The liveness bound of 1440 ticks is one day of minutes: the
  first minute after \<open>t\<close> whose time of day is the trigger's is \<open>next_cron\<close>, at most a
  day ahead.

  \<^bold>\<open>Not modelled.\<close> The network side of the Gmail, Calendar and Gemini clients
  (\<open>authenticate\<close> and the API calls of \<^verbatim>\<open>gmail_client.py\<close>, OAuth and the other
  methods of \<^verbatim>\<open>calendar_client.py\<close>,
  \<open>create_file_search_store\<close> and \<open>list_files_in_store\<close> of
  \<^verbatim>\<open>gemini_file_search.py\<close>,
  the vision model of \<^verbatim>\<open>image_processor.py\<close> and \<^verbatim>\<open>attachment_transcriber.py\<close>):
  network I/O, which
  the model takes as oracles (a transcription function, a fetched e-mail list, a model
  call, \<open>json.loads\<close>, the calendar insert, the Gmail API, base64 and UTF-8 decoding,
  \<open>parsedate_to_datetime\<close>, the Gemini Files API); of \<^verbatim>\<open>main.py\<close> the static
  pages, the middleware and \<open>/rag/metrics\<close>; APScheduler's thread pool (its order is
  shown immaterial); \<^verbatim>\<open>scripts/init_file_search_store.py\<close> and
  \<^verbatim>\<open>test_rag_queries.py\<close> (a REST call and a manual driver); \<^verbatim>\<open>config.py\<close> apart
  from \<open>_parse_list\<close> and the directory names: environment variables, which are fields of
  the environments; \<open>get_improvement_suggestions\<close>
  and \<open>get_metrics_summary\<close> of the learning engine (reports, no state change);
  \<open>extract_action_items\<close> of the formatter (never called). Hashing (SHA-256, MD5) is a
  parameter of the operations that use it.
\<close>

end
